(* ===== verification/Prelude.thy ===== *)
theory Prelude
  imports Main "HOL-Library.Finite_Map"
begin

text \<open>
  Shared vocabulary of the development: the errors a Go call can end with, results
  (\<open>go_error + 'a\<close>), computations over a state (\<open>('s, 'a) go\<close>: explicit state passing with
  early return), string maps, and the generic lemmas and rule collections the components use.
\<close>

subsection \<open>Rule collections\<close>

named_theorems cfg_defs \<open>definitions of the configuration accessors\<close>
named_theorems obj_defs \<open>definitions of the builders of dependent objects\<close>

subsection \<open>Errors and results\<close>

text \<open>
  \<open>ErrNotFound\<close>, \<open>ErrAlreadyExists\<close> and \<open>ErrConflict\<close> are the API status reasons the code
  distinguishes; \<open>ErrOther\<close> is any other error value; \<open>Wrap\<close> is \<open>fmt.Errorf\<close> with a \<open>%w\<close>
  operand, \<open>WrapNil\<close> the same with a nil operand (a non-nil error that wraps nothing);
  \<open>Panic\<close> is a run-time panic, which no \<open>err != nil\<close> test ever sees.
\<close>

datatype go_error =
    ErrNotFound
  | ErrAlreadyExists
  | ErrConflict
  | ErrOther string
  | Wrap string go_error
  | WrapNil string
  | Panic string

fun is_panic :: "go_error \<Rightarrow> bool" where
  "is_panic (Panic _) = True"
| "is_panic _ = False"

type_synonym 'a res = "go_error + 'a"

definition res_bind :: "'a res \<Rightarrow> ('a \<Rightarrow> 'b res) \<Rightarrow> 'b res" where
  "res_bind m f = (case m of Inl e \<Rightarrow> Inl e | Inr x \<Rightarrow> f x)"

lemma res_bind_simps [simp]:
  "res_bind (Inl e) f = Inl e"
  "res_bind (Inr x) f = f x"
  by (simp_all add: res_bind_def)

lemma res_bind_Inr_iff: "res_bind m f = Inr y \<longleftrightarrow> (\<exists>x. m = Inr x \<and> f x = Inr y)"
  by (cases m) auto

lemma res_bind_assoc: "res_bind (res_bind m f) g = res_bind m (\<lambda>x. res_bind (f x) g)"
  by (cases m) auto

subsection \<open>Computations over a state\<close>

type_synonym ('s, 'a) go = "'s \<Rightarrow> 'a res \<times> 's"

definition ret :: "'a \<Rightarrow> ('s, 'a) go" where
  "ret x = (\<lambda>s. (Inr x, s))"

definition throw :: "go_error \<Rightarrow> ('s, 'a) go" where
  "throw e = (\<lambda>s. (Inl e, s))"

definition and_then :: "('s, 'a) go \<Rightarrow> ('a \<Rightarrow> ('s, 'b) go) \<Rightarrow> ('s, 'b) go" where
  "and_then m f = (\<lambda>s. case m s of (Inl e, s') \<Rightarrow> (Inl e, s') | (Inr x, s') \<Rightarrow> f x s')"

text \<open>Reading the state through a function that may fail, without changing it.\<close>

definition reading :: "('s \<Rightarrow> 'a res) \<Rightarrow> ('s, 'a) go" where
  "reading f = (\<lambda>s. (f s, s))"

text \<open>\<open>if err := m; err != nil { return fmt.Errorf(msg, err) }\<close>: wrap the error of a step.
  A panic is not an error value and goes through unwrapped.\<close>

definition wrap_err :: "string \<Rightarrow> go_error \<Rightarrow> go_error" where
  "wrap_err msg e = (if is_panic e then e else Wrap msg e)"

definition wrapping :: "string \<Rightarrow> ('s, 'a) go \<Rightarrow> ('s, 'a) go" where
  "wrapping msg m = (\<lambda>s. case m s of (Inl e, s') \<Rightarrow> (Inl (wrap_err msg e), s') | r \<Rightarrow> r)"

text \<open>\<open>for _, x := range xs { if err := f(x); err != nil { return err } }\<close>\<close>

fun for_each :: "('a \<Rightarrow> ('s, unit) go) \<Rightarrow> 'a list \<Rightarrow> ('s, unit) go" where
  "for_each f [] = ret ()"
| "for_each f (x # xs) = and_then (f x) (\<lambda>_. for_each f xs)"

lemma ret_apply [simp]: "ret x s = (Inr x, s)"
  by (simp add: ret_def)

lemma throw_apply [simp]: "throw e s = (Inl e, s)"
  by (simp add: throw_def)

lemma reading_apply [simp]: "reading f s = (f s, s)"
  by (simp add: reading_def)

lemma and_then_ok: "m s = (Inr x, s') \<Longrightarrow> and_then m f s = f x s'"
  by (simp add: and_then_def)

lemma and_then_err: "m s = (Inl e, s') \<Longrightarrow> and_then m f s = (Inl e, s')"
  by (simp add: and_then_def)

lemma and_then_ret [simp]: "and_then (ret x) f = f x"
  by (simp add: and_then_def ret_def)

lemma and_then_throw [simp]: "and_then (throw e) f = throw e"
  by (simp add: and_then_def throw_def)

lemma and_then_assoc: "and_then (and_then m f) g = and_then m (\<lambda>x. and_then (f x) g)"
  by (rule ext) (simp add: and_then_def split: prod.splits sum.splits)

lemma and_then_Inr_iff:
  "and_then m f s = (Inr y, s') \<longleftrightarrow> (\<exists>x t. m s = (Inr x, t) \<and> f x t = (Inr y, s'))"
  by (auto simp: and_then_def split: prod.splits sum.splits)

lemma wrapping_Inr_iff [simp]: "wrapping msg m s = (Inr x, s') \<longleftrightarrow> m s = (Inr x, s')"
  by (auto simp: wrapping_def split: prod.splits sum.splits)

lemma wrapping_state [simp]: "snd (wrapping msg m s) = snd (m s)"
  by (simp add: wrapping_def split: prod.splits sum.splits)

text \<open>A loop that returned normally ran its body normally on every element.\<close>

lemma for_each_Inr_induct:
  assumes "for_each f xs s = (Inr u, s')"
    and "P s"
    and "\<And>x t t'. x \<in> set xs \<Longrightarrow> P t \<Longrightarrow> f x t = (Inr (), t') \<Longrightarrow> P t'"
  shows "P s'"
  using assms
proof (induction xs arbitrary: s)
  case Nil
  then show ?case by simp
next
  case (Cons x xs)
  from Cons.prems(1) obtain t where t: "f x s = (Inr (), t)" "for_each f xs t = (Inr u, s')"
    by (auto simp: and_then_Inr_iff)
  have "P t" using Cons.prems(2,3) t(1) by auto
  with t(2) show ?case
    by (rule Cons.IH) (use Cons.prems(3) in auto)
qed

text \<open>Invariants of a loop whatever way it ends, and of a sequence of steps.\<close>

definition keeps :: "('s \<Rightarrow> bool) \<Rightarrow> ('s, 'a) go \<Rightarrow> bool" where
  "keeps P m \<longleftrightarrow> (\<forall>s. P s \<longrightarrow> P (snd (m s)))"

lemma keepsI: "(\<And>s. P s \<Longrightarrow> P (snd (m s))) \<Longrightarrow> keeps P m"
  by (simp add: keeps_def)

lemma keepsD: "keeps P m \<Longrightarrow> P s \<Longrightarrow> P (snd (m s))"
  by (simp add: keeps_def)

lemma keeps_ret [intro, simp]: "keeps P (ret x)"
  by (simp add: keeps_def)

lemma keeps_throw [intro, simp]: "keeps P (throw e)"
  by (simp add: keeps_def)

lemma keeps_reading [intro, simp]: "keeps P (reading f)"
  by (simp add: keeps_def)

lemma keeps_and_then [intro]:
  assumes "keeps P m" and "\<And>x. keeps P (f x)"
  shows "keeps P (and_then m f)"
proof (rule keepsI)
  fix s assume s: "P s"
  show "P (snd (and_then m f s))"
  proof (cases "m s")
    case (Pair r t)
    with keepsD [OF assms(1) s] have "P t" by simp
    then show ?thesis using Pair keepsD [OF assms(2)]
      by (cases r) (simp_all add: and_then_def)
  qed
qed

lemma keeps_wrapping [intro]: "keeps P m \<Longrightarrow> keeps P (wrapping msg m)"
  by (simp add: keeps_def)

lemma keeps_for_each [intro]: "(\<And>x. x \<in> set xs \<Longrightarrow> keeps P (f x)) \<Longrightarrow> keeps P (for_each f xs)"
  by (induction xs) auto

lemma keeps_if [intro]: "(b \<Longrightarrow> keeps P m) \<Longrightarrow> (\<not> b \<Longrightarrow> keeps P n) \<Longrightarrow> keeps P (if b then m else n)"
  by simp

subsection \<open>String maps\<close>

text \<open>
  A Go \<open>map[string]string\<close> is a finite map. A nil map reads as the empty map; the code
  guards every write with \<open>len(m) == 0\<close> and a fresh \<open>make\<close>.
\<close>

type_synonym smap = "(string, string) fmap"

definition smap_of :: "(string \<times> string) list \<Rightarrow> smap" where
  "smap_of kvs = fmap_of_list kvs"

lemma smap_of_Nil [simp]: "smap_of [] = fmempty"
  by (simp add: smap_of_def)

lemma smap_of_lookup [simp]: "fmlookup (smap_of kvs) k = map_of kvs k"
  by (simp add: smap_of_def fmlookup_of_list)

text \<open>\<open>if len(m) == 0 { m = make(map[string]string) }\<close>\<close>

definition made :: "smap \<Rightarrow> smap" where
  "made m = (if m = fmempty then fmempty else m)"

lemma made_id [simp]: "made m = m"
  by (simp add: made_def)

text \<open>\<open>maps.Copy(dst, src)\<close>\<close>

definition maps_Copy :: "smap \<Rightarrow> smap \<Rightarrow> smap" where
  "maps_Copy dst src = dst ++\<^sub>f src"

lemma maps_Copy_lookup [simp]:
  "fmlookup (maps_Copy dst src) k = (case fmlookup src k of None \<Rightarrow> fmlookup dst k | Some v \<Rightarrow> Some v)"
  by (auto simp: maps_Copy_def fmlookup_dom_iff split: option.splits)

lemma maps_Copy_idem [simp]: "maps_Copy (maps_Copy dst src) src = maps_Copy dst src"
  by (rule fmap_ext) (simp split: option.splits)

text \<open>\<open>m[k]\<close> on a \<open>map[string]string\<close>: the zero value when the key is missing.\<close>

definition at_key :: "smap \<Rightarrow> string \<Rightarrow> string" where
  "at_key m k = (case fmlookup m k of None \<Rightarrow> '''' | Some v \<Rightarrow> v)"

subsection \<open>Pointers to structs with string fields\<close>

text \<open>\<open>p != nil && p.f != ""\<close>, then \<open>p.f\<close>.\<close>

definition non_empty :: "'a option \<Rightarrow> ('a \<Rightarrow> 'b list) \<Rightarrow> 'b list option" where
  "non_empty p f = (case p of None \<Rightarrow> None | Some x \<Rightarrow> if f x \<noteq> [] then Some (f x) else None)"

lemma non_empty_None [simp]: "non_empty None f = None"
  by (simp add: non_empty_def)

lemma non_empty_Some [simp]: "non_empty (Some x) f = (if f x \<noteq> [] then Some (f x) else None)"
  by (simp add: non_empty_def)

lemma non_empty_not_Nil: "non_empty p f = Some v \<Longrightarrow> v \<noteq> []"
  by (auto simp: non_empty_def split: option.splits if_splits)

end
