(* ===== verification/Go_Encoding.thy ===== *)
theory Go_Encoding
  imports Go_Strings
begin

text \<open>
  The parsers and codecs of the standard library the program relies on:
  \<open>strconv.ParseInt(s, 0, 32)\<close> with its base prefixes and digit separators,
  \<open>base64.StdEncoding.DecodeString\<close> with the matching encoder, the two regular expressions
  of the program as recognisers, and \<open>slices.Delete\<close>.
\<close>

subsection \<open>strconv.ParseInt with base 0\<close>

definition lower :: "char \<Rightarrow> char" where
  "lower c = (let n = of_char c :: nat in if 65 \<le> n \<and> n \<le> 90 then char_of (n + 32) else c)"

text \<open>The value of a digit in base 36, as \<open>strconv\<close> reads it.\<close>

definition base_digit :: "char \<Rightarrow> nat option" where
  "base_digit c =
     (let n = of_char c :: nat; l = of_char (lower c) :: nat
      in if 48 \<le> n \<and> n \<le> 57 then Some (n - 48)
         else if 97 \<le> l \<and> l \<le> 122 then Some (l - 97 + 10)
         else None)"

text \<open>The digits of a number in a base; underscores are skipped (their placement is checked apart).\<close>

fun base_digits :: "nat \<Rightarrow> nat \<Rightarrow> string \<Rightarrow> nat option" where
  "base_digits base acc [] = Some acc"
| "base_digits base acc (c # s) =
     (if c = CHR ''_'' then base_digits base acc s
      else (case base_digit c of
              None \<Rightarrow> None
            | Some d \<Rightarrow> if base \<le> d then None else base_digits base (acc * base + d) s))"

text \<open>The base a literal selects, and its digits.\<close>

definition detect_base :: "string \<Rightarrow> nat \<times> string" where
  "detect_base s =
     (case s of
        c # t \<Rightarrow>
          if c = CHR ''0'' then
            (case t of
               p # r # u \<Rightarrow>
                 if lower p = CHR ''b'' then (2, r # u)
                 else if lower p = CHR ''o'' then (8, r # u)
                 else if lower p = CHR ''x'' then (16, r # u)
                 else (8, t)
             | _ \<Rightarrow> (8, t))
          else (10, s)
      | [] \<Rightarrow> (10, s))"

text \<open>The scanner state of \<open>underscoreOK\<close>: begin, digit, underscore, other.\<close>

datatype saw = SawBegin | SawDigit | SawUnderscore | SawOther

fun underscores :: "bool \<Rightarrow> saw \<Rightarrow> string \<Rightarrow> bool" where
  "underscores hex w [] \<longleftrightarrow> w \<noteq> SawUnderscore"
| "underscores hex w (c # s) \<longleftrightarrow>
     (if digit_val c \<noteq> None \<or> hex \<and> lower c \<in> set ''abcdef'' then underscores hex SawDigit s
      else if c = CHR ''_'' then w = SawDigit \<and> underscores hex SawUnderscore s
      else w \<noteq> SawUnderscore \<and> underscores hex SawOther s)"

definition underscoreOK :: "string \<Rightarrow> bool" where
  "underscoreOK s =
     (let t = snd (split_sign s)
      in case t of
           c # p # r \<Rightarrow>
             if c = CHR ''0'' \<and> lower p \<in> set ''box''
             then underscores (lower p = CHR ''x'') SawDigit r
             else underscores False SawBegin t
         | _ \<Rightarrow> underscores False SawBegin t)"

text \<open>\<open>strconv.ParseInt(s, 0, 32)\<close>; \<open>None\<close> stands for a non-nil error.\<close>

definition ParseInt32 :: "string \<Rightarrow> int option" where
  "ParseInt32 s = (case split_sign s of (neg, t) \<Rightarrow>
     if t = [] then None
     else (case detect_base t of (base, ds) \<Rightarrow>
       (case base_digits base 0 ds of
          None \<Rightarrow> None
        | Some n \<Rightarrow>
            if CHR ''_'' \<in> set t \<and> \<not> underscoreOK t then None else in_range 32 neg n)))"

text \<open>A decimal literal without leading zero is read as written.\<close>

lemma base_digit_digit_char: "d < 10 \<Longrightarrow> base_digit (digit_char d) = Some d"
  by (drule less_10_cases) (auto simp: base_digit_def digit_char_def)

lemma digit_char_not_underscore: "d < 10 \<Longrightarrow> digit_char d \<noteq> CHR ''_''"
  by (drule less_10_cases) (auto simp: digit_char_def)

lemma base_digits_append:
  "base_digits b acc (s @ t) = (case base_digits b acc s of None \<Rightarrow> None | Some n \<Rightarrow> base_digits b n t)"
  by (induction s arbitrary: acc) (auto split: option.splits)

lemma base_digits_nat_to_string: "base_digits 10 0 (nat_to_string n) = Some n"
proof (induction n rule: nat_to_string.induct)
  case (1 n)
  then show ?case
    by (cases "n < 10")
      (simp_all add: nat_to_string.simps [of n] base_digits_append base_digit_digit_char
        digit_char_not_underscore)
qed

lemma digit_char_zero: "d < 10 \<Longrightarrow> digit_char d = CHR ''0'' \<longleftrightarrow> d = 0"
  by (drule less_10_cases) (auto simp: digit_char_def)

lemma hd_nat_to_string: "0 < n \<Longrightarrow> hd (nat_to_string n) \<noteq> CHR ''0''"
proof (induction n rule: nat_to_string.induct)
  case (1 n)
  then show ?case
    by (cases "n < 10") (simp_all add: nat_to_string.simps [of n] digit_char_zero)
qed

lemma underscore_not_in_nat_to_string: "CHR ''_'' \<notin> set (nat_to_string n)"
  using nat_to_string_digits [of "CHR ''_''" n] by auto

lemma detect_base_nat_to_string:
  assumes "0 < n"
  shows "detect_base (nat_to_string n) = (10, nat_to_string n)"
  using hd_nat_to_string [OF assms]
  by (cases "nat_to_string n") (simp_all add: detect_base_def)

lemma nat_to_string_0 [simp]: "nat_to_string 0 = ''0''"
  by (simp add: nat_to_string.simps [of 0] digit_char_def)

lemma ParseInt32_nat_to_string:
  assumes "n < 2 ^ 31"
  shows "ParseInt32 (nat_to_string n) = Some (int n)"
proof (cases "n = 0")
  case True
  then show ?thesis by (simp add: ParseInt32_def split_sign_def detect_base_def in_range_def)
next
  case False
  with assms show ?thesis
    by (simp add: ParseInt32_def split_sign_nat_to_string detect_base_nat_to_string
        base_digits_nat_to_string underscore_not_in_nat_to_string in_range_def)
qed

subsection \<open>base64.StdEncoding\<close>

definition b64_alphabet :: string where
  "b64_alphabet = ''ABCDEFGHIJKLMNOPQRSTUVWXYZabcdefghijklmnopqrstuvwxyz0123456789+/''"

definition b64_char :: "nat \<Rightarrow> char" where
  "b64_char n = b64_alphabet ! n"

definition b64_val :: "char \<Rightarrow> nat option" where
  "b64_val c =
     (let n = of_char c :: nat
      in if 65 \<le> n \<and> n \<le> 90 then Some (n - 65)
         else if 97 \<le> n \<and> n \<le> 122 then Some (n - 97 + 26)
         else if 48 \<le> n \<and> n \<le> 57 then Some (n - 48 + 52)
         else if n = 43 then Some 62
         else if n = 47 then Some 63
         else None)"

text \<open>
  Decoding after the line breaks have been dropped: full quanta of four characters, and a last
  quantum that may end in one or two \<open>=\<close>. The decoder is not strict: the bits a padded
  quantum leaves over are ignored.
\<close>

fun b64_quanta :: "string \<Rightarrow> string option" where
  "b64_quanta [] = Some []"
| "b64_quanta [a, b, c, d] =
     (case (b64_val a, b64_val b, b64_val c, b64_val d) of
        (Some x, Some y, Some z, Some w) \<Rightarrow>
          Some [char_of (x * 4 + y div 16), char_of (y mod 16 * 16 + z div 4), char_of (z mod 4 * 64 + w)]
      | (Some x, Some y, Some z, None) \<Rightarrow>
          if d = CHR ''='' then Some [char_of (x * 4 + y div 16), char_of (y mod 16 * 16 + z div 4)]
          else None
      | (Some x, Some y, None, None) \<Rightarrow>
          if c = CHR ''='' \<and> d = CHR ''='' then Some [char_of (x * 4 + y div 16)] else None
      | _ \<Rightarrow> None)"
| "b64_quanta (a # b # c # d # s) =
     (case (b64_val a, b64_val b, b64_val c, b64_val d) of
        (Some x, Some y, Some z, Some w) \<Rightarrow>
          map_option
            (\<lambda>r. char_of (x * 4 + y div 16) # char_of (y mod 16 * 16 + z div 4)
                   # char_of (z mod 4 * 64 + w) # r)
            (b64_quanta s)
      | _ \<Rightarrow> None)"
| "b64_quanta s = None"

definition DecodeString :: "string \<Rightarrow> string option" where
  "DecodeString s = b64_quanta (filter (\<lambda>c. c \<noteq> newline \<and> c \<noteq> carriage) s)"

fun EncodeToString :: "string \<Rightarrow> string" where
  "EncodeToString [] = []"
| "EncodeToString [a] =
     (let x = of_char a in [b64_char (x div 4), b64_char (x mod 4 * 16), CHR ''='', CHR ''=''])"
| "EncodeToString [a, b] =
     (let x = of_char a; y = of_char b
      in [b64_char (x div 4), b64_char (x mod 4 * 16 + y div 16), b64_char (y mod 16 * 4), CHR ''=''])"
| "EncodeToString (a # b # c # s) =
     (let x = of_char a; y = of_char b; z = of_char c
      in b64_char (x div 4) # b64_char (x mod 4 * 16 + y div 16)
         # b64_char (y mod 16 * 4 + z div 64) # b64_char (z mod 64) # EncodeToString s)"

lemma length_b64_alphabet [simp]: "length b64_alphabet = 64"
  by (simp add: b64_alphabet_def)

lemma map_b64_val: "map b64_val b64_alphabet = map Some [0..<64]"
  by (simp add: b64_alphabet_def b64_val_def upt_conv_Cons)

lemma b64_val_char [simp]: "n < 64 \<Longrightarrow> b64_val (b64_char n) = Some n"
  using map_b64_val by (simp add: b64_char_def list_eq_iff_nth_eq)

lemma b64_val_pad [simp]: "b64_val CHR ''='' = None"
  by (simp add: b64_val_def)

lemma byte_div_mod:
  fixes y :: nat
  assumes "y < 256"
  shows "y div 4 < 64" "y div 16 < 16" "y div 64 < 4"
    "y div 16 div 16 = 0" "y div 64 div 4 = 0"
    "y div 16 mod 16 = y div 16" "y div 64 mod 4 = y div 64"
proof -
  show "y div 4 < 64" using assms by (intro less_mult_imp_div_less) simp
  show b: "y div 16 < 16" using assms by (intro less_mult_imp_div_less) simp
  show c: "y div 64 < 4" using assms by (intro less_mult_imp_div_less) simp
  show "y div 16 div 16 = 0" "y div 16 mod 16 = y div 16"
    using b by (rule div_less, rule mod_less)
  show "y div 64 div 4 = 0" "y div 64 mod 4 = y div 64"
    using c by (rule div_less, rule mod_less)
qed

lemma b64_index:
  fixes x y :: nat
  shows "y < 256 \<Longrightarrow> x mod 4 * 16 + y div 16 < 64" "y < 256 \<Longrightarrow> x mod 16 * 4 + y div 64 < 64"
    "x mod 4 * 16 < 64" "x mod 16 * 4 < 64" "x mod 64 < 64"
proof -
  have m: "x mod 4 < 4" "x mod 16 < 16" by simp_all
  show "x mod 4 * 16 + y div 16 < 64" if "y < 256"
    using m byte_div_mod(2) [OF that] by linarith
  show "x mod 16 * 4 + y div 64 < 64" if "y < 256"
    using m byte_div_mod(3) [OF that] by linarith
  show "x mod 4 * 16 < 64" "x mod 16 * 4 < 64" using m by linarith+
  show "x mod 64 < 64" by simp
qed

lemmas b64_bits = byte_div_mod b64_index

lemma b64_quanta_Encode: "b64_quanta (EncodeToString s) = Some s"
proof (induction s rule: EncodeToString.induct)
  case (4 a b c s)
  show ?case
  proof (cases "EncodeToString s")
    case Nil
    then have "s = []" by (cases s rule: EncodeToString.cases) (auto simp: Let_def)
    then show ?thesis by (simp add: Let_def b64_bits)
  next
    case (Cons w ws)
    with 4 show ?thesis by (simp add: Let_def b64_bits)
  qed
qed (simp_all add: Let_def b64_bits)

lemma b64_char_not_break: "n < 64 \<Longrightarrow> b64_char n \<noteq> newline \<and> b64_char n \<noteq> carriage"
  using b64_val_char [of n] by (auto simp: b64_val_def)

lemma Encode_no_break: "filter (\<lambda>c. c \<noteq> newline \<and> c \<noteq> carriage) (EncodeToString s) = EncodeToString s"
  by (induction s rule: EncodeToString.induct)
    (simp_all add: Let_def b64_bits b64_char_not_break)

theorem DecodeString_Encode: "DecodeString (EncodeToString s) = Some s"
  by (simp add: DecodeString_def Encode_no_break b64_quanta_Encode)

lemma EncodeToString_eq_Nil [simp]: "EncodeToString s = [] \<longleftrightarrow> s = []"
  by (cases s rule: EncodeToString.cases) (auto simp: Let_def)

subsection \<open>Regular expressions\<close>

definition is_lower :: "char \<Rightarrow> bool" where
  "is_lower c \<longleftrightarrow> 97 \<le> (of_char c :: nat) \<and> (of_char c :: nat) \<le> 122"

definition is_alnum :: "char \<Rightarrow> bool" where
  "is_alnum c \<longleftrightarrow> is_lower c \<or> 65 \<le> (of_char c :: nat) \<and> (of_char c :: nat) \<le> 90 \<or> digit_val c \<noteq> None"

subsection \<open>slices.Delete\<close>

text \<open>\<open>slices.Delete(s, i, j)\<close> panics unless \<open>i \<le> j \<le> len(s)\<close>.\<close>

definition slices_Delete :: "'a list \<Rightarrow> nat \<Rightarrow> nat \<Rightarrow> 'a list res" where
  "slices_Delete s i j =
     (if i \<le> j \<and> j \<le> length s then Inr (take i s @ drop j s)
      else Inl (Panic ''slice bounds out of range''))"

end
