(* ===== verification/Constants.thy ===== *)
theory Constants
  imports Go_Encoding
begin

text \<open>
  The annotation, label and object names shared by the webhooks and the controllers
  (\<open>pkg/constants/const.go\<close>), and the facts about them the proofs need: which keys of one
  object differ.
\<close>

definition AnnotationHostKey :: string where
  "AnnotationHostKey = ''oidc-application-controller/host''"

definition AnnotationTargetKey :: string where
  "AnnotationTargetKey = ''oidc-application-controller/target''"

definition AnnotationKey :: string where
  "AnnotationKey = ''oidc-application-controller/component''"

definition AnnotationSuffixKey :: string where
  "AnnotationSuffixKey = ''oidc-application-controller/suffix''"

definition AnnotationOauth2SecretChecksumKey :: string where
  "AnnotationOauth2SecretChecksumKey = ''oidc-application-controller/oauth2-secret-checksum''"

definition PodWebHookPath :: string where
  "PodWebHookPath = ''/oidc-mutate-v1-pod''"

definition VpaWebHookPath :: string where
  "VpaWebHookPath = ''/oidc-mutate-v1-vpa''"

definition NAMESPACE :: string where
  "NAMESPACE = ''NAMESPACE''"

definition ContainerNameOauth2Proxy :: string where
  "ContainerNameOauth2Proxy = ''oauth2-proxy''"

definition ContainerNameKubeRbacProxy :: string where
  "ContainerNameKubeRbacProxy = ''kube-rbac-proxy''"

definition SecretNameOauth2Proxy :: string where
  "SecretNameOauth2Proxy = ''oauth2-proxy''"

definition Oauth2CookieSecretKey :: string where
  "Oauth2CookieSecretKey = ''cookie-secret''"

definition Oauth2ClientSecretKey :: string where
  "Oauth2ClientSecretKey = ''client_secret''"

definition Oauth2ClientSecretFile :: string where
  "Oauth2ClientSecretFile = ''/etc/oauth2-proxy/client_secret''"

definition SecretNameResourceAttributes :: string where
  "SecretNameResourceAttributes = ''resource-attributes''"

definition SecretNameKubeconfig :: string where
  "SecretNameKubeconfig = ''kubeconfig''"

definition SecretNameOidcCa :: string where
  "SecretNameOidcCa = ''oidc-ca''"

definition ServiceNameOauth2Service :: string where
  "ServiceNameOauth2Service = ''oauth2-service''"

definition HTTPRouteName :: string where
  "HTTPRouteName = ''oauth2-httproute''"

definition ManagedGatewayName :: string where
  "ManagedGatewayName = ''oidc-apps-gateway''"

definition LabelKey :: string where
  "LabelKey = ''oidc-application-controller/component''"

definition LabelValue :: string where
  "LabelValue = ''oidc-apps''"

definition SecretLabelKey :: string where
  "SecretLabelKey = ''oidc-application-controller/secret''"

definition Oauth2LabelValue :: string where
  "Oauth2LabelValue = ''oauth2''"

definition RbacLabelValue :: string where
  "RbacLabelValue = ''rbac''"

definition OidcCa2LabelValue :: string where
  "OidcCa2LabelValue = ''oidc-ca''"

definition KubeconfigLabelValue :: string where
  "KubeconfigLabelValue = ''kubeconfig''"

definition RegistrySecretLabelValue :: string where
  "RegistrySecretLabelValue = ''registry-secret''"

definition RegistrySecretFinalizer :: string where
  "RegistrySecretFinalizer = ''oidc-application-controller/registry-secret''"

definition Oauth2VolumeName :: string where
  "Oauth2VolumeName = ''oauth2-proxy''"

definition KubeRbacProxyVolumeName :: string where
  "KubeRbacProxyVolumeName = ''kube-rbac-proxy''"

lemmas constant_defs = AnnotationHostKey_def AnnotationTargetKey_def AnnotationKey_def AnnotationSuffixKey_def AnnotationOauth2SecretChecksumKey_def PodWebHookPath_def VpaWebHookPath_def NAMESPACE_def ContainerNameOauth2Proxy_def ContainerNameKubeRbacProxy_def SecretNameOauth2Proxy_def Oauth2CookieSecretKey_def Oauth2ClientSecretKey_def Oauth2ClientSecretFile_def SecretNameResourceAttributes_def SecretNameKubeconfig_def SecretNameOidcCa_def ServiceNameOauth2Service_def HTTPRouteName_def ManagedGatewayName_def LabelKey_def LabelValue_def SecretLabelKey_def Oauth2LabelValue_def RbacLabelValue_def OidcCa2LabelValue_def KubeconfigLabelValue_def RegistrySecretLabelValue_def RegistrySecretFinalizer_def Oauth2VolumeName_def KubeRbacProxyVolumeName_def

lemma annotation_keys_distinct:
  "distinct [AnnotationKey, AnnotationHostKey, AnnotationTargetKey, AnnotationSuffixKey,
     AnnotationOauth2SecretChecksumKey]"
  by (simp add: constant_defs)

lemma label_keys_distinct [simp]: "LabelKey \<noteq> SecretLabelKey" "SecretLabelKey \<noteq> LabelKey"
  by (simp_all add: constant_defs)

lemma secret_labels_distinct:
  "distinct [Oauth2LabelValue, RbacLabelValue, OidcCa2LabelValue, KubeconfigLabelValue,
     RegistrySecretLabelValue]"
  by (simp add: constant_defs)

lemma container_names_distinct [simp]:
  "ContainerNameOauth2Proxy \<noteq> ContainerNameKubeRbacProxy"
  "ContainerNameKubeRbacProxy \<noteq> ContainerNameOauth2Proxy"
  by (simp_all add: constant_defs)

lemma volume_names_distinct [simp]:
  "Oauth2VolumeName \<noteq> KubeRbacProxyVolumeName"
  "KubeRbacProxyVolumeName \<noteq> Oauth2VolumeName"
  by (simp_all add: constant_defs)

lemma cookie_key_distinct [simp]:
  "Oauth2CookieSecretKey \<noteq> ''oauth2-proxy.cfg''" "''oauth2-proxy.cfg'' \<noteq> Oauth2CookieSecretKey"
  by (simp_all add: constant_defs)

end
