(* ===== verification/Kube_Types.thy ===== *)
theory Kube_Types
  imports Constants
begin

text \<open>
  The Kubernetes data the program reads and writes, as records with the fields the code
  touches, and the services it calls, as parameters: \<open>env\<close> collects the functions that are
  not part of the sources (hashing, the process environment, label selectors, quantities, yaml),
  \<open>'s kube\<close> the API client over a state \<open>'s\<close> the model knows nothing about. What the code relies
  on is stated as named hypotheses (\<open>selector_laws\<close> below, the laws of the API where they are used).
\<close>

subsection \<open>Object metadata\<close>

record owner_reference =
  or_Kind :: string
  or_Name :: string
  or_UID :: string

text \<open>\<open>metav1.ObjectMeta\<close>, embedded in every object: the objects below extend this record as
  their structs embed the type, and the getters of \<open>client.Object\<close> are its fields.\<close>

record object_meta =
  GetName :: string
  GetNamespace :: string
  GetUID :: string
  GetLabels :: smap
  GetAnnotations :: smap
  GetOwnerReferences :: "owner_reference list"
  GetFinalizers :: "string list"
  GetDeletionTimestamp :: "nat option"

abbreviation meta_of :: "'a object_meta_scheme \<Rightarrow> object_meta" where
  "meta_of o1 \<equiv> object_meta.truncate o1"

lemma meta_of_simps [simp]:
  "GetName (meta_of x) = GetName x"
  "GetNamespace (meta_of x) = GetNamespace x"
  "GetUID (meta_of x) = GetUID x"
  "GetLabels (meta_of x) = GetLabels x"
  "GetAnnotations (meta_of x) = GetAnnotations x"
  by (simp_all add: object_meta.truncate_def)

definition new_meta :: "string \<Rightarrow> string \<Rightarrow> object_meta" where
  "new_meta name namespace =
     \<lparr>GetName = name, GetNamespace = namespace, GetUID = '''', GetLabels = fmempty,
      GetAnnotations = fmempty, GetOwnerReferences = [], GetFinalizers = [],
      GetDeletionTimestamp = None\<rparr>"

text \<open>\<open>metav1.LabelSelector\<close>.\<close>

record selector_requirement =
  sel_Key :: string
  sel_Operator :: string
  sel_Values :: "string list"

record label_selector =
  MatchLabels :: smap
  MatchExpressions :: "selector_requirement list"

definition empty_selector :: label_selector where
  "empty_selector = \<lparr>MatchLabels = fmempty, MatchExpressions = []\<rparr>"

text \<open>\<open>intstr.IntOrString\<close>.\<close>

datatype int_or_string = IntVal int | StrVal string

subsection \<open>Pods\<close>

record container_port =
  port_Name :: string
  ContainerPort :: int

record volume_mount =
  vm_Name :: string
  ReadOnly :: bool
  MountPath :: string

record security_context =
  DropCapabilities :: "string list"
  AllowPrivilegeEscalation :: "bool option"
  ReadOnlyRootFilesystem :: "bool option"

text \<open>A quantity is kept in its textual form; the comparison is a parameter of the model.
  \<open>Requests\<close> is \<open>None\<close> for the nil map, which the code distinguishes.\<close>

record container =
  c_Name :: string
  Image :: string
  ImagePullPolicy :: string
  Args :: "string list"
  Ports :: "container_port list"
  SecurityContext :: "security_context option"
  Requests :: "smap option"
  VolumeMounts :: "volume_mount list"

definition empty_container :: container where
  "empty_container =
     \<lparr>c_Name = '''', Image = '''', ImagePullPolicy = '''', Args = [], Ports = [],
      SecurityContext = None, Requests = None, VolumeMounts = []\<rparr>"

record secret_projection =
  sp_Name :: string
  sp_Items :: "string list"
  sp_Optional :: "bool option"

text \<open>A source of a projected volume: at most one of the pointers of \<open>VolumeProjection\<close> is set.\<close>

datatype projection =
    SecretSource secret_projection
  | ServiceAccountTokenSource
  | OtherSource

text \<open>\<open>Projected\<close> is the pointer to the projected source; any other kind of source a volume may
  have is kept in \<open>v_Other\<close>.\<close>

record volume =
  v_Name :: string
  Projected :: "projection list option"
  v_Other :: "string option"

record pod_spec =
  Containers :: "container list"
  Volumes :: "volume list"
  ImagePullSecrets :: "string list"

record pod = object_meta +
  pod_Spec :: pod_spec

subsection \<open>Workloads\<close>

text \<open>Deployments and replica sets are used through their metadata only; of a stateful set the
  code also reads \<open>Spec.Selector\<close>.\<close>

type_synonym deployment = object_meta
type_synonym replica_set = object_meta

record stateful_set = object_meta +
  sts_Selector :: "label_selector option"

subsection \<open>Dependent objects\<close>

record secret = object_meta +
  Data :: smap
  StringData :: smap
  Type :: string

definition new_secret :: "string \<Rightarrow> string \<Rightarrow> secret" where
  "new_secret name namespace =
     object_meta.extend (new_meta name namespace)
       \<lparr>Data = fmempty, StringData = fmempty, Type = ''''\<rparr>"

record service_port =
  sport_Name :: string
  sport_Port :: int
  sport_TargetPort :: int_or_string

record service_spec =
  svc_Ports :: "service_port list"
  svc_Selector :: smap

record service = object_meta +
  svc_Spec :: service_spec

definition new_service :: "string \<Rightarrow> string \<Rightarrow> service" where
  "new_service name namespace =
     object_meta.extend (new_meta name namespace) \<lparr>svc_Spec = \<lparr>svc_Ports = [], svc_Selector = fmempty\<rparr>\<rparr>"

record parent_reference =
  pr_Name :: string
  pr_Namespace :: "string option"
  pr_SectionName :: "string option"

datatype path_match = PathMatchPathPrefix string | PathMatchExact string

text \<open>\<open>RequestRedirect\<close> with a \<open>ReplaceFullPath\<close> modifier and a status code.\<close>

datatype route_filter = RequestRedirect string int

record backend_ref =
  br_Name :: string
  br_Port :: int

record route_rule =
  Matches :: "path_match list"
  Filters :: "route_filter list"
  BackendRefs :: "backend_ref list"

record route_spec =
  ParentRefs :: "parent_reference list"
  Hostnames :: "string list"
  Rules :: "route_rule list"

record http_route = object_meta +
  route_Spec :: route_spec

definition new_http_route :: "string \<Rightarrow> string \<Rightarrow> http_route" where
  "new_http_route name namespace =
     object_meta.extend (new_meta name namespace)
       \<lparr>route_Spec = \<lparr>ParentRefs = [], Hostnames = [], Rules = []\<rparr>\<rparr>"

record container_policy =
  pol_ContainerName :: string
  pol_Mode :: "string option"

record cross_reference =
  cr_Kind :: string
  cr_Name :: string

record vpa = object_meta +
  TargetRef :: "cross_reference option"
  ResourcePolicy :: "container_policy list option"

lemmas new_object_defs [obj_defs] = new_meta_def new_secret_def new_service_def new_http_route_def
  object_meta.extend_def

subsection \<open>Functions of the environment\<close>

text \<open>
  \<open>sha256\<close> is the lower-case hexadecimal digest; \<open>getenv\<close> is \<open>os.Getenv\<close>; \<open>as_selector\<close> is
  \<open>metav1.LabelSelectorAsSelector\<close> with \<open>Selector.Matches\<close>, \<open>selector_size\<close> the method \<open>Size\<close> of the
  generated type; \<open>quantity_above\<close> tells whether the first quantity compares greater than the
  second; \<open>intstr_string\<close> is \<open>IntOrString.String\<close>.
\<close>

record env =
  sha256 :: "string \<Rightarrow> string"
  getenv :: "string \<Rightarrow> string"
  as_selector :: "label_selector option \<Rightarrow> (smap \<Rightarrow> bool) res"
  selector_size :: "label_selector option \<Rightarrow> nat"
  quantity_above :: "string \<Rightarrow> string \<Rightarrow> bool"
  intstr_string :: "int_or_string \<Rightarrow> string"

text \<open>The documented behaviour of selectors: nil selects nothing, the empty selector everything,
  one of labels only selects by inclusion; the size is zero for exactly the nil and the empty one.\<close>

definition selector_laws :: "'a env_scheme \<Rightarrow> bool" where
  "selector_laws E \<longleftrightarrow>
     as_selector E None = Inr (\<lambda>_. False) \<and>
     (\<forall>ls. as_selector E (Some \<lparr>MatchLabels = ls, MatchExpressions = []\<rparr>) =
        Inr (\<lambda>m. fset_of_fmap ls |\<subseteq>| fset_of_fmap m)) \<and>
     selector_size E None = 0 \<and>
     (\<forall>s. selector_size E (Some s) = 0 \<longleftrightarrow> s = empty_selector)"

definition intstr_laws :: "'a env_scheme \<Rightarrow> bool" where
  "intstr_laws E \<longleftrightarrow>
     (\<forall>n. intstr_string E (IntVal n) = Itoa n) \<and> (\<forall>s. intstr_string E (StrVal s) = s)"

subsection \<open>randutils\<close>

text \<open>\<open>GenerateSha256\<close>: at most the first six hexadecimal digits. (Hashing a string does not fail.)\<close>

definition GenerateFullSha256 :: "'a env_scheme \<Rightarrow> string \<Rightarrow> string" where
  "GenerateFullSha256 E key = sha256 E key"

definition GenerateSha256 :: "'a env_scheme \<Rightarrow> string \<Rightarrow> string" where
  "GenerateSha256 E key =
     (let s = sha256 E key in if length s > 6 then take 6 s else s)"

lemma GenerateSha256_length: "length (GenerateSha256 E key) \<le> 6"
  by (simp add: GenerateSha256_def Let_def)

definition charset :: string where
  "charset = ''abcdefghijklmnopqrstuvwxyz0123456789''"

text \<open>\<open>GenerateRandomString\<close>: one uniform index below \<open>len(charset)\<close> per byte. The reads of the random
  source are an argument: \<open>None\<close> for a read that fails, which ends with the empty string. The
  index \<open>rand.Int\<close> returns lies below its bound.\<close>

fun random_bytes :: "nat \<Rightarrow> (nat \<Rightarrow> nat option) \<Rightarrow> nat \<Rightarrow> string option" where
  "random_bytes 0 rnd k = Some []"
| "random_bytes (Suc n) rnd k =
     (case rnd k of
        None \<Rightarrow> None
      | Some i \<Rightarrow> map_option ((#) (charset ! (i mod length charset))) (random_bytes n rnd (Suc k)))"

definition GenerateRandomString :: "(nat \<Rightarrow> nat option) \<Rightarrow> nat \<Rightarrow> string" where
  "GenerateRandomString rnd n = (case random_bytes n rnd 0 of None \<Rightarrow> '''' | Some s \<Rightarrow> s)"

lemma random_bytes_Some:
  "random_bytes n rnd k = Some s \<Longrightarrow> length s = n \<and> set s \<subseteq> set charset"
proof (induction n arbitrary: k s)
  case 0
  then show ?case by simp
next
  case (Suc n)
  then obtain i t where it: "rnd k = Some i" "random_bytes n rnd (Suc k) = Some t"
    "s = charset ! (i mod length charset) # t"
    by (auto split: option.splits)
  have "length charset > 0" by (simp add: charset_def)
  then have "charset ! (i mod length charset) \<in> set charset" by (intro nth_mem) simp
  with Suc.IH [OF it(2)] it(3) show ?case by simp
qed

lemma random_bytes_total: "(\<And>i. rnd i \<noteq> None) \<Longrightarrow> \<exists>s. random_bytes n rnd k = Some s"
proof (induction n arbitrary: k)
  case (Suc n)
  then obtain s where "random_bytes n rnd (Suc k) = Some s" by blast
  moreover obtain i where "rnd k = Some i" using Suc.prems by blast
  ultimately show ?case by simp
qed simp

end
