(* ===== verification/Config_Types.thy ===== *)
theory Config_Types
  imports Kube_Types
begin

text \<open>
  The configuration tree (\<open>pkg/configuration/types.go\<close>, the data part of
  \<open>gateway.go\<close> and \<open>resolved.go\<close>). A pointer to a struct is an \<open>option\<close>; a Go \<open>Target\<close> embeds
  \<open>Global\<close>, so the record \<open>target\<close> extends the record \<open>global_conf\<close> and shares its selectors.
\<close>

record secret_reference =
  sr_Name :: string
  sr_Namespace :: string

record oauth2_proxy_config =
  Scope :: string
  ClientID :: string
  ClientSecret :: string
  ClientSecretRef :: "secret_reference option"
  RedirectURL :: string
  OidcIssuerURL :: string
  SSLInsecureSkipVerify :: "bool option"
  InsecureOidcSkipIssuerVerification :: "bool option"
  InsecureOidcSkipNonce :: "bool option"
  ApprovalPrompt :: string
  CookieRefresh :: string
  EmailDomain :: string
  SkipProviderButton :: "bool option"
  CodeChallengeMethod :: string
  ExtraArgs :: "string list"

record kube_rbac_proxy_config =
  KubeConfigStr :: string
  KubeSecretRef :: "secret_reference option"

subsection \<open>Gateway configuration\<close>

record gateway_parameters_ref =
  gp_Group :: string
  gp_Kind :: string
  gp_Name :: string

record gateway_infrastructure =
  gi_Annotations :: smap
  gi_Labels :: smap
  gi_ParametersRef :: "gateway_parameters_ref option"

record secret_object_reference =
  so_Group :: string
  so_Kind :: string
  so_Name :: string
  so_Namespace :: string

record listener_tls_config =
  tls_Mode :: string
  tls_CertificateRefs :: "secret_object_reference list"
  tls_Options :: smap

record route_namespaces =
  rn_From :: string
  rn_Selector :: "label_selector option"

record route_group_kind =
  rk_Group :: string
  rk_Kind :: string

record allowed_routes =
  ar_Namespaces :: "route_namespaces option"
  ar_Kinds :: "route_group_kind list"

record gateway_listener =
  gl_Name :: string
  gl_Hostname :: string
  gl_Port :: int
  gl_Protocol :: string
  gl_TLS :: "listener_tls_config option"
  gl_AllowedRoutes :: "allowed_routes option"

record gateway_global_conf =
  Managed :: bool
  gw_Name :: string
  GatewayClassName :: string
  Listeners :: "gateway_listener list"
  gw_Annotations :: smap
  gw_Labels :: smap
  Infrastructure :: "gateway_infrastructure option"

subsection \<open>Global and target configuration\<close>

record global_conf =
  Oauth2Proxy :: "oauth2_proxy_config option"
  KubeRbacProxy :: "kube_rbac_proxy_config option"
  g_Labels :: smap
  g_Annotations :: smap
  DomainName :: string
  OidcCABundle :: string
  OidcCASecretRef :: "secret_reference option"
  Gateway :: "gateway_global_conf option"

record http_route_parent_ref =
  ref_Name :: string
  ref_Namespace :: string
  ref_SectionName :: string

record http_route_conf =
  Create :: bool
  HostPrefix :: string
  Host :: string
  hr_Annotations :: smap
  hr_Labels :: smap
  hr_ParentRefs :: "http_route_parent_ref list"
  DefaultPath :: string

record target = global_conf +
  t_Name :: string
  NamespaceSelector :: "label_selector option"
  LabelSelector :: "label_selector option"
  TargetPort :: int_or_string
  TargetProtocol :: string
  HTTPRoute :: "http_route_conf option"

text \<open>The zero values \<open>Global{}\<close> and \<open>Target{}\<close>.\<close>

definition empty_global :: global_conf where
  "empty_global =
     \<lparr>Oauth2Proxy = None, KubeRbacProxy = None, g_Labels = fmempty, g_Annotations = fmempty,
      DomainName = '''', OidcCABundle = '''', OidcCASecretRef = None, Gateway = None\<rparr>"

definition empty_target :: target where
  "empty_target =
     global_conf.extend empty_global
       \<lparr>t_Name = '''', NamespaceSelector = None, LabelSelector = None, TargetPort = IntVal 0,
        TargetProtocol = '''', HTTPRoute = None\<rparr>"

definition empty_oauth2 :: oauth2_proxy_config where
  "empty_oauth2 =
     \<lparr>Scope = '''', ClientID = '''', ClientSecret = '''', ClientSecretRef = None, RedirectURL = '''',
      OidcIssuerURL = '''', SSLInsecureSkipVerify = None,
      InsecureOidcSkipIssuerVerification = None, InsecureOidcSkipNonce = None,
      ApprovalPrompt = '''', CookieRefresh = '''', EmailDomain = '''', SkipProviderButton = None,
      CodeChallengeMethod = '''', ExtraArgs = []\<rparr>"

definition empty_http_route_conf :: http_route_conf where
  "empty_http_route_conf =
     \<lparr>Create = False, HostPrefix = '''', Host = '''', hr_Annotations = fmempty, hr_Labels = fmempty,
      hr_ParentRefs = [], DefaultPath = ''''\<rparr>"

text \<open>The root node. Its private fields, the API client and the logger, are not data: the
  client is an argument of the functions that match objects, logging is left out.\<close>

record controller_config =
  Global :: global_conf
  Targets :: "target list"

text \<open>\<open>ResolvedConfig\<close>: the snapshot bound to one object. The accessors read the name and the
  namespace of the object only.\<close>

record resolved_config =
  rc_target :: target
  rc_global :: global_conf
  rc_object :: object_meta

text \<open>The settings a target takes over from the embedded \<open>Global\<close>.\<close>

abbreviation target_global :: "target \<Rightarrow> global_conf" where
  "target_global t \<equiv> global_conf.truncate t"

lemma target_global_simps [simp]:
  "Oauth2Proxy (target_global t) = Oauth2Proxy t"
  "KubeRbacProxy (target_global t) = KubeRbacProxy t"
  "OidcCABundle (target_global t) = OidcCABundle t"
  "OidcCASecretRef (target_global t) = OidcCASecretRef t"
  by (simp_all add: global_conf.truncate_def)

end
