(* ===== verification/Config.thy ===== *)
theory Config
  imports Config_Types
begin

text \<open>
  The object-scoped accessors of \<open>pkg/configuration\<close>: matching an object against the
  targets (\<open>target.go\<close>), the resolved snapshot (\<open>resolved.go\<close>), and what the snapshot says about
  the host, the upstream, the proxies, the secrets and the HTTPRoute (\<open>general.go\<close>, \<open>oauth2.go\<close>,
  \<open>kube_rbac.go\<close>, \<open>gateway.go\<close>). The locale \<open>layered_setting\<close> states the contract of a setting a
  target may override; every accessor of that kind interprets it.
\<close>

subsection \<open>Matching\<close>

text \<open>The API client of the configuration is used to read a namespace; \<open>None\<close> is the nil client.\<close>

type_synonym namespace_reader = "(string \<Rightarrow> object_meta res) option"

definition targetMatchesLabels ::
  "'e env_scheme \<Rightarrow> namespace_reader \<Rightarrow> target \<Rightarrow> 'a object_meta_scheme \<Rightarrow> bool" where
  "targetMatchesLabels E client t o1 =
     (case as_selector E (LabelSelector t) of
        Inl _ \<Rightarrow> False
      | Inr selector \<Rightarrow>
          if selector_size E (NamespaceSelector t) = 0 then selector (GetLabels o1)
          else (case client of
                  None \<Rightarrow> False
                | Some get \<Rightarrow>
                    (case get (GetNamespace o1) of
                       Inl _ \<Rightarrow> False
                     | Inr namespace \<Rightarrow>
                         (case as_selector E (NamespaceSelector t) of
                            Inl _ \<Rightarrow> False
                          | Inr namespaceSelector \<Rightarrow>
                              if selector_size E (LabelSelector t) = 0
                              then namespaceSelector (GetLabels namespace)
                              else selector (GetLabels o1) \<and> namespaceSelector (GetLabels namespace)))))"

text \<open>The loops over the targets. \<open>Match\<close> accepts a nil configuration.\<close>

fun match_targets :: "(target \<Rightarrow> bool) \<Rightarrow> target list \<Rightarrow> bool" where
  "match_targets p [] = False"
| "match_targets p (t # ts) = (if p t then True else match_targets p ts)"

definition Match ::
  "'e env_scheme \<Rightarrow> namespace_reader \<Rightarrow> controller_config option \<Rightarrow> 'a object_meta_scheme \<Rightarrow> bool" where
  "Match E client c o1 =
     (case c of
        None \<Rightarrow> False
      | Some cfg \<Rightarrow>
          if Targets cfg = [] then False
          else match_targets (\<lambda>t. targetMatchesLabels E client t o1) (Targets cfg))"

fun collect_targets :: "(target \<Rightarrow> bool) \<Rightarrow> target list \<Rightarrow> target list \<Rightarrow> target list" where
  "collect_targets p [] acc = acc"
| "collect_targets p (t # ts) acc = collect_targets p ts (if p t then acc @ [t] else acc)"

definition FetchTarget ::
  "'e env_scheme \<Rightarrow> namespace_reader \<Rightarrow> controller_config \<Rightarrow> 'a object_meta_scheme \<Rightarrow> target" where
  "FetchTarget E client c o1 =
     (case collect_targets (\<lambda>t. targetMatchesLabels E client t o1) (Targets c) [] of
        [] \<Rightarrow> empty_target
      | t # _ \<Rightarrow> t)"

definition Resolve ::
  "'e env_scheme \<Rightarrow> namespace_reader \<Rightarrow> controller_config \<Rightarrow> 'a object_meta_scheme \<Rightarrow> resolved_config" where
  "Resolve E client c o1 =
     \<lparr>rc_target = FetchTarget E client c o1, rc_global = Global c, rc_object = meta_of o1\<rparr>"

lemma match_targets_ex: "match_targets p ts \<longleftrightarrow> (\<exists>t \<in> set ts. p t)"
  by (induction ts) auto

lemma collect_targets_filter: "collect_targets p ts acc = acc @ filter p ts"
  by (induction ts arbitrary: acc) auto

text \<open>The target of an object is the first in configuration order that matches it.\<close>

lemma FetchTarget_first:
  "FetchTarget E client c o1 =
     (case find (\<lambda>t. targetMatchesLabels E client t o1) (Targets c) of
        None \<Rightarrow> empty_target | Some t \<Rightarrow> t)"
proof -
  have "(case filter p ts of [] \<Rightarrow> empty_target | t # _ \<Rightarrow> t) =
      (case find p ts of None \<Rightarrow> empty_target | Some t \<Rightarrow> t)" for p :: "target \<Rightarrow> bool" and ts
    by (induction ts) auto
  then show ?thesis by (simp add: FetchTarget_def collect_targets_filter)
qed

lemma Match_iff:
  "Match E client (Some c) o1 \<longleftrightarrow> (\<exists>t \<in> set (Targets c). targetMatchesLabels E client t o1)"
  by (simp add: Match_def match_targets_ex)

lemma Match_FetchTarget:
  assumes "Match E client (Some c) o1"
  shows "FetchTarget E client c o1 \<in> set (Targets c)"
    and "targetMatchesLabels E client (FetchTarget E client c o1) o1"
proof -
  obtain t where t: "find (\<lambda>t. targetMatchesLabels E client t o1) (Targets c) = Some t"
    using assms by (auto simp: Match_iff find_None_iff
        intro: option.exhaust [of "find (\<lambda>t. targetMatchesLabels E client t o1) (Targets c)"])
  then have "t \<in> set (Targets c) \<and> targetMatchesLabels E client t o1"
    by (auto simp: find_Some_iff in_set_conv_nth)
  with t show "FetchTarget E client c o1 \<in> set (Targets c)"
    and "targetMatchesLabels E client (FetchTarget E client c o1) o1"
    by (simp_all add: FetchTarget_first)
qed

lemma no_Match_FetchTarget:
  "\<not> Match E client (Some c) o1 \<Longrightarrow> FetchTarget E client c o1 = empty_target"
  by (auto simp: Match_iff FetchTarget_first find_None_iff split: option.split
      dest!: find_Some_iff [THEN iffD1])

subsection \<open>Settings a target may override\<close>

text \<open>
  A setting is layered when it is read from the target, then from the global configuration,
  then from a built-in default. \<open>pick\<close> says where the setting lives in a \<open>Global\<close> and when it counts
  as set. The clients of the accessors rely on the consequences below.
\<close>

locale layered_setting =
  fixes get :: "resolved_config \<Rightarrow> 'v"
    and pick :: "global_conf \<Rightarrow> 'v option"
    and dflt :: 'v
  assumes layered:
    "get rc = (case pick (target_global (rc_target rc)) of
       Some v \<Rightarrow> v
     | None \<Rightarrow> (case pick (rc_global rc) of Some v \<Rightarrow> v | None \<Rightarrow> dflt))"
begin

lemma target_wins: "pick (target_global (rc_target rc)) = Some v \<Longrightarrow> get rc = v"
  by (simp add: layered)

lemma global_fallback:
  "pick (target_global (rc_target rc)) = None \<Longrightarrow> pick (rc_global rc) = Some v \<Longrightarrow> get rc = v"
  by (simp add: layered)

lemma built_in_default:
  "pick (target_global (rc_target rc)) = None \<Longrightarrow> pick (rc_global rc) = None \<Longrightarrow> get rc = dflt"
  by (simp add: layered)

lemma global_irrelevant:
  "pick (target_global (rc_target rc)) \<noteq> None \<Longrightarrow> get (rc\<lparr>rc_global := g\<rparr>) = get rc"
  by (auto simp: layered)

lemma object_irrelevant: "get (rc\<lparr>rc_object := ob\<rparr>) = get rc"
  by (simp add: layered split: option.split)

end

text \<open>A pointer that is set, with the value it points to.\<close>

definition pointed :: "'a option \<Rightarrow> ('a \<Rightarrow> bool option) \<Rightarrow> bool option" where
  "pointed p f = (case p of None \<Rightarrow> None | Some x \<Rightarrow> f x)"

text \<open>The name of a secret reference below a struct pointer, when every step is non-nil and the name
  is not empty.\<close>

definition ref_name :: "'a option \<Rightarrow> ('a \<Rightarrow> secret_reference option) \<Rightarrow> string option" where
  "ref_name p f = (case p of None \<Rightarrow> None | Some x \<Rightarrow> non_empty (f x) sr_Name)"

definition GetClientID :: "resolved_config \<Rightarrow> string" where
  "GetClientID rc =
     (case non_empty (Oauth2Proxy (rc_target rc)) ClientID of
        Some v \<Rightarrow> v
      | None \<Rightarrow> (case non_empty (Oauth2Proxy (rc_global rc)) ClientID of Some v \<Rightarrow> v | None \<Rightarrow> ''''))"

definition GetClientSecret :: "resolved_config \<Rightarrow> string" where
  "GetClientSecret rc =
     (case non_empty (Oauth2Proxy (rc_target rc)) ClientSecret of
        Some v \<Rightarrow> v
      | None \<Rightarrow> (case non_empty (Oauth2Proxy (rc_global rc)) ClientSecret of Some v \<Rightarrow> v | None \<Rightarrow> ''''))"

definition GetClientSecretName :: "resolved_config \<Rightarrow> string" where
  "GetClientSecretName rc =
     (case ref_name (Oauth2Proxy (rc_target rc)) ClientSecretRef of
        Some v \<Rightarrow> v
      | None \<Rightarrow> (case ref_name (Oauth2Proxy (rc_global rc)) ClientSecretRef of Some v \<Rightarrow> v | None \<Rightarrow> ''''))"

definition GetScope :: "resolved_config \<Rightarrow> string" where
  "GetScope rc =
     (case non_empty (Oauth2Proxy (rc_target rc)) Scope of
        Some v \<Rightarrow> v
      | None \<Rightarrow> (case non_empty (Oauth2Proxy (rc_global rc)) Scope of Some v \<Rightarrow> v | None \<Rightarrow> ''''))"

definition GetOidcIssuerURL :: "resolved_config \<Rightarrow> string" where
  "GetOidcIssuerURL rc =
     (case non_empty (Oauth2Proxy (rc_target rc)) OidcIssuerURL of
        Some v \<Rightarrow> v
      | None \<Rightarrow> (case non_empty (Oauth2Proxy (rc_global rc)) OidcIssuerURL of Some v \<Rightarrow> v | None \<Rightarrow> ''''))"

definition GetSslInsecureSkipVerify :: "resolved_config \<Rightarrow> bool" where
  "GetSslInsecureSkipVerify rc =
     (case pointed (Oauth2Proxy (rc_target rc)) SSLInsecureSkipVerify of
        Some v \<Rightarrow> v
      | None \<Rightarrow> (case pointed (Oauth2Proxy (rc_global rc)) SSLInsecureSkipVerify of
                  Some v \<Rightarrow> v | None \<Rightarrow> False))"

definition GetInsecureOidcSkipIssuerVerification :: "resolved_config \<Rightarrow> bool" where
  "GetInsecureOidcSkipIssuerVerification rc =
     (case pointed (Oauth2Proxy (rc_target rc)) InsecureOidcSkipIssuerVerification of
        Some v \<Rightarrow> v
      | None \<Rightarrow> (case pointed (Oauth2Proxy (rc_global rc)) InsecureOidcSkipIssuerVerification of
                  Some v \<Rightarrow> v | None \<Rightarrow> False))"

definition GetInsecureOidcSkipNonce :: "resolved_config \<Rightarrow> bool" where
  "GetInsecureOidcSkipNonce rc =
     (case pointed (Oauth2Proxy (rc_target rc)) InsecureOidcSkipNonce of
        Some v \<Rightarrow> v
      | None \<Rightarrow> (case pointed (Oauth2Proxy (rc_global rc)) InsecureOidcSkipNonce of
                  Some v \<Rightarrow> v | None \<Rightarrow> False))"

definition GetApprovalPrompt :: "resolved_config \<Rightarrow> string" where
  "GetApprovalPrompt rc =
     (case non_empty (Oauth2Proxy (rc_target rc)) ApprovalPrompt of
        Some v \<Rightarrow> v
      | None \<Rightarrow> (case non_empty (Oauth2Proxy (rc_global rc)) ApprovalPrompt of
                  Some v \<Rightarrow> v | None \<Rightarrow> ''auto''))"

definition GetCookieRefresh :: "resolved_config \<Rightarrow> string" where
  "GetCookieRefresh rc =
     (case non_empty (Oauth2Proxy (rc_target rc)) CookieRefresh of
        Some v \<Rightarrow> v
      | None \<Rightarrow> (case non_empty (Oauth2Proxy (rc_global rc)) CookieRefresh of
                  Some v \<Rightarrow> v | None \<Rightarrow> ''3600s''))"

definition GetEmailDomain :: "resolved_config \<Rightarrow> string" where
  "GetEmailDomain rc =
     (case non_empty (Oauth2Proxy (rc_target rc)) EmailDomain of
        Some v \<Rightarrow> v
      | None \<Rightarrow> (case non_empty (Oauth2Proxy (rc_global rc)) EmailDomain of
                  Some v \<Rightarrow> v | None \<Rightarrow> ''*''))"

definition GetSkipProviderButton :: "resolved_config \<Rightarrow> bool" where
  "GetSkipProviderButton rc =
     (case pointed (Oauth2Proxy (rc_target rc)) SkipProviderButton of
        Some v \<Rightarrow> v
      | None \<Rightarrow> (case pointed (Oauth2Proxy (rc_global rc)) SkipProviderButton of
                  Some v \<Rightarrow> v | None \<Rightarrow> True))"

definition GetCodeChallengeMethod :: "resolved_config \<Rightarrow> string" where
  "GetCodeChallengeMethod rc =
     (case non_empty (Oauth2Proxy (rc_target rc)) CodeChallengeMethod of
        Some v \<Rightarrow> v
      | None \<Rightarrow> (case non_empty (Oauth2Proxy (rc_global rc)) CodeChallengeMethod of
                  Some v \<Rightarrow> v | None \<Rightarrow> ''S256''))"

definition GetExtraArgs :: "resolved_config \<Rightarrow> string list" where
  "GetExtraArgs rc =
     (case non_empty (Oauth2Proxy (rc_target rc)) ExtraArgs of
        Some v \<Rightarrow> v
      | None \<Rightarrow> (case non_empty (Oauth2Proxy (rc_global rc)) ExtraArgs of Some v \<Rightarrow> v | None \<Rightarrow> []))"

definition GetKubeSecretName :: "resolved_config \<Rightarrow> string" where
  "GetKubeSecretName rc =
     (case ref_name (KubeRbacProxy (rc_target rc)) KubeSecretRef of
        Some v \<Rightarrow> v
      | None \<Rightarrow> (case ref_name (KubeRbacProxy (rc_global rc)) KubeSecretRef of Some v \<Rightarrow> v | None \<Rightarrow> ''''))"

definition GetKubeConfigStr :: "resolved_config \<Rightarrow> string" where
  "GetKubeConfigStr rc =
     (case non_empty (KubeRbacProxy (rc_target rc)) KubeConfigStr of
        Some v \<Rightarrow> v
      | None \<Rightarrow> (case non_empty (KubeRbacProxy (rc_global rc)) KubeConfigStr of Some v \<Rightarrow> v | None \<Rightarrow> ''''))"

definition GetOidcCASecretName :: "resolved_config \<Rightarrow> string" where
  "GetOidcCASecretName rc =
     (case non_empty (OidcCASecretRef (rc_target rc)) sr_Name of
        Some v \<Rightarrow> v
      | None \<Rightarrow> (case non_empty (OidcCASecretRef (rc_global rc)) sr_Name of Some v \<Rightarrow> v | None \<Rightarrow> ''''))"

text \<open>The bundle is decoded where it is read; one that is not base64 counts as no bundle.\<close>

definition GetOidcCABundle :: "resolved_config \<Rightarrow> string" where
  "GetOidcCABundle rc =
     (if OidcCABundle (rc_target rc) \<noteq> [] then
        (case DecodeString (OidcCABundle (rc_target rc)) of None \<Rightarrow> '''' | Some bs \<Rightarrow> bs)
      else
        (let oidcCABundle = (if OidcCABundle (rc_global rc) \<noteq> [] then OidcCABundle (rc_global rc) else '''')
         in (case DecodeString oidcCABundle of None \<Rightarrow> '''' | Some bs \<Rightarrow> bs)))"

subsection \<open>Every such accessor keeps the contract\<close>

interpretation s_ClientID: layered_setting GetClientID "\<lambda>g. non_empty (Oauth2Proxy g) ClientID" "''''"
  by unfold_locales (simp add: GetClientID_def)

interpretation s_ClientSecret: layered_setting GetClientSecret "\<lambda>g. non_empty (Oauth2Proxy g) ClientSecret" "''''"
  by unfold_locales (simp add: GetClientSecret_def)

interpretation s_ClientSecretName: layered_setting GetClientSecretName "\<lambda>g. ref_name (Oauth2Proxy g) ClientSecretRef" "''''"
  by unfold_locales (simp add: GetClientSecretName_def)

interpretation s_Scope: layered_setting GetScope "\<lambda>g. non_empty (Oauth2Proxy g) Scope" "''''"
  by unfold_locales (simp add: GetScope_def)

interpretation s_OidcIssuerURL: layered_setting GetOidcIssuerURL "\<lambda>g. non_empty (Oauth2Proxy g) OidcIssuerURL" "''''"
  by unfold_locales (simp add: GetOidcIssuerURL_def)

interpretation s_SslInsecureSkipVerify: layered_setting GetSslInsecureSkipVerify "\<lambda>g. pointed (Oauth2Proxy g) SSLInsecureSkipVerify" "False"
  by unfold_locales (simp add: GetSslInsecureSkipVerify_def)

interpretation s_InsecureOidcSkipIssuerVerification: layered_setting GetInsecureOidcSkipIssuerVerification "\<lambda>g. pointed (Oauth2Proxy g) InsecureOidcSkipIssuerVerification" "False"
  by unfold_locales (simp add: GetInsecureOidcSkipIssuerVerification_def)

interpretation s_InsecureOidcSkipNonce: layered_setting GetInsecureOidcSkipNonce "\<lambda>g. pointed (Oauth2Proxy g) InsecureOidcSkipNonce" "False"
  by unfold_locales (simp add: GetInsecureOidcSkipNonce_def)

interpretation s_ApprovalPrompt: layered_setting GetApprovalPrompt "\<lambda>g. non_empty (Oauth2Proxy g) ApprovalPrompt" "''auto''"
  by unfold_locales (simp add: GetApprovalPrompt_def)

interpretation s_CookieRefresh: layered_setting GetCookieRefresh "\<lambda>g. non_empty (Oauth2Proxy g) CookieRefresh" "''3600s''"
  by unfold_locales (simp add: GetCookieRefresh_def)

interpretation s_EmailDomain: layered_setting GetEmailDomain "\<lambda>g. non_empty (Oauth2Proxy g) EmailDomain" "''*''"
  by unfold_locales (simp add: GetEmailDomain_def)

interpretation s_SkipProviderButton: layered_setting GetSkipProviderButton "\<lambda>g. pointed (Oauth2Proxy g) SkipProviderButton" "True"
  by unfold_locales (simp add: GetSkipProviderButton_def)

interpretation s_CodeChallengeMethod: layered_setting GetCodeChallengeMethod "\<lambda>g. non_empty (Oauth2Proxy g) CodeChallengeMethod" "''S256''"
  by unfold_locales (simp add: GetCodeChallengeMethod_def)

interpretation s_ExtraArgs: layered_setting GetExtraArgs "\<lambda>g. non_empty (Oauth2Proxy g) ExtraArgs" "[]"
  by unfold_locales (simp add: GetExtraArgs_def)

interpretation s_KubeSecretName: layered_setting GetKubeSecretName "\<lambda>g. ref_name (KubeRbacProxy g) KubeSecretRef" "''''"
  by unfold_locales (simp add: GetKubeSecretName_def)

interpretation s_KubeConfigStr: layered_setting GetKubeConfigStr "\<lambda>g. non_empty (KubeRbacProxy g) KubeConfigStr" "''''"
  by unfold_locales (simp add: GetKubeConfigStr_def)

interpretation s_OidcCASecretName: layered_setting GetOidcCASecretName "\<lambda>g. non_empty (OidcCASecretRef g) sr_Name" "''''"
  by unfold_locales (simp add: GetOidcCASecretName_def)

text \<open>The accessors by their definitions, for the evaluation of concrete configurations.\<close>

lemmas accessor_defs [cfg_defs] =
  GetClientID_def
  GetClientSecret_def
  GetClientSecretName_def
  GetScope_def
  GetOidcIssuerURL_def
  GetSslInsecureSkipVerify_def
  GetInsecureOidcSkipIssuerVerification_def
  GetInsecureOidcSkipNonce_def
  GetApprovalPrompt_def
  GetCookieRefresh_def
  GetEmailDomain_def
  GetSkipProviderButton_def
  GetCodeChallengeMethod_def
  GetExtraArgs_def
  GetKubeSecretName_def
  GetKubeConfigStr_def
  GetOidcCASecretName_def
  GetOidcCABundle_def
  ref_name_def pointed_def

end
