(* ===== verification/Config_Access.thy ===== *)
theory Config_Access
  imports Config
begin

text \<open>
  The accessors of the resolved snapshot that are more than one setting: the host and the redirect
  URL, the upstream annotation, the HTTPRoute settings and the managed Gateway
  (\<open>general.go\<close>, \<open>gateway.go\<close>, \<open>target.go\<close>, \<open>GetRedirectURL\<close> of \<open>oauth2.go\<close>).
\<close>

subsection \<open>Host and redirect URL\<close>

definition GetHost :: "'e env_scheme \<Rightarrow> resolved_config \<Rightarrow> string" where
  "GetHost E rc =
     (let domain = DomainName (rc_global rc);
          name_ns = GetName (rc_object rc) @ ''-'' @ GetNamespace (rc_object rc);
          prefix0 =
            (case HTTPRoute (rc_target rc) of
               None \<Rightarrow> name_ns
             | Some h \<Rightarrow>
                 if HostPrefix h \<noteq> [] then HostPrefix h @ ''-'' @ GenerateSha256 E name_ns else name_ns);
          (prefix1, domain1) =
            (case HTTPRoute (rc_target rc) of
               None \<Rightarrow> (prefix0, domain)
             | Some h \<Rightarrow>
                 if Host h \<noteq> [] then (case Cut (Host h) ''.'' of (b, a, _) \<Rightarrow> (b, a))
                 else (prefix0, domain))
      in if domain1 = [] then prefix1 else Join [prefix1, domain1] ''.'')"

definition GetRedirectURL :: "'e env_scheme \<Rightarrow> resolved_config \<Rightarrow> string" where
  "GetRedirectURL E rc =
     (case non_empty (Oauth2Proxy (rc_target rc)) RedirectURL of
        Some v \<Rightarrow> v
      | None \<Rightarrow> ''https://'' @ GetHost E rc @ ''/oauth2/callback'')"

definition GetUpstreamTarget :: "'e env_scheme \<Rightarrow> resolved_config \<Rightarrow> string" where
  "GetUpstreamTarget E rc =
     (let protocol = (if TargetProtocol (rc_target rc) = ''https'' then ''https'' else ''http'')
      in ''protocol='' @ protocol @ '', port='' @ intstr_string E (TargetPort (rc_target rc)))"

definition GetTargetLabelSelector :: "resolved_config \<Rightarrow> label_selector option" where
  "GetTargetLabelSelector rc = LabelSelector (rc_target rc)"

text \<open>\<open>^/[-a-zA-Z0-9/_.~]+$\<close> and the length bound.\<close>

definition maxDefaultPathLength :: nat where
  "maxDefaultPathLength = 32"

definition default_path_char :: "char \<Rightarrow> bool" where
  "default_path_char c \<longleftrightarrow> is_alnum c \<or> c \<in> set ''-/_.~''"

definition validDefaultPathRe :: "string \<Rightarrow> bool" where
  "validDefaultPathRe path =
     (case path of
        [] \<Rightarrow> False
      | c # rest \<Rightarrow> c = CHR ''/'' \<and> rest \<noteq> [] \<and> list_all default_path_char rest)"

definition isValidDefaultPath :: "string \<Rightarrow> bool" where
  "isValidDefaultPath path \<longleftrightarrow> length path \<le> maxDefaultPathLength \<and> validDefaultPathRe path"

subsection \<open>HTTPRoute and Gateway\<close>

definition isManagedGatewayEnabled :: "resolved_config \<Rightarrow> bool" where
  "isManagedGatewayEnabled rc = (case Gateway (rc_global rc) of None \<Rightarrow> False | Some g \<Rightarrow> Managed g)"

text \<open>The warning about a route without a parent is a log line.\<close>

definition ShallCreateHTTPRoute :: "resolved_config \<Rightarrow> bool" where
  "ShallCreateHTTPRoute rc =
     (case HTTPRoute (rc_target rc) of None \<Rightarrow> False | Some h \<Rightarrow> Create h)"

definition IsManagedGatewayEnabled :: "controller_config option \<Rightarrow> bool" where
  "IsManagedGatewayEnabled c =
     (case c of
        None \<Rightarrow> False
      | Some cfg \<Rightarrow> (case Gateway (Global cfg) of None \<Rightarrow> False | Some g \<Rightarrow> Managed g))"

definition GetManagedGatewayConf :: "controller_config \<Rightarrow> gateway_global_conf option" where
  "GetManagedGatewayConf c = Gateway (Global c)"

definition GetHTTPRouteParentRefs :: "'e env_scheme \<Rightarrow> resolved_config \<Rightarrow> http_route_parent_ref list" where
  "GetHTTPRouteParentRefs E rc =
     (let own = (case HTTPRoute (rc_target rc) of None \<Rightarrow> [] | Some h \<Rightarrow> hr_ParentRefs h)
      in if own \<noteq> [] then own
         else (case Gateway (rc_global rc) of
                 None \<Rightarrow> []
               | Some g \<Rightarrow>
                   if Managed g then
                     [\<lparr>ref_Name = (if gw_Name g = [] then ManagedGatewayName else gw_Name g),
                       ref_Namespace = getenv E NAMESPACE, ref_SectionName = ''''\<rparr>]
                   else []))"

definition GetHTTPRouteAnnotations :: "resolved_config \<Rightarrow> smap" where
  "GetHTTPRouteAnnotations rc =
     (case HTTPRoute (rc_target rc) of None \<Rightarrow> fmempty | Some h \<Rightarrow> hr_Annotations h)"

definition GetHTTPRouteLabels :: "resolved_config \<Rightarrow> smap" where
  "GetHTTPRouteLabels rc =
     (case HTTPRoute (rc_target rc) of None \<Rightarrow> fmempty | Some h \<Rightarrow> hr_Labels h)"

definition GetHTTPRouteDefaultPath :: "resolved_config \<Rightarrow> string" where
  "GetHTTPRouteDefaultPath rc =
     (case HTTPRoute (rc_target rc) of
        None \<Rightarrow> ''''
      | Some h \<Rightarrow> if isValidDefaultPath (DefaultPath h) then DefaultPath h else '''')"

subsection \<open>Facts\<close>

text \<open>An explicit host is the host, unless its only dot ends it.\<close>

lemma GetHost_explicit:
  assumes "HTTPRoute (rc_target rc) = Some h" and "Host h \<noteq> []"
    and "Cut (Host h) ''.'' = (b, a, f)" and "f \<Longrightarrow> a \<noteq> []"
  shows "GetHost E rc = Host h"
proof (cases f)
  case True
  with Cut_found [of "Host h" "''.''" b a] assms(3,4) have "Host h = b @ ''.'' @ a" "a \<noteq> []"
    by auto
  with assms show ?thesis by (simp add: GetHost_def)
next
  case False
  with Cut_not_found [of "Host h" "''.''" b a] assms(3) have "b = Host h" "a = []" by auto
  with assms show ?thesis by (simp add: GetHost_def)
qed

lemma GetHost_default:
  assumes "HTTPRoute (rc_target rc) = None"
    and "DomainName (rc_global rc) \<noteq> []"
  shows "GetHost E rc =
    GetName (rc_object rc) @ ''-'' @ GetNamespace (rc_object rc) @ ''.'' @ DomainName (rc_global rc)"
  using assms by (simp add: GetHost_def)

lemma GetRedirectURL_shape:
  assumes "non_empty (Oauth2Proxy (rc_target rc)) RedirectURL = None"
  shows "GetRedirectURL E rc = ''https://'' @ GetHost E rc @ ''/oauth2/callback''"
  using assms by (simp add: GetRedirectURL_def)

lemma isValidDefaultPath_slash: "isValidDefaultPath p \<Longrightarrow> \<exists>q. p = CHR ''/'' # q \<and> q \<noteq> []"
  by (auto simp: isValidDefaultPath_def validDefaultPathRe_def split: list.splits)

lemma isValidDefaultPath_chars:
  "isValidDefaultPath p \<Longrightarrow> c \<in> set p \<Longrightarrow> default_path_char c"
  by (auto simp: isValidDefaultPath_def validDefaultPathRe_def list_all_iff default_path_char_def
      split: list.splits)

lemma GetHTTPRouteDefaultPath_valid:
  "GetHTTPRouteDefaultPath rc = '''' \<or> isValidDefaultPath (GetHTTPRouteDefaultPath rc)"
  by (simp add: GetHTTPRouteDefaultPath_def split: option.split)

lemma GetHTTPRouteParentRefs_nonempty:
  "isManagedGatewayEnabled rc \<Longrightarrow> GetHTTPRouteParentRefs E rc \<noteq> []"
  by (auto simp: GetHTTPRouteParentRefs_def isManagedGatewayEnabled_def Let_def split: option.splits)

text \<open>\<open>GetOidcCABundle\<close> against the encoder: a bundle that was encoded is read back.\<close>

lemma GetOidcCABundle_target:
  "OidcCABundle (rc_target rc) = EncodeToString pem \<Longrightarrow> pem \<noteq> [] \<Longrightarrow> GetOidcCABundle rc = pem"
  by (simp add: GetOidcCABundle_def DecodeString_Encode)

lemma GetOidcCABundle_global:
  "OidcCABundle (rc_target rc) = [] \<Longrightarrow> OidcCABundle (rc_global rc) = EncodeToString pem \<Longrightarrow>
   GetOidcCABundle rc = pem"
  by (simp add: GetOidcCABundle_def DecodeString_Encode)
    (simp add: DecodeString_def)

lemma GetOidcCABundle_invalid:
  "OidcCABundle (rc_target rc) \<noteq> [] \<Longrightarrow> DecodeString (OidcCABundle (rc_target rc)) = None \<Longrightarrow>
   GetOidcCABundle rc = ''''"
  by (simp add: GetOidcCABundle_def)

end
