(* ===== verification/Oauth2_Template.thy ===== *)
theory Oauth2_Template
  imports Config_Access
begin

text \<open>
  Rendering of the oauth2-proxy configuration (\<open>oauth2-proxy-template.go\<close>): the option setters, the
  line-by-line rewriting of the embedded template, and the resource attributes of the kube-rbac-proxy
  (\<open>resource-attributes-template.go\<close>), whose yaml codec is a parameter.
\<close>

subsection \<open>Options\<close>

record oauth2_config =
  clientID :: string
  clientSecretFile :: string
  clientSecret :: string
  scope :: string
  redirectURL :: string
  oidcIssuerURL :: string
  sslInsecureSkipVerify :: bool
  insecureOidcSkipIssuerVerification :: bool
  insecureOidcSkipNonce :: bool

definition empty_oauth2_config :: oauth2_config where
  "empty_oauth2_config =
     \<lparr>clientID = '''', clientSecretFile = '''', clientSecret = '''', scope = '''', redirectURL = '''',
      oidcIssuerURL = '''', sslInsecureSkipVerify = False,
      insecureOidcSkipIssuerVerification = False, insecureOidcSkipNonce = False\<rparr>"

type_synonym OptOauth2 = "oauth2_config \<Rightarrow> oauth2_config"

definition WithClientID :: "string \<Rightarrow> OptOauth2" where
  "WithClientID id1 = (\<lambda>c. c\<lparr>clientID := id1\<rparr>)"

definition WithRedirectURL :: "string \<Rightarrow> OptOauth2" where
  "WithRedirectURL url = (\<lambda>c. c\<lparr>redirectURL := url\<rparr>)"

definition WithScope :: "string \<Rightarrow> OptOauth2" where
  "WithScope sc = (\<lambda>c. c\<lparr>scope := sc\<rparr>)"

definition WithClientSecret :: "string \<Rightarrow> OptOauth2" where
  "WithClientSecret path = (\<lambda>c. c\<lparr>clientSecret := path\<rparr>)"

definition WithClientSecretFile :: "string \<Rightarrow> OptOauth2" where
  "WithClientSecretFile path = (\<lambda>c. c\<lparr>clientSecretFile := path\<rparr>)"

definition WithOidcIssuerURL :: "string \<Rightarrow> OptOauth2" where
  "WithOidcIssuerURL url = (\<lambda>c. c\<lparr>oidcIssuerURL := url\<rparr>)"

definition EnableSslInsecureSkipVerify :: "bool \<Rightarrow> OptOauth2" where
  "EnableSslInsecureSkipVerify b = (\<lambda>c. c\<lparr>sslInsecureSkipVerify := b\<rparr>)"

definition EnableInsecureOidcSkipIssuerVerification :: "bool \<Rightarrow> OptOauth2" where
  "EnableInsecureOidcSkipIssuerVerification b = (\<lambda>c. c\<lparr>insecureOidcSkipIssuerVerification := b\<rparr>)"

definition EnableInsecureOidcSkipNonce :: "bool \<Rightarrow> OptOauth2" where
  "EnableInsecureOidcSkipNonce b = (\<lambda>c. c\<lparr>insecureOidcSkipNonce := b\<rparr>)"

lemmas option_defs = WithClientID_def WithRedirectURL_def WithScope_def WithClientSecret_def
  WithClientSecretFile_def WithOidcIssuerURL_def EnableSslInsecureSkipVerify_def
  EnableInsecureOidcSkipIssuerVerification_def EnableInsecureOidcSkipNonce_def

fun apply_opts :: "('a \<Rightarrow> 'a) list \<Rightarrow> 'a \<Rightarrow> 'a" where
  "apply_opts [] c = c"
| "apply_opts (f # fs) c = apply_opts fs (f c)"

definition NewOAuth2Config :: "OptOauth2 list \<Rightarrow> oauth2_config" where
  "NewOAuth2Config opts = apply_opts opts empty_oauth2_config"

subsection \<open>The template\<close>

definition template_lines :: "string list" where
  "template_lines =
     [''# oauth2-proxy configuration for the target oidc provider'',
      ''scope                                  = '' @ [CHR 0x22] @ ''openid email'' @ [CHR 0x22],
      ''client_id                              = '' @ [CHR 0x22, CHR 0x22],
      ''# optionally it shall support also the client_secret setting, for the cases when PKCE is not available'',
      ''client_secret                          = '' @ [CHR 0x22, CHR 0x22],
      ''client_secret_file                     = '' @ [CHR 0x22] @ ''/dev/null'' @ [CHR 0x22],
      ''redirect_url                           = '' @ [CHR 0x22] @ ''https://..../oauth2/callback'' @ [CHR 0x22],
      ''oidc_issuer_url                        = '' @ [CHR 0x22] @ ''https://....'' @ [CHR 0x22],
      ''ssl_insecure_skip_verify               = '' @ [CHR 0x22] @ ''false'' @ [CHR 0x22],
      ''insecure_oidc_skip_issuer_verification = '' @ [CHR 0x22] @ ''false'' @ [CHR 0x22],
      ''insecure_oidc_skip_nonce               = '' @ [CHR 0x22] @ ''false'' @ [CHR 0x22]]"

definition oauth2 :: string where
  "oauth2 = Join template_lines [newline]"

subsection \<open>Rendering\<close>

definition setting :: "string \<Rightarrow> string \<Rightarrow> string" where
  "setting l v = l @ ''='' @ [CHR 0x22] @ v @ [CHR 0x22]"

definition rewrite_line :: "oauth2_config \<Rightarrow> string \<Rightarrow> string" where
  "rewrite_line c line =
     (if Contains line ''='' then
        (let parts = SplitN2 line ''='' in
         if length parts = 2 then
           (let l = TrimSpace (parts ! 0) in
            if l = ''scope'' then setting l (scope c)
            else if l = ''client_id'' then setting l (clientID c)
            else if l = ''client_secret'' then
              (if clientSecret c \<noteq> [] then setting l (clientSecret c) else [])
            else if l = ''client_secret_file'' then
              (if clientSecret c = [] then setting l (clientSecretFile c) else [])
            else if l = ''redirect_url'' then setting l (redirectURL c)
            else if l = ''oidc_issuer_url'' then setting l (oidcIssuerURL c)
            else if l = ''ssl_insecure_skip_verify'' then setting l (FormatBool (sslInsecureSkipVerify c))
            else if l = ''insecure_oidc_skip_issuer_verification''
              then setting l (FormatBool (insecureOidcSkipIssuerVerification c))
            else if l = ''insecure_oidc_skip_nonce'' then setting l (FormatBool (insecureOidcSkipNonce c))
            else line)
         else line)
      else line)"

fun render_lines :: "oauth2_config \<Rightarrow> string list \<Rightarrow> string" where
  "render_lines c [] = []"
| "render_lines c (line # lines) =
     (if HasPrefix line ''#'' then render_lines c lines
      else
        (let line' = rewrite_line c line
         in (if length line' > 0 then line' @ [newline] else []) @ render_lines c lines))"

definition Parse :: "oauth2_config \<Rightarrow> string" where
  "Parse c = TrimSuffix (render_lines c (scan_lines oauth2)) [newline]"

subsection \<open>What is rendered\<close>

lemma Join_Cons: "ls \<noteq> [] \<Longrightarrow> Join (l # ls) sep = l @ sep @ Join ls sep"
  by (cases ls) simp_all

text \<open>Scanning joined lines gives the lines, unless one holds a line break or ends in one.\<close>

lemma Split_Join:
  "ls \<noteq> [] \<Longrightarrow> (\<And>l. l \<in> set ls \<Longrightarrow> c \<notin> set l) \<Longrightarrow> Split (Join ls [c]) c = ls"
proof (induction ls)
  case (Cons l ls)
  show ?case
  proof (cases "ls = []")
    case True
    with Cons.prems show ?thesis by (simp add: Split_no_char)
  next
    case False
    have "c \<notin> set l" using Cons.prems by simp
    moreover have "Split (Join ls [c]) c = ls" using Cons False by simp
    ultimately show ?thesis using False by (simp add: Join_Cons Split_append Split_no_char)
  qed
qed simp

definition plain_line :: "string \<Rightarrow> bool" where
  "plain_line l \<longleftrightarrow> newline \<notin> set l \<and> l \<noteq> [] \<and> last l \<noteq> carriage"

lemma scan_lines_Join:
  assumes "ls \<noteq> []" and "\<And>l. l \<in> set ls \<Longrightarrow> plain_line l"
  shows "scan_lines (Join ls [newline]) = ls"
proof -
  have "Split (Join ls [newline]) newline = ls"
    using assms by (intro Split_Join) (auto simp: plain_line_def)
  moreover have "last ls \<noteq> []" using assms last_in_set [OF assms(1)] by (auto simp: plain_line_def)
  moreover have "map drop_cr ls = ls"
    using assms(2) by (intro map_idI) (auto simp: drop_cr_def plain_line_def)
  ultimately show ?thesis by (simp add: scan_lines_def Let_def)
qed

lemma scan_template: "scan_lines oauth2 = template_lines"
  unfolding oauth2_def
  by (rule scan_lines_Join) (auto simp: template_lines_def plain_line_def)

text \<open>The lines a configuration is rendered to.\<close>

definition rendered_lines :: "oauth2_config \<Rightarrow> string list" where
  "rendered_lines c =
     [setting ''scope'' (scope c), setting ''client_id'' (clientID c),
      (if clientSecret c \<noteq> [] then setting ''client_secret'' (clientSecret c)
       else setting ''client_secret_file'' (clientSecretFile c)),
      setting ''redirect_url'' (redirectURL c), setting ''oidc_issuer_url'' (oidcIssuerURL c),
      setting ''ssl_insecure_skip_verify'' (FormatBool (sslInsecureSkipVerify c)),
      setting ''insecure_oidc_skip_issuer_verification'' (FormatBool (insecureOidcSkipIssuerVerification c)),
      setting ''insecure_oidc_skip_nonce'' (FormatBool (insecureOidcSkipNonce c))]"

lemma rewrite_template:
  "map (rewrite_line c) (filter (\<lambda>l. \<not> HasPrefix l ''#'') template_lines) =
     [setting ''scope'' (scope c), setting ''client_id'' (clientID c),
      (if clientSecret c \<noteq> [] then setting ''client_secret'' (clientSecret c) else []),
      (if clientSecret c = [] then setting ''client_secret_file'' (clientSecretFile c) else []),
      setting ''redirect_url'' (redirectURL c), setting ''oidc_issuer_url'' (oidcIssuerURL c),
      setting ''ssl_insecure_skip_verify'' (FormatBool (sslInsecureSkipVerify c)),
      setting ''insecure_oidc_skip_issuer_verification'' (FormatBool (insecureOidcSkipIssuerVerification c)),
      setting ''insecure_oidc_skip_nonce'' (FormatBool (insecureOidcSkipNonce c))]"
  by (simp add: template_lines_def rewrite_line_def SplitN2_def TrimSpace_def is_space_def Let_def)

lemma render_lines_concat:
  "render_lines c ls =
     concat (map (\<lambda>l. l @ [newline])
       (filter (\<lambda>l. l \<noteq> []) (map (rewrite_line c) (filter (\<lambda>l. \<not> HasPrefix l ''#'') ls))))"
  by (induction ls) (simp_all add: Let_def)

lemma setting_nonempty [simp]: "setting l v \<noteq> []"
  by (simp add: setting_def)

lemma render_template:
  "render_lines c template_lines = concat (map (\<lambda>l. l @ [newline]) (rendered_lines c))"
  by (simp add: render_lines_concat rewrite_template rendered_lines_def)

lemma concat_lines: "ls \<noteq> [] \<Longrightarrow> concat (map (\<lambda>l. l @ [c]) ls) = Join ls [c] @ [c]"
proof (induction ls)
  case (Cons l ls)
  then show ?case by (cases "ls = []") (simp_all add: Join_Cons)
qed simp

lemma Parse_rendered: "Parse c = Join (rendered_lines c) [newline]"
proof -
  have "rendered_lines c \<noteq> []" by (simp add: rendered_lines_def)
  then show ?thesis
    by (simp add: Parse_def scan_template render_template concat_lines)
qed

text \<open>Reading a rendered configuration back: the value of a key is the text between the quotes of
  the line that starts with the key.\<close>

fun lookup_setting :: "string list \<Rightarrow> string \<Rightarrow> string option" where
  "lookup_setting [] k = None"
| "lookup_setting (l # ls) k =
     (if HasPrefix l (k @ ''='' @ [CHR 0x22]) then Some (butlast (drop (length k + 2) l))
      else lookup_setting ls k)"

definition clean :: "string \<Rightarrow> bool" where
  "clean v \<longleftrightarrow> newline \<notin> set v"

definition clean_config :: "oauth2_config \<Rightarrow> bool" where
  "clean_config c \<longleftrightarrow> list_all clean [clientID c, clientSecretFile c, clientSecret c, scope c,
     redirectURL c, oidcIssuerURL c]"

lemma scan_Parse:
  assumes "clean_config c"
  shows "scan_lines (Parse c) = rendered_lines c"
  unfolding Parse_rendered
  using assms
  by (intro scan_lines_Join)
    (auto simp: rendered_lines_def plain_line_def setting_def clean_config_def clean_def FormatBool_def
      split: if_splits)

lemma lookup_setting_hit [simp]: "lookup_setting (setting k v # ls) k = Some v"
  by (simp add: setting_def HasPrefix_def)

subsection \<open>Resource attributes\<close>

text \<open>\<open>gopkg.in/yaml.v3\<close> is not part of the sources: \<open>unmarshal_root\<close> fills a structure from the embedded
  document (an error is ignored by the code and leaves some structure), \<open>marshal_root\<close> prints one.\<close>

record resource_attributes =
  APIGroup :: string
  APIVersion :: string
  Resource :: string
  Subresource :: string
  ra_Namespace :: string

record rbac_yaml =
  unmarshal_root :: "string \<Rightarrow> resource_attributes \<Rightarrow> resource_attributes"
  marshal_root :: "resource_attributes \<Rightarrow> string"

definition rbac :: string where
  "rbac = Join
     [''authorization:'',
      ''  resourceAttributes:'',
      ''    apiGroup: authorization.oidc-apps.io'',
      ''    apiVersion: v1alpha1'',
      ''    resource: oidc-apps'',
      ''    subresource: '' @ [CHR 0x22] @ ''...'' @ [CHR 0x22],
      ''    namespace: '' @ [CHR 0x22] @ ''...'' @ [CHR 0x22]] [newline] @ [newline]"

type_synonym OptRAttributes = "resource_attributes \<Rightarrow> resource_attributes"

definition WithNamespace :: "string \<Rightarrow> OptRAttributes" where
  "WithNamespace namespace = (\<lambda>r. r\<lparr>ra_Namespace := namespace\<rparr>)"

definition WithSubresource :: "string \<Rightarrow> OptRAttributes" where
  "WithSubresource subresource = (\<lambda>r. r\<lparr>Subresource := subresource\<rparr>)"

definition NewResourceAttributes :: "rbac_yaml \<Rightarrow> OptRAttributes list \<Rightarrow> resource_attributes" where
  "NewResourceAttributes Y opts =
     apply_opts opts
       (unmarshal_root Y rbac
         \<lparr>APIGroup = '''', APIVersion = '''', Resource = '''', Subresource = '''', ra_Namespace = ''''\<rparr>)"

definition Parse_root :: "rbac_yaml \<Rightarrow> resource_attributes \<Rightarrow> string" where
  "Parse_root Y r = marshal_root Y r"

end
