(* ===== verification/Webhook_Modifiers.thy ===== *)
theory Webhook_Modifiers
  imports Oauth2_Template
begin

text \<open>
  The pod modifications of the webhook (\<open>pkg/webhook/modifiers.go\<close>): annotations, labels,
  image pull secrets, projected secret volumes, the upstream URL and the two sidecar containers.
  A function that writes through a pointer returns the updated value; one that may panic returns a
  result.
\<close>

definition defaultKubeRbacProxyImage :: string where
  "defaultKubeRbacProxyImage = ''ghcr.io/nickytd/oidc-apps/kube-rbac-proxy:latest''"

definition defaultOAuth2ProxyImage :: string where
  "defaultOAuth2ProxyImage = ''quay.io/oauth2-proxy/oauth2-proxy:v7.15.6''"

text \<open>\<open>^--[a-z][a-z0-9-]+(=.*)?$\<close>; the class after the first letter does not contain \<open>=\<close>, and \<open>.\<close> matches
  every character but a line break.\<close>

definition arg_name_char :: "char \<Rightarrow> bool" where
  "arg_name_char c \<longleftrightarrow> is_lower c \<or> digit_val c \<noteq> None \<or> c = CHR ''-''"

definition oauth2ProxyArgPattern :: "string \<Rightarrow> bool" where
  "oauth2ProxyArgPattern s =
     (case s of
        a # b # c # rest \<Rightarrow>
          a = CHR ''-'' \<and> b = CHR ''-'' \<and> is_lower c \<and> takeWhile arg_name_char rest \<noteq> [] \<and>
          (case dropWhile arg_name_char rest of
             [] \<Rightarrow> True
           | d # v \<Rightarrow> d = CHR ''='' \<and> newline \<notin> set v)
      | _ \<Rightarrow> False)"

definition getImage :: "'e env_scheme \<Rightarrow> string \<Rightarrow> string \<Rightarrow> string" where
  "getImage E envVar defaultImage = (let v = getenv E envVar in if v \<noteq> [] then v else defaultImage)"

subsection \<open>Annotations and labels\<close>

text \<open>The suffix annotation of an object, created (and kept on the object) when it is missing.\<close>

definition fetchTargetSuffix ::
  "'e env_scheme \<Rightarrow> 'a object_meta_scheme \<Rightarrow> string \<times> 'a object_meta_scheme" where
  "fetchTargetSuffix E t =
     (let objectAnnotations = made (GetAnnotations t) in
      case fmlookup objectAnnotations AnnotationSuffixKey of
        Some suffix \<Rightarrow> (suffix, t)
      | None \<Rightarrow>
          (let suffix = GenerateSha256 E (GetName t @ ''-'' @ GetNamespace t)
           in (suffix, t\<lparr>GetAnnotations := fmupd AnnotationSuffixKey suffix objectAnnotations\<rparr>)))"

definition oauth2_options :: "'e env_scheme \<Rightarrow> resolved_config \<Rightarrow> OptOauth2 \<Rightarrow> OptOauth2 list" where
  "oauth2_options E rc client_secret_opt =
     [WithClientID (GetClientID rc),
      client_secret_opt,
      WithScope (GetScope rc),
      WithRedirectURL (GetRedirectURL E rc),
      WithOidcIssuerURL (GetOidcIssuerURL rc),
      EnableSslInsecureSkipVerify (GetSslInsecureSkipVerify rc),
      EnableInsecureOidcSkipIssuerVerification (GetInsecureOidcSkipIssuerVerification rc),
      EnableInsecureOidcSkipNonce (GetInsecureOidcSkipNonce rc)]"

text \<open>The configuration whose checksum the pod is annotated with.\<close>

definition checksum_config :: "'e env_scheme \<Rightarrow> resolved_config \<Rightarrow> string" where
  "checksum_config E rc =
     (if GetClientSecret rc = '''' then
        Parse (NewOAuth2Config (oauth2_options E rc (WithClientSecretFile ''/dev/null'')))
      else
        Parse (NewOAuth2Config (oauth2_options E rc (WithClientSecret (GetClientSecret rc)))))"

definition get2ProxySecretChecksum :: "'e env_scheme \<Rightarrow> resolved_config \<Rightarrow> string" where
  "get2ProxySecretChecksum E rc = GenerateFullSha256 E (checksum_config E rc)"

text \<open>A non-empty annotation map is shared with the object while it is written, so the suffix lookup
  sees the entries written before it.\<close>

definition addAnnotations ::
  "'e env_scheme \<Rightarrow> 'a object_meta_scheme \<Rightarrow> resolved_config \<Rightarrow> 'a object_meta_scheme" where
  "addAnnotations E t rc =
     (let a0 = made (GetAnnotations t);
          a1 = fmupd AnnotationKey (GetName t) a0;
          a2 = fmupd AnnotationHostKey (GetHost E rc) a1;
          a3 = fmupd AnnotationTargetKey (GetUpstreamTarget E rc) a2;
          shared = (if GetAnnotations t = fmempty then t else t\<lparr>GetAnnotations := a3\<rparr>);
          a4 = fmupd AnnotationSuffixKey (fst (fetchTargetSuffix E shared)) a3;
          a5 = fmupd AnnotationOauth2SecretChecksumKey (get2ProxySecretChecksum E rc) a4
      in t\<lparr>GetAnnotations := a5\<rparr>)"

definition addPodLabels :: "pod \<Rightarrow> smap \<Rightarrow> pod" where
  "addPodLabels p lbls =
     (if lbls = fmempty then p
      else p\<lparr>GetLabels := maps_Copy (made (GetLabels p)) lbls\<rparr>)"

definition addPodAnnotations :: "pod \<Rightarrow> smap \<Rightarrow> pod" where
  "addPodAnnotations p ann =
     (let annotations = made (GetAnnotations p)
      in if ann = fmempty then p\<lparr>GetAnnotations := annotations\<rparr>
         else p\<lparr>GetAnnotations := maps_Copy annotations ann\<rparr>)"

subsection \<open>Image pull secrets, volumes, containers\<close>

definition addImagePullSecret :: "string \<Rightarrow> pod_spec \<Rightarrow> pod_spec" where
  "addImagePullSecret secretName spec =
     (if secretName = [] then spec
      else if ImagePullSecrets spec = [] then spec\<lparr>ImagePullSecrets := [secretName]\<rparr>
      else if list_ex (\<lambda>s. s = secretName) (ImagePullSecrets spec) then spec
      else spec\<lparr>ImagePullSecrets := ImagePullSecrets spec @ [secretName]\<rparr>)"

fun find_index :: "('a \<Rightarrow> bool) \<Rightarrow> 'a list \<Rightarrow> nat option" where
  "find_index p [] = None"
| "find_index p (x # xs) = (if p x then Some 0 else map_option Suc (find_index p xs))"

text \<open>The loop over the sources of a projected volume reads \<open>source.Secret.Name\<close>: a source of another
  kind has no secret, and the read panics.\<close>

fun has_secret_source :: "string \<Rightarrow> projection list \<Rightarrow> bool res" where
  "has_secret_source n [] = Inr False"
| "has_secret_source n (SecretSource sp # srcs) =
     (if sp_Name sp = n then Inr True else has_secret_source n srcs)"
| "has_secret_source n (src # srcs) = Inl (Panic ''nil pointer dereference'')"

definition secret_projection_for :: "string \<Rightarrow> projection" where
  "secret_projection_for secretName =
     SecretSource \<lparr>sp_Name = secretName, sp_Items = [], sp_Optional = Some False\<rparr>"

text \<open>
  The volume is fetched by value: the pointer to its projected source is shared with the pod, the
  rest is a copy. An existing volume without a projected source is therefore left as it is, and the
  assignment to the loop variable in the replacement branch changes nothing.
\<close>

definition addProjectedSecretSourceVolume :: "string \<Rightarrow> string \<Rightarrow> pod_spec \<Rightarrow> pod_spec res" where
  "addProjectedSecretSourceVolume volumeName secretName spec =
     (let secret = secret_projection_for secretName;
          set_sources = (\<lambda>i srcs. spec\<lparr>Volumes := (Volumes spec)[i := (Volumes spec ! i)\<lparr>Projected := Some srcs\<rparr>]\<rparr>)
      in (case find_index (\<lambda>v. v_Name v = volumeName) (Volumes spec) of
            None \<Rightarrow>
              Inr (spec\<lparr>Volumes := Volumes spec @
                [\<lparr>v_Name = volumeName, Projected = Some [secret], v_Other = None\<rparr>]\<rparr>)
          | Some i \<Rightarrow>
              (case Projected (Volumes spec ! i) of
                 None \<Rightarrow> Inr spec
               | Some sources \<Rightarrow>
                   if sources = [] then Inr (set_sources i [secret])
                   else res_bind (has_secret_source secretName sources)
                     (\<lambda>found. if found then Inr spec else Inr (set_sources i (sources @ [secret]))))))"

definition addProxyContainer :: "string \<Rightarrow> container \<Rightarrow> pod_spec \<Rightarrow> pod_spec" where
  "addProxyContainer name c spec =
     (let kept = (case find_index (\<lambda>x. c_Name x = name) (Containers spec) of
                    None \<Rightarrow> Containers spec
                  | Some i \<Rightarrow> take i (Containers spec) @ drop (i + 1) (Containers spec))
      in spec\<lparr>Containers := kept @ [c]\<rparr>)"

subsection \<open>Names and the upstream\<close>

definition shallAddKubeConfigSecretName :: "resolved_config \<Rightarrow> bool" where
  "shallAddKubeConfigSecretName rc \<longleftrightarrow> GetKubeConfigStr rc \<noteq> [] \<or> GetKubeSecretName rc \<noteq> []"

definition shallAddOidcCaSecretName :: "resolved_config \<Rightarrow> bool" where
  "shallAddOidcCaSecretName rc \<longleftrightarrow> GetOidcCABundle rc \<noteq> [] \<or> GetOidcCASecretName rc \<noteq> []"

definition fetchKubconfigSecretName :: "string \<Rightarrow> resolved_config \<Rightarrow> string" where
  "fetchKubconfigSecretName suffix rc =
     (if GetKubeConfigStr rc \<noteq> [] then ''kubeconfig-'' @ suffix
      else if GetKubeSecretName rc \<noteq> [] then GetKubeSecretName rc
      else SecretNameKubeconfig @ ''-'' @ suffix)"

definition fetchOidcCASecretName :: "string \<Rightarrow> resolved_config \<Rightarrow> string" where
  "fetchOidcCASecretName suffix rc =
     (if GetOidcCABundle rc \<noteq> [] then SecretNameOidcCa @ ''-'' @ suffix else GetOidcCASecretName rc)"

text \<open>A named port is looked up in container order, then port order.\<close>

definition named_port :: "string \<Rightarrow> pod_spec \<Rightarrow> int option" where
  "named_port port spec =
     map_option ContainerPort (find (\<lambda>p. port_Name p = port) (concat (map Ports (Containers spec))))"

definition buildUpstreamURL :: "string \<Rightarrow> pod_spec \<Rightarrow> string" where
  "buildUpstreamURL t spec =
     (case Cut t '','' of (before, after, _) \<Rightarrow>
        (let (protocol0, f) = CutPrefix before ''protocol='';
             protocol = (if \<not> f then ''http'' else protocol0);
             port = fst (CutPrefix after '' port='')
         in if port = [] then protocol @ ''://localhost''
            else (case Atoi port of
                    Some _ \<Rightarrow> protocol @ ''://localhost'' @ '':'' @ port
                  | None \<Rightarrow>
                      (case named_port port spec of
                         Some n \<Rightarrow> protocol @ ''://localhost'' @ '':'' @ Itoa n
                       | None \<Rightarrow> ''''))))"

subsection \<open>The sidecar containers\<close>

definition default_requests :: smap where
  "default_requests = smap_of [(''cpu'', ''5m''), (''memory'', ''32Mi'')]"

definition memory_of :: "smap \<Rightarrow> string" where
  "memory_of r = (case fmlookup r ''memory'' of Some q \<Rightarrow> q | None \<Rightarrow> ''0'')"

text \<open>The requests of an already injected container are kept when its memory is above 100Mi.\<close>

fun kept_requests :: "'e env_scheme \<Rightarrow> string \<Rightarrow> smap \<Rightarrow> container list \<Rightarrow> smap" where
  "kept_requests E name r [] = r"
| "kept_requests E name r (c # cs) =
     kept_requests E name
       (if c_Name c \<noteq> name then r
        else (case Requests c of
                None \<Rightarrow> r
              | Some q \<Rightarrow> if quantity_above E (memory_of q) ''100Mi'' then q else r)) cs"

definition sidecar_security :: security_context where
  "sidecar_security =
     \<lparr>DropCapabilities = [''ALL''], AllowPrivilegeEscalation = Some False,
      ReadOnlyRootFilesystem = Some True\<rparr>"

definition token_mounts :: "volume list \<Rightarrow> volume_mount list" where
  "token_mounts vs =
     map (\<lambda>v. \<lparr>vm_Name = v_Name v, ReadOnly = True,
                MountPath = ''/var/run/secrets/kubernetes.io/serviceaccount''\<rparr>)
       (filter (\<lambda>v. case Projected v of
                       None \<Rightarrow> False
                     | Some srcs \<Rightarrow> list_ex (\<lambda>s. s = ServiceAccountTokenSource) srcs) vs)"

definition getKubeRbacProxyContainer ::
  "'e env_scheme \<Rightarrow> string \<Rightarrow> string \<Rightarrow> string \<Rightarrow> pod option \<Rightarrow> resolved_config \<Rightarrow> container" where
  "getKubeRbacProxyContainer E client_id issuerURL upstream p rc =
     (case p of
        None \<Rightarrow> empty_container
      | Some pd \<Rightarrow>
          \<lparr>c_Name = ContainerNameKubeRbacProxy,
           Image = getImage E ''KUBE_RBAC_PROXY_IMAGE'' defaultKubeRbacProxyImage,
           ImagePullPolicy = ''IfNotPresent'',
           Args =
             [''--insecure-listen-address=0.0.0.0:8100'',
              ''--oidc-clientID='' @ client_id,
              ''--oidc-issuer='' @ issuerURL,
              ''--upstream='' @ upstream,
              ''--config-file=/etc/kube-rbac-proxy/config-file.yaml'']
             @ (if shallAddKubeConfigSecretName rc
                then [''--kubeconfig=/etc/kube-rbac-proxy/kubeconfig''] else [])
             @ (if shallAddOidcCaSecretName rc
                then [''--oidc-ca-file=/etc/kube-rbac-proxy/ca.crt''] else []),
           Ports = [\<lparr>port_Name = ''rbac'', ContainerPort = 8100\<rparr>],
           SecurityContext = Some sidecar_security,
           Requests = Some (kept_requests E ContainerNameKubeRbacProxy default_requests (Containers (pod_Spec pd))),
           VolumeMounts =
             \<lparr>vm_Name = KubeRbacProxyVolumeName, ReadOnly = True, MountPath = ''/etc/kube-rbac-proxy''\<rparr>
             # token_mounts (Volumes (pod_Spec pd))\<rparr>)"

definition getOIDCProxyContainer :: "'e env_scheme \<Rightarrow> pod_spec option \<Rightarrow> resolved_config \<Rightarrow> container" where
  "getOIDCProxyContainer E p rc =
     (case p of
        None \<Rightarrow> empty_container
      | Some spec \<Rightarrow>
          \<lparr>c_Name = ContainerNameOauth2Proxy,
           Image = getImage E ''OAUTH2_PROXY_IMAGE'' defaultOAuth2ProxyImage,
           ImagePullPolicy = ''IfNotPresent'',
           Args =
             [''--provider=oidc'',
              ''--config=/etc/oauth2-proxy/oauth2-proxy.cfg'',
              ''--code-challenge-method='' @ GetCodeChallengeMethod rc,
              ''--pass-authorization-header=true'',
              ''--cookie-secret-file=/etc/oauth2-proxy/'' @ Oauth2CookieSecretKey,
              ''--cookie-refresh='' @ GetCookieRefresh rc,
              ''--http-address=0.0.0.0:8000'',
              ''--email-domain='' @ GetEmailDomain rc,
              ''--reverse-proxy=true'',
              ''--skip-provider-button='' @ FormatBool (GetSkipProviderButton rc),
              ''--skip-jwt-bearer-tokens=true'',
              ''--approval-prompt='' @ GetApprovalPrompt rc,
              ''--upstream=http://127.0.0.1:8100'']
             @ (if shallAddOidcCaSecretName rc then [''--provider-ca-file=/etc/oauth2-proxy/ca.crt''] else [])
             @ filter oauth2ProxyArgPattern (GetExtraArgs rc),
           Ports = [\<lparr>port_Name = ''oauth2'', ContainerPort = 8000\<rparr>],
           SecurityContext = Some sidecar_security,
           Requests = Some (kept_requests E ContainerNameOauth2Proxy default_requests (Containers spec)),
           VolumeMounts =
             [\<lparr>vm_Name = Oauth2VolumeName, ReadOnly = True, MountPath = ''/etc/oauth2-proxy''\<rparr>]\<rparr>)"

end
