(* ===== verification/Kube_Client.thy ===== *)
theory Kube_Client
  imports Config_Types
begin

text \<open>
  The API client (\<open>sigs.k8s.io/controller-runtime/pkg/client\<close> and \<open>controllerutil\<close>) as a record of
  functions over an abstract state \<open>'s\<close>: what the cluster and the caches hold. Reads return a value
  or an error and do not change the state; writes return the new state. None of this is code of the
  repository, so nothing is defined here beyond the error filters; the laws a theorem needs are
  predicates on the record, stated below as the documentation gives them.
\<close>

type_synonym key = "string \<times> string"  \<comment> \<open>namespace, name\<close>

text \<open>Options of \<open>List\<close>: \<open>InNamespace\<close> and \<open>MatchingLabels\<close>.\<close>

record list_options =
  InNamespace :: "string option"
  MatchingLabels :: smap

text \<open>What a client can do with one kind of object.\<close>

record ('s, 'o) store =
  Get :: "'s \<Rightarrow> key \<Rightarrow> 'o res"
  List :: "'s \<Rightarrow> list_options \<Rightarrow> 'o list res"
  CreateObj :: "'o \<Rightarrow> ('s, unit) go"
  UpdateObj :: "'o \<Rightarrow> ('s, unit) go"
  DeleteObj :: "'o \<Rightarrow> ('s, unit) go"
  CreateOrUpdate :: "'o \<Rightarrow> ('o \<Rightarrow> 'o res) \<Rightarrow> ('s, unit) go"

record 's kube =
  namespaces :: "('s, object_meta) store"
  deployments :: "('s, deployment) store"
  statefulsets :: "('s, stateful_set) store"
  replicasets :: "('s, replica_set) store"
  pods :: "('s, pod) store"
  secrets :: "('s, secret) store"
  services :: "('s, service) store"
  httproutes :: "('s, http_route) store"
  vpas :: "('s, vpa) store"
  PatchEmpty :: "vpa \<Rightarrow> ('s, unit) go"
  IsGroupRegistered :: "string \<Rightarrow> bool"
  SetOwnerReference :: "string \<Rightarrow> object_meta \<Rightarrow> object_meta \<Rightarrow> owner_reference list res"

text \<open>
  \<open>IsGroupRegistered\<close> is the method of the scheme. \<open>SetOwnerReference\<close> is
  \<open>controllerutil.SetOwnerReference\<close>: the Go type of the owner (from which the scheme knows its
  kind), the owner and the object give the new owner references of the object, or an error.
\<close>

subsection \<open>Error filters\<close>

text \<open>\<open>client.IgnoreNotFound(err)\<close> and \<open>client.IgnoreAlreadyExists(err)\<close>, as tests for a remaining error.\<close>

definition IgnoreNotFound :: "go_error \<Rightarrow> go_error option" where
  "IgnoreNotFound e = (if e = ErrNotFound then None else Some e)"

definition IgnoreAlreadyExists :: "go_error \<Rightarrow> go_error option" where
  "IgnoreAlreadyExists e = (if e = ErrAlreadyExists then None else Some e)"

text \<open>A write whose error is filtered before it is tested.\<close>

definition ignoring :: "(go_error \<Rightarrow> go_error option) \<Rightarrow> ('s, unit) go \<Rightarrow> ('s, unit) go" where
  "ignoring f m = (\<lambda>s. case m s of
     (Inl e, s') \<Rightarrow> (case f e of None \<Rightarrow> (Inr (), s') | Some e' \<Rightarrow> (Inl e', s'))
   | (Inr u, s') \<Rightarrow> (Inr u, s'))"

lemma keeps_ignoring [intro]: "keeps P m \<Longrightarrow> keeps P (ignoring f m)"
  by (force simp: keeps_def ignoring_def split: prod.splits sum.splits option.splits)

subsection \<open>Laws\<close>

text \<open>
  The documented behaviour of \<open>SetOwnerReference\<close>: the owner is among the references afterwards, and
  setting the same owner again changes nothing.
\<close>

definition owner_laws :: "(string \<Rightarrow> object_meta \<Rightarrow> object_meta \<Rightarrow> owner_reference list res) \<Rightarrow> bool" where
  "owner_laws f \<longleftrightarrow>
     (\<forall>ty ow ob refs. f ty ow ob = Inr refs \<longrightarrow>
        (\<exists>r \<in> set refs. or_UID r = GetUID ow) \<and>
        (\<forall>ob'. GetNamespace ob' = GetNamespace ob \<longrightarrow> GetOwnerReferences ob' = refs \<longrightarrow>
           f ty ow ob' = Inr refs))"

abbreviation key_of :: "'a object_meta_scheme \<Rightarrow> key" where
  "key_of ob \<equiv> (GetNamespace ob, GetName ob)"

text \<open>
  What the server stores of a secret: the fields of \<open>StringData\<close> are merged into \<open>Data\<close>, and are not
  there when the secret is read.
\<close>

definition merge_string_data :: "secret \<Rightarrow> secret" where
  "merge_string_data x = x\<lparr>Data := maps_Copy (Data x) (StringData x), StringData := fmempty\<rparr>"

text \<open>
  The documented behaviour of \<open>CreateOrUpdate\<close>: an object that is not found is mutated and created
  (the server assigns its identifier), one that is found is mutated and updated if that changed it;
  an error of the read or of the mutation is returned before anything is written. An error of the
  write is returned too, and then nothing is promised of the state. \<open>admit\<close> is what the server makes of
  an object that is written; what is read has been through it.
\<close>

definition create_or_update_laws ::
  "('a object_meta_scheme \<Rightarrow> 'a object_meta_scheme) \<Rightarrow> ('s, 'a object_meta_scheme) store \<Rightarrow> bool" where
  "create_or_update_laws admit S \<longleftrightarrow>
     (\<forall>s k x. Get S s k = Inr x \<longrightarrow> admit x = x) \<and>
     (\<forall>ob f s. case Get S s (key_of ob) of
        Inl e \<Rightarrow>
          if e \<noteq> ErrNotFound then CreateOrUpdate S ob f s = (Inl e, s)
          else (case f ob of
                  Inl e' \<Rightarrow> CreateOrUpdate S ob f s = (Inl e', s)
                | Inr new \<Rightarrow>
                    (\<forall>s'. CreateOrUpdate S ob f s = (Inr (), s') \<longrightarrow>
                       (\<exists>u. Get S s' (key_of ob) = Inr (admit (new\<lparr>GetUID := u\<rparr>)))))
      | Inr cur \<Rightarrow>
          (case f cur of
             Inl e' \<Rightarrow> CreateOrUpdate S ob f s = (Inl e', s)
           | Inr new \<Rightarrow>
               if new = cur then CreateOrUpdate S ob f s = (Inr (), s)
               else (\<forall>s'. CreateOrUpdate S ob f s = (Inr (), s') \<longrightarrow> Get S s' (key_of ob) = Inr (admit new))))"

lemma create_or_update_read: "create_or_update_laws admit S \<Longrightarrow> Get S s k = Inr x \<Longrightarrow> admit x = x"
  unfolding create_or_update_laws_def by blast

lemma create_or_update_fixed:
  assumes "create_or_update_laws admit S" "Get S s (key_of ob) = Inr cur" "f cur = Inr cur"
  shows "CreateOrUpdate S ob f s = (Inr (), s)"
  using assms(1) [unfolded create_or_update_laws_def, THEN conjunct2, rule_format, of ob f s] assms(2,3) by simp

text \<open>What a successful call leaves behind.\<close>

lemma create_or_update_success:
  assumes laws: "create_or_update_laws admit S" and ok: "CreateOrUpdate S ob f s = (Inr (), s')"
  shows "(\<exists>cur new. Get S s (key_of ob) = Inr cur \<and> f cur = Inr new \<and> Get S s' (key_of ob) = Inr (admit new)) \<or>
    (\<exists>new u. Get S s (key_of ob) = Inl ErrNotFound \<and> f ob = Inr new \<and>
       Get S s' (key_of ob) = Inr (admit (new\<lparr>GetUID := u\<rparr>)))"
proof (cases "Get S s (key_of ob)")
  case (Inl e)
  then show ?thesis
    using laws [unfolded create_or_update_laws_def, THEN conjunct2, rule_format, of ob f s] ok
    by (cases "f ob") (auto split: if_splits)
next
  case (Inr cur)
  then show ?thesis
    using laws [unfolded create_or_update_laws_def, THEN conjunct2, rule_format, of ob f s] ok
      create_or_update_read [OF laws Inr]
    by (cases "f cur") (auto split: if_splits)
qed

lemma owner_again:
  assumes "owner_laws f" "f ty ow ob = Inr refs"
    and "GetNamespace ob' = GetNamespace ob" "GetOwnerReferences ob' = refs"
  shows "f ty ow ob' = Inr refs"
  using assms unfolding owner_laws_def by blast

lemma owner_set:
  "owner_laws f \<Longrightarrow> f ty ow ob = Inr refs \<Longrightarrow> \<exists>r \<in> set refs. or_UID r = GetUID ow"
  unfolding owner_laws_def by blast

end
