(* ===== verification/Pod_Webhook.thy ===== *)
theory Pod_Webhook
  imports Webhook_Modifiers Kube_Client
begin

text \<open>
  The mutating webhook for pods (\<open>pkg/webhook/pod-webhook.go\<close>): finding the workload a pod belongs
  to, and the whole of \<open>PodMutator.Default\<close>. The handler reads the cluster and writes the pod only.
\<close>

record pod_mutator =
  pm_ImagePullSecret :: string
  pm_Config :: "controller_config option"

text \<open>The reader of namespaces the configuration uses is the client of the manager.\<close>

definition ns_reader :: "'s kube \<Rightarrow> 's \<Rightarrow> namespace_reader" where
  "ns_reader K s = Some (\<lambda>name. Get (namespaces K) s ('''', name))"

subsection \<open>isTarget\<close>

text \<open>The first owner that is a stateful set or a replica set decides. A stateful set is returned as
  its metadata: matching and resolving read nothing else.\<close>

fun isTarget_owners ::
  "'e env_scheme \<Rightarrow> 's kube \<Rightarrow> 's \<Rightarrow> controller_config option \<Rightarrow> string \<Rightarrow> owner_reference list
     \<Rightarrow> bool \<times> object_meta option" where
  "isTarget_owners E K s cfg namespace [] = (False, None)"
| "isTarget_owners E K s cfg namespace (r # rs) =
     (if or_Kind r = ''StatefulSet'' then
        (case Get (statefulsets K) s (namespace, or_Name r) of
           Inl _ \<Rightarrow> (False, None)
         | Inr statefulset \<Rightarrow> (Match E (ns_reader K s) cfg statefulset, Some (meta_of statefulset)))
      else if or_Kind r = ''ReplicaSet'' then
        (case Get (replicasets K) s (namespace, or_Name r) of
           Inl _ \<Rightarrow> (False, None)
         | Inr replicaset \<Rightarrow>
             (case GetOwnerReferences replicaset of
                [] \<Rightarrow> (False, None)
              | ref0 # _ \<Rightarrow>
                  if or_Kind ref0 \<noteq> ''Deployment'' then (False, None)
                  else (case Get (deployments K) s (namespace, or_Name ref0) of
                          Inl _ \<Rightarrow> (False, None)
                        | Inr deployment \<Rightarrow>
                            (Match E (ns_reader K s) cfg deployment, Some deployment))))
      else isTarget_owners E K s cfg namespace rs)"

definition isTarget ::
  "'e env_scheme \<Rightarrow> 's kube \<Rightarrow> 's \<Rightarrow> controller_config option \<Rightarrow> pod \<Rightarrow> bool \<times> object_meta option" where
  "isTarget E K s cfg p =
     (if GetOwnerReferences p = [] then (False, None)
      else isTarget_owners E K s cfg (GetNamespace p) (GetOwnerReferences p))"

subsection \<open>The redirect URL of a stateful set pod\<close>

definition redirect_host :: "'e env_scheme \<Rightarrow> resolved_config \<Rightarrow> string \<Rightarrow> string" where
  "redirect_host E rc podIndex =
     (let hostPrefix0 = GetHost E rc;
          hostPrefix =
            (if GetRedirectURL E rc \<noteq> [] then
               TrimSuffix (TrimPrefix (GetRedirectURL E rc) ''https://'') ''/oauth2/callback''
             else hostPrefix0);
          (host, domain, found) = Cut hostPrefix ''.''
      in if found then host @ ''-'' @ last (Split podIndex CHR ''-'') @ ''.'' @ domain else host)"

text \<open>
  The loop that removes \<open>--redirect-url\<close> ranges over the argument slice as it was, while
  \<open>slices.Delete\<close> shifts the elements of the array both slices share and clears the last one: the
  state is that array and the length of the shortened slice.
\<close>

fun strip_args :: "nat list \<Rightarrow> string list \<Rightarrow> nat \<Rightarrow> (string list \<times> nat) res" where
  "strip_args [] arr len = Inr (arr, len)"
| "strip_args (i # is) arr len =
     (if HasPrefix (arr ! i) ''--redirect-url'' then
        (if i + 1 \<le> len then
           strip_args is (take i arr @ drop (i + 1) (take len arr) @ [''''] @ drop len arr) (len - 1)
         else Inl (Panic ''slice bounds out of range''))
      else strip_args is arr len)"

definition remove_redirect_args :: "string list \<Rightarrow> string list res" where
  "remove_redirect_args args =
     (case strip_args [0..<length args] args (length args) of
        Inl e \<Rightarrow> Inl e
      | Inr (arr, len) \<Rightarrow> Inr (take len arr))"

text \<open>The first container named \<open>oauth2-proxy\<close> gets the argument; the loop stops there.\<close>

fun set_redirect :: "string \<Rightarrow> container list \<Rightarrow> container list res" where
  "set_redirect host [] = Inr []"
| "set_redirect host (c # cs) =
     (if c_Name c \<noteq> ''oauth2-proxy'' then res_bind (set_redirect host cs) (\<lambda>r. Inr (c # r))
      else res_bind (remove_redirect_args (Args c))
        (\<lambda>args. Inr (c\<lparr>Args := args @ [''--redirect-url=https://'' @ host @ ''/oauth2/callback'']\<rparr> # cs)))"

subsection \<open>Default\<close>

definition with_spec :: "pod \<Rightarrow> (pod_spec \<Rightarrow> pod_spec res) \<Rightarrow> pod res" where
  "with_spec p f = res_bind (f (pod_Spec p)) (\<lambda>spec. Inr (p\<lparr>pod_Spec := spec\<rparr>))"

text \<open>The volumes of the handler, in the order it adds them.\<close>

definition add_volumes :: "resolved_config \<Rightarrow> string \<Rightarrow> pod_spec \<Rightarrow> pod_spec res" where
  "add_volumes rc suffix spec0 =
     res_bind (addProjectedSecretSourceVolume Oauth2VolumeName (SecretNameOauth2Proxy @ ''-'' @ suffix) spec0)
     (\<lambda>spec1.
     res_bind (if shallAddOidcCaSecretName rc
               then addProjectedSecretSourceVolume Oauth2VolumeName (fetchOidcCASecretName suffix rc) spec1
               else Inr spec1)
     (\<lambda>spec2.
     res_bind (if GetClientSecretName rc \<noteq> []
               then addProjectedSecretSourceVolume Oauth2VolumeName (GetClientSecretName rc) spec2
               else Inr spec2)
     (\<lambda>spec3.
     res_bind (addProjectedSecretSourceVolume KubeRbacProxyVolumeName
                 (SecretNameResourceAttributes @ ''-'' @ suffix) spec3)
     (\<lambda>spec4.
     res_bind (if shallAddKubeConfigSecretName rc
               then addProjectedSecretSourceVolume KubeRbacProxyVolumeName (fetchKubconfigSecretName suffix rc) spec4
               else Inr spec4)
     (\<lambda>spec5.
     if shallAddOidcCaSecretName rc
     then addProjectedSecretSourceVolume KubeRbacProxyVolumeName (fetchOidcCASecretName suffix rc) spec5
     else Inr spec5)))))"

definition add_sidecars ::
  "'e env_scheme \<Rightarrow> resolved_config \<Rightarrow> string \<Rightarrow> pod \<Rightarrow> pod" where
  "add_sidecars E rc upstreamURL p =
     (let p1 = p\<lparr>pod_Spec := addProxyContainer ContainerNameOauth2Proxy
                  (getOIDCProxyContainer E (Some (pod_Spec p)) rc) (pod_Spec p)\<rparr>
      in p1\<lparr>pod_Spec := addProxyContainer ContainerNameKubeRbacProxy
              (getKubeRbacProxyContainer E (GetClientID rc) (GetOidcIssuerURL rc) upstreamURL (Some p1) rc)
              (pod_Spec p1)\<rparr>)"

definition inject :: "'e env_scheme \<Rightarrow> string \<Rightarrow> resolved_config \<Rightarrow> string \<Rightarrow> pod \<Rightarrow> pod res" where
  "inject E pullSecret rc suffix p0 =
     (let upstreamURL = buildUpstreamURL (GetUpstreamTarget E rc) (pod_Spec p0);
          p1 = addAnnotations E p0 rc;
          p2 = addPodAnnotations p1 (smap_of [(AnnotationHostKey, GetHost E rc)]);
          p3 = addPodLabels p2 (smap_of [(LabelKey, ''pod'')])
      in res_bind (with_spec p3 (add_volumes rc suffix))
         (\<lambda>p4.
           let p5 = add_sidecars E rc upstreamURL p4;
               p6 = (if length pullSecret > 0
                     then p5\<lparr>pod_Spec := addImagePullSecret pullSecret (pod_Spec p5)\<rparr> else p5)
           in (case fmlookup (GetLabels p6) ''statefulset.kubernetes.io/pod-name'' of
                 None \<Rightarrow> Inr p6
               | Some podIndex \<Rightarrow>
                   with_spec p6 (\<lambda>spec.
                     res_bind (set_redirect (redirect_host E rc podIndex) (Containers spec))
                       (\<lambda>cs. Inr (spec\<lparr>Containers := cs\<rparr>))))))"

definition Default :: "'e env_scheme \<Rightarrow> 's kube \<Rightarrow> pod_mutator \<Rightarrow> 's \<Rightarrow> pod \<Rightarrow> pod res" where
  "Default E K pm s p =
     (if GetDeletionTimestamp p \<noteq> None then Inr p
      else
        (case isTarget E K s (pm_Config pm) p of
           (True, Some owner) \<Rightarrow>
             (case pm_Config pm of
                None \<Rightarrow> Inl (Panic ''nil pointer dereference'')
              | Some cfg \<Rightarrow>
                  (let rc = Resolve E (ns_reader K s) cfg owner;
                       suffix = fst (fetchTargetSuffix E owner)
                   in inject E (pm_ImagePullSecret pm) rc suffix p))
         | _ \<Rightarrow> Inr p))"

end
