(* ===== verification/Webhook_Facts.thy ===== *)
theory Webhook_Facts
  imports Pod_Webhook
begin

text \<open>
  Lemmas on the pod modifications. Volumes are described by an abstract view (volume name to
  projected sources), which the concrete edit of the volume list refines; the locale
  \<open>stable_patch\<close> is the contract that makes a sequence of edits repeatable, and the volume edits
  interpret it. Containers are described by removal of the first element of a name.
\<close>

subsection \<open>Searching lists\<close>

lemma find_index_None_iff: "find_index p xs = None \<longleftrightarrow> (\<forall>x \<in> set xs. \<not> p x)"
  by (induction xs) auto

lemma find_index_SomeD: "find_index p xs = Some i \<Longrightarrow> i < length xs \<and> p (xs ! i)"
  by (induction xs arbitrary: i) (auto split: if_splits)

lemma find_index_append:
  "find_index p (xs @ ys) =
     (case find_index p xs of
        Some i \<Rightarrow> Some i | None \<Rightarrow> map_option (\<lambda>i. i + length xs) (find_index p ys))"
  by (induction xs) (auto simp: option.map_comp comp_def option.map_ident split: option.splits)

lemma find_index_update:
  "i < length xs \<Longrightarrow> p y = p (xs ! i) \<Longrightarrow> find_index p (xs[i := y]) = find_index p xs"
proof (induction xs arbitrary: i)
  case (Cons x xs)
  then show ?case by (cases i) auto
qed simp

fun remove_first :: "('a \<Rightarrow> bool) \<Rightarrow> 'a list \<Rightarrow> 'a list" where
  "remove_first p [] = []"
| "remove_first p (x # xs) = (if p x then xs else x # remove_first p xs)"

lemma remove_first_index:
  "(case find_index p xs of None \<Rightarrow> xs | Some i \<Rightarrow> take i xs @ drop (i + 1) xs) = remove_first p xs"
  by (induction xs) (auto split: option.splits)

lemma remove_first_none [simp]: "filter p xs = [] \<Longrightarrow> remove_first p xs = xs"
  by (induction xs) (auto split: if_splits)

lemma filter_not_remove_first: "filter (\<lambda>x. \<not> p x) (remove_first p xs) = filter (\<lambda>x. \<not> p x) xs"
  by (induction xs) auto

lemma length_filter_remove_first:
  "length (filter p (remove_first p xs)) = length (filter p xs) - 1"
  by (induction xs) auto

lemma filter_other_remove_first:
  "(\<And>x. q x \<Longrightarrow> \<not> p x) \<Longrightarrow> filter q (remove_first p xs) = filter q xs"
  by (induction xs) auto

lemma remove_first_single:
  "length (filter p xs) \<le> 1 \<Longrightarrow> remove_first p xs = filter (\<lambda>x. \<not> p x) xs"
proof (induction xs)
  case (Cons x xs)
  show ?case
  proof (cases "p x")
    case True
    with Cons.prems have "filter p xs = []" by simp
    then have "filter (\<lambda>x. \<not> p x) xs = xs" by (auto simp: filter_empty_conv filter_id_conv)
    with True show ?thesis by simp
  next
    case False
    with Cons show ?thesis by simp
  qed
qed simp

subsection \<open>Proxy containers\<close>

lemma addProxyContainer_eq:
  "addProxyContainer name c spec =
     spec\<lparr>Containers := remove_first (\<lambda>x. c_Name x = name) (Containers spec) @ [c]\<rparr>"
  by (simp add: addProxyContainer_def Let_def remove_first_index [symmetric])

definition named :: "string \<Rightarrow> container list \<Rightarrow> container list" where
  "named name cs = filter (\<lambda>x. c_Name x = name) cs"

definition unnamed :: "string list \<Rightarrow> container list \<Rightarrow> container list" where
  "unnamed names cs = filter (\<lambda>x. c_Name x \<notin> set names) cs"

abbreviation sidecar_names :: "string list" where
  "sidecar_names \<equiv> [ContainerNameOauth2Proxy, ContainerNameKubeRbacProxy]"

text \<open>At most one container of each sidecar's name: what the API server guarantees of any pod.\<close>

definition sidecars_unique :: "container list \<Rightarrow> bool" where
  "sidecars_unique cs \<longleftrightarrow> (\<forall>n \<in> set sidecar_names. length (named n cs) \<le> 1)"

lemma kept_requests_named:
  "kept_requests E name r cs = kept_requests E name r (named name cs)"
  by (induction cs arbitrary: r) (auto simp: named_def)

lemma c_Name_oidc [simp]: "c_Name (getOIDCProxyContainer E (Some spec) rc) = ContainerNameOauth2Proxy"
  by (simp add: getOIDCProxyContainer_def)

lemma c_Name_rbac [simp]:
  "c_Name (getKubeRbacProxyContainer E ci iu up (Some p) rc) = ContainerNameKubeRbacProxy"
  by (simp add: getKubeRbacProxyContainer_def)

lemma oidc_cong:
  "named ContainerNameOauth2Proxy (Containers spec) = named ContainerNameOauth2Proxy (Containers spec') \<Longrightarrow>
   getOIDCProxyContainer E (Some spec) rc = getOIDCProxyContainer E (Some spec') rc"
  by (simp add: getOIDCProxyContainer_def kept_requests_named
      [of E ContainerNameOauth2Proxy default_requests "Containers spec"]
      kept_requests_named [of E ContainerNameOauth2Proxy default_requests "Containers spec'"])

text \<open>The containers after the injection: the others in their order, then the two sidecars.\<close>

lemma Containers_add_sidecars:
  assumes "sidecars_unique (Containers (pod_Spec p))"
  shows "Containers (pod_Spec (add_sidecars E rc url p)) =
    unnamed sidecar_names (Containers (pod_Spec p))
    @ [getOIDCProxyContainer E (Some (pod_Spec p)) rc,
       getKubeRbacProxyContainer E (GetClientID rc) (GetOidcIssuerURL rc) url (Some p) rc]"
proof -
  let ?cs = "Containers (pod_Spec p)"
  let ?o = "getOIDCProxyContainer E (Some (pod_Spec p)) rc"
  let ?c1 = "remove_first (\<lambda>x. c_Name x = ContainerNameOauth2Proxy) ?cs @ [?o]"
  have o1: "length (filter (\<lambda>x. c_Name x = ContainerNameOauth2Proxy) ?cs) \<le> 1"
    and k1: "length (filter (\<lambda>x. c_Name x = ContainerNameKubeRbacProxy) ?cs) \<le> 1"
    using assms by (auto simp: sidecars_unique_def named_def)
  have f: "filter (\<lambda>x. c_Name x = ContainerNameKubeRbacProxy) ?c1 =
      filter (\<lambda>x. c_Name x = ContainerNameKubeRbacProxy) ?cs"
    by (simp, subst filter_other_remove_first) auto
  then have "remove_first (\<lambda>x. c_Name x = ContainerNameKubeRbacProxy) ?c1 =
      filter (\<lambda>x. c_Name x \<noteq> ContainerNameKubeRbacProxy) ?c1"
    using k1 by (intro remove_first_single) simp
  also have "\<dots> = unnamed sidecar_names ?cs @ [?o]"
    using remove_first_single [OF o1] by (simp add: unnamed_def)
  finally have step: "remove_first (\<lambda>x. c_Name x = ContainerNameKubeRbacProxy) ?c1 =
      unnamed sidecar_names ?cs @ [?o]" .
  have "kept_requests E ContainerNameKubeRbacProxy default_requests ?c1 =
      kept_requests E ContainerNameKubeRbacProxy default_requests ?cs"
    by (simp add: kept_requests_named [of E _ _ ?c1] kept_requests_named [of E _ _ ?cs] named_def f
        del: filter_append)
  then show ?thesis
    by (simp add: add_sidecars_def Let_def addProxyContainer_eq step getKubeRbacProxyContainer_def)
qed

subsection \<open>Volumes\<close>

text \<open>The view of a pod's volumes: for a name, whether a volume of that name exists and the sources its
  projected pointer leads to.\<close>

definition volume_view :: "pod_spec \<Rightarrow> string \<Rightarrow> projection list option option" where
  "volume_view spec vn =
     (case find_index (\<lambda>v. v_Name v = vn) (Volumes spec) of
        None \<Rightarrow> None
      | Some i \<Rightarrow> Some (Projected (Volumes spec ! i)))"

text \<open>The abstract edit: what mounting a secret does to the entry of its volume.\<close>

definition mount_entry :: "string \<Rightarrow> projection list option option \<Rightarrow> projection list option option res" where
  "mount_entry sn e =
     (case e of
        None \<Rightarrow> Inr (Some (Some [secret_projection_for sn]))
      | Some None \<Rightarrow> Inr (Some None)
      | Some (Some srcs) \<Rightarrow>
          res_bind (has_secret_source sn srcs)
            (\<lambda>found. Inr (Some (Some (if found then srcs else srcs @ [secret_projection_for sn])))))"

lemma volume_view_append:
  "find_index (\<lambda>v. v_Name v = vn) (Volumes spec) = None \<Longrightarrow>
   volume_view (spec\<lparr>Volumes := Volumes spec @ [\<lparr>v_Name = vn, Projected = pr, v_Other = ot\<rparr>]\<rparr>) =
     (volume_view spec)(vn := Some pr)"
  by (rule ext)
    (auto simp: volume_view_def find_index_append nth_append split: option.splits
      dest: find_index_SomeD)

lemma volume_view_update:
  assumes "find_index (\<lambda>v. v_Name v = vn) (Volumes spec) = Some i"
  shows "volume_view (spec\<lparr>Volumes := (Volumes spec)[i := (Volumes spec ! i)\<lparr>Projected := pr\<rparr>]\<rparr>) =
     (volume_view spec)(vn := Some pr)"
proof (rule ext)
  fix w
  have i: "i < length (Volumes spec)" "v_Name (Volumes spec ! i) = vn"
    using find_index_SomeD [OF assms] by auto
  have same: "find_index (\<lambda>v. v_Name v = w) ((Volumes spec)[i := (Volumes spec ! i)\<lparr>Projected := pr\<rparr>]) =
      find_index (\<lambda>v. v_Name v = w) (Volumes spec)"
    by (rule find_index_update) (use i in simp_all)
  show "volume_view (spec\<lparr>Volumes := (Volumes spec)[i := (Volumes spec ! i)\<lparr>Projected := pr\<rparr>]\<rparr>) w =
      ((volume_view spec)(vn := Some pr)) w"
    using i assms by (auto simp: volume_view_def same nth_list_update split: option.splits
        dest!: find_index_SomeD)
qed

text \<open>The concrete edit refines the abstract one.\<close>

lemma addProjected_refines:
  "addProjectedSecretSourceVolume vn sn spec = Inr spec' \<Longrightarrow>
   \<exists>e. mount_entry sn (volume_view spec vn) = Inr e \<and> volume_view spec' = (volume_view spec)(vn := e)"
  by (auto simp: addProjectedSecretSourceVolume_def mount_entry_def Let_def volume_view_append
      volume_view_update volume_view_def [of spec vn] res_bind_def fun_upd_idem
      split: option.splits if_splits sum.splits)

lemma addProjected_panics:
  "addProjectedSecretSourceVolume vn sn spec = Inl e \<longleftrightarrow> mount_entry sn (volume_view spec vn) = Inl e"
  by (auto simp: addProjectedSecretSourceVolume_def mount_entry_def Let_def volume_view_def res_bind_def
      split: option.splits if_splits sum.splits)

subsection \<open>Sequences of edits\<close>

fun run_patches :: "('k \<Rightarrow> 'p \<Rightarrow> 'p res) \<Rightarrow> 'k list \<Rightarrow> 'p \<Rightarrow> 'p res" where
  "run_patches f [] p = Inr p"
| "run_patches f (k # ks) p = res_bind (f k p) (run_patches f ks)"

text \<open>
  The contract between the handler and the edits it runs: an edit that has been applied is a no-op
  from then on, and no other edit undoes that. The handler relies on it when the API server calls the
  webhook again on a pod it has already changed.
\<close>

locale stable_patch =
  fixes patch :: "'k \<Rightarrow> 'p \<Rightarrow> 'p res"
  assumes settled: "patch k p = Inr p' \<Longrightarrow> patch k p' = Inr p'"
    and preserved: "patch k p = Inr p \<Longrightarrow> patch j p = Inr p' \<Longrightarrow> patch k p' = Inr p'"
begin

lemma run_preserved: "patch k p = Inr p \<Longrightarrow> run_patches patch ks p = Inr p' \<Longrightarrow> patch k p' = Inr p'"
proof (induction ks arbitrary: p)
  case (Cons j ks)
  then obtain q where "patch j p = Inr q" "run_patches patch ks q = Inr p'"
    by (auto simp: res_bind_Inr_iff)
  with Cons show ?case using preserved by blast
qed simp

lemma run_settled: "run_patches patch ks p = Inr p' \<Longrightarrow> k \<in> set ks \<Longrightarrow> patch k p' = Inr p'"
proof (induction ks arbitrary: p)
  case (Cons j ks)
  then obtain q where q: "patch j p = Inr q" "run_patches patch ks q = Inr p'"
    by (auto simp: res_bind_Inr_iff)
  show ?case
  proof (cases "k = j")
    case True
    with q settled have "patch k q = Inr q" by blast
    then show ?thesis using q(2) by (rule run_preserved)
  next
    case False
    with Cons q show ?thesis by auto
  qed
qed simp

lemma run_noop: "(\<And>k. k \<in> set ks \<Longrightarrow> patch k p = Inr p) \<Longrightarrow> run_patches patch ks p = Inr p"
  by (induction ks) auto

lemma run_repeat: "run_patches patch ks p = Inr p' \<Longrightarrow> run_patches patch ks p' = Inr p'"
  by (rule run_noop) (rule run_settled)

end

lemma has_secret_source_append:
  "has_secret_source n (xs @ ys) =
     (case has_secret_source n xs of
        Inl e \<Rightarrow> Inl e
      | Inr found \<Rightarrow> if found then Inr True else has_secret_source n ys)"
  by (induction n xs rule: has_secret_source.induct) auto

lemma has_own_secret [simp]: "has_secret_source sn (secret_projection_for sn # srcs) = Inr True"
  by (simp add: secret_projection_for_def)

lemma has_other_secret: "has_secret_source a xs = Inr True \<Longrightarrow> has_secret_source a (xs @ ys) = Inr True"
  by (simp add: has_secret_source_append)

definition mount_volume :: "string \<times> string \<Rightarrow> pod_spec \<Rightarrow> pod_spec res" where
  "mount_volume k = addProjectedSecretSourceVolume (fst k) (snd k)"

text \<open>An edit is a no-op exactly when the view says the secret is there, or the volume is not projected.\<close>

definition mounted :: "string \<Rightarrow> projection list option option \<Rightarrow> bool" where
  "mounted sn e =
     (case e of None \<Rightarrow> False | Some None \<Rightarrow> True | Some (Some srcs) \<Rightarrow> has_secret_source sn srcs = Inr True)"

lemma mount_volume_noop_iff:
  "mount_volume k spec = Inr spec \<longleftrightarrow> mounted (snd k) (volume_view spec (fst k))"
proof
  assume noop: "mount_volume k spec = Inr spec"
  then obtain e where e: "mount_entry (snd k) (volume_view spec (fst k)) = Inr e"
      "volume_view spec = (volume_view spec)(fst k := e)"
    unfolding mount_volume_def using addProjected_refines by blast
  then have "volume_view spec (fst k) = e" by (metis fun_upd_same)
  with e(1) show "mounted (snd k) (volume_view spec (fst k))"
    by (auto simp: mounted_def mount_entry_def res_bind_Inr_iff split: option.splits if_splits)
next
  assume m: "mounted (snd k) (volume_view spec (fst k))"
  then show "mount_volume k spec = Inr spec"
    by (auto simp: mounted_def mount_volume_def volume_view_def addProjectedSecretSourceVolume_def
        Let_def split: option.splits)
qed

lemma mount_entry_mounted: "mount_entry sn e = Inr e' \<Longrightarrow> mounted sn e'"
  by (auto simp: mount_entry_def mounted_def res_bind_Inr_iff has_secret_source_append
      split: option.splits)

lemma mount_entry_keeps_mounted: "mounted a e \<Longrightarrow> mount_entry b e = Inr e' \<Longrightarrow> mounted a e'"
  by (auto simp: mount_entry_def mounted_def res_bind_Inr_iff has_other_secret split: option.splits)

interpretation volumes: stable_patch mount_volume
proof unfold_locales
  fix k j :: "string \<times> string" and p p' :: pod_spec
  show "mount_volume k p' = Inr p'" if "mount_volume k p = Inr p'"
  proof -
    from that obtain e where e: "mount_entry (snd k) (volume_view p (fst k)) = Inr e"
        "volume_view p' = (volume_view p)(fst k := e)"
      unfolding mount_volume_def using addProjected_refines by blast
    from mount_entry_mounted [OF e(1)] e(2) show ?thesis by (simp add: mount_volume_noop_iff)
  qed
  show "mount_volume k p' = Inr p'" if noop: "mount_volume k p = Inr p" and j: "mount_volume j p = Inr p'"
  proof -
    from j obtain e where e: "mount_entry (snd j) (volume_view p (fst j)) = Inr e"
        "volume_view p' = (volume_view p)(fst j := e)"
      unfolding mount_volume_def using addProjected_refines by blast
    from noop mount_entry_keeps_mounted [OF _ e(1)] e(2) show ?thesis
      by (auto simp: mount_volume_noop_iff)
  qed
qed

text \<open>The volume section of the handler is a sequence of such edits.\<close>

definition volume_mounts :: "resolved_config \<Rightarrow> string \<Rightarrow> (string \<times> string) list" where
  "volume_mounts rc suffix =
     [(Oauth2VolumeName, SecretNameOauth2Proxy @ ''-'' @ suffix)]
     @ (if shallAddOidcCaSecretName rc then [(Oauth2VolumeName, fetchOidcCASecretName suffix rc)] else [])
     @ (if GetClientSecretName rc \<noteq> [] then [(Oauth2VolumeName, GetClientSecretName rc)] else [])
     @ [(KubeRbacProxyVolumeName, SecretNameResourceAttributes @ ''-'' @ suffix)]
     @ (if shallAddKubeConfigSecretName rc
        then [(KubeRbacProxyVolumeName, fetchKubconfigSecretName suffix rc)] else [])
     @ (if shallAddOidcCaSecretName rc then [(KubeRbacProxyVolumeName, fetchOidcCASecretName suffix rc)] else [])"

lemma run_patches_append:
  "run_patches f (ks @ js) = (\<lambda>p. res_bind (run_patches f ks p) (run_patches f js))"
proof
  show "run_patches f (ks @ js) p = res_bind (run_patches f ks p) (run_patches f js)" for p
  proof (induction ks arbitrary: p)
    case (Cons k ks)
    then show ?case by (cases "f k p") simp_all
  qed simp
qed

lemma res_bind_Inr [simp]: "res_bind m Inr = m"
  by (cases m) simp_all

lemma run_patches_single: "run_patches f [k] = f k"
proof
  show "run_patches f [k] p = f k p" for p by (cases "f k p") simp_all
qed

lemma run_patches_if:
  "run_patches f (if b then [k] else []) = (\<lambda>p. if b then f k p else Inr p)"
  by (cases b) (auto simp: run_patches_single simp del: run_patches.simps(2))

lemma add_volumes_run: "add_volumes rc suffix spec = run_patches mount_volume (volume_mounts rc suffix) spec"
  unfolding add_volumes_def volume_mounts_def
  by (simp only: run_patches_append run_patches_if run_patches_single res_bind_assoc mount_volume_def
      fst_conv snd_conv)

lemma add_volumes_repeat:
  "add_volumes rc suffix spec = Inr spec' \<Longrightarrow> add_volumes rc suffix spec' = Inr spec'"
  by (simp add: add_volumes_run volumes.run_repeat)

subsection \<open>Removing the redirect arguments\<close>

definition is_redirect :: "string \<Rightarrow> bool" where
  "is_redirect a \<longleftrightarrow> HasPrefix a ''--redirect-url''"

text \<open>What the loop computes: the element after a removed one takes its place and is not looked at.\<close>

fun strip_skip :: "string list \<Rightarrow> string list" where
  "strip_skip [] = []"
| "strip_skip [a] = (if is_redirect a then [] else [a])"
| "strip_skip (a # b # bs) = (if is_redirect a then b # strip_skip bs else a # strip_skip (b # bs))"

lemma blank_not_redirect [simp]: "\<not> is_redirect ''''"
  by (simp add: is_redirect_def)

lemma strip_args_blank:
  "(\<And>j. j \<in> set is \<Longrightarrow> arr ! j = '''') \<Longrightarrow> strip_args is arr len = Inr (arr, len)"
  by (induction "is") simp_all

lemma strip_args_skip:
  "strip_args [length done..<length done + length rest + m]
      (done @ rest @ replicate m '''') (length done + length rest) =
    Inr (done @ strip_skip rest @ replicate (m + (length rest - length (strip_skip rest))) '''',
         length done + length (strip_skip rest))
   \<and> length (strip_skip rest) \<le> length rest"
proof (induction rest arbitrary: "done" m rule: strip_skip.induct)
  case 1
  have "strip_args [length done..<length done + m] (done @ replicate m '''') (length done) =
      Inr (done @ replicate m '''', length done)"
    by (rule strip_args_blank) (auto simp: nth_append)
  then show ?case by simp
next
  case (2 a)
  have up: "[length done..<length done + length [a] + m] =
      length done # [Suc (length done)..<length done + 1 + m]"
    by (simp add: upt_conv_Cons)
  have blanks: "strip_args [Suc (length done)..<Suc (length done + m)] (done @ x # replicate m '''') len =
      Inr (done @ x # replicate m '''', len)" for x len
    by (rule strip_args_blank) (auto simp: nth_append nth_Cons')
  show ?case
    unfolding up
    by (auto simp: nth_append is_redirect_def [symmetric] blanks simp del: upt_Suc)
next
  case (3 a b bs)
  let ?n = "length done + length (a # b # bs) + m"
  have up: "[length done..<?n] = length done # [Suc (length done)..<?n]"
    by (rule upt_conv_Cons) simp
  show ?case
  proof (cases "is_redirect a")
    case True
    have up2: "[Suc (length done)..<?n] =
        [length (done @ [b])..<length (done @ [b]) + length bs + Suc m]" by simp
    have "strip_args [length (done @ [b])..<length (done @ [b]) + length bs + Suc m]
        ((done @ [b]) @ bs @ replicate (Suc m) '''') (length (done @ [b]) + length bs) =
      Inr ((done @ [b]) @ strip_skip bs @ replicate (Suc m + (length bs - length (strip_skip bs))) '''',
         length (done @ [b]) + length (strip_skip bs)) \<and> length (strip_skip bs) \<le> length bs"
      using "3.IH"(1) [OF True] by blast
    then show ?thesis
      unfolding up using True
      by (simp add: nth_append is_redirect_def [symmetric] Suc_diff_le)
  next
    case False
    have "strip_args [length (done @ [a])..<length (done @ [a]) + length (b # bs) + m]
        ((done @ [a]) @ (b # bs) @ replicate m '''') (length (done @ [a]) + length (b # bs)) =
      Inr ((done @ [a]) @ strip_skip (b # bs) @
             replicate (m + (length (b # bs) - length (strip_skip (b # bs)))) '''',
         length (done @ [a]) + length (strip_skip (b # bs)))
       \<and> length (strip_skip (b # bs)) \<le> length (b # bs)"
      using "3.IH"(2) [OF False] by blast
    then show ?thesis
      unfolding up using False
      by (simp add: nth_append is_redirect_def [symmetric])
  qed
qed

lemma remove_redirect_args_eq: "remove_redirect_args args = Inr (strip_skip args)"
  using strip_args_skip [of "[]" args 0] by (simp add: remove_redirect_args_def)

text \<open>The intended effect is reached when no two redirect arguments follow each other.\<close>

fun no_adjacent :: "('a \<Rightarrow> bool) \<Rightarrow> 'a list \<Rightarrow> bool" where
  "no_adjacent p (a # b # bs) \<longleftrightarrow> \<not> (p a \<and> p b) \<and> no_adjacent p (b # bs)"
| "no_adjacent p _ \<longleftrightarrow> True"

lemma no_adjacent_Cons: "no_adjacent p (a # as) \<Longrightarrow> no_adjacent p as"
  by (cases as) simp_all

lemma strip_skip_filter:
  "no_adjacent is_redirect args \<Longrightarrow> strip_skip args = filter (\<lambda>a. \<not> is_redirect a) args"
proof (induction args rule: strip_skip.induct)
  case (3 a b bs)
  then show ?case using no_adjacent_Cons [of is_redirect b bs] by (cases "is_redirect a") auto
qed auto

end
