(* ===== verification/Webhook_Idempotent.thy ===== *)
theory Webhook_Idempotent
  imports Webhook_Facts
begin

text \<open>
  The result of the injection in closed form, and its consequences: which parts of a pod change and
  how, and that the webhook called again on its own result changes nothing.
\<close>

subsection \<open>Annotations and labels\<close>

text \<open>A pod carries the annotations of a resolved configuration.\<close>

definition annotated :: "'e env_scheme \<Rightarrow> resolved_config \<Rightarrow> string \<Rightarrow> smap \<Rightarrow> bool" where
  "annotated E rc name a \<longleftrightarrow>
     fmlookup a AnnotationKey = Some name \<and>
     fmlookup a AnnotationHostKey = Some (GetHost E rc) \<and>
     fmlookup a AnnotationTargetKey = Some (GetUpstreamTarget E rc) \<and>
     fmlookup a AnnotationSuffixKey \<noteq> None \<and>
     fmlookup a AnnotationOauth2SecretChecksumKey = Some (get2ProxySecretChecksum E rc)"

lemma annotation_keys_neq [simp]:
  "AnnotationKey \<noteq> AnnotationHostKey" "AnnotationKey \<noteq> AnnotationTargetKey"
  "AnnotationKey \<noteq> AnnotationSuffixKey" "AnnotationKey \<noteq> AnnotationOauth2SecretChecksumKey"
  "AnnotationHostKey \<noteq> AnnotationTargetKey" "AnnotationHostKey \<noteq> AnnotationSuffixKey"
  "AnnotationHostKey \<noteq> AnnotationOauth2SecretChecksumKey"
  "AnnotationTargetKey \<noteq> AnnotationSuffixKey"
  "AnnotationTargetKey \<noteq> AnnotationOauth2SecretChecksumKey"
  "AnnotationSuffixKey \<noteq> AnnotationOauth2SecretChecksumKey"
  using annotation_keys_distinct by simp_all

lemmas annotation_keys_neq_sym [simp] = annotation_keys_neq [THEN not_sym]

lemma fmupd_same: "fmlookup m k = Some v \<Longrightarrow> fmupd k v m = m"
  by (rule fmap_ext) auto

lemma annotated_addAnnotations: "annotated E rc (GetName p) (GetAnnotations (addAnnotations E p rc))"
  by (simp add: addAnnotations_def annotated_def Let_def)

text \<open>The suffix of an object: the annotation if it has one, otherwise the hash of its own name.\<close>

lemma suffix_addAnnotations:
  "fmlookup (GetAnnotations (addAnnotations E p rc)) AnnotationSuffixKey =
     Some (case fmlookup (GetAnnotations p) AnnotationSuffixKey of
             Some s \<Rightarrow> s | None \<Rightarrow> GenerateSha256 E (GetName p @ ''-'' @ GetNamespace p))"
  by (auto simp: addAnnotations_def fetchTargetSuffix_def Let_def split: option.splits)

lemma addAnnotations_other:
  "k \<notin> {AnnotationKey, AnnotationHostKey, AnnotationTargetKey, AnnotationSuffixKey,
        AnnotationOauth2SecretChecksumKey} \<Longrightarrow>
   fmlookup (GetAnnotations (addAnnotations E p rc)) k = fmlookup (GetAnnotations p) k"
  by (auto simp: addAnnotations_def Let_def)

lemma addAnnotations_id:
  assumes "annotated E rc (GetName p) (GetAnnotations p)"
  shows "GetAnnotations (addAnnotations E p rc) = GetAnnotations p"
proof (rule fmap_ext)
  fix k
  show "fmlookup (GetAnnotations (addAnnotations E p rc)) k = fmlookup (GetAnnotations p) k"
    using assms annotated_addAnnotations [of E rc p] suffix_addAnnotations [of E p rc]
      addAnnotations_other [of k E p rc]
    by (cases "k \<in> {AnnotationKey, AnnotationHostKey, AnnotationTargetKey, AnnotationSuffixKey,
        AnnotationOauth2SecretChecksumKey}") (auto simp: annotated_def)
qed

lemma addAnnotations_frame:
  "addAnnotations E p rc = p\<lparr>GetAnnotations := GetAnnotations (addAnnotations E p rc)\<rparr>"
  by (simp add: addAnnotations_def Let_def)

lemma maps_Copy_single: "maps_Copy m (smap_of [(k, v)]) = fmupd k v m"
  by (rule fmap_ext) simp

lemma smap_of_nonempty [simp]: "smap_of ((k, v) # kvs) \<noteq> fmempty"
  by (simp add: smap_of_def)

text \<open>The host is annotated twice, with the same value.\<close>

lemma annotate_label:
  "fmlookup a AnnotationHostKey = Some h \<Longrightarrow>
   addPodLabels (addPodAnnotations (p\<lparr>GetAnnotations := a\<rparr>) (smap_of [(AnnotationHostKey, h)]))
     (smap_of [(LabelKey, lv)]) = p\<lparr>GetAnnotations := a, GetLabels := fmupd LabelKey lv (GetLabels p)\<rparr>"
  by (simp add: addPodLabels_def addPodAnnotations_def Let_def maps_Copy_single fmupd_same)

subsection \<open>Volumes\<close>

lemma mount_volume_frame:
  "mount_volume k spec = Inr spec' \<Longrightarrow>
   Containers spec' = Containers spec \<and> ImagePullSecrets spec' = ImagePullSecrets spec"
  by (auto simp: mount_volume_def addProjectedSecretSourceVolume_def Let_def res_bind_Inr_iff
      split: option.splits if_splits)

lemma run_mounts_frame:
  "run_patches mount_volume ks spec = Inr spec' \<Longrightarrow>
   Containers spec' = Containers spec \<and> ImagePullSecrets spec' = ImagePullSecrets spec"
proof (induction ks arbitrary: spec)
  case (Cons k ks)
  then obtain q where "mount_volume k spec = Inr q" "run_patches mount_volume ks q = Inr spec'"
    by (auto simp: res_bind_Inr_iff)
  with Cons.IH mount_volume_frame show ?case by metis
qed simp

lemma add_volumes_frame:
  "add_volumes rc suffix spec = Inr spec' \<Longrightarrow>
   Containers spec' = Containers spec \<and> ImagePullSecrets spec' = ImagePullSecrets spec"
  unfolding add_volumes_run by (rule run_mounts_frame)

lemma volume_view_cong: "Volumes a = Volumes b \<Longrightarrow> volume_view a = volume_view b"
  by (rule ext) (simp add: volume_view_def split: option.split)

lemma add_volumes_noop:
  assumes "add_volumes rc suffix spec = Inr spec'" and "Volumes spec'' = Volumes spec'"
  shows "add_volumes rc suffix spec'' = Inr spec''"
  unfolding add_volumes_run
proof (rule volumes.run_noop)
  fix k assume "k \<in> set (volume_mounts rc suffix)"
  then have "mount_volume k spec' = Inr spec'"
    using assms(1) volumes.run_settled unfolding add_volumes_run by blast
  then show "mount_volume k spec'' = Inr spec''"
    by (simp add: mount_volume_noop_iff volume_view_cong [OF assms(2)])
qed

subsection \<open>Containers\<close>

definition pull_secrets :: "string \<Rightarrow> string list \<Rightarrow> string list" where
  "pull_secrets s xs = (if s = [] \<or> s \<in> set xs then xs else xs @ [s])"

lemma addImagePullSecret_eq:
  "addImagePullSecret s spec = spec\<lparr>ImagePullSecrets := pull_secrets s (ImagePullSecrets spec)\<rparr>"
  by (auto simp: addImagePullSecret_def pull_secrets_def list_ex_iff)

lemma pull_step:
  "(if length s > 0 then q\<lparr>pod_Spec := addImagePullSecret s (pod_Spec q)\<rparr> else q) =
   q\<lparr>pod_Spec := (pod_Spec q)\<lparr>ImagePullSecrets := pull_secrets s (ImagePullSecrets (pod_Spec q))\<rparr>\<rparr>"
  by (simp add: addImagePullSecret_eq pull_secrets_def)

lemma pull_secrets_idem [simp]: "pull_secrets s (pull_secrets s xs) = pull_secrets s xs"
  by (auto simp: pull_secrets_def)

definition redirected :: "'e env_scheme \<Rightarrow> resolved_config \<Rightarrow> string option \<Rightarrow> container \<Rightarrow> container" where
  "redirected E rc podIndex c =
     (case podIndex of
        None \<Rightarrow> c
      | Some i \<Rightarrow> c\<lparr>Args := strip_skip (Args c) @
          [''--redirect-url=https://'' @ redirect_host E rc i @ ''/oauth2/callback'']\<rparr>)"

lemma redirected_simps [simp]:
  "c_Name (redirected E rc i c) = c_Name c"
  "Requests (redirected E rc i c) = Requests c"
  "Ports (redirected E rc i c) = Ports c"
  by (simp_all add: redirected_def split: option.split)

lemma set_redirect_sidecars:
  assumes "\<And>c. c \<in> set cs \<Longrightarrow> c_Name c \<noteq> ContainerNameOauth2Proxy" and "c_Name d = ContainerNameOauth2Proxy"
  shows "set_redirect host (cs @ d # ds) =
    Inr (cs @ d\<lparr>Args := strip_skip (Args d) @ [''--redirect-url=https://'' @ host @ ''/oauth2/callback'']\<rparr> # ds)"
  using assms by (induction cs) (simp_all add: remove_redirect_args_eq ContainerNameOauth2Proxy_def)

lemma add_sidecars_frame:
  "add_sidecars E rc url p =
     p\<lparr>pod_Spec := (pod_Spec p)\<lparr>Containers := Containers (pod_Spec (add_sidecars E rc url p))\<rparr>\<rparr>"
  by (simp add: add_sidecars_def Let_def addProxyContainer_eq)

definition final_containers ::
  "'e env_scheme \<Rightarrow> resolved_config \<Rightarrow> string \<Rightarrow> string option \<Rightarrow> pod \<Rightarrow> container list" where
  "final_containers E rc url podIndex p =
     unnamed sidecar_names (Containers (pod_Spec p))
     @ [redirected E rc podIndex (getOIDCProxyContainer E (Some (pod_Spec p)) rc),
        getKubeRbacProxyContainer E (GetClientID rc) (GetOidcIssuerURL rc) url (Some p) rc]"

lemma oauth2_not_in_unnamed: "c \<in> set (unnamed sidecar_names cs) \<Longrightarrow> c_Name c \<noteq> ContainerNameOauth2Proxy"
  by (simp add: unnamed_def)

lemma rbac_container_cong:
  "Volumes (pod_Spec p) = Volumes (pod_Spec q) \<Longrightarrow>
   named ContainerNameKubeRbacProxy (Containers (pod_Spec p)) =
     named ContainerNameKubeRbacProxy (Containers (pod_Spec q)) \<Longrightarrow>
   getKubeRbacProxyContainer E ci iu url (Some p) rc = getKubeRbacProxyContainer E ci iu url (Some q) rc"
  by (simp add: getKubeRbacProxyContainer_def kept_requests_named
      [of E ContainerNameKubeRbacProxy default_requests "Containers (pod_Spec p)"]
      kept_requests_named [of E ContainerNameKubeRbacProxy default_requests "Containers (pod_Spec q)"])

subsection \<open>The injection in closed form\<close>

definition pod_index :: "pod \<Rightarrow> string option" where
  "pod_index p = fmlookup (fmupd LabelKey ''pod'' (GetLabels p)) ''statefulset.kubernetes.io/pod-name''"

theorem inject_closed:
  assumes "sidecars_unique (Containers (pod_Spec p))"
  shows "inject E ps rc suffix p =
    (case add_volumes rc suffix (pod_Spec p) of
       Inl e \<Rightarrow> Inl e
     | Inr spec \<Rightarrow>
         Inr (p\<lparr>GetAnnotations := GetAnnotations (addAnnotations E p rc),
                GetLabels := fmupd LabelKey ''pod'' (GetLabels p),
                pod_Spec := spec\<lparr>
                  Containers := final_containers E rc
                    (buildUpstreamURL (GetUpstreamTarget E rc) (pod_Spec p)) (pod_index p) (p\<lparr>pod_Spec := spec\<rparr>),
                  ImagePullSecrets := pull_secrets ps (ImagePullSecrets spec)\<rparr>\<rparr>))"
proof -
  let ?url = "buildUpstreamURL (GetUpstreamTarget E rc) (pod_Spec p)"
  let ?p3 = "p\<lparr>GetAnnotations := GetAnnotations (addAnnotations E p rc),
      GetLabels := fmupd LabelKey ''pod'' (GetLabels p)\<rparr>"
  have ann: "addPodLabels (addPodAnnotations (addAnnotations E p rc) (smap_of [(AnnotationHostKey, GetHost E rc)]))
      (smap_of [(LabelKey, ''pod'')]) = ?p3"
    using annotated_addAnnotations [of E rc p]
    by (subst addAnnotations_frame) (rule annotate_label, simp add: annotated_def)
  show ?thesis
  proof (cases "add_volumes rc suffix (pod_Spec p)")
    case (Inl e)
    then show ?thesis by (simp add: inject_def ann with_spec_def Let_def)
  next
    case (Inr spec)
    let ?p4 = "?p3\<lparr>pod_Spec := spec\<rparr>"
    have fr: "Containers spec = Containers (pod_Spec p)"
      using add_volumes_frame [OF Inr] by simp
    have rbac: "getKubeRbacProxyContainer E ci iu ?url (Some ?p4) rc =
        getKubeRbacProxyContainer E ci iu ?url (Some (p\<lparr>pod_Spec := spec\<rparr>)) rc" for ci iu
      by (rule rbac_container_cong) simp_all
    have side: "add_sidecars E rc ?url ?p4 = ?p4\<lparr>pod_Spec := spec\<lparr>Containers :=
        unnamed sidecar_names (Containers spec) @ [getOIDCProxyContainer E (Some spec) rc,
          getKubeRbacProxyContainer E (GetClientID rc) (GetOidcIssuerURL rc) ?url
            (Some (p\<lparr>pod_Spec := spec\<rparr>)) rc]\<rparr>\<rparr>"
      by (subst add_sidecars_frame, subst Containers_add_sidecars) (use assms fr rbac in simp_all)
    have w: "with_spec ?p3 (add_volumes rc suffix) = Inr ?p4"
      by (simp add: with_spec_def Inr)
    show ?thesis
      unfolding inject_def Let_def ann w res_bind_simps side pull_step Inr
      by (cases "pod_index p")
        (simp_all add: with_spec_def pod_index_def final_containers_def redirected_def fr
          set_redirect_sidecars [OF oauth2_not_in_unnamed c_Name_oidc])
  qed
qed

subsection \<open>Idempotence\<close>

lemma kept_requests_above:
  "kept_requests E name r cs = r \<or> quantity_above E (memory_of (kept_requests E name r cs)) ''100Mi''"
proof (induction cs arbitrary: r)
  case (Cons c cs)
  let ?r = "if c_Name c \<noteq> name then r
    else (case Requests c of None \<Rightarrow> r
          | Some q \<Rightarrow> if quantity_above E (memory_of q) ''100Mi'' then q else r)"
  have "?r = r \<or> quantity_above E (memory_of ?r) ''100Mi''"
    by (auto split: option.split)
  with Cons.IH [of ?r] show ?case by auto
qed simp

lemma kept_requests_again:
  assumes "named name cs' = [c]" and "Requests c = Some (kept_requests E name r cs)"
  shows "kept_requests E name r cs' = kept_requests E name r cs"
proof -
  have "c_Name c = name" using assms(1) by (auto simp: named_def filter_eq_Cons_iff)
  then show ?thesis
    using assms kept_requests_named [of E name r cs'] kept_requests_above [of E name r cs] by auto
qed

lemma oidc_again:
  assumes "named ContainerNameOauth2Proxy (Containers spec') = [c]"
    and "Requests c = Requests (getOIDCProxyContainer E (Some spec) rc)"
  shows "getOIDCProxyContainer E (Some spec') rc = getOIDCProxyContainer E (Some spec) rc"
  using kept_requests_again [OF assms(1), of E default_requests "Containers spec"] assms(2)
  by (simp add: getOIDCProxyContainer_def)

lemma rbac_again:
  assumes "named ContainerNameKubeRbacProxy (Containers (pod_Spec q)) = [c]"
    and "Requests c = Requests (getKubeRbacProxyContainer E ci iu url (Some p) rc)"
    and "Volumes (pod_Spec q) = Volumes (pod_Spec p)"
  shows "getKubeRbacProxyContainer E ci iu url (Some q) rc = getKubeRbacProxyContainer E ci iu url (Some p) rc"
  using kept_requests_again [OF assms(1), of E default_requests "Containers (pod_Spec p)"] assms(2,3)
  by (simp add: getKubeRbacProxyContainer_def)


lemma unnamed_append [simp]: "unnamed ns (xs @ ys) = unnamed ns xs @ unnamed ns ys"
  by (simp add: unnamed_def)

lemma unnamed_idem [simp]: "unnamed ns (unnamed ns xs) = unnamed ns xs"
  by (simp add: unnamed_def)

lemma named_unnamed [simp]: "n \<in> set ns \<Longrightarrow> named n (unnamed ns xs) = []"
  by (auto simp: named_def unnamed_def filter_empty_conv)

lemma named_append: "named n (xs @ ys) = named n xs @ named n ys"
  by (simp add: named_def)

lemma final_containers_named:
  "named ContainerNameOauth2Proxy (final_containers E rc url i p) =
     [redirected E rc i (getOIDCProxyContainer E (Some (pod_Spec p)) rc)]"
  "named ContainerNameKubeRbacProxy (final_containers E rc url i p) =
     [getKubeRbacProxyContainer E (GetClientID rc) (GetOidcIssuerURL rc) url (Some p) rc]"
  by (simp_all add: final_containers_def named_append) (simp_all add: named_def)

lemma final_containers_unnamed:
  "unnamed sidecar_names (final_containers E rc url i p) = unnamed sidecar_names (Containers (pod_Spec p))"
  by (simp add: final_containers_def) (simp add: unnamed_def)

lemma final_containers_unique: "sidecars_unique (final_containers E rc url i p)"
  by (simp add: sidecars_unique_def final_containers_named)

lemma final_containers_again:
  assumes "Volumes (pod_Spec q) = Volumes (pod_Spec p)"
    and "Containers (pod_Spec q) = final_containers E rc url i p"
  shows "final_containers E rc url i q = final_containers E rc url i p"
proof -
  have "getOIDCProxyContainer E (Some (pod_Spec q)) rc = getOIDCProxyContainer E (Some (pod_Spec p)) rc"
    by (rule oidc_again [of _ "redirected E rc i (getOIDCProxyContainer E (Some (pod_Spec p)) rc)"])
      (simp_all add: assms(2) final_containers_named)
  moreover have "getKubeRbacProxyContainer E (GetClientID rc) (GetOidcIssuerURL rc) url (Some q) rc =
      getKubeRbacProxyContainer E (GetClientID rc) (GetOidcIssuerURL rc) url (Some p) rc"
    by (rule rbac_again) (simp_all add: assms final_containers_named)
  ultimately show ?thesis
    using final_containers_unnamed [of E rc url i p] by (simp add: final_containers_def assms(2))
qed

text \<open>The upstream of the pod is the same after the injection: the named port of the target is not one
  of the sidecars' own.\<close>

definition upstream_port :: "string \<Rightarrow> string" where
  "upstream_port t = fst (CutPrefix (fst (snd (Cut t '',''))) '' port='')"

definition sidecar_ports_known :: "container list \<Rightarrow> bool" where
  "sidecar_ports_known cs \<longleftrightarrow>
     (\<forall>c \<in> set cs. c_Name c \<in> set sidecar_names \<longrightarrow>
        (\<forall>p \<in> set (Ports c). port_Name p \<in> {''oauth2'', ''rbac''}))"

lemma find_append_eq:
  "find p (xs @ ys) = (case find p xs of None \<Rightarrow> find p ys | Some x \<Rightarrow> Some x)"
  by (induction xs) simp_all

lemma named_port_unnamed:
  assumes "sidecar_ports_known cs" "port \<notin> {''oauth2'', ''rbac''}"
  shows "find (\<lambda>p. port_Name p = port) (concat (map Ports cs)) =
     find (\<lambda>p. port_Name p = port) (concat (map Ports (unnamed sidecar_names cs)))"
  using assms(1)
proof (induction cs)
  case (Cons c cs)
  have "c_Name c \<in> set sidecar_names \<Longrightarrow> find (\<lambda>p. port_Name p = port) (Ports c) = None"
    using Cons.prems assms(2) by (auto simp: sidecar_ports_known_def find_None_iff)
  moreover have "sidecar_ports_known cs"
    using Cons.prems by (simp add: sidecar_ports_known_def)
  ultimately show ?case
    using Cons.IH
    by (cases "c_Name c \<in> set sidecar_names") (auto simp: unnamed_def find_append_eq split: option.split)
qed (simp add: unnamed_def)

lemma buildUpstreamURL_unnamed:
  assumes "sidecar_ports_known (Containers a)" "sidecar_ports_known (Containers b)"
    and "unnamed sidecar_names (Containers a) = unnamed sidecar_names (Containers b)"
    and "upstream_port t \<notin> {''oauth2'', ''rbac''}"
  shows "buildUpstreamURL t a = buildUpstreamURL t b"
proof -
  have "named_port (upstream_port t) a = named_port (upstream_port t) b"
    using assms named_port_unnamed [OF assms(1,4)] named_port_unnamed [OF assms(2,4)]
    by (simp add: named_port_def)
  then show ?thesis
    by (cases "Cut t '',''")
      (simp add: buildUpstreamURL_def upstream_port_def Let_def case_prod_beta split: option.split)
qed

lemma final_containers_ports: "sidecar_ports_known (final_containers E rc url i p)"
  by (auto simp: sidecar_ports_known_def final_containers_def unnamed_def getOIDCProxyContainer_def
      getKubeRbacProxyContainer_def)

theorem inject_repeat:
  assumes q: "inject E ps rc suffix p = Inr q"
    and unique: "sidecars_unique (Containers (pod_Spec p))"
    and ports: "sidecar_ports_known (Containers (pod_Spec p))"
    and port: "upstream_port (GetUpstreamTarget E rc) \<notin> {''oauth2'', ''rbac''}"
  shows "inject E ps rc suffix q = Inr q"
proof -
  let ?url = "buildUpstreamURL (GetUpstreamTarget E rc) (pod_Spec p)"
  obtain spec where spec: "add_volumes rc suffix (pod_Spec p) = Inr spec"
    and q_def: "q = p\<lparr>GetAnnotations := GetAnnotations (addAnnotations E p rc),
        GetLabels := fmupd LabelKey ''pod'' (GetLabels p),
        pod_Spec := spec\<lparr>
          Containers := final_containers E rc ?url (pod_index p) (p\<lparr>pod_Spec := spec\<rparr>),
          ImagePullSecrets := pull_secrets ps (ImagePullSecrets spec)\<rparr>\<rparr>"
    using q unfolding inject_closed [OF unique] by (auto split: sum.splits)
  have fr: "Containers spec = Containers (pod_Spec p)"
    using add_volumes_frame [OF spec] by simp
  have fields: "Containers (pod_Spec q) = final_containers E rc ?url (pod_index p) (p\<lparr>pod_Spec := spec\<rparr>)"
      "GetLabels q = fmupd LabelKey ''pod'' (GetLabels p)" "Volumes (pod_Spec q) = Volumes spec"
      "GetName q = GetName p" "GetAnnotations q = GetAnnotations (addAnnotations E p rc)"
      "pull_secrets ps (ImagePullSecrets (pod_Spec q)) = ImagePullSecrets (pod_Spec q)"
    by (simp_all add: q_def)
  have url: "buildUpstreamURL (GetUpstreamTarget E rc) (pod_Spec q) = ?url"
    by (rule buildUpstreamURL_unnamed [OF _ ports _ port])
      (simp_all add: fields final_containers_ports final_containers_unnamed fr)
  have vol: "add_volumes rc suffix (pod_Spec q) = Inr (pod_Spec q)"
    by (rule add_volumes_noop [OF spec fields(3)])
  have ann: "GetAnnotations (addAnnotations E q rc) = GetAnnotations q"
    by (rule addAnnotations_id) (metis annotated_addAnnotations fields(4,5))
  have idx: "pod_index q = pod_index p"
    by (simp add: pod_index_def fields)
  have cs: "final_containers E rc ?url (pod_index p) q = Containers (pod_Spec q)"
    using final_containers_again [of q "p\<lparr>pod_Spec := spec\<rparr>" E rc ?url "pod_index p"]
    by (simp add: fields)
  have uq: "sidecars_unique (Containers (pod_Spec q))"
    by (simp add: fields final_containers_unique)
  have lab: "fmupd LabelKey ''pod'' (GetLabels q) = GetLabels q"
    by (simp add: fields)
  show ?thesis
    unfolding inject_closed [OF uq] vol url idx ann lab by (simp add: cs fields(6))
qed

end
