(* ===== verification/VPA_Webhook.thy ===== *)
theory VPA_Webhook
  imports Pod_Webhook
begin

text \<open>
  The mutating webhook for vertical pod autoscalers (\<open>pkg/webhook/vpa-webhook.go\<close>): a VPA that is
  matched itself, or whose target is, gets the policy mode \<open>Off\<close> for the two sidecars.
\<close>

definition isTargetRefMatched ::
  "'e env_scheme \<Rightarrow> 's kube \<Rightarrow> 's \<Rightarrow> controller_config option \<Rightarrow> string \<Rightarrow> cross_reference \<Rightarrow> bool" where
  "isTargetRefMatched E K s cfg namespace ref =
     (if cr_Kind ref = ''Deployment'' then
        (case Get (deployments K) s (namespace, cr_Name ref) of
           Inl _ \<Rightarrow> False
         | Inr deployment \<Rightarrow> Match E (ns_reader K s) cfg deployment)
      else if cr_Kind ref = ''StatefulSet'' then
        (case Get (statefulsets K) s (namespace, cr_Name ref) of
           Inl _ \<Rightarrow> False
         | Inr statefulset \<Rightarrow> Match E (ns_reader K s) cfg statefulset)
      else False)"

text \<open>The two loops over the policies: keep those of other containers, append one per sidecar.\<close>

fun keep_policies :: "container_policy list \<Rightarrow> container_policy list \<Rightarrow> container_policy list" where
  "keep_policies [] policies = policies"
| "keep_policies (policy # rest) policies =
     keep_policies rest
       (if pol_ContainerName policy \<noteq> ContainerNameOauth2Proxy \<and>
           pol_ContainerName policy \<noteq> ContainerNameKubeRbacProxy
        then policies @ [policy] else policies)"

fun append_off :: "string list \<Rightarrow> container_policy list \<Rightarrow> container_policy list" where
  "append_off [] policies = policies"
| "append_off (name # names) policies =
     append_off names (policies @ [\<lparr>pol_ContainerName = name, pol_Mode = Some ''Off''\<rparr>])"

definition pin_policies :: "vpa \<Rightarrow> vpa" where
  "pin_policies v =
     (let current = (case ResourcePolicy v of None \<Rightarrow> [] | Some ps \<Rightarrow> ps)
      in v\<lparr>ResourcePolicy := Some (append_off [ContainerNameOauth2Proxy, ContainerNameKubeRbacProxy]
                                        (keep_policies current []))\<rparr>)"

definition VPA_Default ::
  "'e env_scheme \<Rightarrow> 's kube \<Rightarrow> controller_config option \<Rightarrow> 's \<Rightarrow> vpa \<Rightarrow> vpa" where
  "VPA_Default E K cfg s v =
     (if GetDeletionTimestamp v \<noteq> None then v
      else (case TargetRef v of
              None \<Rightarrow> v
            | Some ref \<Rightarrow>
                if \<not> Match E (ns_reader K s) cfg v \<and>
                   \<not> isTargetRefMatched E K s cfg (GetNamespace v) ref
                then v
                else pin_policies v))"

subsection \<open>Facts\<close>

definition is_sidecar_policy :: "container_policy \<Rightarrow> bool" where
  "is_sidecar_policy p \<longleftrightarrow>
     pol_ContainerName p \<in> {ContainerNameOauth2Proxy, ContainerNameKubeRbacProxy}"

definition off_policies :: "container_policy list" where
  "off_policies = map (\<lambda>n. \<lparr>pol_ContainerName = n, pol_Mode = Some ''Off''\<rparr>)
     [ContainerNameOauth2Proxy, ContainerNameKubeRbacProxy]"

definition policies_of :: "vpa \<Rightarrow> container_policy list" where
  "policies_of v = (case ResourcePolicy v of None \<Rightarrow> [] | Some ps \<Rightarrow> ps)"

lemma keep_policies_filter: "keep_policies ps acc = acc @ filter (\<lambda>p. \<not> is_sidecar_policy p) ps"
  by (induction ps arbitrary: acc) (auto simp: is_sidecar_policy_def)

lemma append_off_map:
  "append_off names ps = ps @ map (\<lambda>n. \<lparr>pol_ContainerName = n, pol_Mode = Some ''Off''\<rparr>) names"
  by (induction names arbitrary: ps) simp_all

lemma pin_policies_eq:
  "pin_policies v =
     v\<lparr>ResourcePolicy := Some (filter (\<lambda>p. \<not> is_sidecar_policy p) (policies_of v) @ off_policies)\<rparr>"
  by (simp add: pin_policies_def policies_of_def keep_policies_filter append_off_map off_policies_def Let_def)

lemma off_policies_sidecar: "filter (\<lambda>p. \<not> is_sidecar_policy p) off_policies = []"
  by (simp add: off_policies_def is_sidecar_policy_def)

lemma pin_policies_idem: "pin_policies (pin_policies v) = pin_policies v"
  by (simp add: pin_policies_eq policies_of_def off_policies_sidecar)

text \<open>Matching reads the metadata of an object only.\<close>

lemma targetMatchesLabels_meta_cong:
  assumes "GetLabels a = GetLabels b" "GetNamespace a = GetNamespace b"
  shows "targetMatchesLabels E c t a = targetMatchesLabels E c t b"
  unfolding targetMatchesLabels_def assms ..

lemma Match_meta_cong:
  "GetLabels a = GetLabels b \<Longrightarrow> GetNamespace a = GetNamespace b \<Longrightarrow> Match E c cfg a = Match E c cfg b"
  by (simp add: Match_def targetMatchesLabels_meta_cong [of a b E c] split: option.split)

lemma VPA_Default_cases:
  "VPA_Default E K cfg s v = v \<or> VPA_Default E K cfg s v = pin_policies v"
  by (simp add: VPA_Default_def split: option.split)

lemma VPA_Default_pinned:
  "VPA_Default E K cfg s v = pin_policies v \<Longrightarrow>
   VPA_Default E K cfg s (pin_policies v) = pin_policies v"
  using VPA_Default_cases [of E K cfg s "pin_policies v"] by (auto simp: pin_policies_idem)

end
