(* ===== verification/Dependencies.thy ===== *)
theory Dependencies
  imports Webhook_Modifiers Kube_Client
begin

text \<open>
  The objects a target depends on (\<open>oidc-apps-secrets.go\<close>, \<open>oidc-apps-services.go\<close>,
  \<open>oidc-apps-httproutes.go\<close> of \<open>pkg/controllers\<close>): for each the builder of its identity and the
  mutation \<open>CreateOrUpdate\<close> runs on the stored object. The locales state what the reconcilers rely
  on when they run a mutation, and every mutation interprets them.
\<close>

text \<open>The yaml library: \<open>recode_kubeconfig\<close> is \<open>Marshal\<close> after \<open>Unmarshal\<close> into a \<open>clientcmd\<close> configuration,
  with the error of the latter.\<close>

record yaml_codec = rbac_yaml +
  recode_kubeconfig :: "string \<Rightarrow> string res"

subsection \<open>Names\<close>

definition owner_suffix :: "'e env_scheme \<Rightarrow> 'a object_meta_scheme \<Rightarrow> string" where
  "owner_suffix E o1 = GenerateSha256 E (GetName o1 @ ''-'' @ GetNamespace o1)"

text \<open>The ordinal of a stateful set pod: the text after the last dash of its pod-name label.\<close>

definition fetchStrIndexIfPresent :: "'a object_meta_scheme \<Rightarrow> string" where
  "fetchStrIndexIfPresent o1 =
     (case fmlookup (GetLabels o1) ''statefulset.kubernetes.io/pod-name'' of
        None \<Rightarrow> ''''
      | Some idx \<Rightarrow> last (Split idx CHR ''-''))"

definition addOptionalIndex :: "string \<Rightarrow> string" where
  "addOptionalIndex idx =
     (if idx = ''-'' then ''''
      else (case CutSuffix idx ''-'' of (idxStr, found) \<Rightarrow>
              if \<not> found then ''''
              else (case ParseInt32 idxStr of None \<Rightarrow> '''' | Some i \<Rightarrow> Itoa i @ ''-'')))"

definition index_of :: "'a object_meta_scheme \<Rightarrow> string" where
  "index_of o1 = addOptionalIndex (fetchStrIndexIfPresent o1 @ ''-'')"

subsection \<open>Secrets\<close>

definition oauth2SecretObject :: "'e env_scheme \<Rightarrow> 'a object_meta_scheme \<Rightarrow> secret" where
  "oauth2SecretObject E o1 = new_secret (SecretNameOauth2Proxy @ ''-'' @ owner_suffix E o1) (GetNamespace o1)"

definition mutate_options :: "'e env_scheme \<Rightarrow> resolved_config \<Rightarrow> (oauth2_config \<Rightarrow> oauth2_config) list" where
  "mutate_options E rc =
     [WithClientID (GetClientID rc),
      WithScope (GetScope rc),
      WithRedirectURL (GetRedirectURL E rc),
      WithOidcIssuerURL (GetOidcIssuerURL rc),
      EnableSslInsecureSkipVerify (GetSslInsecureSkipVerify rc),
      EnableInsecureOidcSkipIssuerVerification (GetInsecureOidcSkipIssuerVerification rc),
      EnableInsecureOidcSkipNonce (GetInsecureOidcSkipNonce rc)]
     @ (if GetClientSecretName rc \<noteq> [] then [WithClientSecretFile Oauth2ClientSecretFile]
        else if GetClientSecret rc \<noteq> [] then [WithClientSecret (GetClientSecret rc)]
        else [WithClientSecretFile ''/dev/null''])"

text \<open>The reads of the random source for a fresh cookie secret are an argument.\<close>

definition mutateOauth2Secret ::
  "'e env_scheme \<Rightarrow> (nat \<Rightarrow> nat option) \<Rightarrow> resolved_config \<Rightarrow> secret \<Rightarrow> secret res" where
  "mutateOauth2Secret E rnd rc s =
     (let oauth2Cfg = Parse (NewOAuth2Config (mutate_options E rc));
          checksum = GenerateFullSha256 E oauth2Cfg;
          stored = at_key (Data s) Oauth2CookieSecretKey;
          cookieSecret = (if length stored = 0 then GenerateRandomString rnd 32 else stored)
      in Inr (s\<lparr>GetLabels := smap_of [(LabelKey, LabelValue), (SecretLabelKey, Oauth2LabelValue)],
                GetAnnotations := smap_of [(AnnotationOauth2SecretChecksumKey, checksum)],
                Data := smap_of [(''oauth2-proxy.cfg'', oauth2Cfg), (Oauth2CookieSecretKey, cookieSecret)]\<rparr>))"

definition resourceAttributesSecretObject :: "'e env_scheme \<Rightarrow> 'a object_meta_scheme \<Rightarrow> secret" where
  "resourceAttributesSecretObject E o1 =
     new_secret (SecretNameResourceAttributes @ ''-'' @ owner_suffix E o1) (GetNamespace o1)"

definition mutateResourceAttributesSecret ::
  "yaml_codec \<Rightarrow> 'a object_meta_scheme \<Rightarrow> string \<Rightarrow> secret \<Rightarrow> secret res" where
  "mutateResourceAttributesSecret Y o1 targetNamespace s =
     (let y = rbac_yaml.truncate Y;
          cfg = Parse_root y (NewResourceAttributes y [WithNamespace targetNamespace, WithSubresource (GetName o1)])
      in Inr (s\<lparr>GetLabels := smap_of [(LabelKey, LabelValue), (SecretLabelKey, RbacLabelValue)],
                StringData := smap_of [(''config-file.yaml'', cfg)]\<rparr>))"

definition kubeconfigSecretObject :: "'e env_scheme \<Rightarrow> 'a object_meta_scheme \<Rightarrow> secret" where
  "kubeconfigSecretObject E o1 =
     new_secret (SecretNameKubeconfig @ ''-'' @ owner_suffix E o1) (GetNamespace o1)"

definition mutateKubeconfigSecret :: "yaml_codec \<Rightarrow> resolved_config \<Rightarrow> secret \<Rightarrow> secret res" where
  "mutateKubeconfigSecret Y rc s =
     (case DecodeString (GetKubeConfigStr rc) of
        None \<Rightarrow> Inl (Wrap ''kubeconfig is not base64 encoded'' (ErrOther ''illegal base64 data''))
      | Some decodestr \<Rightarrow>
          (case recode_kubeconfig Y decodestr of
             Inl e \<Rightarrow> Inl (Wrap (''kubeconfig '' @ decodestr @ '', is not in the expected format'') e)
           | Inr kubeconfig \<Rightarrow>
               Inr (s\<lparr>GetLabels := smap_of [(LabelKey, LabelValue), (SecretLabelKey, KubeconfigLabelValue)],
                      StringData := smap_of [(''kubeconfig'', kubeconfig)]\<rparr>)))"

definition oidcCaBundleSecretObject :: "'e env_scheme \<Rightarrow> 'a object_meta_scheme \<Rightarrow> secret" where
  "oidcCaBundleSecretObject E o1 =
     new_secret (SecretNameOidcCa @ ''-'' @ owner_suffix E o1) (GetNamespace o1)"

definition mutateOidcCaBundleSecret :: "resolved_config \<Rightarrow> secret \<Rightarrow> secret res" where
  "mutateOidcCaBundleSecret rc s =
     Inr (s\<lparr>GetLabels := smap_of [(LabelKey, LabelValue), (SecretLabelKey, OidcCa2LabelValue)],
            StringData := smap_of [(''ca.crt'', GetOidcCABundle rc)]\<rparr>)"

definition needsKubeconfigSecret :: "resolved_config \<Rightarrow> bool" where
  "needsKubeconfigSecret rc \<longleftrightarrow> GetKubeConfigStr rc \<noteq> []"

definition needsOidcCaBundleSecret :: "resolved_config \<Rightarrow> bool" where
  "needsOidcCaBundleSecret rc \<longleftrightarrow> GetOidcCABundle rc \<noteq> []"

subsection \<open>Services\<close>

definition oauth2ServiceObject :: "'e env_scheme \<Rightarrow> 'a object_meta_scheme \<Rightarrow> service" where
  "oauth2ServiceObject E o1 =
     new_service (ServiceNameOauth2Service @ ''-'' @ index_of o1 @ owner_suffix E o1) (GetNamespace o1)"

definition mutateOauth2Service :: "smap \<Rightarrow> service \<Rightarrow> service res" where
  "mutateOauth2Service selectors svc =
     Inr (svc\<lparr>GetLabels := smap_of [(LabelKey, LabelValue)],
              svc_Spec :=
                \<lparr>svc_Ports = [\<lparr>sport_Name = ''http'', sport_Port = 8080, sport_TargetPort = StrVal ''oauth2''\<rparr>],
                 svc_Selector = selectors\<rparr>\<rparr>)"

subsection \<open>HTTPRoutes\<close>

definition convertParentRefs :: "http_route_parent_ref list \<Rightarrow> parent_reference list" where
  "convertParentRefs refs =
     map (\<lambda>r. \<lparr>pr_Name = ref_Name r,
                pr_Namespace = (if ref_Namespace r \<noteq> [] then Some (ref_Namespace r) else None),
                pr_SectionName = (if ref_SectionName r \<noteq> [] then Some (ref_SectionName r) else None)\<rparr>) refs"

definition applyHTTPRouteDefaultPathRedirect :: "resolved_config \<Rightarrow> http_route \<Rightarrow> http_route" where
  "applyHTTPRouteDefaultPathRedirect rc r =
     (let defaultPath = GetHTTPRouteDefaultPath rc
      in if defaultPath = [] then r
         else r\<lparr>route_Spec := (route_Spec r)\<lparr>Rules :=
                  \<lparr>Matches = [PathMatchExact ''/''], Filters = [RequestRedirect defaultPath 302],
                   BackendRefs = []\<rparr> # Rules (route_Spec r)\<rparr>\<rparr>)"

text \<open>What the two mutations share: labels, one rule to the service, then the settings of the target.\<close>

definition route_to :: "string \<Rightarrow> string \<Rightarrow> parent_reference list \<Rightarrow> route_spec" where
  "route_to host backend parents =
     \<lparr>ParentRefs = parents, Hostnames = [host],
      Rules = [\<lparr>Matches = [PathMatchPathPrefix ''/''], Filters = [],
                BackendRefs = [\<lparr>br_Name = backend, br_Port = 8080\<rparr>]\<rparr>]\<rparr>"

definition finish_route :: "resolved_config \<Rightarrow> http_route \<Rightarrow> http_route" where
  "finish_route rc r0 =
     (let annotations = GetHTTPRouteAnnotations rc;
          r1 = (if annotations \<noteq> fmempty then r0\<lparr>GetAnnotations := annotations\<rparr> else r0);
          r2 = applyHTTPRouteDefaultPathRedirect rc r1
      in r2\<lparr>GetLabels := maps_Copy (GetLabels r2) (GetHTTPRouteLabels rc)\<rparr>)"

definition httpRouteForDeploymentObject :: "'e env_scheme \<Rightarrow> 'a object_meta_scheme \<Rightarrow> http_route" where
  "httpRouteForDeploymentObject E o1 =
     new_http_route (HTTPRouteName @ ''-'' @ owner_suffix E o1) (GetNamespace o1)"

definition mutateHTTPRouteForDeployment ::
  "'e env_scheme \<Rightarrow> 'a object_meta_scheme \<Rightarrow> resolved_config \<Rightarrow> http_route \<Rightarrow> http_route res" where
  "mutateHTTPRouteForDeployment E o1 rc r =
     Inr (finish_route rc
       (r\<lparr>GetLabels := smap_of [(LabelKey, LabelValue)],
          route_Spec := route_to (GetHost E rc) (ServiceNameOauth2Service @ ''-'' @ owner_suffix E o1)
            (convertParentRefs (GetHTTPRouteParentRefs E rc))\<rparr>))"

definition httpRouteForStatefulSetPodObject ::
  "'e env_scheme \<Rightarrow> pod \<Rightarrow> 'a object_meta_scheme \<Rightarrow> http_route" where
  "httpRouteForStatefulSetPodObject E p o1 =
     new_http_route (HTTPRouteName @ ''-'' @ index_of p @ owner_suffix E p) (GetNamespace o1)"

definition pod_host :: "string \<Rightarrow> string \<Rightarrow> string" where
  "pod_host hostPrefix index =
     (case Cut hostPrefix ''.'' of (host, domain, _) \<Rightarrow> host @ ''-'' @ index @ ''.'' @ domain)"

definition mutateHTTPRouteForStatefulSetPod ::
  "'e env_scheme \<Rightarrow> pod \<Rightarrow> resolved_config \<Rightarrow> http_route \<Rightarrow> http_route res" where
  "mutateHTTPRouteForStatefulSetPod E p rc r =
     (case fmlookup (GetAnnotations p) AnnotationHostKey of
        None \<Rightarrow> Inl (ErrOther (''host annotation not found in pod '' @ GetNamespace p @ ''/'' @ GetName p))
      | Some hostPrefix \<Rightarrow>
          Inr (finish_route rc
            (r\<lparr>GetLabels := smap_of [(LabelKey, LabelValue)],
               route_Spec := route_to (pod_host hostPrefix (fetchStrIndexIfPresent p))
                 (ServiceNameOauth2Service @ ''-'' @ index_of p @ owner_suffix E p)
                 (convertParentRefs (GetHTTPRouteParentRefs E rc))\<rparr>)))"

subsection \<open>The contract of a mutation\<close>

text \<open>
  \<open>CreateOrUpdate\<close> refuses a mutation that renames its object, runs it on whatever the cluster holds
  under that name, and writes when the result differs. A mutation therefore keeps the identity, is
  blind to the identifier the server assigns and to the owners, and does nothing to its own result.
\<close>

locale mutation =
  fixes mutate :: "'a object_meta_scheme \<Rightarrow> 'a object_meta_scheme res"
  assumes identity: "mutate ob = Inr ob' \<Longrightarrow>
      GetName ob' = GetName ob \<and> GetNamespace ob' = GetNamespace ob \<and> GetUID ob' = GetUID ob \<and>
      GetOwnerReferences ob' = GetOwnerReferences ob"
    and uid_blind: "mutate (ob\<lparr>GetUID := u\<rparr>) = map_sum id (\<lambda>ob'. ob'\<lparr>GetUID := u\<rparr>) (mutate ob)"
    and owners_blind: "mutate (ob\<lparr>GetOwnerReferences := rs\<rparr>) =
      map_sum id (\<lambda>ob'. ob'\<lparr>GetOwnerReferences := rs\<rparr>) (mutate ob)"
    and again: "mutate ob = Inr ob' \<Longrightarrow> mutate ob' = Inr ob'"
begin

lemma owned_again:
  assumes "mutate ob = Inr ob'"
  shows "mutate (ob'\<lparr>GetOwnerReferences := rs\<rparr>) = Inr (ob'\<lparr>GetOwnerReferences := rs\<rparr>)"
  using again [OF assms] by (simp add: owners_blind)

lemma stored_again:
  assumes "mutate ob = Inr ob'"
  shows "mutate (ob'\<lparr>GetOwnerReferences := rs, GetUID := u\<rparr>) =
    Inr (ob'\<lparr>GetOwnerReferences := rs, GetUID := u\<rparr>)"
  using owned_again [OF assms] by (simp add: uid_blind)

end

text \<open>
  The server may store something else than what was written. A mutation settles when, run again on what
  the server made of its result, it gives an object of which the server makes the same.
\<close>

locale settling_mutation = mutation mutate
  for mutate :: "'a object_meta_scheme \<Rightarrow> 'a object_meta_scheme res" +
  fixes admit :: "'a object_meta_scheme \<Rightarrow> 'a object_meta_scheme"
  assumes admit_meta: "GetName (admit ob) = GetName ob" "GetNamespace (admit ob) = GetNamespace ob"
      "GetLabels (admit ob) = GetLabels ob" "GetAnnotations (admit ob) = GetAnnotations ob"
      "GetOwnerReferences (admit ob) = GetOwnerReferences ob"
    and admit_uid: "admit (ob\<lparr>GetUID := u\<rparr>) = (admit ob)\<lparr>GetUID := u\<rparr>"
    and admit_owners: "admit (ob\<lparr>GetOwnerReferences := rs\<rparr>) = (admit ob)\<lparr>GetOwnerReferences := rs\<rparr>"
    and settles: "admit ob = ob \<Longrightarrow> mutate ob = Inr ob' \<Longrightarrow>
      \<exists>ob''. mutate (admit ob') = Inr ob'' \<and> admit ob'' = admit ob'"

text \<open>Those that leave the label by which the controllers find their objects again.\<close>

locale labelled_mutation = settling_mutation +
  assumes labelled: "mutate ob = Inr ob' \<Longrightarrow> fmlookup (GetLabels ob') LabelKey = Some LabelValue"

subsection \<open>The mutations keep the contract\<close>

lemma at_key_fmupd [simp]: "at_key (smap_of [(a, x), (b, y)]) k =
   (if k = a then x else if k = b then y else '''')"
  by (simp add: at_key_def)

lemma merge_string_data_fixed: "merge_string_data x = x \<longleftrightarrow> StringData x = fmempty"
  by (cases x) (auto simp: merge_string_data_def maps_Copy_def)

lemma maps_Copy_twice [simp]: "maps_Copy (maps_Copy m n) n = maps_Copy m n"
  by (rule fmap_ext) (simp add: maps_Copy_def)

lemmas secret_mutations = merge_string_data_fixed mutateOauth2Secret_def mutateResourceAttributesSecret_def
  mutateKubeconfigSecret_def mutateOidcCaBundleSecret_def Let_def

interpretation oauth2_secret: labelled_mutation "mutateOauth2Secret E rnd rc" merge_string_data
  for E :: "'e env_scheme" and rnd rc
  by unfold_locales (auto simp: secret_mutations, auto simp: merge_string_data_def maps_Copy_def)

interpretation attributes_secret: labelled_mutation "mutateResourceAttributesSecret Y ob ns" merge_string_data
  for Y and ob :: "'b object_meta_scheme" and ns
  by unfold_locales (auto simp: secret_mutations, auto simp: merge_string_data_def)

interpretation kubeconfig_secret: labelled_mutation "mutateKubeconfigSecret Y rc" merge_string_data for Y rc
  by unfold_locales (auto simp: secret_mutations split: option.splits sum.splits, auto simp: merge_string_data_def)

interpretation ca_secret: labelled_mutation "mutateOidcCaBundleSecret rc" merge_string_data for rc
  by unfold_locales (auto simp: secret_mutations, auto simp: merge_string_data_def)

interpretation oauth2_service: labelled_mutation "mutateOauth2Service sel" "\<lambda>x. x" for sel
  by unfold_locales (auto simp: mutateOauth2Service_def)

lemma finish_route_fields:
  "finish_route rc r =
     r\<lparr>GetLabels := maps_Copy (GetLabels r) (GetHTTPRouteLabels rc),
       GetAnnotations := (if GetHTTPRouteAnnotations rc \<noteq> fmempty then GetHTTPRouteAnnotations rc
         else GetAnnotations r),
       route_Spec := route_Spec (applyHTTPRouteDefaultPathRedirect rc r)\<rparr>"
  by (simp add: finish_route_def applyHTTPRouteDefaultPathRedirect_def Let_def)

lemma route_redirect_cong:
  "route_Spec a = route_Spec b \<Longrightarrow>
   route_Spec (applyHTTPRouteDefaultPathRedirect rc a) = route_Spec (applyHTTPRouteDefaultPathRedirect rc b)"
  by (simp add: applyHTTPRouteDefaultPathRedirect_def Let_def)

text \<open>A route that is finished from fixed labels and a fixed specification.\<close>

definition build_route :: "resolved_config \<Rightarrow> route_spec \<Rightarrow> http_route \<Rightarrow> http_route" where
  "build_route rc spec r = finish_route rc (r\<lparr>GetLabels := smap_of [(LabelKey, LabelValue)], route_Spec := spec\<rparr>)"

lemma build_route_fields:
  "build_route rc spec r =
     r\<lparr>GetLabels := maps_Copy (smap_of [(LabelKey, LabelValue)]) (GetHTTPRouteLabels rc),
       GetAnnotations := (if GetHTTPRouteAnnotations rc \<noteq> fmempty then GetHTTPRouteAnnotations rc
         else GetAnnotations r),
       route_Spec := (if GetHTTPRouteDefaultPath rc = [] then spec
         else spec\<lparr>Rules := \<lparr>Matches = [PathMatchExact ''/''],
                Filters = [RequestRedirect (GetHTTPRouteDefaultPath rc) 302], BackendRefs = []\<rparr> # Rules spec\<rparr>)\<rparr>"
  by (simp add: build_route_def finish_route_fields applyHTTPRouteDefaultPathRedirect_def Let_def)

interpretation routes: settling_mutation "\<lambda>r. Inr (build_route rc spec r)" "\<lambda>x. x" for rc spec
  by unfold_locales (auto simp: build_route_fields)

lemma mutateHTTPRouteForDeployment_build:
  "mutateHTTPRouteForDeployment E ob rc = (\<lambda>r. Inr (build_route rc
     (route_to (GetHost E rc) (ServiceNameOauth2Service @ ''-'' @ owner_suffix E ob)
       (convertParentRefs (GetHTTPRouteParentRefs E rc))) r))"
  by (rule ext) (simp add: mutateHTTPRouteForDeployment_def build_route_def)

lemma mutateHTTPRouteForStatefulSetPod_build:
  "mutateHTTPRouteForStatefulSetPod E p rc =
     (case fmlookup (GetAnnotations p) AnnotationHostKey of
        None \<Rightarrow> (\<lambda>_. Inl (ErrOther (''host annotation not found in pod '' @ GetNamespace p @ ''/'' @ GetName p)))
      | Some hp \<Rightarrow> (\<lambda>r. Inr (build_route rc
          (route_to (pod_host hp (fetchStrIndexIfPresent p))
            (ServiceNameOauth2Service @ ''-'' @ index_of p @ owner_suffix E p)
            (convertParentRefs (GetHTTPRouteParentRefs E rc))) r)))"
  by (rule ext) (simp add: mutateHTTPRouteForStatefulSetPod_def build_route_def split: option.split)

interpretation deployment_route: settling_mutation "mutateHTTPRouteForDeployment E ob rc" "\<lambda>x. x"
  for E :: "'e env_scheme" and ob :: "'b object_meta_scheme" and rc
  unfolding mutateHTTPRouteForDeployment_build by (rule routes.settling_mutation_axioms)

interpretation pod_route: settling_mutation "mutateHTTPRouteForStatefulSetPod E p rc" "\<lambda>x. x"
  for E :: "'e env_scheme" and p rc
proof (cases "fmlookup (GetAnnotations p) AnnotationHostKey")
  case None
  then show "settling_mutation (mutateHTTPRouteForStatefulSetPod E p rc) (\<lambda>x. x)"
    unfolding mutateHTTPRouteForStatefulSetPod_build by unfold_locales simp_all
next
  case (Some hp)
  then show "settling_mutation (mutateHTTPRouteForStatefulSetPod E p rc) (\<lambda>x. x)"
    unfolding mutateHTTPRouteForStatefulSetPod_build by (simp add: routes.settling_mutation_axioms)
qed

text \<open>The label of a route survives exactly when the target does not set another value for it.\<close>

lemma build_route_label:
  "fmlookup (GetLabels (build_route rc spec r)) LabelKey =
     (case fmlookup (GetHTTPRouteLabels rc) LabelKey of None \<Rightarrow> Some LabelValue | Some v \<Rightarrow> Some v)"
  by (simp add: build_route_fields split: option.split)

end
