(* ===== verification/Owned_Resources.thy ===== *)
theory Owned_Resources
  imports Dependencies
begin

text \<open>
  The generic part of \<open>pkg/controllers/modifiers.go\<close> and all of \<open>owned.go\<close>: reconciling one owned
  object, finding the owned objects of a workload and deleting them. The locale
  \<open>mutation\<close> is extended with the laws of the client, which gives convergence: a reconcile that
  succeeded leaves nothing to do.
\<close>

subsection \<open>One owned object\<close>

definition own :: "'s kube \<Rightarrow> string \<Rightarrow> 'b object_meta_scheme \<Rightarrow> 'a object_meta_scheme \<Rightarrow> 'a object_meta_scheme res" where
  "own K ty owner ob =
     res_bind (SetOwnerReference K ty (meta_of owner) (meta_of ob))
       (\<lambda>refs. Inr (ob\<lparr>GetOwnerReferences := refs\<rparr>))"

text \<open>The log line about the operation is left out; \<open>ty\<close> is the Go type of the owner.\<close>

definition reconcileOwnedResource ::
  "'s kube \<Rightarrow> ('s, 'a object_meta_scheme) store \<Rightarrow> string \<Rightarrow> 'b object_meta_scheme
     \<Rightarrow> 'a object_meta_scheme \<Rightarrow> ('a object_meta_scheme \<Rightarrow> 'a object_meta_scheme res) \<Rightarrow> ('s, unit) go" where
  "reconcileOwnedResource K S ty owner obj mutate =
     CreateOrUpdate S obj (\<lambda>ob. res_bind (mutate ob) (own K ty owner))"

text \<open>What \<open>CreateOrUpdate\<close> is given: the mutation, then the owner reference.\<close>

definition owned_step ::
  "'s kube \<Rightarrow> string \<Rightarrow> 'b object_meta_scheme \<Rightarrow> ('a object_meta_scheme \<Rightarrow> 'a object_meta_scheme res)
     \<Rightarrow> 'a object_meta_scheme \<Rightarrow> 'a object_meta_scheme res" where
  "owned_step K ty owner mutate ob = res_bind (mutate ob) (own K ty owner)"

lemma own_again:
  assumes owners: "owner_laws (SetOwnerReference K)" and "own K ty owner m = Inr new"
  shows "own K ty owner (new\<lparr>GetUID := u\<rparr>) = Inr (new\<lparr>GetUID := u\<rparr>)"
    and "own K ty owner new = Inr new"
proof -
  obtain refs where refs: "SetOwnerReference K ty (meta_of owner) (meta_of m) = Inr refs"
    and new: "new = m\<lparr>GetOwnerReferences := refs\<rparr>"
    using assms(2) by (auto simp: own_def res_bind_Inr_iff)
  have "SetOwnerReference K ty (meta_of owner) (meta_of (new\<lparr>GetUID := u\<rparr>)) = Inr refs"
    by (rule owner_again [OF owners refs]) (simp_all add: new object_meta.truncate_def)
  then show "own K ty owner (new\<lparr>GetUID := u\<rparr>) = Inr (new\<lparr>GetUID := u\<rparr>)"
    by (simp add: own_def new)
  have "SetOwnerReference K ty (meta_of owner) (meta_of new) = Inr refs"
    by (rule owner_again [OF owners refs]) (simp_all add: new object_meta.truncate_def)
  then show "own K ty owner new = Inr new"
    by (simp add: own_def new)
qed

lemma own_frame: "own K ty owner m = Inr new \<Longrightarrow> \<exists>refs. new = m\<lparr>GetOwnerReferences := refs\<rparr>"
  by (auto simp: own_def res_bind_Inr_iff)

text \<open>Convergence, for every mutation that keeps the contract.\<close>

context mutation
begin

lemma reconcile_step:
  "reconcileOwnedResource K S ty owner obj mutate = CreateOrUpdate S obj (owned_step K ty owner mutate)"
  by (simp add: reconcileOwnedResource_def owned_step_def [abs_def])

end

text \<open>A stored object is settled when the step gives one of which the server makes the same.\<close>

definition settled_for ::
  "('a object_meta_scheme \<Rightarrow> 'a object_meta_scheme res) \<Rightarrow> ('a object_meta_scheme \<Rightarrow> 'a object_meta_scheme)
     \<Rightarrow> 's kube \<Rightarrow> string \<Rightarrow> 'b object_meta_scheme \<Rightarrow> 'a object_meta_scheme \<Rightarrow> bool" where
  "settled_for mutate admit K ty owner cur \<longleftrightarrow> (\<exists>new. owned_step K ty owner mutate cur = Inr new \<and> admit new = cur)"

context settling_mutation
begin

lemma step_settled:
  assumes owners: "owner_laws (SetOwnerReference K)" and "admit ob = ob" "owned_step K ty owner mutate ob = Inr new"
  shows "settled_for mutate admit K ty owner (admit new)" and "settled_for mutate admit K ty owner (admit (new\<lparr>GetUID := u\<rparr>))"
proof -
  obtain m refs where m: "mutate ob = Inr m" and new: "new = m\<lparr>GetOwnerReferences := refs\<rparr>"
    and refs: "SetOwnerReference K ty (meta_of owner) (meta_of m) = Inr refs"
    using assms(3) by (auto simp: owned_step_def own_def res_bind_Inr_iff)
  obtain m2 where m2: "mutate (admit m) = Inr m2" "admit m2 = admit m" using settles [OF assms(2) m] by blast
  have ns: "GetNamespace m2 = GetNamespace m" using identity [OF m2(1)] admit_meta by simp
  have own1: "SetOwnerReference K ty (meta_of owner) (meta_of (m2\<lparr>GetOwnerReferences := refs, GetUID := u\<rparr>)) = Inr refs"
    by (rule owner_again [OF owners refs]) (simp_all add: ns, simp add: object_meta.truncate_def)
  have own2: "SetOwnerReference K ty (meta_of owner) (meta_of (m2\<lparr>GetOwnerReferences := refs\<rparr>)) = Inr refs"
    by (rule owner_again [OF owners refs]) (simp_all add: ns, simp add: object_meta.truncate_def)
  have "mutate (admit new) = Inr (m2\<lparr>GetOwnerReferences := refs\<rparr>)"
    using m2(1) by (simp add: new admit_owners owners_blind)
  moreover have "admit (m2\<lparr>GetOwnerReferences := refs\<rparr>) = admit new" by (simp add: new admit_owners m2(2))
  ultimately show "settled_for mutate admit K ty owner (admit new)"
    using own2 by (simp add: settled_for_def owned_step_def own_def)
  have "mutate (admit (new\<lparr>GetUID := u\<rparr>)) = Inr (m2\<lparr>GetOwnerReferences := refs, GetUID := u\<rparr>)"
    using m2(1) by (simp add: new admit_owners admit_uid owners_blind uid_blind)
  moreover have "admit (m2\<lparr>GetUID := u, GetOwnerReferences := refs\<rparr>) = admit (new\<lparr>GetUID := u\<rparr>)"
    by (simp add: new admit_owners admit_uid m2(2))
  ultimately show "settled_for mutate admit K ty owner (admit (new\<lparr>GetUID := u\<rparr>))"
    using own1 by (simp add: settled_for_def owned_step_def own_def)
qed

text \<open>After a successful reconcile the stored object is settled.\<close>

lemma reconciled_settled:
  assumes owners: "owner_laws (SetOwnerReference K)" and writes: "create_or_update_laws admit S"
    and "admit obj = obj" and ok: "reconcileOwnedResource K S ty owner obj mutate s = (Inr (), s')"
  shows "\<exists>cur. Get S s' (key_of obj) = Inr cur \<and> settled_for mutate admit K ty owner cur"
  using create_or_update_success [OF writes ok [unfolded reconcile_step]] step_settled [OF owners]
    create_or_update_read [OF writes] assms(3) by blast

text \<open>It belongs to the owner and carries what the mutation sets.\<close>

lemma settled_owned:
  assumes owners: "owner_laws (SetOwnerReference K)" and "settled_for mutate admit K ty owner cur"
  shows "\<exists>r \<in> set (GetOwnerReferences cur). or_UID r = GetUID owner"
    and "\<exists>m. mutate cur = Inr m \<and> GetLabels cur = GetLabels m \<and> GetAnnotations cur = GetAnnotations m"
proof -
  obtain m refs where m: "mutate cur = Inr m" and cur: "admit (m\<lparr>GetOwnerReferences := refs\<rparr>) = cur"
    and refs: "SetOwnerReference K ty (meta_of owner) (meta_of m) = Inr refs"
    using assms(2) by (auto simp: settled_for_def owned_step_def own_def res_bind_Inr_iff)
  have "GetOwnerReferences cur = refs" by (subst cur [symmetric]) (simp add: admit_meta)
  with owner_set [OF owners refs] show "\<exists>r \<in> set (GetOwnerReferences cur). or_UID r = GetUID owner" by simp
  have "GetLabels cur = GetLabels m" "GetAnnotations cur = GetAnnotations m"
    by (subst cur [symmetric], simp add: admit_meta)+
  with m show "\<exists>m. mutate cur = Inr m \<and> GetLabels cur = GetLabels m \<and> GetAnnotations cur = GetAnnotations m" by blast
qed

text \<open>A reconcile of a settled object leaves what is stored as it is; when nothing has to be merged, it
  does not write at all.\<close>

lemma settled_again:
  assumes writes: "create_or_update_laws admit S" and "Get S s (key_of obj) = Inr cur" "settled_for mutate admit K ty owner cur"
    and ok: "reconcileOwnedResource K S ty owner obj mutate s = (Inr (), s')"
  shows "Get S s' (key_of obj) = Inr cur"
  using create_or_update_success [OF writes ok [unfolded reconcile_step]] assms(2,3)
  by (auto simp: settled_for_def)

lemma settled_fixed:
  assumes writes: "create_or_update_laws admit S" and "Get S s (key_of obj) = Inr cur"
    and "owned_step K ty owner mutate cur = Inr cur"
  shows "reconcileOwnedResource K S ty owner obj mutate s = (Inr (), s)"
  using create_or_update_fixed [where f = "owned_step K ty owner mutate", OF writes assms(2,3)]
  by (simp add: reconcile_step)

end

subsection \<open>Finding the owned objects\<close>

text \<open>Both objects are non-nil wherever the function is called.\<close>

definition isAnOwnedResource :: "'a object_meta_scheme \<Rightarrow> 'b object_meta_scheme \<Rightarrow> bool" where
  "isAnOwnedResource owner owned =
     list_ex (\<lambda>ref. or_UID ref = GetUID owner) (GetOwnerReferences owned)"

definition listed ::
  "('s, 'o) store \<Rightarrow> 's \<Rightarrow> 'a object_meta_scheme \<Rightarrow> smap \<Rightarrow> 'o list res" where
  "listed S s ob lbls = List S s \<lparr>InNamespace = Some (GetNamespace ob), MatchingLabels = lbls\<rparr>"

text \<open>A list that is not found is an empty list; the loops keep the owned ones.\<close>

definition owned_of ::
  "'a object_meta_scheme \<Rightarrow> 'b object_meta_scheme list res \<Rightarrow> 'b object_meta_scheme list res" where
  "owned_of ob r =
     (case r of
        Inl e \<Rightarrow> (case IgnoreNotFound e of None \<Rightarrow> Inr [] | Some e' \<Rightarrow> Inl e')
      | Inr items \<Rightarrow> Inr (filter (isAnOwnedResource ob) items))"

definition fetchOidcAppsServices :: "'s kube \<Rightarrow> 'a object_meta_scheme \<Rightarrow> 's \<Rightarrow> service list res" where
  "fetchOidcAppsServices K ob s =
     owned_of ob (listed (services K) s ob (smap_of [(LabelKey, LabelValue)]))"

definition fetchOidcAppsHTTPRoutes :: "'s kube \<Rightarrow> 'a object_meta_scheme \<Rightarrow> 's \<Rightarrow> http_route list res" where
  "fetchOidcAppsHTTPRoutes K ob s =
     owned_of ob (listed (httproutes K) s ob (smap_of [(LabelKey, LabelValue)]))"

definition fetchOidcAppsSecrets :: "'s kube \<Rightarrow> 'a object_meta_scheme \<Rightarrow> 's \<Rightarrow> secret list res" where
  "fetchOidcAppsSecrets K ob s =
     owned_of ob (listed (secrets K) s ob
       (smap_of [(LabelKey, LabelValue), (SecretLabelKey, Oauth2LabelValue)]))"

subsection \<open>Deleting them\<close>

definition delete_one :: "('s, 'b object_meta_scheme) store \<Rightarrow> string \<Rightarrow> 'b object_meta_scheme \<Rightarrow> ('s, unit) go" where
  "delete_one S what ob =
     wrapping (''failed to delete '' @ what @ '' '' @ GetNamespace ob @ ''/'' @ GetName ob)
       (ignoring IgnoreNotFound (DeleteObj S ob))"

text \<open>The three lists are read one after the other, each after the deletions before it.\<close>

definition deleteOwnedResources :: "'s kube \<Rightarrow> 'a object_meta_scheme \<Rightarrow> ('s, unit) go" where
  "deleteOwnedResources K ob =
     and_then (reading (fetchOidcAppsSecrets K ob)) (\<lambda>items.
     and_then (for_each (delete_one (secrets K) ''secret'') items) (\<lambda>_.
     and_then (reading (fetchOidcAppsHTTPRoutes K ob)) (\<lambda>routes.
     and_then (for_each (delete_one (httproutes K) ''httproute'') routes) (\<lambda>_.
     and_then (reading (fetchOidcAppsServices K ob)) (\<lambda>svcs.
     for_each (delete_one (services K) ''service'') svcs)))))"

subsection \<open>Vertical pod autoscalers\<close>

text \<open>Every policy of another container triggers one empty patch of its autoscaler.\<close>

fun trigger_patches :: "'s kube \<Rightarrow> vpa \<Rightarrow> container_policy list \<Rightarrow> ('s, unit) go" where
  "trigger_patches K v [] = ret ()"
| "trigger_patches K v (policy # policies) =
     (if pol_ContainerName policy = ContainerNameOauth2Proxy \<or>
         pol_ContainerName policy = ContainerNameKubeRbacProxy
      then trigger_patches K v policies
      else and_then (wrapping ''failed to patch vpa'' (PatchEmpty K v))
        (\<lambda>_. trigger_patches K v policies))"

definition patchVpa :: "'s kube \<Rightarrow> resolved_config \<Rightarrow> 'a object_meta_scheme \<Rightarrow> ('s, unit) go" where
  "patchVpa K rc ob =
     (case GetTargetLabelSelector rc of
        None \<Rightarrow> throw (Panic ''nil pointer dereference'')
      | Some targetLabels \<Rightarrow>
          and_then (wrapping ''failed to list vpas'' (reading (\<lambda>s. listed (vpas K) s ob (MatchLabels targetLabels))))
            (for_each (\<lambda>v. case ResourcePolicy v of
                None \<Rightarrow> throw (Panic ''nil pointer dereference'')
              | Some containerPolicies \<Rightarrow> trigger_patches K v containerPolicies)))"

subsection \<open>Pods of a workload\<close>

definition isOidcAppPod :: "pod \<Rightarrow> bool" where
  "isOidcAppPod p =
     list_ex (\<lambda>c. c_Name c = ContainerNameOauth2Proxy \<or> c_Name c = ContainerNameKubeRbacProxy)
       (Containers (pod_Spec p))"

text \<open>\<open>Inl ()\<close> ends the whole search with false: a replica set that could not be read.\<close>

fun owned_by_refs ::
  "'s kube \<Rightarrow> 's \<Rightarrow> 'a object_meta_scheme \<Rightarrow> owner_reference list \<Rightarrow> unit + bool" where
  "owned_by_refs K s ob [] = Inr False"
| "owned_by_refs K s ob (ref # refs) =
     (if or_Kind ref = ''StatefulSet'' then
        (if or_UID ref = GetUID ob then Inr True else owned_by_refs K s ob refs)
      else if or_Kind ref = ''ReplicaSet'' then
        (case Get (replicasets K) s (GetNamespace ob, or_Name ref) of
           Inl e \<Rightarrow>
             (if e = ErrNotFound then owned_by_refs K s ob refs else Inl ())
         | Inr rs \<Rightarrow>
             if list_ex (\<lambda>d. or_Kind d = ''Deployment'' \<and> or_UID d = GetUID ob) (GetOwnerReferences rs)
             then Inr True else owned_by_refs K s ob refs)
      else owned_by_refs K s ob refs)"

fun search_pods :: "'s kube \<Rightarrow> 's \<Rightarrow> 'a object_meta_scheme \<Rightarrow> pod list \<Rightarrow> bool" where
  "search_pods K s ob [] = False"
| "search_pods K s ob (p # ps) =
     (if \<not> isOidcAppPod p then search_pods K s ob ps
      else (case owned_by_refs K s ob (GetOwnerReferences p) of
              Inl _ \<Rightarrow> False
            | Inr True \<Rightarrow> True
            | Inr False \<Rightarrow> search_pods K s ob ps))"

definition hasOidcAppsPods :: "'s kube \<Rightarrow> 'a object_meta_scheme \<Rightarrow> 's \<Rightarrow> bool" where
  "hasOidcAppsPods K ob s =
     (case listed (pods K) s ob fmempty of
        Inl _ \<Rightarrow> False
      | Inr items \<Rightarrow> search_pods K s ob items)"

subsection \<open>Facts\<close>

lemma owned_of_owned: "owned_of ob r = Inr xs \<Longrightarrow> x \<in> set xs \<Longrightarrow> isAnOwnedResource ob x"
  by (auto simp: owned_of_def split: sum.splits option.splits)

text \<open>What an invariant of the cluster needs in order to survive the pruning: that the deletion of an
  owned object keeps it.\<close>

lemma delete_owned_keeps:
  assumes "\<And>x. isAnOwnedResource ob x \<Longrightarrow> keeps P (DeleteObj S x)"
    and "owned_of ob r = Inr xs"
  shows "keeps P (for_each (delete_one S what) xs)"
  using assms owned_of_owned unfolding delete_one_def by blast

lemma keeps_reading_then:
  "(\<And>s x. f s = Inr x \<Longrightarrow> keeps P (g x)) \<Longrightarrow> keeps P (and_then (reading f) g)"
  by (force simp: keeps_def and_then_def reading_def split: sum.splits)

theorem deleteOwned_keeps:
  assumes sec: "\<And>x. isAnOwnedResource ob x \<Longrightarrow> keeps P (DeleteObj (secrets K) x)"
    and rou: "\<And>x. isAnOwnedResource ob x \<Longrightarrow> keeps P (DeleteObj (httproutes K) x)"
    and svc: "\<And>x. isAnOwnedResource ob x \<Longrightarrow> keeps P (DeleteObj (services K) x)"
  shows "keeps P (deleteOwnedResources K ob)"
  unfolding deleteOwnedResources_def
  by (intro keeps_reading_then keeps_and_then delete_owned_keeps [where ob = ob] sec rou svc)
    (simp_all add: fetchOidcAppsSecrets_def fetchOidcAppsHTTPRoutes_def fetchOidcAppsServices_def)

end
