(* ===== verification/Registry_Secret.thy ===== *)
theory Registry_Secret
  imports Owned_Resources Pod_Webhook
begin

text \<open>
  Propagation of the private registry secret: the copies the workload reconcilers create and remove
  (\<open>registry-secret.go\<close>) and the reconciler of the source, which keeps the copies current and
  removes them through a finalizer (\<open>image-pull-secret-reconciler.go\<close>).
\<close>

subsection \<open>Copies\<close>

definition metaForRegistrySecretCopy :: "string \<Rightarrow> string \<Rightarrow> object_meta" where
  "metaForRegistrySecretCopy name namespace =
     (new_meta name namespace)\<lparr>GetLabels :=
        smap_of [(LabelKey, LabelValue), (SecretLabelKey, RegistrySecretLabelValue)]\<rparr>"

definition registry_copy :: "string \<Rightarrow> string \<Rightarrow> smap \<Rightarrow> string \<Rightarrow> secret" where
  "registry_copy name namespace data ty =
     object_meta.extend (metaForRegistrySecretCopy name namespace)
       \<lparr>Data = data, StringData = fmempty, Type = ty\<rparr>"

text \<open>When the source does not exist the error is wrapped after the filter, so a nil is.\<close>

definition ensureRegistrySecret :: "'s kube \<Rightarrow> string \<Rightarrow> string \<Rightarrow> string \<Rightarrow> ('s, unit) go" where
  "ensureRegistrySecret K registrySecretName controllerNamespace targetNamespace =
     (if registrySecretName = [] \<or> targetNamespace = controllerNamespace then ret ()
      else (\<lambda>s.
        case Get (secrets K) s (targetNamespace, registrySecretName) of
          Inr _ \<Rightarrow> (Inr (), s)
        | Inl err \<Rightarrow>
            (case IgnoreNotFound err of
               Some e \<Rightarrow> (Inl (Wrap (''failed to check for existing registry secret in '' @ targetNamespace) err), s)
             | None \<Rightarrow>
                 (case Get (secrets K) s (controllerNamespace, registrySecretName) of
                    Inl err2 \<Rightarrow>
                      (let msg = ''failed to get source registry secret '' @ controllerNamespace @ ''/'' @ registrySecretName
                       in (Inl (case IgnoreNotFound err2 of None \<Rightarrow> WrapNil msg | Some e \<Rightarrow> Wrap msg e), s))
                  | Inr source \<Rightarrow>
                      wrapping (''failed to create registry secret copy in '' @ targetNamespace)
                        (ignoring IgnoreAlreadyExists
                          (CreateObj (secrets K)
                            (registry_copy registrySecretName targetNamespace (Data source) (Type source)))) s))))"

text \<open>\<open>fmt.Sprintf("%T", a)\<close>, the Go type of a workload, is an argument.\<close>

definition isSameObject ::
  "string \<Rightarrow> 'a object_meta_scheme \<Rightarrow> string \<Rightarrow> 'b object_meta_scheme \<Rightarrow> bool" where
  "isSameObject ta a tb b \<longleftrightarrow>
     ta = tb \<and> GetNamespace a = GetNamespace b \<and> GetName a = GetName b"

fun any_matched ::
  "(object_meta \<Rightarrow> bool) \<Rightarrow> string \<Rightarrow> string \<Rightarrow> object_meta \<Rightarrow> object_meta list \<Rightarrow> bool" where
  "any_matched m ty rty removed [] = False"
| "any_matched m ty rty removed (d # ds) =
     (if isSameObject ty d rty removed then any_matched m ty rty removed ds
      else if m d then True else any_matched m ty rty removed ds)"

abbreviation deployment_type :: string where "deployment_type \<equiv> ''*v1.Deployment''"
abbreviation statefulset_type :: string where "statefulset_type \<equiv> ''*v1.StatefulSet''"
abbreviation pod_type :: string where "pod_type \<equiv> ''*v1.Pod''"

definition hasMatchedTargetInNamespace ::
  "'e env_scheme \<Rightarrow> 's kube \<Rightarrow> controller_config option \<Rightarrow> string \<Rightarrow> string \<Rightarrow> object_meta \<Rightarrow> 's \<Rightarrow> bool res" where
  "hasMatchedTargetInNamespace E K cfg namespace rty removed s =
     (let opts = \<lparr>InNamespace = Some namespace, MatchingLabels = fmempty\<rparr> in
      case List (deployments K) s opts of
        Inl e \<Rightarrow> Inl (Wrap (''failed to list deployments in '' @ namespace) e)
      | Inr ds \<Rightarrow>
          if any_matched (\<lambda>d. Match E (ns_reader K s) cfg d) deployment_type rty removed ds then Inr True
          else (case List (statefulsets K) s opts of
                  Inl e \<Rightarrow> Inl (Wrap (''failed to list statefulsets in '' @ namespace) e)
                | Inr sts \<Rightarrow>
                    Inr (any_matched (\<lambda>d. Match E (ns_reader K s) cfg d) statefulset_type rty removed
                           (map meta_of sts))))"

definition cleanupRegistrySecretIfLastTarget ::
  "'e env_scheme \<Rightarrow> 's kube \<Rightarrow> controller_config option \<Rightarrow> string \<Rightarrow> string \<Rightarrow> string \<Rightarrow> object_meta \<Rightarrow> ('s, unit) go" where
  "cleanupRegistrySecretIfLastTarget E K cfg registrySecretName controllerNamespace rty removed =
     (if registrySecretName = [] \<or> GetNamespace removed = controllerNamespace then ret ()
      else and_then (reading (hasMatchedTargetInNamespace E K cfg (GetNamespace removed) rty removed))
        (\<lambda>remaining.
          if remaining then ret ()
          else wrapping (''failed to delete registry secret copy in '' @ GetNamespace removed)
            (ignoring IgnoreNotFound
              (DeleteObj (secrets K)
                (registry_copy registrySecretName (GetNamespace removed) fmempty '''')))))"

subsection \<open>The source\<close>

definition DOCKERCONFIGJSON :: string where
  "DOCKERCONFIGJSON = ''.dockerconfigjson''"

record pull_secret_reconciler =
  SecretName :: string

text \<open>\<open>controllerutil.ContainsFinalizer\<close>, \<open>RemoveFinalizer\<close> and \<open>AddFinalizer\<close> work on the list.\<close>

definition registry_selector :: list_options where
  "registry_selector =
     \<lparr>InNamespace = None,
      MatchingLabels = smap_of [(LabelKey, LabelValue), (SecretLabelKey, RegistrySecretLabelValue)]\<rparr>"

definition deletePropagatedSecrets :: "'s kube \<Rightarrow> string \<Rightarrow> ('s, unit) go" where
  "deletePropagatedSecrets K sourceNamespace =
     and_then (wrapping ''failed to list propagated image pull secrets''
                 (reading (\<lambda>s. List (secrets K) s registry_selector)))
       (for_each (\<lambda>t.
          if GetNamespace t = sourceNamespace then ret ()
          else wrapping (''failed to delete propagated image pull secret '' @ GetNamespace t @ ''/'' @ GetName t)
            (ignoring IgnoreNotFound (DeleteObj (secrets K) t))))"

text \<open>An update of a copy that fails is logged and the loop goes on.\<close>

definition logged :: "('s, unit) go \<Rightarrow> ('s, unit) go" where
  "logged m = (\<lambda>s. case m s of
     (Inl e, s') \<Rightarrow> (if is_panic e then (Inl e, s') else (Inr (), s'))
   | (Inr u, s') \<Rightarrow> (Inr u, s'))"

text \<open>\<open>target.Data[k] = secret.Data[k]\<close>: a missing key reads as nil and is written as such.\<close>

definition with_pull_config :: "secret \<Rightarrow> secret \<Rightarrow> secret" where
  "with_pull_config src t =
     t\<lparr>Data := fmupd DOCKERCONFIGJSON (at_key (Data src) DOCKERCONFIGJSON) (made (Data t))\<rparr>"

definition update_copies :: "'s kube \<Rightarrow> secret \<Rightarrow> ('s, unit) go" where
  "update_copies K src =
     and_then (reading (\<lambda>s. List (secrets K) s registry_selector))
       (for_each (\<lambda>t. logged (UpdateObj (secrets K) (with_pull_config src t))))"

definition ImagePullSecret_Reconcile :: "'s kube \<Rightarrow> pull_secret_reconciler \<Rightarrow> key \<Rightarrow> ('s, unit) go" where
  "ImagePullSecret_Reconcile K r request = (\<lambda>s.
     case (case Get (secrets K) s request of
             Inr x \<Rightarrow> Inr x
           | Inl e \<Rightarrow> (case IgnoreNotFound e of None \<Rightarrow> Inr (new_secret '''' '''') | Some e' \<Rightarrow> Inl e)) of
       Inl e \<Rightarrow> (Inl e, s)
     | Inr sec \<Rightarrow>
         if GetName sec \<noteq> SecretName r then (Inr (), s)
         else if GetDeletionTimestamp sec \<noteq> None then
           (if RegistrySecretFinalizer \<notin> set (GetFinalizers sec) then (Inr (), s)
            else and_then (deletePropagatedSecrets K (GetNamespace sec))
              (\<lambda>_. wrapping ''failed to remove finalizer''
                 (UpdateObj (secrets K)
                   (sec\<lparr>GetFinalizers := filter (\<lambda>f. f \<noteq> RegistrySecretFinalizer) (GetFinalizers sec)\<rparr>))) s)
         else if RegistrySecretFinalizer \<in> set (GetFinalizers sec) then update_copies K sec s
         else and_then (wrapping ''failed to add finalizer''
                 (UpdateObj (secrets K) (sec\<lparr>GetFinalizers := GetFinalizers sec @ [RegistrySecretFinalizer]\<rparr>)))
              (\<lambda>_. update_copies K sec) s)"

end
