(* ===== verification/Workloads.thy ===== *)
theory Workloads
  imports Registry_Secret
begin

text \<open>
  The reconcilers of deployments and stateful sets: the dependencies of a target
  (\<open>reconcileDeploymentDependencies\<close>, \<open>reconcileStatefulSetDependencies\<close> and the HTTPRoutes of
  \<open>modifiers.go\<close>) and the two \<open>Reconcile\<close> methods (\<open>deployment-reconciler.go\<close>,
  \<open>statefulset-reconciler.go\<close>). \<open>rnd\<close> is the random source of the cookie secret.
\<close>

record reconciler_conf =
  rec_Config :: "controller_config option"
  RegistrySecretName :: string
  ControllerNamespace :: string

text \<open>\<open>if cond { if err := step(); err != nil { return err } }\<close>\<close>

definition when_true :: "bool \<Rightarrow> ('s, unit) go \<Rightarrow> ('s, unit) go" where
  "when_true b m = (if b then m else ret ())"

text \<open>The two reconcilers build the same optional secrets, with the same code.\<close>

definition reconcile_attributes ::
  "'e env_scheme \<Rightarrow> yaml_codec \<Rightarrow> 's kube \<Rightarrow> string \<Rightarrow> object_meta \<Rightarrow> ('s, unit) go" where
  "reconcile_attributes E Y K ty ob =
     wrapping ''failed to reconcile resource attributes secret''
       (reconcileOwnedResource K (secrets K) ty ob (resourceAttributesSecretObject E ob)
         (mutateResourceAttributesSecret Y ob (GetNamespace ob)))"

definition reconcile_kubeconfig ::
  "'e env_scheme \<Rightarrow> yaml_codec \<Rightarrow> 's kube \<Rightarrow> resolved_config \<Rightarrow> string \<Rightarrow> object_meta \<Rightarrow> ('s, unit) go" where
  "reconcile_kubeconfig E Y K rc ty ob =
     when_true (needsKubeconfigSecret rc)
       (wrapping ''failed to reconcile kubeconfig secret''
         (reconcileOwnedResource K (secrets K) ty ob (kubeconfigSecretObject E ob) (mutateKubeconfigSecret Y rc)))"

definition reconcile_oidc_ca ::
  "'e env_scheme \<Rightarrow> 's kube \<Rightarrow> resolved_config \<Rightarrow> string \<Rightarrow> object_meta \<Rightarrow> ('s, unit) go" where
  "reconcile_oidc_ca E K rc ty ob =
     when_true (needsOidcCaBundleSecret rc)
       (wrapping ''failed to reconcile oidc ca bundle secret''
         (reconcileOwnedResource K (secrets K) ty ob (oidcCaBundleSecretObject E ob) (mutateOidcCaBundleSecret rc)))"

definition reconcile_oauth2_secret ::
  "'e env_scheme \<Rightarrow> (nat \<Rightarrow> nat option) \<Rightarrow> 's kube \<Rightarrow> resolved_config \<Rightarrow> string \<Rightarrow> object_meta \<Rightarrow> ('s, unit) go" where
  "reconcile_oauth2_secret E rnd K rc ty ob =
     wrapping ''failed to reconcile oauth2 secret''
       (reconcileOwnedResource K (secrets K) ty ob (oauth2SecretObject E ob) (mutateOauth2Secret E rnd rc))"

subsection \<open>Deployments\<close>

definition reconcileHTTPRouteForDeployment ::
  "'e env_scheme \<Rightarrow> 's kube \<Rightarrow> resolved_config \<Rightarrow> object_meta \<Rightarrow> ('s, unit) go" where
  "reconcileHTTPRouteForDeployment E K rc ob =
     (if \<not> ShallCreateHTTPRoute rc then ret ()
      else wrapping ''failed to reconcile oauth2 httproute''
        (reconcileOwnedResource K (httproutes K) deployment_type ob (httpRouteForDeploymentObject E ob)
          (mutateHTTPRouteForDeployment E ob rc)))"

text \<open>The selector pointer is read inside the mutation, without a test.\<close>

definition mutate_selected :: "label_selector option \<Rightarrow> service \<Rightarrow> service res" where
  "mutate_selected selectors svc =
     (case selectors of
        None \<Rightarrow> Inl (Panic ''nil pointer dereference'')
      | Some l \<Rightarrow> mutateOauth2Service (MatchLabels l) svc)"

definition reconcileDeploymentDependencies ::
  "'e env_scheme \<Rightarrow> yaml_codec \<Rightarrow> (nat \<Rightarrow> nat option) \<Rightarrow> 's kube \<Rightarrow> controller_config \<Rightarrow> deployment \<Rightarrow> ('s, unit) go" where
  "reconcileDeploymentDependencies E Y rnd K cfg ob =
     (if GetDeletionTimestamp ob \<noteq> None then ret ()
      else (\<lambda>s.
        (let rc = Resolve E (ns_reader K s) cfg ob in
         and_then (reconcile_oauth2_secret E rnd K rc deployment_type ob) (\<lambda>_.
         and_then (wrapping ''failed to reconcile oauth2 service''
           (reconcileOwnedResource K (services K) deployment_type ob (oauth2ServiceObject E ob)
             (mutate_selected (GetTargetLabelSelector rc)))) (\<lambda>_.
         and_then (reconcile_attributes E Y K deployment_type ob) (\<lambda>_.
         and_then (reconcile_kubeconfig E Y K rc deployment_type ob) (\<lambda>_.
         and_then (reconcile_oidc_ca E K rc deployment_type ob) (\<lambda>_.
         and_then (reconcileHTTPRouteForDeployment E K rc ob) (\<lambda>_.
         when_true (IsGroupRegistered K ''autoscaling.k8s.io'') (patchVpa K rc ob)))))))) s))"

subsection \<open>Stateful sets\<close>

definition reconcileHTTPRouteForStatefulSetPod ::
  "'e env_scheme \<Rightarrow> 's kube \<Rightarrow> resolved_config \<Rightarrow> pod \<Rightarrow> object_meta \<Rightarrow> ('s, unit) go" where
  "reconcileHTTPRouteForStatefulSetPod E K rc p ob =
     (if \<not> ShallCreateHTTPRoute rc then ret ()
      else wrapping ''failed to reconcile oauth2 httproute''
        (reconcileOwnedResource K (httproutes K) pod_type p (httpRouteForStatefulSetPodObject E p ob)
          (mutateHTTPRouteForStatefulSetPod E p rc)))"

definition pod_selectors :: "resolved_config \<Rightarrow> pod \<Rightarrow> smap" where
  "pod_selectors rcPod p =
     (let sel = (case GetTargetLabelSelector rcPod of None \<Rightarrow> fmempty | Some l \<Rightarrow> MatchLabels l)
      in case fmlookup (GetLabels p) ''statefulset.kubernetes.io/pod-name'' of
           Some v \<Rightarrow> smap_of [(''statefulset.kubernetes.io/pod-name'', v)]
         | None \<Rightarrow> sel)"

definition reconcile_pod ::
  "'e env_scheme \<Rightarrow> 's kube \<Rightarrow> controller_config \<Rightarrow> resolved_config \<Rightarrow> object_meta \<Rightarrow> pod \<Rightarrow> ('s, unit) go" where
  "reconcile_pod E K cfg rc ob p =
     (if fmlookup (GetAnnotations p) AnnotationHostKey = None then ret ()
      else (\<lambda>s.
        (let selectors = pod_selectors (Resolve E (ns_reader K s) cfg p) p in
         and_then (wrapping ''failed to reconcile oauth2 service''
           (reconcileOwnedResource K (services K) pod_type p (oauth2ServiceObject E p)
             (mutateOauth2Service selectors)))
           (\<lambda>_. reconcileHTTPRouteForStatefulSetPod E K rc p ob)) s))"

definition reconcileStatefulSetDependencies ::
  "'e env_scheme \<Rightarrow> yaml_codec \<Rightarrow> (nat \<Rightarrow> nat option) \<Rightarrow> 's kube \<Rightarrow> controller_config \<Rightarrow> stateful_set \<Rightarrow> ('s, unit) go" where
  "reconcileStatefulSetDependencies E Y rnd K cfg sts =
     (if GetDeletionTimestamp sts \<noteq> None then ret ()
      else (\<lambda>s.
        (let rc = Resolve E (ns_reader K s) cfg sts; ob = meta_of sts in
         and_then (reconcile_oauth2_secret E rnd K rc statefulset_type ob) (\<lambda>_.
         and_then (case sts_Selector sts of
                     None \<Rightarrow> throw (Panic ''nil pointer dereference'')
                   | Some l \<Rightarrow> wrapping ''failed to list pods''
                       (reading (\<lambda>s. listed (pods K) s ob (MatchLabels l)))) (\<lambda>items.
         and_then (for_each (reconcile_pod E K cfg rc ob) items) (\<lambda>_.
         and_then (reconcile_attributes E Y K statefulset_type ob) (\<lambda>_.
         and_then (reconcile_kubeconfig E Y K rc statefulset_type ob) (\<lambda>_.
         and_then (reconcile_oidc_ca E K rc statefulset_type ob) (\<lambda>_.
         when_true (IsGroupRegistered K ''autoscaling.k8s.io'') (patchVpa K rc ob)))))))) s))"

subsection \<open>The reconcilers\<close>

text \<open>A read that finds nothing leaves the zero object behind and no error.\<close>

definition get_or_zero :: "'o \<Rightarrow> 'o res \<Rightarrow> 'o res" where
  "get_or_zero z r =
     (case r of Inr x \<Rightarrow> Inr x | Inl e \<Rightarrow> (case IgnoreNotFound e of None \<Rightarrow> Inr z | Some _ \<Rightarrow> Inl e))"

definition prune ::
  "'e env_scheme \<Rightarrow> 's kube \<Rightarrow> reconciler_conf \<Rightarrow> string \<Rightarrow> object_meta \<Rightarrow> ('s, unit) go" where
  "prune E K d ty ob =
     and_then (deleteOwnedResources K ob)
       (\<lambda>_. cleanupRegistrySecretIfLastTarget E K (rec_Config d) (RegistrySecretName d)
              (ControllerNamespace d) ty ob)"

definition Deployment_Reconcile ::
  "'e env_scheme \<Rightarrow> yaml_codec \<Rightarrow> (nat \<Rightarrow> nat option) \<Rightarrow> 's kube \<Rightarrow> reconciler_conf \<Rightarrow> key \<Rightarrow> ('s, unit) go" where
  "Deployment_Reconcile E Y rnd K d request = (\<lambda>s.
     case get_or_zero (new_meta '''' '''') (Get (deployments K) s request) of
       Inl e \<Rightarrow> (Inl e, s)
     | Inr ob \<Rightarrow>
         if GetName ob = [] \<and> GetNamespace ob = [] then (Inr (), s)
         else if \<not> Match E (ns_reader K s) (rec_Config d) ob then prune E K d deployment_type ob s
         else if GetDeletionTimestamp ob \<noteq> None then
           cleanupRegistrySecretIfLastTarget E K (rec_Config d) (RegistrySecretName d)
             (ControllerNamespace d) deployment_type ob s
         else if \<not> hasOidcAppsPods K ob s then (Inr (), s)
         else and_then (ensureRegistrySecret K (RegistrySecretName d) (ControllerNamespace d) (GetNamespace ob))
           (\<lambda>_. case rec_Config d of
              None \<Rightarrow> throw (Panic ''nil pointer dereference'')
            | Some cfg \<Rightarrow> reconcileDeploymentDependencies E Y rnd K cfg ob) s)"

definition zero_stateful_set :: stateful_set where
  "zero_stateful_set = object_meta.extend (new_meta '''' '''') \<lparr>sts_Selector = None\<rparr>"

definition StatefulSet_Reconcile ::
  "'e env_scheme \<Rightarrow> yaml_codec \<Rightarrow> (nat \<Rightarrow> nat option) \<Rightarrow> 's kube \<Rightarrow> reconciler_conf \<Rightarrow> key \<Rightarrow> ('s, unit) go" where
  "StatefulSet_Reconcile E Y rnd K d request = (\<lambda>s.
     case get_or_zero zero_stateful_set (Get (statefulsets K) s request) of
       Inl e \<Rightarrow> (Inl e, s)
     | Inr sts \<Rightarrow>
         let ob = meta_of sts in
         if GetName sts = [] \<and> GetNamespace sts = [] then (Inr (), s)
         else if \<not> Match E (ns_reader K s) (rec_Config d) sts then prune E K d statefulset_type ob s
         else if GetDeletionTimestamp sts \<noteq> None then
           cleanupRegistrySecretIfLastTarget E K (rec_Config d) (RegistrySecretName d)
             (ControllerNamespace d) statefulset_type ob s
         else if \<not> hasOidcAppsPods K sts s then (Inr (), s)
         else and_then (ensureRegistrySecret K (RegistrySecretName d) (ControllerNamespace d) (GetNamespace sts))
           (\<lambda>_. case rec_Config d of
              None \<Rightarrow> throw (Panic ''nil pointer dereference'')
            | Some cfg \<Rightarrow> reconcileStatefulSetDependencies E Y rnd K cfg sts) s)"

end
