(* ===== verification/Memory_Cluster.thy ===== *)
theory Memory_Cluster
  imports Workloads
begin

text \<open>
  A client over plain lists: the object store the hypotheses on the API are instantiated with. Each
  kind is a list of objects, a key names at most one, and the documented laws of the client hold.
\<close>

subsection \<open>One kind of object\<close>

definition has_key :: "key \<Rightarrow> 'a object_meta_scheme \<Rightarrow> bool" where
  "has_key k ob \<longleftrightarrow> GetNamespace ob = fst k \<and> GetName ob = snd k"

definition list_get :: "'a object_meta_scheme list \<Rightarrow> key \<Rightarrow> 'a object_meta_scheme res" where
  "list_get obs k = (case find (has_key k) obs of None \<Rightarrow> Inl ErrNotFound | Some ob \<Rightarrow> Inr ob)"

definition carries :: "smap \<Rightarrow> 'a object_meta_scheme \<Rightarrow> bool" where
  "carries lbls ob = fBall (fset_of_fmap lbls) (\<lambda>(k, v). fmlookup (GetLabels ob) k = Some v)"

lemma carries_iff: "carries lbls ob \<longleftrightarrow> (\<forall>k v. fmlookup lbls k = Some v \<longrightarrow> fmlookup (GetLabels ob) k = Some v)"
  by (auto simp: carries_def fset_of_fmap.rep_eq set_of_map_def)

definition selected :: "list_options \<Rightarrow> 'a object_meta_scheme \<Rightarrow> bool" where
  "selected opts ob \<longleftrightarrow>
     (case InNamespace opts of None \<Rightarrow> True | Some ns \<Rightarrow> GetNamespace ob = ns) \<and>
     carries (MatchingLabels opts) ob"

text \<open>Of several objects under one key a store shows the first.\<close>

fun canon :: "'a object_meta_scheme list \<Rightarrow> 'a object_meta_scheme list" where
  "canon [] = []"
| "canon (x # xs) = x # filter (\<lambda>y. \<not> has_key (key_of x) y) (canon xs)"

definition list_put :: "'a object_meta_scheme \<Rightarrow> 'a object_meta_scheme list \<Rightarrow> 'a object_meta_scheme list" where
  "list_put ob obs = map (\<lambda>x. if has_key (key_of ob) x then ob else x) obs"

definition list_del :: "'a object_meta_scheme \<Rightarrow> 'a object_meta_scheme list \<Rightarrow> 'a object_meta_scheme list" where
  "list_del ob obs = filter (\<lambda>x. \<not> has_key (key_of ob) x) obs"

text \<open>The store reads and replaces its list within the state; the server names a new object, and keeps a
  deleted one, marked, as long as it has finalizers.\<close>

definition mark_deleted :: "'a object_meta_scheme \<Rightarrow> 'a object_meta_scheme" where
  "mark_deleted ob =
     (case GetDeletionTimestamp ob of None \<Rightarrow> ob\<lparr>GetDeletionTimestamp := Some 1\<rparr> | Some _ \<Rightarrow> ob)"

definition list_store ::
  "('s \<Rightarrow> 'a object_meta_scheme list) \<Rightarrow> ('a object_meta_scheme list \<Rightarrow> 's \<Rightarrow> 's) \<Rightarrow> ('s, 'a object_meta_scheme) store" where
  "list_store get put =
     \<lparr>Get = (\<lambda>s k. list_get (get s) k),
      List = (\<lambda>s opts. Inr (filter (selected opts) (canon (get s)))),
      CreateObj = (\<lambda>ob s.
        case list_get (get s) (key_of ob) of
          Inr _ \<Rightarrow> (Inl ErrAlreadyExists, s)
        | Inl _ \<Rightarrow> (Inr (), put (get s @ [ob\<lparr>GetUID := ''uid-'' @ GetName ob\<rparr>]) s)),
      UpdateObj = (\<lambda>ob s.
        case list_get (get s) (key_of ob) of
          Inl e \<Rightarrow> (Inl e, s)
        | Inr _ \<Rightarrow> (Inr (), put (list_put ob (get s)) s)),
      DeleteObj = (\<lambda>ob s.
        case list_get (get s) (key_of ob) of
          Inl e \<Rightarrow> (Inl e, s)
        | Inr cur \<Rightarrow>
            (Inr (), put (if GetFinalizers cur = [] then list_del ob (get s) else list_put (mark_deleted cur) (get s)) s)),
      CreateOrUpdate = (\<lambda>ob f s.
        case list_get (get s) (key_of ob) of
          Inl _ \<Rightarrow>
            (case f ob of
               Inl e \<Rightarrow> (Inl e, s)
             | Inr new \<Rightarrow>
                 if key_of new = key_of ob
                 then (Inr (), put (get s @ [new\<lparr>GetUID := ''uid-'' @ GetName ob\<rparr>]) s)
                 else (Inl (ErrOther ''mutate changed the key''), s))
        | Inr cur \<Rightarrow>
            (case f cur of
               Inl e \<Rightarrow> (Inl e, s)
             | Inr new \<Rightarrow>
                 if new = cur then (Inr (), s)
                 else if key_of new = key_of ob then (Inr (), put (list_put new (get s)) s)
                 else (Inl (ErrOther ''mutate changed the key''), s)))\<rparr>"

lemma has_key_of: "has_key k ob \<longleftrightarrow> key_of ob = k"
  by (auto simp: has_key_def)

lemma list_get_error: "list_get obs k = Inl e \<Longrightarrow> e = ErrNotFound"
  by (simp add: list_get_def split: option.splits)

lemma list_get_missing: "list_get obs k = Inl e \<Longrightarrow> find (has_key k) obs = None"
  by (simp add: list_get_def split: option.splits)

lemma list_get_append:
  assumes "list_get obs (key_of ob) = Inl e"
  shows "list_get (obs @ [ob\<lparr>GetUID := u\<rparr>]) (key_of ob) = Inr (ob\<lparr>GetUID := u\<rparr>)"
proof -
  have "find (has_key (key_of ob)) (obs @ [ob\<lparr>GetUID := u\<rparr>]) = Some (ob\<lparr>GetUID := u\<rparr>)"
    using list_get_missing [OF assms] by (induction obs) (auto simp: has_key_def split: if_splits)
  then show ?thesis by (simp add: list_get_def)
qed

lemma list_get_put:
  assumes "list_get obs (key_of ob) = Inr cur"
  shows "list_get (list_put ob obs) (key_of ob) = Inr ob"
proof -
  have "find (has_key (key_of ob)) obs \<noteq> None \<Longrightarrow> find (has_key (key_of ob)) (list_put ob obs) = Some ob"
    by (induction obs) (auto simp: list_put_def has_key_def split: if_splits)
  with assms show ?thesis by (auto simp: list_get_def split: option.splits)
qed

text \<open>A list within the state, of whose objects the server has made what it stores.\<close>

definition list_backed ::
  "('a object_meta_scheme \<Rightarrow> 'a object_meta_scheme) \<Rightarrow> ('s \<Rightarrow> 'a object_meta_scheme list)
     \<Rightarrow> ('a object_meta_scheme list \<Rightarrow> 's \<Rightarrow> 's) \<Rightarrow> bool" where
  "list_backed admit get put \<longleftrightarrow>
     (\<forall>xs s. get (put xs s) = map admit xs) \<and> (\<forall>s. \<forall>x \<in> set (get s). admit x = x) \<and>
     (\<forall>x. key_of (admit x) = key_of x) \<and>
     (\<forall>x t. admit (x\<lparr>GetDeletionTimestamp := t\<rparr>) = (admit x)\<lparr>GetDeletionTimestamp := t\<rparr>)"

lemma list_backed_plain: "(\<And>xs s. get (put xs s) = xs) \<Longrightarrow> list_backed (\<lambda>x. x) get put"
  by (simp add: list_backed_def)

lemma list_backedD:
  assumes "list_backed admit get put"
  shows "get (put xs s) = map admit xs" "map admit (get s) = get s" "key_of (admit x) = key_of x"
    "map admit (list_put y (get s)) = list_put (admit y) (get s)" "map admit (list_del y (get s)) = list_del y (get s)"
proof -
  show [simp]: "get (put xs s) = map admit xs" "key_of (admit x) = key_of x" for xs s x
    using assms unfolding list_backed_def by blast+
  have fixed: "x \<in> set (get s) \<Longrightarrow> admit x = x" for x using assms unfolding list_backed_def by blast
  then show "map admit (get s) = get s" by (simp add: map_idI)
  show "map admit (list_put y (get s)) = list_put (admit y) (get s)" using fixed by (auto simp: list_put_def)
  show "map admit (list_del y (get s)) = list_del y (get s)" using fixed by (auto simp: list_del_def intro: map_idI)
qed

lemma list_get_admitted: "list_backed admit get put \<Longrightarrow> list_get (get s) k = Inr x \<Longrightarrow> admit x = x"
  by (auto simp: list_backed_def list_get_def find_Some_iff split: option.splits) (metis nth_mem)

theorem list_store_laws:
  assumes backed: "list_backed admit get put"
  shows "create_or_update_laws admit (list_store get put)"
  unfolding create_or_update_laws_def
proof (intro conjI allI impI)
  fix s k and x :: "'a object_meta_scheme"
  assume "Get (list_store get put) s k = Inr x"
  then show "admit x = x" using list_get_admitted [OF backed] by (simp add: list_store_def)
next
  note assms = list_backedD [OF backed]
  fix ob :: "'a object_meta_scheme" and f s
  let ?S = "list_store get put"
  show "case Get ?S s (key_of ob) of
        Inl e \<Rightarrow>
          if e \<noteq> ErrNotFound then CreateOrUpdate ?S ob f s = (Inl e, s)
          else (case f ob of
                  Inl e' \<Rightarrow> CreateOrUpdate ?S ob f s = (Inl e', s)
                | Inr new \<Rightarrow>
                    (\<forall>s'. CreateOrUpdate ?S ob f s = (Inr (), s') \<longrightarrow>
                       (\<exists>u. Get ?S s' (key_of ob) = Inr (admit (new\<lparr>GetUID := u\<rparr>)))))
      | Inr cur \<Rightarrow>
          (case f cur of
             Inl e' \<Rightarrow> CreateOrUpdate ?S ob f s = (Inl e', s)
           | Inr new \<Rightarrow>
               if new = cur then CreateOrUpdate ?S ob f s = (Inr (), s)
               else (\<forall>s'. CreateOrUpdate ?S ob f s = (Inr (), s') \<longrightarrow> Get ?S s' (key_of ob) = Inr (admit new)))"
  proof (cases "list_get (get s) (key_of ob)")
    case (Inl e)
    show ?thesis
    proof (cases "f ob")
      case (Inr new)
      let ?new = "admit (new\<lparr>GetUID := ''uid-'' @ GetName ob\<rparr>)"
      have "list_get (get s @ [?new]) (key_of ob) = Inr ?new" if "key_of new = key_of ob"
      proof -
        have "key_of ?new = key_of ob" using that assms(3) [of "new\<lparr>GetUID := ''uid-'' @ GetName ob\<rparr>"] by simp
        then show ?thesis using list_get_append [of "get s" ?new e "GetUID ?new"] Inl by simp
      qed
      with Inl Inr list_get_error [OF Inl] assms(1,2) show ?thesis by (auto simp: list_store_def)
    qed (use Inl list_get_error [OF Inl] in \<open>simp add: list_store_def\<close>)
  next
    case (Inr cur)
    show ?thesis
    proof (cases "f cur")
      case new: (Inr new)
      have "list_get (list_put (admit new) (get s)) (key_of ob) = Inr (admit new)" if "key_of new = key_of ob"
        using list_get_put [of "get s" "admit new" cur] Inr that assms(3) [of new] by simp
      with Inr new assms(1,4) show ?thesis by (auto simp: list_store_def)
    qed (use Inr in \<open>simp add: list_store_def\<close>)
  qed
qed

subsection \<open>A cluster\<close>

record cluster =
  cl_namespaces :: "object_meta list"
  cl_deployments :: "deployment list"
  cl_statefulsets :: "stateful_set list"
  cl_replicasets :: "replica_set list"
  cl_pods :: "pod list"
  cl_secrets :: "secret list"
  cl_services :: "service list"
  cl_httproutes :: "http_route list"
  cl_vpas :: "vpa list"

definition add_owner :: "string \<Rightarrow> object_meta \<Rightarrow> object_meta \<Rightarrow> owner_reference list res" where
  "add_owner ty owner ob =
     (let ref = \<lparr>or_Kind = drop 4 ty, or_Name = GetName owner, or_UID = GetUID owner\<rparr> in
      if ref \<in> set (GetOwnerReferences ob) then Inr (GetOwnerReferences ob)
      else Inr (GetOwnerReferences ob @ [ref]))"

definition memory_kube :: "cluster kube" where
  "memory_kube =
     \<lparr>namespaces = list_store cl_namespaces (\<lambda>xs s. s\<lparr>cl_namespaces := xs\<rparr>),
      deployments = list_store cl_deployments (\<lambda>xs s. s\<lparr>cl_deployments := xs\<rparr>),
      statefulsets = list_store cl_statefulsets (\<lambda>xs s. s\<lparr>cl_statefulsets := xs\<rparr>),
      replicasets = list_store cl_replicasets (\<lambda>xs s. s\<lparr>cl_replicasets := xs\<rparr>),
      pods = list_store cl_pods (\<lambda>xs s. s\<lparr>cl_pods := xs\<rparr>),
      secrets = list_store (\<lambda>s. map merge_string_data (cl_secrets s)) (\<lambda>xs s. s\<lparr>cl_secrets := xs\<rparr>),
      services = list_store cl_services (\<lambda>xs s. s\<lparr>cl_services := xs\<rparr>),
      httproutes = list_store cl_httproutes (\<lambda>xs s. s\<lparr>cl_httproutes := xs\<rparr>),
      vpas = list_store cl_vpas (\<lambda>xs s. s\<lparr>cl_vpas := xs\<rparr>),
      PatchEmpty = (\<lambda>_ s. (Inr (), s)), IsGroupRegistered = (\<lambda>_. False),
      SetOwnerReference = add_owner\<rparr>"

lemma reference_present: "\<lparr>or_Kind = k, or_Name = n, or_UID = u\<rparr> \<in> set rs \<Longrightarrow> \<exists>r \<in> set rs. or_UID r = u"
  by force

lemma memory_owner_laws: "owner_laws (SetOwnerReference memory_kube)"
  by (auto simp: owner_laws_def memory_kube_def add_owner_def Let_def intro: reference_present)

lemma merge_string_data_meta [simp]:
  "GetName (merge_string_data x) = GetName x" "GetNamespace (merge_string_data x) = GetNamespace x"
  "GetUID (merge_string_data x) = GetUID x" "GetLabels (merge_string_data x) = GetLabels x"
  "merge_string_data (merge_string_data x) = merge_string_data x"
  by (simp_all add: merge_string_data_def maps_Copy_def)

lemma memory_backed:
  "list_backed merge_string_data (\<lambda>s. map merge_string_data (cl_secrets s)) (\<lambda>xs s. s\<lparr>cl_secrets := xs\<rparr>)"
  by (auto simp: list_backed_def) (simp add: merge_string_data_def)

lemma memory_store_laws:
  "create_or_update_laws merge_string_data (secrets memory_kube)"
  "create_or_update_laws (\<lambda>x. x) (services memory_kube)"
  "create_or_update_laws (\<lambda>x. x) (httproutes memory_kube)"
  by (simp_all add: memory_kube_def list_store_laws memory_backed list_backed_plain)

definition empty_cluster :: cluster where
  "empty_cluster =
     \<lparr>cl_namespaces = [], cl_deployments = [], cl_statefulsets = [], cl_replicasets = [], cl_pods = [],
      cl_secrets = [], cl_services = [], cl_httproutes = [], cl_vpas = []\<rparr>"

subsection \<open>Reading and deleting\<close>

lemma find_filter_key:
  "k \<noteq> k' \<Longrightarrow> find (has_key k) (filter (\<lambda>y. \<not> has_key k' y) ys) = find (has_key k) ys"
proof (induction ys)
  case (Cons y ys)
  have "has_key k y \<Longrightarrow> \<not> has_key k' y" using Cons.prems by (auto simp: has_key_def prod_eq_iff)
  with Cons show ?case by auto
qed simp

lemma has_key_self [simp]: "has_key (key_of x) x"
  by (simp add: has_key_def)

lemma has_key_neq: "\<not> has_key k x \<Longrightarrow> k \<noteq> key_of x"
  by (auto simp: has_key_def)

lemma canon_find: "find (has_key k) (canon xs) = find (has_key k) xs"
proof (induction xs)
  case (Cons x xs)
  then show ?case
    using find_filter_key [OF has_key_neq, of k x "canon xs"] by (cases "has_key k x") (simp_all del: has_key_self)
qed simp

lemma canon_find_self: "x \<in> set (canon xs) \<Longrightarrow> find (has_key (key_of x)) (canon xs) = Some x"
proof (induction xs)
  case (Cons a xs)
  show ?case
  proof (cases "x = a")
    case False
    with Cons.prems have x: "x \<in> set (canon xs)" "\<not> has_key (key_of a) x" by auto
    then have "\<not> has_key (key_of x) a" by (auto simp: has_key_def)
    with x Cons.IH find_filter_key [OF has_key_neq, of "key_of x" a "canon xs"] show ?thesis by simp
  qed simp
qed simp

lemma canon_get: "x \<in> set (canon xs) \<Longrightarrow> list_get xs (key_of x) = Inr x"
  using canon_find_self [of x xs] by (simp add: list_get_def canon_find)

lemma find_list_del: "k \<noteq> key_of ob \<Longrightarrow> list_get (list_del ob xs) k = list_get xs k"
  using find_filter_key [of k "key_of ob" xs] by (simp add: list_get_def list_del_def)

lemma list_store_delete:
  "DeleteObj (list_store get put) ob s =
     (case list_get (get s) (key_of ob) of
        Inl e \<Rightarrow> (Inl e, s)
      | Inr cur \<Rightarrow>
          (Inr (), put (if GetFinalizers cur = [] then list_del ob (get s) else list_put (mark_deleted cur) (get s)) s))"
  by (simp add: list_store_def)

lemma mark_deleted_marked: "\<exists>t. mark_deleted ob = ob\<lparr>GetDeletionTimestamp := Some t\<rparr>"
proof (cases "GetDeletionTimestamp ob")
  case (Some t)
  then have "mark_deleted ob = ob\<lparr>GetDeletionTimestamp := Some t\<rparr>" by (simp add: mark_deleted_def)
  then show ?thesis by blast
qed (auto simp: mark_deleted_def)

lemma list_get_key: "list_get xs k = Inr x \<Longrightarrow> key_of x = k"
  by (auto simp: list_get_def has_key_def find_Some_iff split: option.splits)

lemma list_get_put_other: "k \<noteq> key_of ob \<Longrightarrow> list_get (list_put ob xs) k = list_get xs k"
  by (induction xs) (auto simp: list_get_def list_put_def has_key_def prod_eq_iff)

lemma find_own_list_del: "list_get (list_del ob xs) (key_of ob) = Inl ErrNotFound"
  by (induction xs) (auto simp: list_get_def list_del_def)

end
