(* ===== verification/Sample.thy ===== *)
theory Sample
  imports Memory_Cluster
begin

text \<open>
  Concrete inputs: an environment whose functions obey the documented laws, a configuration with one
  target, a deployment and a stateful set with one pod each, and the cluster that holds them.
\<close>

subsection \<open>Environment\<close>

definition sample_selector :: "label_selector option \<Rightarrow> (smap \<Rightarrow> bool) res" where
  "sample_selector s =
     (case s of
        None \<Rightarrow> Inr (\<lambda>_. False)
      | Some l \<Rightarrow>
          if MatchExpressions l = [] then Inr (\<lambda>m. fset_of_fmap (MatchLabels l) |\<subseteq>| fset_of_fmap m)
          else Inl (ErrOther ''unsupported expression''))"

definition sample_env :: env where
  "sample_env =
     \<lparr>sha256 = (\<lambda>s. take 64 (s @ replicate 64 CHR ''0'')),
      getenv = (\<lambda>v. if v = NAMESPACE then ''oidc-system'' else ''''),
      as_selector = sample_selector,
      selector_size = (\<lambda>s. case s of None \<Rightarrow> 0 | Some l \<Rightarrow> if l = empty_selector then 0 else 1),
      quantity_above = (\<lambda>a b. False),
      intstr_string = (\<lambda>p. case p of IntVal n \<Rightarrow> Itoa n | StrVal s \<Rightarrow> s)\<rparr>"

lemma sample_selector_laws: "selector_laws sample_env"
  by (auto simp: selector_laws_def sample_env_def sample_selector_def empty_selector_def)

lemma sample_intstr_laws: "intstr_laws sample_env"
  by (simp add: intstr_laws_def sample_env_def)

lemma labels_included:
  "fset_of_fmap ls |\<subseteq>| fset_of_fmap m \<longleftrightarrow> (\<forall>k v. fmlookup ls k = Some v \<longrightarrow> fmlookup m k = Some v)"
  by (auto simp: less_eq_fset.rep_eq fset_of_fmap.rep_eq set_of_map_def)

lemma labels_included_single:
  "fset_of_fmap (smap_of [(k, v)]) |\<subseteq>| fset_of_fmap m \<longleftrightarrow> fmlookup m k = Some v"
  by (simp add: labels_included)

definition sample_yaml :: yaml_codec where
  "sample_yaml =
     \<lparr>unmarshal_root = (\<lambda>_ r. r), marshal_root = (\<lambda>r. Subresource r @ ''/'' @ ra_Namespace r), recode_kubeconfig = Inr\<rparr>"

subsection \<open>Configuration\<close>

definition sample_oauth2 :: oauth2_proxy_config where
  "sample_oauth2 =
     empty_oauth2\<lparr>ClientID := ''client'', Scope := ''openid email'', OidcIssuerURL := ''https://issuer''\<rparr>"

definition sample_target :: target where
  "sample_target =
     empty_target\<lparr>t_Name := ''app'',
       LabelSelector := Some \<lparr>MatchLabels = smap_of [(''app'', ''demo'')], MatchExpressions = []\<rparr>,
       TargetPort := IntVal 3000, TargetProtocol := ''http'',
       HTTPRoute := Some (empty_http_route_conf\<lparr>Create := True\<rparr>)\<rparr>"

definition sample_config :: controller_config where
  "sample_config =
     \<lparr>Global = empty_global\<lparr>Oauth2Proxy := Some sample_oauth2, DomainName := ''example.org''\<rparr>,
      Targets = [sample_target]\<rparr>"

subsection \<open>Objects\<close>

definition app_labels :: smap where
  "app_labels = smap_of [(''app'', ''demo'')]"

definition sample_deployment :: deployment where
  "sample_deployment = (new_meta ''demo'' ''apps'')\<lparr>GetUID := ''d1'', GetLabels := app_labels\<rparr>"

definition sample_replicaset :: replica_set where
  "sample_replicaset =
     (new_meta ''demo-7f'' ''apps'')\<lparr>GetUID := ''r1'',
       GetOwnerReferences := [\<lparr>or_Kind = ''Deployment'', or_Name = ''demo'', or_UID = ''d1''\<rparr>]\<rparr>"

definition app_container :: container where
  "app_container =
     empty_container\<lparr>c_Name := ''app'', Image := ''app:1'', Ports := [\<lparr>port_Name = ''http'', ContainerPort = 3000\<rparr>]\<rparr>"

definition sample_pod :: pod where
  "sample_pod =
     object_meta.extend
       ((new_meta ''demo-7f-x'' ''apps'')\<lparr>GetUID := ''p1'', GetLabels := app_labels,
          GetOwnerReferences := [\<lparr>or_Kind = ''ReplicaSet'', or_Name = ''demo-7f'', or_UID = ''r1''\<rparr>]\<rparr>)
       \<lparr>pod_Spec = \<lparr>Containers = [app_container], Volumes = [], ImagePullSecrets = []\<rparr>\<rparr>"

definition sample_cluster :: cluster where
  "sample_cluster =
     empty_cluster\<lparr>cl_deployments := [sample_deployment], cl_replicasets := [sample_replicaset],
       cl_pods := [sample_pod]\<rparr>"

definition sample_mutator :: pod_mutator where
  "sample_mutator = \<lparr>pm_ImagePullSecret = ''registry'', pm_Config = Some sample_config\<rparr>"

definition sample_rc :: resolved_config where
  "sample_rc = \<lparr>rc_target = sample_target, rc_global = Global sample_config, rc_object = sample_deployment\<rparr>"

lemmas sample_defs = sample_deployment_def sample_replicaset_def app_container_def sample_pod_def
  sample_cluster_def sample_mutator_def app_labels_def obj_defs

lemma sample_matches:
  "fmlookup (GetLabels ob) ''app'' = Some ''demo'' \<Longrightarrow>
   targetMatchesLabels sample_env client sample_target ob"
  by (simp add: targetMatchesLabels_def sample_target_def sample_env_def sample_selector_def
      labels_included_single empty_target_def empty_global_def global_conf.extend_def empty_selector_def)

lemma sample_Match: "Match sample_env client (Some sample_config) sample_deployment"
  by (auto simp: Match_iff sample_config_def sample_defs intro!: sample_matches)

lemma sample_Resolve: "Resolve sample_env client sample_config sample_deployment = sample_rc"
  using sample_matches [of sample_deployment client]
  by (simp add: Resolve_def FetchTarget_first sample_config_def sample_rc_def sample_defs
      object_meta.truncate_def)

text \<open>The webhook finds the deployment of the pod through its replica set.\<close>

lemma sample_isTarget:
  "isTarget sample_env memory_kube sample_cluster (Some sample_config) sample_pod = (True, Some sample_deployment)"
  using sample_Match
  by (simp add: isTarget_def memory_kube_def list_store_def list_get_def has_key_def sample_defs
      empty_cluster_def)

lemma sample_suffix: "fst (fetchTargetSuffix sample_env sample_deployment) = ''demo-a''"
  by (simp add: fetchTargetSuffix_def sample_defs GenerateSha256_def sample_env_def Let_def)

end
