(* ===== verification/Webhook_Properties.thy ===== *)
theory Webhook_Properties
  imports Webhook_Idempotent VPA_Webhook Sample
begin

text \<open>
  The properties of the two webhooks: what the pod webhook does to a pod of a target and to any other
  pod, that it returns, that it may be called again on its own result, and the policies the
  autoscaler webhook writes.
\<close>

subsection \<open>The target of a pod\<close>

lemma Match_meta_of [simp]: "Match E c cfg (meta_of ob) = Match E c cfg ob"
  by (rule Match_meta_cong) simp_all

lemma isTarget_owners_Match:
  "isTarget_owners E K s cfg ns refs = (True, ow) \<Longrightarrow>
   \<exists>ob. ow = Some ob \<and> Match E (ns_reader K s) cfg ob"
  by (induction refs) (auto split: if_splits sum.splits list.splits)

lemma isTarget_Match:
  "isTarget E K s cfg p = (True, ow) \<Longrightarrow> \<exists>ob. ow = Some ob \<and> Match E (ns_reader K s) cfg ob"
  by (auto simp: isTarget_def split: if_splits intro: isTarget_owners_Match)

lemma isTarget_config: "isTarget E K s cfg p = (True, ow) \<Longrightarrow> cfg \<noteq> None"
  using isTarget_Match [of E K s cfg p ow] by (cases cfg) (auto simp: Match_def)

text \<open>The handler is the injection, on the pods of a target that are not being deleted.\<close>

definition injected :: "'e env_scheme \<Rightarrow> 's kube \<Rightarrow> pod_mutator \<Rightarrow> 's \<Rightarrow> pod \<Rightarrow> (resolved_config \<times> string) option" where
  "injected E K pm s p =
     (if GetDeletionTimestamp p \<noteq> None then None
      else (case isTarget E K s (pm_Config pm) p of
              (True, Some owner) \<Rightarrow>
                Some (Resolve E (ns_reader K s) (the (pm_Config pm)) owner, fst (fetchTargetSuffix E owner))
            | _ \<Rightarrow> None))"

lemma Default_injected:
  "Default E K pm s p =
     (case injected E K pm s p of
        None \<Rightarrow> Inr p
      | Some (rc, suffix) \<Rightarrow> inject E (pm_ImagePullSecret pm) rc suffix p)"
proof (cases "isTarget E K s (pm_Config pm) p")
  case (Pair b ow)
  show ?thesis
  proof (cases "b \<and> ow \<noteq> None")
    case True
    with Pair isTarget_config [of E K s "pm_Config pm" p ow] show ?thesis
      by (auto simp: Default_def injected_def Let_def)
  next
    case False
    with Pair show ?thesis by (cases b; cases ow) (auto simp: Default_def injected_def)
  qed
qed

lemma injected_cong:
  "GetDeletionTimestamp q = GetDeletionTimestamp p \<Longrightarrow> GetOwnerReferences q = GetOwnerReferences p \<Longrightarrow>
   GetNamespace q = GetNamespace p \<Longrightarrow> injected E K pm s q = injected E K pm s p"
  by (simp add: injected_def isTarget_def)

lemma injected_target:
  assumes "injected E K pm s p = Some (rc, suffix)"
  shows "\<exists>cfg. pm_Config pm = Some cfg \<and> rc_target rc \<in> set (Targets cfg)"
proof -
  obtain ow where ow: "isTarget E K s (pm_Config pm) p = (True, Some ow)"
    and rc: "rc = Resolve E (ns_reader K s) (the (pm_Config pm)) ow"
    using assms by (auto simp: injected_def split: if_splits prod.splits bool.splits option.splits)
  obtain cfg where cfg: "pm_Config pm = Some cfg" using isTarget_config [OF ow] by auto
  have "Match E (ns_reader K s) (Some cfg) ow" using isTarget_Match [OF ow] cfg by simp
  from Match_FetchTarget(1) [OF this] cfg rc show ?thesis by (simp add: Resolve_def)
qed

lemma upstream_port_target:
  "upstream_port (GetUpstreamTarget E rc) = intstr_string E (TargetPort (rc_target rc))"
  using CutPrefix_append [of "'' port=''" "intstr_string E (TargetPort (rc_target rc))"]
  by (simp add: upstream_port_def GetUpstreamTarget_def Let_def)

subsection \<open>The frame of the injection\<close>

lemma inject_Inr:
  assumes "inject E ps rc suffix p = Inr q" and "sidecars_unique (Containers (pod_Spec p))"
  obtains spec where "add_volumes rc suffix (pod_Spec p) = Inr spec"
    and "q = p\<lparr>GetAnnotations := GetAnnotations (addAnnotations E p rc),
        GetLabels := fmupd LabelKey ''pod'' (GetLabels p),
        pod_Spec := spec\<lparr>
          Containers := final_containers E rc (buildUpstreamURL (GetUpstreamTarget E rc) (pod_Spec p))
            (pod_index p) (p\<lparr>pod_Spec := spec\<rparr>),
          ImagePullSecrets := pull_secrets ps (ImagePullSecrets spec)\<rparr>\<rparr>"
  using assms(1) unfolding inject_closed [OF assms(2)] by (auto split: sum.splits)

lemma inject_meta:
  assumes "inject E ps rc suffix p = Inr q" and "sidecars_unique (Containers (pod_Spec p))"
  shows "GetName q = GetName p" "GetNamespace q = GetNamespace p" "GetUID q = GetUID p"
    "GetOwnerReferences q = GetOwnerReferences p" "GetDeletionTimestamp q = GetDeletionTimestamp p"
    "GetLabels q = fmupd LabelKey ''pod'' (GetLabels p)"
  by (rule inject_Inr [OF assms], simp)+

text \<open>Volumes of other names keep their view, and one that is projected stays so.\<close>

lemma mount_volume_view:
  "mount_volume k spec = Inr spec' \<Longrightarrow>
   (\<forall>v. v \<noteq> fst k \<longrightarrow> volume_view spec' v = volume_view spec v) \<and>
   (volume_view spec v \<noteq> Some None \<longrightarrow> volume_view spec' v \<noteq> Some None)"
proof -
  assume "mount_volume k spec = Inr spec'"
  then obtain e where e: "mount_entry (snd k) (volume_view spec (fst k)) = Inr e"
      "volume_view spec' = (volume_view spec)(fst k := e)"
    unfolding mount_volume_def using addProjected_refines by blast
  moreover have "volume_view spec (fst k) \<noteq> Some None \<Longrightarrow> e \<noteq> Some None"
    using e(1) by (auto simp: mount_entry_def res_bind_Inr_iff split: option.splits)
  ultimately show ?thesis by auto
qed

lemma run_mounts_view:
  "run_patches mount_volume ks spec = Inr spec' \<Longrightarrow>
   (v \<notin> fst ` set ks \<longrightarrow> volume_view spec' v = volume_view spec v) \<and>
   (volume_view spec v \<noteq> Some None \<longrightarrow> volume_view spec' v \<noteq> Some None)"
proof (induction ks arbitrary: spec)
  case (Cons k ks)
  then obtain q where "mount_volume k spec = Inr q" "run_patches mount_volume ks q = Inr spec'"
    by (auto simp: res_bind_Inr_iff)
  with Cons.IH [of q] mount_volume_view [of k spec q v] show ?case by auto
qed simp

lemma volume_mounts_names: "fst ` set (volume_mounts rc suffix) \<subseteq> {Oauth2VolumeName, KubeRbacProxyVolumeName}"
  by (auto simp: volume_mounts_def)

lemma mounted_projected:
  "mounted sn e \<Longrightarrow> e \<noteq> Some None \<Longrightarrow> \<exists>srcs. e = Some (Some srcs) \<and> has_secret_source sn srcs = Inr True"
  by (auto simp: mounted_def split: option.splits)

lemma inject_mounted:
  assumes "inject E ps rc suffix p = Inr q" "sidecars_unique (Containers (pod_Spec p))"
    and "(v, sn) \<in> set (volume_mounts rc suffix)" "volume_view (pod_Spec p) v \<noteq> Some None"
  shows "\<exists>srcs. volume_view (pod_Spec q) v = Some (Some srcs) \<and> has_secret_source sn srcs = Inr True"
proof (rule inject_Inr [OF assms(1,2)])
  fix spec
  assume vol: "add_volumes rc suffix (pod_Spec p) = Inr spec"
    and q: "q = p\<lparr>GetAnnotations := GetAnnotations (addAnnotations E p rc),
        GetLabels := fmupd LabelKey ''pod'' (GetLabels p),
        pod_Spec := spec\<lparr>
          Containers := final_containers E rc (buildUpstreamURL (GetUpstreamTarget E rc) (pod_Spec p))
            (pod_index p) (p\<lparr>pod_Spec := spec\<rparr>),
          ImagePullSecrets := pull_secrets ps (ImagePullSecrets spec)\<rparr>\<rparr>"
  have view: "volume_view (pod_Spec q) = volume_view spec"
    by (rule volume_view_cong) (simp add: q)
  have "mount_volume (v, sn) spec = Inr spec"
    using volumes.run_settled vol assms(3) unfolding add_volumes_run by blast
  then have "mounted sn (volume_view spec v)" by (simp add: mount_volume_noop_iff)
  moreover have "volume_view spec v \<noteq> Some None"
    using run_mounts_view vol assms(4) unfolding add_volumes_run by blast
  ultimately show ?thesis unfolding view by (rule mounted_projected)
qed

text \<open>Volume by volume: a volume of another name stays as it is, with whatever source it has; of the two
  sidecar volumes a projected one may get further sources after its own. New volumes come after all
  that were there and have the name of a sidecar volume.\<close>

definition volume_extended :: "volume \<Rightarrow> volume \<Rightarrow> bool" where
  "volume_extended v w \<longleftrightarrow> v_Name w = v_Name v \<and> v_Other w = v_Other v \<and>
     (if v_Name v \<in> {Oauth2VolumeName, KubeRbacProxyVolumeName}
      then (case Projected v of
              None \<Rightarrow> Projected w = None
            | Some srcs \<Rightarrow> (case Projected w of None \<Rightarrow> False | Some srcs' \<Rightarrow> take (length srcs) srcs' = srcs))
      else Projected w = Projected v)"

definition volumes_extended :: "volume list \<Rightarrow> volume list \<Rightarrow> bool" where
  "volumes_extended vs ws \<longleftrightarrow> list_all2 volume_extended vs (take (length vs) ws) \<and>
     list_all (\<lambda>w. v_Name w \<in> {Oauth2VolumeName, KubeRbacProxyVolumeName}) (drop (length vs) ws)"

lemma volume_extended_refl [simp]: "volume_extended v v"
  by (simp add: volume_extended_def split: option.split)

lemma volume_extended_other:
  "volume_extended v w \<Longrightarrow> v_Name v \<notin> {Oauth2VolumeName, KubeRbacProxyVolumeName} \<Longrightarrow> w = v"
  by (simp add: volume_extended_def)

lemma volume_extended_trans: "volume_extended u v \<Longrightarrow> volume_extended v w \<Longrightarrow> volume_extended u w"
  by (auto simp: volume_extended_def split: option.splits if_splits) (metis append_eq_conv_conj append_take_drop_id append.assoc)+

lemma volumes_extended_trans:
  assumes "volumes_extended us vs" "volumes_extended vs ws"
  shows "volumes_extended us ws"
proof -
  let ?n = "length us" and ?m = "length vs"
  note v = assms [unfolded volumes_extended_def list_all2_conv_all_nth list_all_length]
  have len: "?n \<le> ?m" "?m \<le> length ws" using v by auto
  have "list_all2 volume_extended us (take ?n ws)"
    unfolding list_all2_conv_all_nth using v len by (auto intro: volume_extended_trans)
  moreover have "v_Name (ws ! i) \<in> {Oauth2VolumeName, KubeRbacProxyVolumeName}" if i: "?n \<le> i" "i < length ws" for i
  proof (cases "i < ?m")
    case True
    then have "volume_extended (vs ! i) (ws ! i)" using v by auto
    moreover have "v_Name (vs ! i) \<in> {Oauth2VolumeName, KubeRbacProxyVolumeName}"
      using v(1) [THEN conjunct2, rule_format, of "i - ?n"] True i by simp
    ultimately show ?thesis by (simp add: volume_extended_def)
  next
    case False
    then show ?thesis using v(2) [THEN conjunct2, rule_format, of "i - ?m"] i by simp
  qed
  ultimately show ?thesis by (simp add: volumes_extended_def list_all_length)
qed

lemma mount_volume_extends:
  assumes "mount_volume k spec = Inr spec'" "fst k \<in> {Oauth2VolumeName, KubeRbacProxyVolumeName}"
  shows "volumes_extended (Volumes spec) (Volumes spec')"
proof -
  have refl: "volumes_extended vs vs" for vs by (simp add: volumes_extended_def list_all2_refl)
  have update: "volumes_extended vs (vs[i := (vs ! i)\<lparr>Projected := Some (srcs @ ext)\<rparr>])"
    if "find_index (\<lambda>v. v_Name v = fst k) vs = Some i" "Projected (vs ! i) = Some srcs" for vs i srcs ext
    using find_index_SomeD [OF that(1)] assms(2) that(2)
    by (auto simp: volumes_extended_def list_all2_conv_all_nth nth_list_update volume_extended_def split: option.split)
  show ?thesis
  proof (cases "find_index (\<lambda>v. v_Name v = fst k) (Volumes spec)")
    case None
    then show ?thesis using assms
      by (auto simp: mount_volume_def addProjectedSecretSourceVolume_def volumes_extended_def list_all2_refl)
  next
    case i: (Some i)
    show ?thesis
    proof (cases "Projected (Volumes spec ! i)")
      case None
      then show ?thesis using assms(1) i refl by (simp add: mount_volume_def addProjectedSecretSourceVolume_def)
    next
      case (Some srcs)
      show ?thesis
        using assms(1) Some i refl update [OF i Some, of "[secret_projection_for (snd k)]"]
        by (auto simp: mount_volume_def addProjectedSecretSourceVolume_def Let_def res_bind_Inr_iff split: if_splits)
    qed
  qed
qed

lemma run_mounts_extend:
  "run_patches mount_volume ks spec = Inr spec' \<Longrightarrow> fst ` set ks \<subseteq> {Oauth2VolumeName, KubeRbacProxyVolumeName} \<Longrightarrow>
   volumes_extended (Volumes spec) (Volumes spec')"
proof (induction ks arbitrary: spec)
  case (Cons k ks)
  then obtain q where "mount_volume k spec = Inr q" "run_patches mount_volume ks q = Inr spec'"
    by (auto simp: res_bind_Inr_iff)
  with Cons volumes_extended_trans [OF mount_volume_extends [of k spec q], of "Volumes spec'"] show ?case by auto
qed (simp add: volumes_extended_def list_all2_refl)

text \<open>So the volumes of other names are the same list.\<close>

lemma volumes_extended_others:
  assumes "volumes_extended vs ws"
  shows "filter (\<lambda>v. v_Name v \<notin> {Oauth2VolumeName, KubeRbacProxyVolumeName}) ws =
    filter (\<lambda>v. v_Name v \<notin> {Oauth2VolumeName, KubeRbacProxyVolumeName}) vs"
proof -
  let ?P = "\<lambda>v. v_Name v \<notin> {Oauth2VolumeName, KubeRbacProxyVolumeName}"
  have same: "filter ?P ys = filter ?P xs" if "list_all2 volume_extended xs ys" for xs ys
    using that
    by (induction rule: list_all2_induct) (auto simp: volume_extended_def)
  have "filter ?P ws = filter ?P (take (length vs) ws) @ filter ?P (drop (length vs) ws)"
    by (metis append_take_drop_id filter_append)
  then show ?thesis using assms same by (simp add: volumes_extended_def list_all_iff filter_empty_conv)
qed

lemma inject_volumes_extended:
  assumes "inject E ps rc suffix p = Inr q" "sidecars_unique (Containers (pod_Spec p))"
  shows "volumes_extended (Volumes (pod_Spec p)) (Volumes (pod_Spec q))"
    "ImagePullSecrets (pod_Spec q) = pull_secrets ps (ImagePullSecrets (pod_Spec p))"
  by (rule inject_Inr [OF assms],
      use run_mounts_extend volume_mounts_names add_volumes_frame in \<open>force simp: add_volumes_run\<close>)+

text \<open>The volume edits succeed when the existing sources of the two volumes are secrets.\<close>

definition secret_sources :: "projection list option option \<Rightarrow> bool" where
  "secret_sources e \<longleftrightarrow> (\<forall>srcs. e = Some (Some srcs) \<longrightarrow> (\<forall>src \<in> set srcs. \<exists>sp. src = SecretSource sp))"

lemma has_secret_source_total:
  "\<forall>src \<in> set srcs. \<exists>sp. src = SecretSource sp \<Longrightarrow> \<exists>b. has_secret_source n srcs = Inr b"
  by (induction n srcs rule: has_secret_source.induct) auto

lemma mount_entry_total:
  assumes "secret_sources e"
  shows "\<exists>e'. mount_entry sn e = Inr e' \<and> secret_sources e'"
proof -
  have own: "\<exists>sp. secret_projection_for sn = SecretSource sp" by (simp add: secret_projection_for_def)
  show ?thesis
  proof (cases e)
    case (Some e1)
    show ?thesis
    proof (cases e1)
      case (Some srcs)
      with \<open>e = Some e1\<close> assms has_secret_source_total [of srcs sn] own show ?thesis
        by (auto simp: mount_entry_def secret_sources_def)
    qed (use \<open>e = Some e1\<close> in \<open>simp add: mount_entry_def secret_sources_def\<close>)
  qed (use own in \<open>simp add: mount_entry_def secret_sources_def\<close>)
qed

lemma run_mounts_total:
  "(\<And>v. v \<in> fst ` set ks \<Longrightarrow> secret_sources (volume_view spec v)) \<Longrightarrow>
   \<exists>spec'. run_patches mount_volume ks spec = Inr spec'"
proof (induction ks arbitrary: spec)
  case (Cons k ks)
  from Cons.prems have "secret_sources (volume_view spec (fst k))" by simp
  then obtain e where e: "mount_entry (snd k) (volume_view spec (fst k)) = Inr e" "secret_sources e"
    using mount_entry_total by blast
  then obtain q where q: "mount_volume k spec = Inr q"
    using addProjected_panics [of "fst k" "snd k" spec] unfolding mount_volume_def
    by (cases "addProjectedSecretSourceVolume (fst k) (snd k) spec") auto
  then have "volume_view q = (volume_view spec)(fst k := e)"
    using addProjected_refines [of "fst k" "snd k" spec q] e(1) unfolding mount_volume_def by auto
  with Cons e(2) q show ?case by auto
qed simp

lemma inject_total:
  assumes "sidecars_unique (Containers (pod_Spec p))"
    and "\<And>v. v \<in> {Oauth2VolumeName, KubeRbacProxyVolumeName} \<Longrightarrow> secret_sources (volume_view (pod_Spec p) v)"
  shows "\<exists>q. inject E ps rc suffix p = Inr q"
proof -
  obtain spec where "add_volumes rc suffix (pod_Spec p) = Inr spec"
    using run_mounts_total [of "volume_mounts rc suffix" "pod_Spec p"] assms(2) volume_mounts_names
    unfolding add_volumes_run by blast
  then show ?thesis by (simp add: inject_closed [OF assms(1)])
qed

subsection \<open>The sample pod\<close>

lemma sample_injected:
  "injected sample_env memory_kube sample_mutator sample_cluster sample_pod = Some (sample_rc, ''demo-a'')"
  using sample_isTarget sample_Resolve [of "ns_reader memory_kube sample_cluster"] sample_suffix
  by (simp add: injected_def sample_mutator_def) (simp add: sample_pod_def obj_defs)

lemma sample_unique: "sidecars_unique (Containers (pod_Spec sample_pod))"
  by (simp add: sidecars_unique_def named_def sample_pod_def app_container_def obj_defs constant_defs)

lemma sample_ports: "sidecar_ports_known (Containers (pod_Spec sample_pod))"
  by (simp add: sidecar_ports_known_def sample_pod_def app_container_def obj_defs constant_defs)

lemma sample_view [simp]: "volume_view (pod_Spec sample_pod) v = None"
  by (simp add: volume_view_def sample_pod_def obj_defs)

lemma sample_target_port: "TargetPort sample_target = IntVal 3000"
  by (simp add: sample_target_def)

lemma sample_port_string: "Itoa 3000 = ''3000''"
  by code_simp

lemma sample_Default:
  obtains q where "Default sample_env memory_kube sample_mutator sample_cluster sample_pod = Inr q"
proof -
  have "\<exists>q. inject sample_env (pm_ImagePullSecret sample_mutator) sample_rc ''demo-a'' sample_pod = Inr q"
    by (rule inject_total [OF sample_unique]) (simp add: secret_sources_def)
  with that show ?thesis by (auto simp: Default_injected sample_injected)
qed

subsection \<open>Properties of the pod webhook\<close>

text \<open>C1 (idempotence). The API server may call a mutating webhook again on a pod it has already
  changed. When at most one container carries the name of each sidecar, containers of those names
  declare only the sidecars' ports, and no target forwards to a port named like one of them, a
  second call of \<open>PodMutator.Default\<close> returns the pod unchanged.\<close>

theorem webhook_idempotent:
  assumes "Default E K pm s p = Inr q"
    and "sidecars_unique (Containers (pod_Spec p))"
    and "sidecar_ports_known (Containers (pod_Spec p))"
    and "\<And>cfg t. pm_Config pm = Some cfg \<Longrightarrow> t \<in> set (Targets cfg) \<Longrightarrow>
      intstr_string E (TargetPort t) \<notin> {''oauth2'', ''rbac''}"
  shows "Default E K pm s q = Inr q"
proof (cases "injected E K pm s p")
  case None
  with assms(1) show ?thesis by (simp add: Default_injected)
next
  case (Some x)
  then obtain rc suffix where x: "injected E K pm s p = Some (rc, suffix)" by (cases x) simp
  with assms(1) have q: "inject E (pm_ImagePullSecret pm) rc suffix p = Inr q" by (simp add: Default_injected)
  have "injected E K pm s q = Some (rc, suffix)"
    using injected_cong [of q p E K pm s] inject_meta [OF q assms(2)] x by simp
  moreover have "upstream_port (GetUpstreamTarget E rc) \<notin> {''oauth2'', ''rbac''}"
    using injected_target [OF x] assms(4) by (auto simp: upstream_port_target)
  ultimately show ?thesis
    using inject_repeat [OF q assms(2,3)] by (simp add: Default_injected)
qed

theorem webhook_idempotent_witness:
  "\<exists>q. Default sample_env memory_kube sample_mutator sample_cluster sample_pod = Inr q \<and>
     Default sample_env memory_kube sample_mutator sample_cluster q = Inr q"
proof -
  obtain q where q: "Default sample_env memory_kube sample_mutator sample_cluster sample_pod = Inr q"
    by (rule sample_Default)
  have "Default sample_env memory_kube sample_mutator sample_cluster q = Inr q"
    by (rule webhook_idempotent [OF q sample_unique sample_ports])
      (auto simp: sample_mutator_def sample_config_def sample_target_port sample_env_def sample_port_string)
  with q show ?thesis by blast
qed

text \<open>C8 (containers). On a pod of a target the webhook keeps the containers that are not sidecars, in
  their order, and appends exactly the two sidecars: the oauth2-proxy listening on the port the
  service targets, then the kube-rbac-proxy in front of the workload's own port. Stale containers of
  those names are gone.\<close>

theorem webhook_containers:
  assumes "Default E K pm s p = Inr q" and "injected E K pm s p = Some (rc, suffix)"
    and "sidecars_unique (Containers (pod_Spec p))"
  shows "\<exists>oauth2 rbac. Containers (pod_Spec q) =
      filter (\<lambda>c. c_Name c \<notin> {ContainerNameOauth2Proxy, ContainerNameKubeRbacProxy}) (Containers (pod_Spec p))
      @ [oauth2, rbac] \<and>
    c_Name oauth2 = ContainerNameOauth2Proxy \<and> Ports oauth2 = [\<lparr>port_Name = ''oauth2'', ContainerPort = 8000\<rparr>] \<and>
    c_Name rbac = ContainerNameKubeRbacProxy \<and>
    ''--upstream='' @ buildUpstreamURL (GetUpstreamTarget E rc) (pod_Spec p) \<in> set (Args rbac)"
proof -
  have inj: "inject E (pm_ImagePullSecret pm) rc suffix p = Inr q"
    using assms(1,2) by (simp add: Default_injected)
  show ?thesis
  proof (rule inject_Inr [OF inj assms(3)])
    fix spec
    assume "add_volumes rc suffix (pod_Spec p) = Inr spec"
    then have fr: "Containers spec = Containers (pod_Spec p)" using add_volumes_frame by blast
    assume "q = p\<lparr>GetAnnotations := GetAnnotations (addAnnotations E p rc),
        GetLabels := fmupd LabelKey ''pod'' (GetLabels p),
        pod_Spec := spec\<lparr>
          Containers := final_containers E rc (buildUpstreamURL (GetUpstreamTarget E rc) (pod_Spec p))
            (pod_index p) (p\<lparr>pod_Spec := spec\<rparr>),
          ImagePullSecrets := pull_secrets (pm_ImagePullSecret pm) (ImagePullSecrets spec)\<rparr>\<rparr>"
    then have "Containers (pod_Spec q) = final_containers E rc
        (buildUpstreamURL (GetUpstreamTarget E rc) (pod_Spec p)) (pod_index p) (p\<lparr>pod_Spec := spec\<rparr>)" by simp
    then show ?thesis
      by (simp add: final_containers_def unnamed_def fr)
        (simp add: getOIDCProxyContainer_def getKubeRbacProxyContainer_def)
  qed
qed

theorem webhook_containers_witness:
  "\<exists>q oauth2 rbac. Default sample_env memory_kube sample_mutator sample_cluster sample_pod = Inr q \<and>
     Containers (pod_Spec q) = [app_container, oauth2, rbac] \<and> c_Name oauth2 = ContainerNameOauth2Proxy"
proof -
  obtain q where q: "Default sample_env memory_kube sample_mutator sample_cluster sample_pod = Inr q"
    by (rule sample_Default)
  have "filter (\<lambda>c. c_Name c \<notin> {ContainerNameOauth2Proxy, ContainerNameKubeRbacProxy})
      (Containers (pod_Spec sample_pod)) = [app_container]"
    by (simp add: sample_pod_def app_container_def obj_defs constant_defs)
  with webhook_containers [OF q sample_injected sample_unique] q show ?thesis by auto
qed

text \<open>C9 (mounts). Every secret a target needs is a source of the volume it belongs to: the oauth2-proxy
  configuration, the CA bundle and a referenced client secret in one volume, the resource attributes,
  the kubeconfig and the CA bundle in the other. A volume of that name that exists but is not
  projected is the one exception.\<close>

theorem webhook_mounts:
  assumes "Default E K pm s p = Inr q" and "injected E K pm s p = Some (rc, suffix)"
    and "sidecars_unique (Containers (pod_Spec p))"
    and "(v, sn) \<in> set (volume_mounts rc suffix)" and "volume_view (pod_Spec p) v \<noteq> Some None"
  shows "\<exists>srcs. volume_view (pod_Spec q) v = Some (Some srcs) \<and> has_secret_source sn srcs = Inr True"
  by (rule inject_mounted [of E "pm_ImagePullSecret pm" rc suffix p])
    (use assms in \<open>simp_all add: Default_injected\<close>)

theorem webhook_mounts_witness:
  "\<exists>q srcs. Default sample_env memory_kube sample_mutator sample_cluster sample_pod = Inr q \<and>
     volume_view (pod_Spec q) Oauth2VolumeName = Some (Some srcs) \<and>
     has_secret_source (SecretNameOauth2Proxy @ ''-'' @ ''demo-a'') srcs = Inr True"
proof -
  obtain q where q: "Default sample_env memory_kube sample_mutator sample_cluster sample_pod = Inr q"
    by (rule sample_Default)
  have "(Oauth2VolumeName, SecretNameOauth2Proxy @ ''-'' @ ''demo-a'') \<in> set (volume_mounts sample_rc ''demo-a'')"
    by (simp add: volume_mounts_def)
  from webhook_mounts [OF q sample_injected sample_unique this] q show ?thesis by auto
qed

text \<open>C10 (frame). Of a pod of a target nothing else changes: its identity and owners stay, only the
  controller's label and its five annotations are written; every volume stays in its place with its name
  and its source - those of other names are the same list, a projected volume with a sidecar's name may
  get secrets after its own sources, new volumes carry those names - and the only new image pull secret
  is the configured one.\<close>

theorem webhook_frame:
  assumes "Default E K pm s p = Inr q" and "sidecars_unique (Containers (pod_Spec p))"
  shows "GetName q = GetName p \<and> GetNamespace q = GetNamespace p \<and> GetUID q = GetUID p \<and>
    GetOwnerReferences q = GetOwnerReferences p \<and>
    (\<forall>k. k \<noteq> LabelKey \<longrightarrow> fmlookup (GetLabels q) k = fmlookup (GetLabels p) k) \<and>
    (\<forall>k. k \<notin> {AnnotationKey, AnnotationHostKey, AnnotationTargetKey, AnnotationSuffixKey,
        AnnotationOauth2SecretChecksumKey} \<longrightarrow> fmlookup (GetAnnotations q) k = fmlookup (GetAnnotations p) k) \<and>
    GetFinalizers q = GetFinalizers p \<and> GetDeletionTimestamp q = GetDeletionTimestamp p \<and>
    filter (\<lambda>v. v_Name v \<notin> {Oauth2VolumeName, KubeRbacProxyVolumeName}) (Volumes (pod_Spec q)) =
      filter (\<lambda>v. v_Name v \<notin> {Oauth2VolumeName, KubeRbacProxyVolumeName}) (Volumes (pod_Spec p)) \<and>
    volumes_extended (Volumes (pod_Spec p)) (Volumes (pod_Spec q)) \<and>
    (ImagePullSecrets (pod_Spec q) = ImagePullSecrets (pod_Spec p) \<or>
     ImagePullSecrets (pod_Spec q) = ImagePullSecrets (pod_Spec p) @ [pm_ImagePullSecret pm])"
proof (cases "injected E K pm s p")
  case None
  with assms(1) show ?thesis by (simp add: Default_injected volumes_extended_def list_all2_refl)
next
  case (Some x)
  then obtain rc suffix where "injected E K pm s p = Some (rc, suffix)" by (cases x) simp
  with assms(1) have q: "inject E (pm_ImagePullSecret pm) rc suffix p = Inr q" by (simp add: Default_injected)
  have ann: "GetAnnotations q = GetAnnotations (addAnnotations E p rc)"
    by (rule inject_Inr [OF q assms(2)], simp)
  have "\<forall>k. k \<notin> {AnnotationKey, AnnotationHostKey, AnnotationTargetKey, AnnotationSuffixKey,
      AnnotationOauth2SecretChecksumKey} \<longrightarrow> fmlookup (GetAnnotations q) k = fmlookup (GetAnnotations p) k"
    unfolding ann using addAnnotations_other by blast
  moreover have fin: "GetFinalizers q = GetFinalizers p" by (rule inject_Inr [OF q assms(2)], simp)
  moreover note volumes = inject_volumes_extended(1) [OF q assms(2)]
  moreover note volumes_extended_others [OF volumes]
  moreover have "ImagePullSecrets (pod_Spec q) = ImagePullSecrets (pod_Spec p) \<or>
     ImagePullSecrets (pod_Spec q) = ImagePullSecrets (pod_Spec p) @ [pm_ImagePullSecret pm]"
    unfolding inject_volumes_extended(2) [OF q assms(2)] pull_secrets_def by simp
  ultimately show ?thesis using inject_meta [OF q assms(2)] by simp
qed

theorem webhook_frame_witness:
  "\<exists>q. Default sample_env memory_kube sample_mutator sample_cluster sample_pod = Inr q \<and>
     fmlookup (GetLabels q) ''app'' = Some ''demo''"
proof -
  obtain q where q: "Default sample_env memory_kube sample_mutator sample_cluster sample_pod = Inr q"
    by (rule sample_Default)
  have "fmlookup (GetLabels sample_pod) ''app'' = Some ''demo''" "''app'' \<noteq> LabelKey"
    by (simp_all add: sample_pod_def app_labels_def obj_defs LabelKey_def)
  with webhook_frame [OF q sample_unique] q show ?thesis by auto
qed

text \<open>A pod that is being deleted, or that belongs to no target, is returned as it
  came.\<close>

lemma webhook_ignores:
  assumes "GetDeletionTimestamp p \<noteq> None \<or> \<not> fst (isTarget E K s (pm_Config pm) p)"
  shows "Default E K pm s p = Inr p"
  using assms by (cases "isTarget E K s (pm_Config pm) p") (auto simp: Default_def)

text \<open>C16 (admission). The webhook admits every pod whose volumes of the two sidecar names, if it has any,
  are projected from secrets only: it returns, without an error and without a panic.\<close>

theorem webhook_admits:
  assumes "sidecars_unique (Containers (pod_Spec p))"
    and "\<And>v. v \<in> {Oauth2VolumeName, KubeRbacProxyVolumeName} \<Longrightarrow> secret_sources (volume_view (pod_Spec p) v)"
  shows "\<exists>q. Default E K pm s p = Inr q"
  using inject_total [OF assms] by (auto simp: Default_injected split: option.split)

theorem webhook_admits_witness:
  "\<exists>q. Default sample_env memory_kube sample_mutator sample_cluster sample_pod = Inr q"
  by (rule webhook_admits [OF sample_unique]) (simp add: secret_sources_def)

text \<open>The upstream annotation is decoded again to the protocol and the numeric port of the
  target: the kube-rbac-proxy forwards to the workload on localhost.\<close>

lemma upstream_roundtrip:
  assumes "intstr_laws E" and "TargetPort (rc_target rc) = IntVal n"
    and "- (2 ^ 63) \<le> n" and "n < 2 ^ 63"
  shows "buildUpstreamURL (GetUpstreamTarget E rc) spec =
    (if TargetProtocol (rc_target rc) = ''https'' then ''https'' else ''http'') @ ''://localhost:'' @ Itoa n"
proof -
  have "intstr_string E (TargetPort (rc_target rc)) = Itoa n" using assms(1,2) by (simp add: intstr_laws_def)
  then have port: "fst (CutPrefix ('' port='' @ intstr_string E (TargetPort (rc_target rc))) '' port='') = Itoa n"
    by (simp del: append_Cons)
  have pre: "CutPrefix (''protocol='' @ pr) ''protocol='' = (pr, True)" for pr by (simp del: append_Cons)
  have "Itoa n \<noteq> []" by (simp add: Itoa_def)
  moreover have "Atoi (Itoa n) = Some n" using assms(3,4) by (rule Atoi_Itoa)
  ultimately show ?thesis
    using port pre [of "''http''"] pre [of "''https''"]
    by (simp add: buildUpstreamURL_def GetUpstreamTarget_def Let_def)
qed

text \<open>The loop that removes \<open>--redirect-url\<close> arguments from the slice it ranges
  over never panics, and it is the filter it is meant to be on every argument list in which no two
  of them follow each other.\<close>

lemma redirect_args_removed:
  assumes "no_adjacent is_redirect args"
  shows "remove_redirect_args args = Inr (filter (\<lambda>a. \<not> HasPrefix a ''--redirect-url'') args)"
  using assms by (simp add: remove_redirect_args_eq strip_skip_filter is_redirect_def)

text \<open>Of two adjacent ones the second survives.\<close>

lemma adjacent_redirect_survives:
  "remove_redirect_args [''--redirect-url=a'', ''--redirect-url=b''] = Inr [''--redirect-url=b'']"
  by (simp add: remove_redirect_args_eq is_redirect_def HasPrefix_def)

subsection \<open>Properties of the autoscaler webhook\<close>

text \<open>C40 (autoscaler). An autoscaler that has a target and is a target itself, or whose workload is, gets
  the policies of other containers as they were, in order, followed by exactly one policy with mode
  \<open>Off\<close> for each sidecar, also when there was no resource policy at all; any other autoscaler, and one
  that is being deleted, is left alone; and a second call changes nothing.\<close>

theorem vpa_pinned:
  "VPA_Default E K cfg s v =
     (if GetDeletionTimestamp v = None \<and>
         (case TargetRef v of
            None \<Rightarrow> False
          | Some ref \<Rightarrow> Match E (ns_reader K s) cfg v \<or> isTargetRefMatched E K s cfg (GetNamespace v) ref)
      then v\<lparr>ResourcePolicy := Some
        (filter (\<lambda>p. pol_ContainerName p \<notin> {ContainerNameOauth2Proxy, ContainerNameKubeRbacProxy}) (policies_of v)
         @ [\<lparr>pol_ContainerName = ContainerNameOauth2Proxy, pol_Mode = Some ''Off''\<rparr>,
            \<lparr>pol_ContainerName = ContainerNameKubeRbacProxy, pol_Mode = Some ''Off''\<rparr>])\<rparr>
      else v) \<and>
   VPA_Default E K cfg s (VPA_Default E K cfg s v) = VPA_Default E K cfg s v"
proof
  show "VPA_Default E K cfg s (VPA_Default E K cfg s v) = VPA_Default E K cfg s v"
    using VPA_Default_cases [of E K cfg s v] VPA_Default_pinned [of E K cfg s v] by auto
qed (simp add: VPA_Default_def pin_policies_eq off_policies_def is_sidecar_policy_def split: option.split)

end
