(* ===== verification/Pod_Validity.thy ===== *)
theory Pod_Validity
  imports Webhook_Properties
begin

text \<open>
  Well-formed pods: what the API server's validation asks of the parts of a pod that the webhook
  writes, and when the webhook keeps it. The result of a mutating webhook is validated after the
  call, and a pod that is not well formed is rejected.
\<close>

subsection \<open>Well-formedness\<close>

text \<open>Container and volume names are unique, the mounts of a container refer to volumes of the pod and
  have different paths.\<close>

definition valid_container :: "string set \<Rightarrow> container \<Rightarrow> bool" where
  "valid_container vols c \<longleftrightarrow>
     (\<forall>m \<in> set (VolumeMounts c). vm_Name m \<in> vols) \<and> distinct (map MountPath (VolumeMounts c))"

definition valid_pod_spec :: "pod_spec \<Rightarrow> bool" where
  "valid_pod_spec spec \<longleftrightarrow>
     distinct (map c_Name (Containers spec)) \<and> distinct (map v_Name (Volumes spec)) \<and>
     (\<forall>c \<in> set (Containers spec). valid_container (set (map v_Name (Volumes spec))) c)"

lemma valid_container_mono: "valid_container vs c \<Longrightarrow> vs \<subseteq> ws \<Longrightarrow> valid_container ws c"
  by (auto simp: valid_container_def)

lemma distinct_length_filter: "distinct (map f xs) \<Longrightarrow> length (filter (\<lambda>x. f x = y) xs) \<le> 1"
proof (induction xs)
  case (Cons x xs)
  then show ?case by (cases "f x = y") (auto simp: filter_empty_conv image_iff)
qed simp

lemma valid_sidecars_unique: "valid_pod_spec spec \<Longrightarrow> sidecars_unique (Containers spec)"
  by (auto simp: valid_pod_spec_def sidecars_unique_def named_def intro: distinct_length_filter [THEN order_trans])

subsection \<open>The volumes\<close>

text \<open>An edit leaves the list of volume names or appends a fresh one, and it changes no volume into or
  from one with a service account token.\<close>

lemma token_mounts_update:
  assumes "i < length vs" "Projected (vs ! i) = Some srcs"
    and "list_ex (\<lambda>s. s = ServiceAccountTokenSource) srcs' = list_ex (\<lambda>s. s = ServiceAccountTokenSource) srcs"
  shows "token_mounts (vs[i := (vs ! i)\<lparr>Projected := Some srcs'\<rparr>]) = token_mounts vs"
  using assms
proof (induction vs arbitrary: i)
  case (Cons v vs)
  then show ?case by (cases i) (auto simp: token_mounts_def)
qed simp

lemma secret_not_token: "secret_projection_for sn \<noteq> ServiceAccountTokenSource"
  by (simp add: secret_projection_for_def)

lemma token_mounts_append:
  "token_mounts (vs @ [\<lparr>v_Name = n, Projected = Some [secret_projection_for sn], v_Other = w\<rparr>]) = token_mounts vs"
  by (simp add: token_mounts_def secret_not_token)

lemma map_name_update:
  "i < length vs \<Longrightarrow> map v_Name (vs[i := (vs ! i)\<lparr>Projected := pr\<rparr>]) = map v_Name vs"
  by (simp add: map_update list_update_same_conv)

lemma mount_volume_names:
  assumes "mount_volume k spec = Inr spec'"
  shows "map v_Name (Volumes spec') =
      map v_Name (Volumes spec) @ (if fst k \<in> v_Name ` set (Volumes spec) then [] else [fst k])"
    and "token_mounts (Volumes spec') = token_mounts (Volumes spec)"
proof -
  have "map v_Name (Volumes spec') =
      map v_Name (Volumes spec) @ (if fst k \<in> v_Name ` set (Volumes spec) then [] else [fst k]) \<and>
    token_mounts (Volumes spec') = token_mounts (Volumes spec)"
  proof (cases "find_index (\<lambda>v. v_Name v = fst k) (Volumes spec)")
    case None
    with assms show ?thesis
      by (auto simp: mount_volume_def addProjectedSecretSourceVolume_def token_mounts_append find_index_None_iff)
  next
    case (Some i)
    from find_index_SomeD [OF Some] have i: "i < length (Volumes spec)" "v_Name (Volumes spec ! i) = fst k" by auto
    then have "fst k \<in> v_Name ` set (Volumes spec)" by (metis image_eqI nth_mem)
    with assms Some i show ?thesis
      by (auto simp: mount_volume_def addProjectedSecretSourceVolume_def Let_def res_bind_Inr_iff map_name_update
          token_mounts_update secret_not_token split: option.splits if_splits)
  qed
  then show "map v_Name (Volumes spec') =
      map v_Name (Volumes spec) @ (if fst k \<in> v_Name ` set (Volumes spec) then [] else [fst k])"
    and "token_mounts (Volumes spec') = token_mounts (Volumes spec)" by auto
qed

lemma mount_volume_sets:
  assumes "mount_volume k spec = Inr spec'"
  shows "distinct (map v_Name (Volumes spec)) \<Longrightarrow> distinct (map v_Name (Volumes spec'))"
    and "v_Name ` set (Volumes spec') = insert (fst k) (v_Name ` set (Volumes spec))"
proof -
  note names = mount_volume_names(1) [OF assms]
  show "distinct (map v_Name (Volumes spec'))" if "distinct (map v_Name (Volumes spec))"
    unfolding names using that by simp
  have "set (map v_Name (Volumes spec')) = insert (fst k) (set (map v_Name (Volumes spec)))"
    unfolding names by auto
  then show "v_Name ` set (Volumes spec') = insert (fst k) (v_Name ` set (Volumes spec))" by simp
qed

lemma run_mounts_names:
  "run_patches mount_volume ks spec = Inr spec' \<Longrightarrow>
   (distinct (map v_Name (Volumes spec)) \<longrightarrow> distinct (map v_Name (Volumes spec'))) \<and>
   v_Name ` set (Volumes spec') = fst ` set ks \<union> v_Name ` set (Volumes spec) \<and>
   token_mounts (Volumes spec') = token_mounts (Volumes spec)"
proof (induction ks arbitrary: spec)
  case (Cons k ks)
  then obtain q where q: "mount_volume k spec = Inr q" "run_patches mount_volume ks q = Inr spec'"
    by (auto simp: res_bind_Inr_iff)
  from Cons.IH [OF q(2)] show ?case
    using mount_volume_sets [OF q(1)] mount_volume_names(2) [OF q(1)] by simp
qed simp

subsection \<open>The pod after the injection\<close>

lemma redirected_mounts [simp]: "VolumeMounts (redirected E rc i c) = VolumeMounts c"
  by (simp add: redirected_def split: option.split)

lemma oidc_mounts [simp]:
  "VolumeMounts (getOIDCProxyContainer E (Some spec) rc) =
     [\<lparr>vm_Name = Oauth2VolumeName, ReadOnly = True, MountPath = ''/etc/oauth2-proxy''\<rparr>]"
  by (simp add: getOIDCProxyContainer_def)

lemma rbac_mounts [simp]:
  "VolumeMounts (getKubeRbacProxyContainer E ci iu url (Some p) rc) =
     \<lparr>vm_Name = KubeRbacProxyVolumeName, ReadOnly = True, MountPath = ''/etc/kube-rbac-proxy''\<rparr>
     # token_mounts (Volumes (pod_Spec p))"
  by (simp add: getKubeRbacProxyContainer_def)

text \<open>Every token volume is mounted at the one path.\<close>

lemma token_mounts_paths:
  "map MountPath (token_mounts vs) =
     replicate (length (token_mounts vs)) ''/var/run/secrets/kubernetes.io/serviceaccount''"
  by (simp add: token_mounts_def map_replicate_const comp_def)

lemma token_mounts_names: "m \<in> set (token_mounts vs) \<Longrightarrow> vm_Name m \<in> v_Name ` set vs"
  by (auto simp: token_mounts_def)

lemma distinct_replicate: "distinct (replicate n x) \<longleftrightarrow> n \<le> 1"
  by (cases n; cases "n - 1") auto

lemma valid_rbac:
  assumes "KubeRbacProxyVolumeName \<in> vols" "v_Name ` set (Volumes (pod_Spec p)) \<subseteq> vols"
  shows "valid_container vols (getKubeRbacProxyContainer E ci iu url (Some p) rc) \<longleftrightarrow>
    length (token_mounts (Volumes (pod_Spec p))) \<le> 1"
proof -
  have "distinct (map MountPath (VolumeMounts (getKubeRbacProxyContainer E ci iu url (Some p) rc))) \<longleftrightarrow>
      length (token_mounts (Volumes (pod_Spec p))) \<le> 1"
    using token_mounts_paths [of "Volumes (pod_Spec p)"] by (auto simp: distinct_replicate)
  moreover have "\<forall>m \<in> set (VolumeMounts (getKubeRbacProxyContainer E ci iu url (Some p) rc)). vm_Name m \<in> vols"
    using assms token_mounts_names by fastforce
  ultimately show ?thesis by (simp add: valid_container_def)
qed

lemma final_containers_names:
  "map c_Name (final_containers E rc url i p) =
     map c_Name (unnamed sidecar_names (Containers (pod_Spec p)))
     @ [ContainerNameOauth2Proxy, ContainerNameKubeRbacProxy]"
  by (simp add: final_containers_def)

lemma inject_valid:
  assumes valid: "valid_pod_spec (pod_Spec p)" and q: "inject E ps rc suffix p = Inr q"
  shows "valid_pod_spec (pod_Spec q) \<longleftrightarrow> length (token_mounts (Volumes (pod_Spec p))) \<le> 1"
proof (rule inject_Inr [OF q valid_sidecars_unique [OF valid]])
  fix spec
  let ?url = "buildUpstreamURL (GetUpstreamTarget E rc) (pod_Spec p)"
  let ?cs = "final_containers E rc ?url (pod_index p) (p\<lparr>pod_Spec := spec\<rparr>)"
  let ?vols = "v_Name ` set (Volumes spec)"
  assume vol: "add_volumes rc suffix (pod_Spec p) = Inr spec"
    and q: "q = p\<lparr>GetAnnotations := GetAnnotations (addAnnotations E p rc),
        GetLabels := fmupd LabelKey ''pod'' (GetLabels p),
        pod_Spec := spec\<lparr>Containers := ?cs, ImagePullSecrets := pull_secrets ps (ImagePullSecrets spec)\<rparr>\<rparr>"
  note names = run_mounts_names [OF vol [unfolded add_volumes_run]]
  have own: "Oauth2VolumeName \<in> ?vols" "KubeRbacProxyVolumeName \<in> ?vols"
    using names by (auto simp: volume_mounts_def)
  have fr: "Containers spec = Containers (pod_Spec p)" using add_volumes_frame [OF vol] by simp
  have "distinct (map c_Name ?cs)"
    using valid fr by (auto simp: final_containers_names valid_pod_spec_def unnamed_def distinct_map_filter constant_defs)
  moreover have "distinct (map v_Name (Volumes spec))" using names valid by (simp add: valid_pod_spec_def)
  moreover have "\<forall>c \<in> set (unnamed sidecar_names (Containers spec)). valid_container ?vols c"
    using valid names fr by (auto simp: valid_pod_spec_def unnamed_def intro: valid_container_mono)
  moreover have "valid_container ?vols (redirected E rc (pod_index p) (getOIDCProxyContainer E (Some spec) rc))"
    using own by (simp add: valid_container_def)
  moreover have "valid_container ?vols (getKubeRbacProxyContainer E (GetClientID rc) (GetOidcIssuerURL rc) ?url
      (Some (p\<lparr>pod_Spec := spec\<rparr>)) rc) \<longleftrightarrow> length (token_mounts (Volumes (pod_Spec p))) \<le> 1"
    using valid_rbac [of ?vols "p\<lparr>pod_Spec := spec\<rparr>"] own names by simp
  ultimately show ?thesis
    by (simp add: q valid_pod_spec_def final_containers_def)
qed


text \<open>C11 (well-formed pods). From a well-formed pod the webhook makes a well-formed pod, exactly when it
  leaves the pod alone or the pod has at most one volume with a service account token: every such
  volume is mounted at the same path.\<close>

theorem webhook_keeps_valid:
  assumes "Default E K pm s p = Inr q" "valid_pod_spec (pod_Spec p)"
  shows "valid_pod_spec (pod_Spec q) \<longleftrightarrow>
    injected E K pm s p = None \<or> length (token_mounts (Volumes (pod_Spec p))) \<le> 1"
proof (cases "injected E K pm s p")
  case None
  with assms show ?thesis by (simp add: Default_injected)
next
  case (Some i)
  with assms(1) have "inject E (pm_ImagePullSecret pm) (fst i) (snd i) p = Inr q"
    by (cases i) (simp add: Default_injected)
  from inject_valid [OF assms(2) this] Some show ?thesis by simp
qed

theorem webhook_keeps_valid_witness:
  "\<exists>q. Default sample_env memory_kube sample_mutator sample_cluster sample_pod = Inr q \<and> valid_pod_spec (pod_Spec q)"
proof -
  have valid: "valid_pod_spec (pod_Spec sample_pod)"
    by (simp add: valid_pod_spec_def valid_container_def sample_pod_def app_container_def empty_container_def obj_defs)
  obtain q where q: "Default sample_env memory_kube sample_mutator sample_cluster sample_pod = Inr q"
    using sample_Default by blast
  from webhook_keeps_valid [OF q valid] q show ?thesis
    by (simp add: token_mounts_def sample_pod_def obj_defs)
qed

end
