(* ===== verification/Config_Properties.thy ===== *)
theory Config_Properties
  imports Sample
begin

text \<open>
  The properties of the configuration: which target an object gets, when a target matches, what a
  target isolates from the global settings, the host, the default path, the CA bundle, and the
  rendered oauth2-proxy configuration.
\<close>

subsection \<open>Targets\<close>

lemma find_split:
  "find P xs = Some x \<Longrightarrow> \<exists>ys zs. xs = ys @ x # zs \<and> P x \<and> (\<forall>y \<in> set ys. \<not> P y)"
proof (induction xs)
  case (Cons a xs)
  show ?case
  proof (cases "P a")
    case True
    with Cons.prems have "a # xs = [] @ x # xs \<and> P x" by simp
    then show ?thesis by force
  next
    case False
    with Cons.prems Cons.IH obtain ys zs where "xs = ys @ x # zs" "P x" "\<forall>y \<in> set ys. \<not> P y" by auto
    with False have "a # xs = (a # ys) @ x # zs \<and> P x \<and> (\<forall>y \<in> set (a # ys). \<not> P y)" by simp
    then show ?thesis by blast
  qed
qed simp

text \<open>C31 (first match). A matched object gets the first target, in configuration order, that matches
  it: no target before it does.\<close>

theorem first_matching_target:
  assumes "Match E client (Some c) ob"
  shows "\<exists>before after. Targets c = before @ FetchTarget E client c ob # after \<and>
    targetMatchesLabels E client (FetchTarget E client c ob) ob \<and>
    (\<forall>t \<in> set before. \<not> targetMatchesLabels E client t ob)"
proof -
  obtain t where "find (\<lambda>t. targetMatchesLabels E client t ob) (Targets c) = Some t"
    using assms unfolding Match_iff
    by (cases "find (\<lambda>t. targetMatchesLabels E client t ob) (Targets c)") (auto simp: find_None_iff)
  with find_split [OF this] show ?thesis by (auto simp: FetchTarget_first)
qed

theorem first_matching_target_witness:
  "targetMatchesLabels sample_env None (FetchTarget sample_env None sample_config sample_deployment) sample_deployment"
  using first_matching_target [OF sample_Match] by blast

text \<open>C32 (selectors). A target with a label selector and a namespace selector, both of labels, matches
  exactly the objects that carry the one in namespaces that carry the other; a namespace that cannot
  be read matches nothing.\<close>

theorem matching_is_inclusion:
  assumes laws: "selector_laws E"
    and l: "LabelSelector t = Some \<lparr>MatchLabels = ls, MatchExpressions = []\<rparr>" "ls \<noteq> fmempty"
    and n: "NamespaceSelector t = Some \<lparr>MatchLabels = ns, MatchExpressions = []\<rparr>" "ns \<noteq> fmempty"
  shows "targetMatchesLabels E (Some get) t ob \<longleftrightarrow>
    (\<forall>k v. fmlookup ls k = Some v \<longrightarrow> fmlookup (GetLabels ob) k = Some v) \<and>
    (\<exists>space. get (GetNamespace ob) = Inr space \<and>
       (\<forall>k v. fmlookup ns k = Some v \<longrightarrow> fmlookup (GetLabels space) k = Some v))"
proof -
  have sel: "as_selector E (Some \<lparr>MatchLabels = x, MatchExpressions = []\<rparr>) =
      Inr (\<lambda>m. fset_of_fmap x |\<subseteq>| fset_of_fmap m)" for x
    using laws by (simp add: selector_laws_def)
  have "selector_size E (LabelSelector t) \<noteq> 0" "selector_size E (NamespaceSelector t) \<noteq> 0"
    using laws l n by (simp_all add: selector_laws_def empty_selector_def)
  then show ?thesis
    by (cases "get (GetNamespace ob)") (auto simp: targetMatchesLabels_def l n sel labels_included)
qed

theorem matching_is_inclusion_witness:
  "targetMatchesLabels sample_env (Some (\<lambda>_. Inr ((new_meta ''apps'' '''')\<lparr>GetLabels := smap_of [(''team'', ''x'')]\<rparr>)))
     (sample_target\<lparr>NamespaceSelector := Some \<lparr>MatchLabels = smap_of [(''team'', ''x'')], MatchExpressions = []\<rparr>\<rparr>)
     sample_deployment"
  by (subst matching_is_inclusion [OF sample_selector_laws, where ls = "smap_of [(''app'', ''demo'')]"
        and ns = "smap_of [(''team'', ''x'')]"])
    (simp_all add: sample_target_def sample_defs smap_of_def)

subsection \<open>Settings\<close>

text \<open>The option lists of a resolved configuration depend on the settings only.\<close>

definition complete_oauth2 :: "oauth2_proxy_config \<Rightarrow> bool" where
  "complete_oauth2 c \<longleftrightarrow> ClientID c \<noteq> [] \<and> Scope c \<noteq> [] \<and> OidcIssuerURL c \<noteq> [] \<and> RedirectURL c \<noteq> [] \<and>
     SSLInsecureSkipVerify c \<noteq> None \<and> InsecureOidcSkipIssuerVerification c \<noteq> None \<and>
     InsecureOidcSkipNonce c \<noteq> None \<and> non_empty (ClientSecretRef c) sr_Name \<noteq> None"

text \<open>A target that sets all its oauth2 values is isolated from the global ones: the
  configuration rendered into its secret is the same whatever the global configuration says.\<close>

lemma complete_target_isolated:
  assumes "Oauth2Proxy (rc_target rc) = Some c" and "complete_oauth2 c"
  shows "Parse (NewOAuth2Config (mutate_options E (rc\<lparr>rc_global := g\<rparr>))) =
    Parse (NewOAuth2Config (mutate_options E rc))"
proof -
  have "GetClientID (rc\<lparr>rc_global := g\<rparr>) = GetClientID rc"
    using assms by (intro s_ClientID.global_irrelevant) (simp add: complete_oauth2_def)
  moreover have "GetScope (rc\<lparr>rc_global := g\<rparr>) = GetScope rc"
    using assms by (intro s_Scope.global_irrelevant) (simp add: complete_oauth2_def)
  moreover have "GetOidcIssuerURL (rc\<lparr>rc_global := g\<rparr>) = GetOidcIssuerURL rc"
    using assms by (intro s_OidcIssuerURL.global_irrelevant) (simp add: complete_oauth2_def)
  moreover have "GetSslInsecureSkipVerify (rc\<lparr>rc_global := g\<rparr>) = GetSslInsecureSkipVerify rc"
    using assms by (intro s_SslInsecureSkipVerify.global_irrelevant) (simp add: complete_oauth2_def pointed_def)
  moreover have "GetInsecureOidcSkipIssuerVerification (rc\<lparr>rc_global := g\<rparr>) = GetInsecureOidcSkipIssuerVerification rc"
    using assms
    by (intro s_InsecureOidcSkipIssuerVerification.global_irrelevant) (simp add: complete_oauth2_def pointed_def)
  moreover have "GetInsecureOidcSkipNonce (rc\<lparr>rc_global := g\<rparr>) = GetInsecureOidcSkipNonce rc"
    using assms by (intro s_InsecureOidcSkipNonce.global_irrelevant) (simp add: complete_oauth2_def pointed_def)
  moreover have "GetClientSecretName (rc\<lparr>rc_global := g\<rparr>) = GetClientSecretName rc \<and> GetClientSecretName rc \<noteq> []"
    using assms s_ClientSecretName.global_irrelevant [of rc g]
    by (auto simp: complete_oauth2_def ref_name_def GetClientSecretName_def dest: non_empty_not_Nil)
  moreover have "GetRedirectURL E (rc\<lparr>rc_global := g\<rparr>) = GetRedirectURL E rc"
    using assms by (simp add: GetRedirectURL_def complete_oauth2_def)
  ultimately show ?thesis by (simp add: mutate_options_def)
qed

definition full_oauth2 :: oauth2_proxy_config where
  "full_oauth2 =
     empty_oauth2\<lparr>ClientID := ''own'', Scope := ''openid'', OidcIssuerURL := ''https://own'',
       RedirectURL := ''https://own/cb'', SSLInsecureSkipVerify := Some False,
       InsecureOidcSkipIssuerVerification := Some False, InsecureOidcSkipNonce := Some False,
       ClientSecretRef := Some \<lparr>sr_Name = ''ref'', sr_Namespace = ''''\<rparr>\<rparr>"

text \<open>The path a route redirects to is empty or a slash followed by at least one and
  at most 31 characters that are letters, digits or one of \<open>-/_.~\<close>: whatever a target configures,
  nothing else reaches the HTTPRoute.\<close>

lemma default_path_safe:
  "GetHTTPRouteDefaultPath rc = '''' \<or>
   (\<exists>q. GetHTTPRouteDefaultPath rc = CHR ''/'' # q \<and> q \<noteq> [] \<and> length q \<le> 31 \<and>
      list_all default_path_char q)"
  using GetHTTPRouteDefaultPath_valid [of rc]
  by (auto simp: isValidDefaultPath_def validDefaultPathRe_def maxDefaultPathLength_def split: list.splits)

subsection \<open>The rendered configuration\<close>

text \<open>C29 (rendering). Reading a rendered oauth2-proxy configuration line by line gives every value of the
  configuration back, the texts as they are and the three switches as \<open>true\<close> or \<open>false\<close>, provided no
  text holds a line break; the client secret and the client secret file are never both there; and there
  are no further lines.\<close>

theorem oauth2_config_roundtrip:
  assumes "clean_config c"
  shows "lookup_setting (scan_lines (Parse c)) ''scope'' = Some (scope c) \<and>
    lookup_setting (scan_lines (Parse c)) ''client_id'' = Some (clientID c) \<and>
    lookup_setting (scan_lines (Parse c)) ''redirect_url'' = Some (redirectURL c) \<and>
    lookup_setting (scan_lines (Parse c)) ''oidc_issuer_url'' = Some (oidcIssuerURL c) \<and>
    lookup_setting (scan_lines (Parse c)) ''client_secret'' =
      (if clientSecret c = [] then None else Some (clientSecret c)) \<and>
    lookup_setting (scan_lines (Parse c)) ''client_secret_file'' =
      (if clientSecret c = [] then Some (clientSecretFile c) else None) \<and>
    lookup_setting (scan_lines (Parse c)) ''ssl_insecure_skip_verify'' =
      Some (FormatBool (sslInsecureSkipVerify c)) \<and>
    lookup_setting (scan_lines (Parse c)) ''insecure_oidc_skip_issuer_verification'' =
      Some (FormatBool (insecureOidcSkipIssuerVerification c)) \<and>
    lookup_setting (scan_lines (Parse c)) ''insecure_oidc_skip_nonce'' =
      Some (FormatBool (insecureOidcSkipNonce c)) \<and>
    length (scan_lines (Parse c)) = 8"
  unfolding scan_Parse [OF assms] rendered_lines_def by (simp add: setting_def HasPrefix_def)

theorem oauth2_config_roundtrip_witness:
  "lookup_setting (scan_lines (Parse (empty_oauth2_config\<lparr>clientID := ''client''\<rparr>))) ''client_id'' = Some ''client''"
  using oauth2_config_roundtrip [of "empty_oauth2_config\<lparr>clientID := ''client''\<rparr>"]
  by (simp add: clean_config_def clean_def empty_oauth2_config_def)

end
