(* ===== verification/Gateway.thy ===== *)
theory Gateway
  imports Owned_Resources
begin

text \<open>
  The managed Gateway (\<open>pkg/controllers/gateway_reconciler.go\<close>): the translation of the chart-facing
  configuration to the API types, the reconciler, and the clean-up when the Gateway is not managed.
  The API objects the controller writes are records of their own; an absent pointer is \<open>None\<close>.
\<close>

subsection \<open>API types\<close>

record api_secret_ref =
  asr_Name :: string
  asr_Group :: "string option"
  asr_Kind :: "string option"
  asr_Namespace :: "string option"

record api_listener_tls =
  alt_Mode :: "string option"
  alt_CertificateRefs :: "api_secret_ref list"
  alt_Options :: smap

record api_route_namespaces =
  arn_From :: "string option"
  arn_Selector :: "label_selector option"

record api_route_kind =
  ark_Kind :: string
  ark_Group :: "string option"

record api_allowed_routes =
  aar_Namespaces :: "api_route_namespaces option"
  aar_Kinds :: "api_route_kind list"

record api_listener =
  al_Name :: string
  al_Hostname :: "string option"
  al_Port :: int
  al_Protocol :: string
  al_TLS :: "api_listener_tls option"
  al_AllowedRoutes :: "api_allowed_routes option"

record api_infrastructure =
  ai_Annotations :: smap
  ai_Labels :: smap
  ai_ParametersRef :: "gateway_parameters_ref option"

record gateway_spec =
  gs_GatewayClassName :: string
  gs_Listeners :: "api_listener list"
  gs_Infrastructure :: "api_infrastructure option"

record gateway = object_meta +
  gw_Spec :: gateway_spec

definition new_gateway :: "string \<Rightarrow> string \<Rightarrow> gateway" where
  "new_gateway name namespace =
     object_meta.extend (new_meta name namespace)
       \<lparr>gw_Spec = \<lparr>gs_GatewayClassName = '''', gs_Listeners = [], gs_Infrastructure = None\<rparr>\<rparr>"

subsection \<open>Translation\<close>

definition optional :: "string \<Rightarrow> string option" where
  "optional s = (if s \<noteq> [] then Some s else None)"

fun build_refs :: "secret_object_reference list \<Rightarrow> api_secret_ref list \<Rightarrow> api_secret_ref list" where
  "build_refs [] acc = acc"
| "build_refs (ref # refs) acc =
     (let kind = (if so_Kind ref = [] then ''Secret'' else so_Kind ref);
          secretRef = \<lparr>asr_Name = so_Name ref, asr_Group = Some (so_Group ref), asr_Kind = Some kind,
                       asr_Namespace = optional (so_Namespace ref)\<rparr>
      in build_refs refs (acc @ [secretRef]))"

text \<open>A copied map is the map; an empty one is left nil, which reads the same.\<close>

definition buildListenerTLS :: "listener_tls_config \<Rightarrow> api_listener_tls" where
  "buildListenerTLS tls =
     \<lparr>alt_Mode = optional (tls_Mode tls),
      alt_CertificateRefs = build_refs (tls_CertificateRefs tls) [],
      alt_Options = maps_Copy fmempty (tls_Options tls)\<rparr>"

fun build_kinds :: "route_group_kind list \<Rightarrow> api_route_kind list \<Rightarrow> api_route_kind list" where
  "build_kinds [] acc = acc"
| "build_kinds (k # ks) acc =
     build_kinds ks (acc @ [\<lparr>ark_Kind = rk_Kind k, ark_Group = optional (rk_Group k)\<rparr>])"

definition buildAllowedRoutes :: "allowed_routes \<Rightarrow> api_allowed_routes" where
  "buildAllowedRoutes ar =
     \<lparr>aar_Namespaces =
        map_option (\<lambda>n. \<lparr>arn_From = optional (rn_From n), arn_Selector = rn_Selector n\<rparr>) (ar_Namespaces ar),
      aar_Kinds = build_kinds (ar_Kinds ar) []\<rparr>"

fun build_listeners :: "gateway_listener list \<Rightarrow> api_listener list \<Rightarrow> api_listener list" where
  "build_listeners [] result = result"
| "build_listeners (l # ls) result =
     build_listeners ls (result @
       [\<lparr>al_Name = gl_Name l, al_Hostname = optional (gl_Hostname l), al_Port = gl_Port l,
         al_Protocol = gl_Protocol l, al_TLS = map_option buildListenerTLS (gl_TLS l),
         al_AllowedRoutes = map_option buildAllowedRoutes (gl_AllowedRoutes l)\<rparr>])"

definition buildListeners :: "gateway_listener list \<Rightarrow> api_listener list" where
  "buildListeners listeners = build_listeners listeners []"

definition buildInfrastructure :: "gateway_infrastructure option \<Rightarrow> api_infrastructure option" where
  "buildInfrastructure infra =
     (case infra of
        None \<Rightarrow> None
      | Some i \<Rightarrow>
          Some \<lparr>ai_Annotations = maps_Copy fmempty (gi_Annotations i),
                ai_Labels = maps_Copy fmempty (gi_Labels i),
                ai_ParametersRef = gi_ParametersRef i\<rparr>)"

subsection \<open>The reconciler\<close>

definition syncInterval :: nat where
  "syncInterval = 60"

record gateway_reconciler =
  gr_Namespace :: string
  gr_Config :: "gateway_global_conf option"

definition mutate_gateway :: "gateway_global_conf \<Rightarrow> gateway \<Rightarrow> gateway res" where
  "mutate_gateway conf gw =
     Inr (gw\<lparr>GetLabels := maps_Copy (smap_of [(LabelKey, LabelValue)]) (gw_Labels conf),
             GetAnnotations := gw_Annotations conf,
             gw_Spec := \<lparr>gs_GatewayClassName = GatewayClassName conf,
                         gs_Listeners = buildListeners (Listeners conf),
                         gs_Infrastructure = buildInfrastructure (Infrastructure conf)\<rparr>\<rparr>)"

definition gateway_name :: "gateway_global_conf \<Rightarrow> string" where
  "gateway_name conf = (if gw_Name conf = [] then ManagedGatewayName else gw_Name conf)"

definition reconcileGateway ::
  "('s, gateway) store \<Rightarrow> string \<Rightarrow> gateway_global_conf \<Rightarrow> ('s, unit) go" where
  "reconcileGateway S namespace conf =
     (if GatewayClassName conf = []
      then throw (ErrOther ''gatewayClassName is required when managed gateway is enabled'')
      else wrapping ''failed to reconcile gateway''
        (CreateOrUpdate S (new_gateway (gateway_name conf) namespace) (mutate_gateway conf)))"

definition cleanupOrphanedGateway :: "('s, gateway) store \<Rightarrow> string \<Rightarrow> ('s, unit) go" where
  "cleanupOrphanedGateway S namespace =
     and_then (wrapping ''failed to list gateways''
       (reading (\<lambda>s. List S s \<lparr>InNamespace = Some namespace, MatchingLabels = smap_of [(LabelKey, LabelValue)]\<rparr>)))
       (for_each (\<lambda>gw. wrapping (''failed to delete orphaned gateway '' @ GetName gw)
          (ignoring IgnoreNotFound (DeleteObj S gw))))"

text \<open>The result is the time to the next run, if one is scheduled.\<close>

definition Gateway_Reconcile :: "('s, gateway) store \<Rightarrow> gateway_reconciler \<Rightarrow> ('s, nat option) go" where
  "Gateway_Reconcile S g =
     (case gr_Config g of
        None \<Rightarrow> and_then (cleanupOrphanedGateway S (gr_Namespace g)) (\<lambda>_. ret None)
      | Some conf \<Rightarrow>
          if \<not> Managed conf then and_then (cleanupOrphanedGateway S (gr_Namespace g)) (\<lambda>_. ret None)
          else and_then (reconcileGateway S (gr_Namespace g) conf) (\<lambda>_. ret (Some syncInterval)))"

subsection \<open>Facts\<close>

lemma build_refs_map:
  "build_refs refs acc = acc @ map (\<lambda>ref.
     \<lparr>asr_Name = so_Name ref, asr_Group = Some (so_Group ref),
      asr_Kind = Some (if so_Kind ref = [] then ''Secret'' else so_Kind ref),
      asr_Namespace = optional (so_Namespace ref)\<rparr>) refs"
  by (induction refs arbitrary: acc) (simp_all add: Let_def)

lemma build_kinds_map:
  "build_kinds ks acc = acc @ map (\<lambda>k. \<lparr>ark_Kind = rk_Kind k, ark_Group = optional (rk_Group k)\<rparr>) ks"
  by (induction ks arbitrary: acc) simp_all

lemma build_listeners_map:
  "build_listeners ls acc = acc @ concat (map (\<lambda>l. build_listeners [l] []) ls)"
  by (induction ls arbitrary: acc) simp_all

interpretation gateways: mutation "mutate_gateway conf" for conf
  by unfold_locales (auto simp: mutate_gateway_def)

text \<open>The name under which the Gateway is created is the one HTTPRoutes use as their parent.\<close>

lemma parent_ref_name:
  assumes "Gateway (rc_global rc) = Some g" "Managed g"
    and "HTTPRoute (rc_target rc) = None \<or> (\<exists>h. HTTPRoute (rc_target rc) = Some h \<and> hr_ParentRefs h = [])"
  shows "map ref_Name (GetHTTPRouteParentRefs E rc) = [gateway_name g]"
  using assms by (auto simp: GetHTTPRouteParentRefs_def gateway_name_def)

text \<open>Reconciling a managed Gateway converges.\<close>

theorem gateway_converged:
  assumes laws: "create_or_update_laws (\<lambda>x. x) S"
    and ok: "reconcileGateway S namespace conf s = (Inr (), s')"
  shows "Get S s' (namespace, gateway_name conf) \<noteq> Inl ErrNotFound"
    and "reconcileGateway S namespace conf s' = (Inr (), s')"
proof -
  let ?ob = "new_gateway (gateway_name conf) namespace"
  have key: "key_of ?ob = (namespace, gateway_name conf)"
    by (simp add: new_gateway_def new_meta_def object_meta.extend_def)
  have ok': "CreateOrUpdate S ?ob (mutate_gateway conf) s = (Inr (), s')" and cls: "GatewayClassName conf \<noteq> []"
    using ok by (auto simp: reconcileGateway_def split: if_splits)
  have "mutate_gateway conf (new\<lparr>GetUID := u\<rparr>) = Inr (new\<lparr>GetUID := u\<rparr>)"
    if "mutate_gateway conf ob = Inr new" for ob new u
    using gateways.again [OF that] by (simp add: gateways.uid_blind)
  with create_or_update_success [OF laws ok'] gateways.again obtain cur
    where cur: "Get S s' (key_of ?ob) = Inr cur" "mutate_gateway conf cur = Inr cur" by blast
  with key show "Get S s' (namespace, gateway_name conf) \<noteq> Inl ErrNotFound" by simp
  show "reconcileGateway S namespace conf s' = (Inr (), s')"
    using create_or_update_fixed [where f = "mutate_gateway conf", OF laws cur] cls by (simp add: reconcileGateway_def wrapping_def)
qed

end
