(* ===== verification/Controller_Properties.thy ===== *)
theory Controller_Properties
  imports Sample Gateway
begin

text \<open>
  The properties of the reconcilers: convergence of the dependent objects, what pruning deletes and
  what it spares, the registry secret and its finalizer, and the managed Gateway. The laws of the
  client that pruning relies on are stated first.
\<close>

subsection \<open>Laws of reading and deleting\<close>

text \<open>A listed object is the stored one, and a deletion touches its own key only. After one that succeeded,
  or found nothing, the object is gone, or it has finalizers and is kept, marked as being deleted.\<close>

definition prune_laws :: "('s, 'a object_meta_scheme) store \<Rightarrow> bool" where
  "prune_laws S \<longleftrightarrow>
     (\<forall>s opts items x. List S s opts = Inr items \<longrightarrow> x \<in> set items \<longrightarrow> Get S s (key_of x) = Inr x) \<and>
     (\<forall>x s k. k \<noteq> key_of x \<longrightarrow> Get S (snd (DeleteObj S x s)) k = Get S s k) \<and>
     (\<forall>x s r s'. DeleteObj S x s = (r, s') \<longrightarrow> r = Inr () \<or> r = Inl ErrNotFound \<longrightarrow>
        Get S s' (key_of x) = Inl ErrNotFound \<or>
        (\<exists>cur t. Get S s (key_of x) = Inr cur \<and> GetFinalizers cur \<noteq> [] \<and>
           Get S s' (key_of x) = Inr (cur\<lparr>GetDeletionTimestamp := Some t\<rparr>)))"





text \<open>Deleting objects of one kind changes nothing of another.\<close>

definition isolated :: "('s, 'a object_meta_scheme) store \<Rightarrow> ('s, 'b object_meta_scheme) store \<Rightarrow> bool" where
  "isolated S T \<longleftrightarrow> (\<forall>x s. Get S (snd (DeleteObj T x s)) = Get S s \<and> List S (snd (DeleteObj T x s)) = List S s)"

lemma prune_laws_get:
  "prune_laws S \<Longrightarrow> List S s opts = Inr items \<Longrightarrow> x \<in> set items \<Longrightarrow> Get S s (key_of x) = Inr x"
  unfolding prune_laws_def by blast

lemma prune_laws_other: "prune_laws S \<Longrightarrow> k \<noteq> key_of x \<Longrightarrow> Get S (snd (DeleteObj S x s)) k = Get S s k"
  unfolding prune_laws_def by blast

lemma isolated_Get: "isolated S T \<Longrightarrow> Get S (snd (DeleteObj T x s)) = Get S s"
  unfolding isolated_def by blast


text \<open>A store over a list of its own obeys these laws.\<close>

lemma list_store_prune:
  assumes backed: "list_backed admit get put"
  shows "prune_laws (list_store get put)"
  unfolding prune_laws_def
proof (intro conjI allI impI)
  fix s opts items and x :: "'a object_meta_scheme"
  assume "List (list_store get put) s opts = Inr items" "x \<in> set items"
  then have "x \<in> set (canon (get s))" by (auto simp: list_store_def)
  then show "Get (list_store get put) s (key_of x) = Inr x"
    by (simp add: list_store_def canon_get)
next
  fix x :: "'a object_meta_scheme" and s k
  assume k: "k \<noteq> key_of x"
  show "Get (list_store get put) (snd (DeleteObj (list_store get put) x s)) k = Get (list_store get put) s k"
  proof (cases "list_get (get s) (key_of x)")
    case (Inr cur)
    then have "key_of (admit (mark_deleted cur)) = key_of x"
      using list_get_key [OF Inr] mark_deleted_marked [of cur] list_backedD(3) [OF backed, of "mark_deleted cur"] by auto
    with k Inr show ?thesis
      unfolding list_store_delete
      by (simp add: list_store_def list_backedD [OF backed] find_list_del list_get_put_other)
  qed (simp add: list_store_delete)
next
  fix x :: "'a object_meta_scheme" and s r s'
  let ?S = "list_store get put"
  assume d: "DeleteObj ?S x s = (r, s')" and r: "r = Inr () \<or> r = Inl ErrNotFound"
  show "Get ?S s' (key_of x) = Inl ErrNotFound \<or>
      (\<exists>cur t. Get ?S s (key_of x) = Inr cur \<and> GetFinalizers cur \<noteq> [] \<and>
         Get ?S s' (key_of x) = Inr (cur\<lparr>GetDeletionTimestamp := Some t\<rparr>))"
  proof (cases "list_get (get s) (key_of x)")
    case (Inl e)
    with d r show ?thesis using list_get_error [OF Inl] by (auto simp: list_store_delete) (simp add: list_store_def)
  next
    case (Inr cur)
    show ?thesis
    proof (cases "GetFinalizers cur = []")
      case True
      with d Inr have "s' = put (list_del x (get s)) s" by (simp add: list_store_delete)
      then show ?thesis by (simp add: list_store_def list_backedD [OF backed] find_own_list_del)
    next
      case False
      obtain t where t: "mark_deleted cur = cur\<lparr>GetDeletionTimestamp := Some t\<rparr>" using mark_deleted_marked by blast
      have "admit cur = cur" by (rule list_get_admitted [OF backed Inr])
      then have admit: "admit (mark_deleted cur) = cur\<lparr>GetDeletionTimestamp := Some t\<rparr>"
        using backed by (simp add: t list_backed_def)
      have key: "key_of (cur\<lparr>GetDeletionTimestamp := Some t\<rparr>) = key_of x" using list_get_key [OF Inr] by simp
      have "list_get (list_put (cur\<lparr>GetDeletionTimestamp := Some t\<rparr>) (get s)) (key_of x) =
          Inr (cur\<lparr>GetDeletionTimestamp := Some t\<rparr>)"
        using list_get_put [of "get s" "cur\<lparr>GetDeletionTimestamp := Some t\<rparr>" cur] Inr key by simp
      moreover have "get s' = list_put (cur\<lparr>GetDeletionTimestamp := Some t\<rparr>) (get s)"
        using d Inr False by (auto simp: list_store_delete list_backedD [OF backed] admit)
      ultimately show ?thesis using Inr False by (auto simp: list_store_def)
    qed
  qed
qed

text \<open>The laws of the three kinds a pruning deletes, each of which leaves the others alone.\<close>

definition pruning_laws :: "'s kube \<Rightarrow> bool" where
  "pruning_laws K \<longleftrightarrow>
     prune_laws (secrets K) \<and> prune_laws (httproutes K) \<and> prune_laws (services K) \<and>
     isolated (secrets K) (httproutes K) \<and> isolated (secrets K) (services K) \<and>
     isolated (httproutes K) (secrets K) \<and> isolated (httproutes K) (services K) \<and>
     isolated (services K) (secrets K) \<and> isolated (services K) (httproutes K)"

lemma memory_prune_laws: "prune_laws (secrets memory_kube)"
  by (simp add: memory_kube_def list_store_prune [OF memory_backed])

lemma memory_pruning_laws: "pruning_laws memory_kube"
proof -
  have "prune_laws (httproutes memory_kube)" "prune_laws (services memory_kube)"
    by (simp_all add: memory_kube_def list_store_prune [OF list_backed_plain])
  moreover have "isolated (secrets memory_kube) (httproutes memory_kube)" "isolated (secrets memory_kube) (services memory_kube)"
    "isolated (httproutes memory_kube) (secrets memory_kube)" "isolated (httproutes memory_kube) (services memory_kube)"
    "isolated (services memory_kube) (secrets memory_kube)" "isolated (services memory_kube) (httproutes memory_kube)"
    by (auto simp: isolated_def memory_kube_def list_store_delete split: sum.split) (auto simp: list_store_def)
  ultimately show ?thesis using memory_prune_laws by (simp add: pruning_laws_def)
qed

subsection \<open>Dependent objects\<close>

lemma wrapping_ok: "m s = (Inr x, s') \<Longrightarrow> wrapping msg m s = (Inr x, s')"
  by simp

lemma random_string_nonempty: "(\<And>i. rnd i \<noteq> None) \<Longrightarrow> GenerateRandomString rnd 32 \<noteq> []"
  using random_bytes_total [of rnd 32 0] random_bytes_Some [of 32 rnd 0]
  by (auto simp: GenerateRandomString_def)

text \<open>Nothing of the oauth2 secret has to be merged: a settled one is a fixed point.\<close>

lemma oauth2_settled_fixed:
  assumes laws: "create_or_update_laws merge_string_data (secrets K)" and "Get (secrets K) s k = Inr cur"
    and "settled_for (mutateOauth2Secret E rnd rc) merge_string_data K ty ob cur"
  shows "owned_step K ty ob (mutateOauth2Secret E rnd rc) cur = Inr cur"
proof -
  obtain new where new: "owned_step K ty ob (mutateOauth2Secret E rnd rc) cur = Inr new" "merge_string_data new = cur"
    using assms(3) by (auto simp: settled_for_def)
  have "StringData cur = fmempty"
    using create_or_update_read [OF laws assms(2)] by (simp add: merge_string_data_fixed)
  then have "StringData new = fmempty"
    using new(1) by (auto simp: owned_step_def own_def mutateOauth2Secret_def Let_def res_bind_Inr_iff)
  with new show ?thesis by (metis merge_string_data_fixed)
qed

lemma oauth2_admitted: "merge_string_data (oauth2SecretObject E ob) = oauth2SecretObject E ob"
  by (simp add: merge_string_data_fixed oauth2SecretObject_def obj_defs)

lemma oauth2_reconciled:
  assumes laws: "owner_laws (SetOwnerReference K)" "create_or_update_laws merge_string_data (secrets K)"
    and ok: "reconcile_oauth2_secret E rnd K rc ty ob s = (Inr (), s')"
  obtains cur where "Get (secrets K) s' (key_of (oauth2SecretObject E ob)) = Inr cur"
    "settled_for (mutateOauth2Secret E rnd rc) merge_string_data K ty ob cur" "owned_step K ty ob (mutateOauth2Secret E rnd rc) cur = Inr cur"
proof -
  have "reconcileOwnedResource K (secrets K) ty ob (oauth2SecretObject E ob) (mutateOauth2Secret E rnd rc) s = (Inr (), s')"
    using ok by (simp add: reconcile_oauth2_secret_def)
  from oauth2_secret.reconciled_settled [OF laws oauth2_admitted this] oauth2_settled_fixed [OF laws(2)] that
  show ?thesis by blast
qed

lemma stored_cookie:
  assumes "owned_step K ty ob (mutateOauth2Secret E rnd rc) cur = Inr cur" and "\<And>i. rnd i \<noteq> None"
  shows "at_key (Data cur) Oauth2CookieSecretKey \<noteq> []"
proof
  assume none: "at_key (Data cur) Oauth2CookieSecretKey = []"
  have "Data cur = smap_of [(''oauth2-proxy.cfg'', Parse (NewOAuth2Config (mutate_options E rc))),
      (Oauth2CookieSecretKey, GenerateRandomString rnd 32)]"
    using assms(1) none
    by (auto simp: owned_step_def own_def mutateOauth2Secret_def Let_def res_bind_Inr_iff
        dest: arg_cong [where f = Data])
  then have "at_key (Data cur) Oauth2CookieSecretKey = GenerateRandomString rnd 32" by simp
  with none random_string_nonempty [of rnd] assms(2) show False by simp
qed

text \<open>A reconcile of the oauth2 secret that succeeded, with a working
  random source, leaves nothing to do: the next one, with whatever randomness it draws, succeeds
  without changing the cluster.\<close>

lemma oauth2_secret_converges:
  assumes laws: "owner_laws (SetOwnerReference K)" "create_or_update_laws merge_string_data (secrets K)"
    and ok: "reconcile_oauth2_secret E rnd K rc ty ob s = (Inr (), s')" and rnd: "\<And>i. rnd i \<noteq> None"
  shows "reconcile_oauth2_secret E rnd' K rc ty ob s' = (Inr (), s')"
proof -
  obtain cur where cur: "Get (secrets K) s' (key_of (oauth2SecretObject E ob)) = Inr cur"
    and fixed: "owned_step K ty ob (mutateOauth2Secret E rnd rc) cur = Inr cur"
    by (rule oauth2_reconciled [OF laws ok])
  have "mutateOauth2Secret E rnd' rc cur = mutateOauth2Secret E rnd rc cur"
    using stored_cookie [OF fixed rnd] by (simp add: mutateOauth2Secret_def)
  with fixed have "owned_step K ty ob (mutateOauth2Secret E rnd' rc) cur = Inr cur"
    by (simp add: owned_step_def)
  then show ?thesis
    using oauth2_secret.settled_fixed [OF laws(2) cur] by (simp add: reconcile_oauth2_secret_def)
qed

definition secret_made :: cluster where
  "secret_made = snd (reconcile_oauth2_secret sample_env (\<lambda>_. Some 0) memory_kube sample_rc
     deployment_type sample_deployment sample_cluster)"

lemma secret_made: "reconcile_oauth2_secret sample_env (\<lambda>_. Some 0) memory_kube sample_rc
     deployment_type sample_deployment sample_cluster = (Inr (), secret_made)"
proof -
  have "fst (reconcile_oauth2_secret sample_env (\<lambda>_. Some 0) memory_kube sample_rc
     deployment_type sample_deployment sample_cluster) = Inr ()"
    by (simp add: reconcile_oauth2_secret_def reconcileOwnedResource_def memory_kube_def list_store_def
        list_get_def mutateOauth2Secret_def oauth2SecretObject_def sample_cluster_def empty_cluster_def
        own_def add_owner_def Let_def wrapping_def obj_defs object_meta.truncate_def)
  then show ?thesis by (simp add: secret_made_def prod_eq_iff)
qed

text \<open>After a successful reconcile the oauth2 secret exists, belongs to the workload, carries the labels by
  which pruning finds it again and the checksum of its configuration.\<close>

lemma oauth2_secret_stored:
  assumes "owner_laws (SetOwnerReference K)" and "create_or_update_laws merge_string_data (secrets K)"
    and "reconcile_oauth2_secret E rnd K rc ty ob s = (Inr (), s')"
  shows "\<exists>cur. Get (secrets K) s' (GetNamespace ob, SecretNameOauth2Proxy @ ''-'' @ owner_suffix E ob) = Inr cur \<and>
    isAnOwnedResource ob cur \<and> fmlookup (GetLabels cur) LabelKey = Some LabelValue \<and>
    fmlookup (GetLabels cur) SecretLabelKey = Some Oauth2LabelValue \<and>
    fmlookup (GetAnnotations cur) AnnotationOauth2SecretChecksumKey =
      Some (GenerateFullSha256 E (Parse (NewOAuth2Config (mutate_options E rc))))"
proof -
  have key: "key_of (oauth2SecretObject E ob) = (GetNamespace ob, SecretNameOauth2Proxy @ ''-'' @ owner_suffix E ob)"
    by (simp add: oauth2SecretObject_def obj_defs)
  obtain cur where cur: "Get (secrets K) s' (key_of (oauth2SecretObject E ob)) = Inr cur"
    and settled: "settled_for (mutateOauth2Secret E rnd rc) merge_string_data K ty ob cur"
    by (rule oauth2_reconciled [OF assms])
  obtain m where m: "mutateOauth2Secret E rnd rc cur = Inr m" "GetLabels cur = GetLabels m"
    "GetAnnotations cur = GetAnnotations m"
    using oauth2_secret.settled_owned(2) [OF assms(1) settled] by blast
  have "GetLabels cur = smap_of [(LabelKey, LabelValue), (SecretLabelKey, Oauth2LabelValue)]"
    using m(1) unfolding m(2) by (auto simp: mutateOauth2Secret_def Let_def)
  moreover have "GetAnnotations cur =
      smap_of [(AnnotationOauth2SecretChecksumKey, GenerateFullSha256 E (Parse (NewOAuth2Config (mutate_options E rc))))]"
    using m(1) unfolding m(3) by (auto simp: mutateOauth2Secret_def Let_def)
  moreover have "isAnOwnedResource ob cur"
    using oauth2_secret.settled_owned(1) [OF assms(1) settled] by (auto simp: isAnOwnedResource_def list_ex_iff)
  ultimately show ?thesis using cur unfolding key by auto
qed

text \<open>The cookie secret of a stored oauth2 secret is kept; a missing one is replaced
  by 32 characters of the alphabet, if the random source works.\<close>

lemma cookie_secret_stable:
  assumes "mutateOauth2Secret E rnd rc x = Inr x'"
  shows "(at_key (Data x) Oauth2CookieSecretKey \<noteq> [] \<longrightarrow>
       at_key (Data x') Oauth2CookieSecretKey = at_key (Data x) Oauth2CookieSecretKey) \<and>
    (at_key (Data x) Oauth2CookieSecretKey = [] \<longrightarrow> (\<forall>i. rnd i \<noteq> None) \<longrightarrow>
       length (at_key (Data x') Oauth2CookieSecretKey) = 32 \<and>
       set (at_key (Data x') Oauth2CookieSecretKey) \<subseteq> set charset)"
proof -
  have "(\<forall>i. rnd i \<noteq> None) \<Longrightarrow> \<exists>t. random_bytes 32 rnd 0 = Some t" using random_bytes_total by blast
  then have "(\<forall>i. rnd i \<noteq> None) \<Longrightarrow>
      length (GenerateRandomString rnd 32) = 32 \<and> set (GenerateRandomString rnd 32) \<subseteq> set charset"
    using random_bytes_Some [of 32 rnd 0] by (auto simp: GenerateRandomString_def)
  moreover have "at_key (Data x') Oauth2CookieSecretKey =
      (if at_key (Data x) Oauth2CookieSecretKey = [] then GenerateRandomString rnd 32
       else at_key (Data x) Oauth2CookieSecretKey)"
    using assms by (auto simp: mutateOauth2Secret_def Let_def)
  ultimately show ?thesis by simp
qed

text \<open>C30 (client secret). A referenced client secret is mounted, never copied: the rendered configuration
  then names the mounted file and holds no \<open>client_secret\<close>, even when an inline secret is configured
  too.\<close>

theorem referenced_secret_not_inlined:
  assumes "mutateOauth2Secret E rnd rc x = Inr x'" and "GetClientSecretName rc \<noteq> []"
    and "clean_config (NewOAuth2Config (mutate_options E rc))"
  shows "lookup_setting (scan_lines (at_key (Data x') ''oauth2-proxy.cfg'')) ''client_secret'' = None \<and>
    lookup_setting (scan_lines (at_key (Data x') ''oauth2-proxy.cfg'')) ''client_secret_file'' =
      Some Oauth2ClientSecretFile"
proof -
  let ?c = "NewOAuth2Config (mutate_options E rc)"
  have c: "clientSecret ?c = []" "clientSecretFile ?c = Oauth2ClientSecretFile"
    using assms(2) by (simp_all add: NewOAuth2Config_def mutate_options_def option_defs empty_oauth2_config_def)
  have "at_key (Data x') ''oauth2-proxy.cfg'' = Parse ?c"
    using assms(1) by (auto simp: mutateOauth2Secret_def Let_def)
  then show ?thesis
    using scan_Parse [OF assms(3)] c by (simp add: rendered_lines_def setting_def HasPrefix_def)
qed

definition ref_rc :: resolved_config where
  "ref_rc = sample_rc\<lparr>rc_target := sample_target\<lparr>Oauth2Proxy := Some (sample_oauth2\<lparr>ClientSecret := ''inline'',
     ClientSecretRef := Some \<lparr>sr_Name = ''ref'', sr_Namespace = ''''\<rparr>\<rparr>)\<rparr>\<rparr>"

theorem referenced_secret_not_inlined_witness:
  "\<exists>x'. mutateOauth2Secret sample_env (\<lambda>_. Some 0) ref_rc (new_secret ''a'' ''b'') = Inr x' \<and>
     lookup_setting (scan_lines (at_key (Data x') ''oauth2-proxy.cfg'')) ''client_secret'' = None"
proof -
  obtain x' where x': "mutateOauth2Secret sample_env (\<lambda>_. Some 0) ref_rc (new_secret ''a'' ''b'') = Inr x'"
    by (simp add: mutateOauth2Secret_def Let_def)
  have n: "GetClientSecretName ref_rc \<noteq> []"
    by (simp add: GetClientSecretName_def ref_name_def ref_rc_def)
  have "clean_config (NewOAuth2Config (mutate_options sample_env ref_rc))"
    using n
    by (simp add: clean_config_def clean_def NewOAuth2Config_def mutate_options_def option_defs
        empty_oauth2_config_def cfg_defs GetRedirectURL_def GetHost_def ref_rc_def sample_rc_def sample_target_def
        sample_oauth2_def empty_oauth2_def sample_config_def empty_global_def sample_deployment_def obj_defs
        empty_http_route_conf_def Oauth2ClientSecretFile_def)
  from referenced_secret_not_inlined [OF x' n this] x' show ?thesis by blast
qed

subsection \<open>Pruning\<close>

lemma keeps_reading_when:
  "(\<And>s x. P s \<Longrightarrow> f s = Inr x \<Longrightarrow> keeps P (g x)) \<Longrightarrow> keeps P (and_then (reading f) g)"
  by (force simp: keeps_def and_then_def reading_def split: sum.splits)

lemma keeps_delete_one: "keeps P (DeleteObj S x) \<Longrightarrow> keeps P (delete_one S what x)"
  unfolding delete_one_def by blast

lemma owned_of_listed:
  "owned_of ob (List S s opts) = Inr xs \<Longrightarrow> x \<in> set xs \<Longrightarrow>
   \<exists>items. List S s opts = Inr items \<and> x \<in> set items \<and> isAnOwnedResource ob x"
  by (auto simp: owned_of_def split: sum.splits option.splits)

text \<open>What is not owned by the workload is in none of the lists that are deleted.\<close>

lemma owned_key_other:
  assumes "prune_laws S" "Get S s k = Inr u" "\<not> isAnOwnedResource ob u"
    and "owned_of ob (List S s opts) = Inr xs" "x \<in> set xs"
  shows "k \<noteq> key_of x"
  using assms prune_laws_get [OF assms(1)] owned_of_listed [OF assms(4,5)] by auto

text \<open>A property of the state that survives each kind of deletion survives the pruning; what is deleted may
  be taken from a list that was read while the property held.\<close>

lemma deleteOwned_keeps_when:
  assumes "\<And>t items x. P t \<Longrightarrow> fetchOidcAppsSecrets K ob t = Inr items \<Longrightarrow> x \<in> set items \<Longrightarrow> keeps P (DeleteObj (secrets K) x)"
    and "\<And>t items x. P t \<Longrightarrow> fetchOidcAppsHTTPRoutes K ob t = Inr items \<Longrightarrow> x \<in> set items \<Longrightarrow> keeps P (DeleteObj (httproutes K) x)"
    and "\<And>t items x. P t \<Longrightarrow> fetchOidcAppsServices K ob t = Inr items \<Longrightarrow> x \<in> set items \<Longrightarrow> keeps P (DeleteObj (services K) x)"
  shows "keeps P (deleteOwnedResources K ob)"
  unfolding deleteOwnedResources_def
proof (rule keeps_reading_when)
  fix t items
  assume t: "P t" "fetchOidcAppsSecrets K ob t = Inr items"
  have sec: "keeps P (for_each (delete_one (secrets K) ''secret'') items)"
    by (intro keeps_for_each keeps_delete_one assms(1) [OF t])
  have svc: "keeps P (and_then (reading (fetchOidcAppsServices K ob)) (\<lambda>svcs. for_each (delete_one (services K) ''service'') svcs))"
    by (rule keeps_reading_when) (intro keeps_for_each keeps_delete_one assms(3))
  have "keeps P (and_then (reading (fetchOidcAppsHTTPRoutes K ob)) (\<lambda>routes.
      and_then (for_each (delete_one (httproutes K) ''httproute'') routes) (\<lambda>_.
      and_then (reading (fetchOidcAppsServices K ob)) (\<lambda>svcs. for_each (delete_one (services K) ''service'') svcs))))"
    by (rule keeps_reading_when) (intro keeps_and_then keeps_for_each keeps_delete_one assms(2) svc)
  then show "keeps P (and_then (for_each (delete_one (secrets K) ''secret'') items) (\<lambda>_.
      and_then (reading (fetchOidcAppsHTTPRoutes K ob)) (\<lambda>routes.
      and_then (for_each (delete_one (httproutes K) ''httproute'') routes) (\<lambda>_.
      and_then (reading (fetchOidcAppsServices K ob)) (\<lambda>svcs. for_each (delete_one (services K) ''service'') svcs)))))"
    by (rule keeps_and_then [OF sec])
qed

lemma cleanup_keeps:
  assumes "\<And>x. key_of x = (GetNamespace ob, name) \<Longrightarrow> keeps P (DeleteObj (secrets K) x)"
  shows "keeps P (cleanupRegistrySecretIfLastTarget E K cfg name home ty ob)"
proof -
  have "key_of (registry_copy name (GetNamespace ob) fmempty '''') = (GetNamespace ob, name)"
    by (simp add: registry_copy_def metaForRegistrySecretCopy_def obj_defs)
  from assms [OF this] show ?thesis
    unfolding cleanupRegistrySecretIfLastTarget_def
    by (intro keeps_if keeps_ret keeps_and_then keeps_reading keeps_wrapping keeps_ignoring)
qed

lemma prune_keeps:
  assumes "keeps P (deleteOwnedResources K ob)"
    and "\<And>x. key_of x = (GetNamespace ob, RegistrySecretName d) \<Longrightarrow> keeps P (DeleteObj (secrets K) x)"
    and "P s" "prune E K d ty ob s = (res, s')"
  shows "P s'"
proof -
  have "keeps P (prune E K d ty ob)"
    unfolding prune_def by (intro keeps_and_then assms(1) cleanup_keeps assms(2))
  with assms(3,4) show ?thesis by (auto simp: keeps_def dest: spec [of _ s])
qed

lemmas fetch_defs = fetchOidcAppsSecrets_def fetchOidcAppsHTTPRoutes_def fetchOidcAppsServices_def listed_def

lemma prune_spares_secrets:
  assumes laws: "pruning_laws K" and u: "Get (secrets K) s k = Inr u" "\<not> isAnOwnedResource ob u"
    and "k \<noteq> (GetNamespace ob, RegistrySecretName d)" "prune E K d ty ob s = (res, s')"
  shows "Get (secrets K) s' k = Inr u"
proof -
  have L: "prune_laws (secrets K)" "isolated (secrets K) (httproutes K)" "isolated (secrets K) (services K)"
    using laws by (simp_all add: pruning_laws_def)
  have kept: "keeps (\<lambda>t. Get (secrets K) t k = Inr u) (deleteOwnedResources K ob)"
  proof (rule deleteOwned_keeps_when)
    fix t items x
    assume "Get (secrets K) t k = Inr u" "fetchOidcAppsSecrets K ob t = Inr items" "x \<in> set items"
    then have "k \<noteq> key_of x" using owned_key_other [OF L(1) _ u(2)] unfolding fetch_defs by blast
    then show "keeps (\<lambda>t. Get (secrets K) t k = Inr u) (DeleteObj (secrets K) x)"
      by (simp add: keeps_def prune_laws_other [OF L(1)])
  qed (simp_all add: keeps_def isolated_Get [OF L(2)] isolated_Get [OF L(3)])
  show ?thesis
    by (rule prune_keeps [where P = "\<lambda>t. Get (secrets K) t k = Inr u", OF kept _ u(1) assms(5)])
      (use assms(4) in \<open>simp add: keeps_def prune_laws_other [OF L(1)]\<close>)
qed

lemma prune_spares_routes:
  assumes laws: "pruning_laws K" and u: "Get (httproutes K) s k = Inr u" "\<not> isAnOwnedResource ob u"
    and "prune E K d ty ob s = (res, s')"
  shows "Get (httproutes K) s' k = Inr u"
proof -
  have L: "prune_laws (httproutes K)" "isolated (httproutes K) (secrets K)" "isolated (httproutes K) (services K)"
    using laws by (simp_all add: pruning_laws_def)
  have kept: "keeps (\<lambda>t. Get (httproutes K) t k = Inr u) (deleteOwnedResources K ob)"
  proof (rule deleteOwned_keeps_when)
    fix t items x
    assume "Get (httproutes K) t k = Inr u" "fetchOidcAppsHTTPRoutes K ob t = Inr items" "x \<in> set items"
    then have "k \<noteq> key_of x" using owned_key_other [OF L(1) _ u(2)] unfolding fetch_defs by blast
    then show "keeps (\<lambda>t. Get (httproutes K) t k = Inr u) (DeleteObj (httproutes K) x)"
      by (simp add: keeps_def prune_laws_other [OF L(1)])
  qed (simp_all add: keeps_def isolated_Get [OF L(2)] isolated_Get [OF L(3)])
  show ?thesis
    by (rule prune_keeps [where P = "\<lambda>t. Get (httproutes K) t k = Inr u", OF kept _ u(1) assms(4)])
      (simp add: keeps_def isolated_Get [OF L(2)])
qed

lemma prune_spares_services:
  assumes laws: "pruning_laws K" and u: "Get (services K) s k = Inr u" "\<not> isAnOwnedResource ob u"
    and "prune E K d ty ob s = (res, s')"
  shows "Get (services K) s' k = Inr u"
proof -
  have L: "prune_laws (services K)" "isolated (services K) (secrets K)" "isolated (services K) (httproutes K)"
    using laws by (simp_all add: pruning_laws_def)
  have kept: "keeps (\<lambda>t. Get (services K) t k = Inr u) (deleteOwnedResources K ob)"
  proof (rule deleteOwned_keeps_when)
    fix t items x
    assume "Get (services K) t k = Inr u" "fetchOidcAppsServices K ob t = Inr items" "x \<in> set items"
    then have "k \<noteq> key_of x" using owned_key_other [OF L(1) _ u(2)] unfolding fetch_defs by blast
    then show "keeps (\<lambda>t. Get (services K) t k = Inr u) (DeleteObj (services K) x)"
      by (simp add: keeps_def prune_laws_other [OF L(1)])
  qed (simp_all add: keeps_def isolated_Get [OF L(2)] isolated_Get [OF L(3)])
  show ?thesis
    by (rule prune_keeps [where P = "\<lambda>t. Get (services K) t k = Inr u", OF kept _ u(1) assms(4)])
      (simp add: keeps_def isolated_Get [OF L(2)])
qed

text \<open>C17 (pruning spares). When a workload is no longer a target, whatever it does not own survives the
  pruning, even what is in the same namespace and carries the controller's labels: every route, every
  service and every secret but one, the copy of the registry secret in its namespace, which goes with
  the last target.\<close>

theorem prune_spares_unowned:
  assumes laws: "pruning_laws K" and run: "prune E K d ty ob s = (res, s')"
  shows "(\<forall>k x. Get (secrets K) s k = Inr x \<longrightarrow> \<not> isAnOwnedResource ob x \<longrightarrow>
       k \<noteq> (GetNamespace ob, RegistrySecretName d) \<longrightarrow> Get (secrets K) s' k = Inr x) \<and>
    (\<forall>k x. Get (httproutes K) s k = Inr x \<longrightarrow> \<not> isAnOwnedResource ob x \<longrightarrow> Get (httproutes K) s' k = Inr x) \<and>
    (\<forall>k x. Get (services K) s k = Inr x \<longrightarrow> \<not> isAnOwnedResource ob x \<longrightarrow> Get (services K) s' k = Inr x)"
  by (intro conjI allI impI)
    (rule prune_spares_secrets [OF laws _ _ _ run] prune_spares_routes [OF laws _ _ run]
      prune_spares_services [OF laws _ _ run]; assumption)+










definition foreign_secret :: secret where
  "foreign_secret =
     (new_secret ''other'' ''apps'')\<lparr>GetLabels := smap_of [(LabelKey, LabelValue), (SecretLabelKey, Oauth2LabelValue)]\<rparr>"

theorem prune_spares_unowned_witness:
  "\<exists>res s'. prune sample_env memory_kube \<lparr>rec_Config = None, RegistrySecretName = ''registry'', ControllerNamespace = ''home''\<rparr>
       deployment_type sample_deployment (secret_made\<lparr>cl_secrets := [foreign_secret]\<rparr>) = (res, s') \<and>
     Get (secrets memory_kube) s' (''apps'', ''other'') = Inr foreign_secret"
proof -
  let ?d = "\<lparr>rec_Config = None, RegistrySecretName = ''registry'', ControllerNamespace = ''home''\<rparr>"
  let ?s = "secret_made\<lparr>cl_secrets := [foreign_secret]\<rparr>"
  obtain res s' where run: "prune sample_env memory_kube ?d deployment_type sample_deployment ?s = (res, s')" by fastforce
  have "Get (secrets memory_kube) ?s (''apps'', ''other'') = Inr foreign_secret" "\<not> isAnOwnedResource sample_deployment foreign_secret"
    by (simp_all add: memory_kube_def list_store_def list_get_def has_key_def foreign_secret_def obj_defs
      isAnOwnedResource_def merge_string_data_fixed)
  with prune_spares_unowned [OF memory_pruning_laws run] run show ?thesis by auto
qed

lemma memory_list_total: "\<exists>items. List (list_store get put) s opts = Inr items"
  by (simp add: list_store_def)








end
