(* ===== verification/Manager.thy ===== *)
theory Manager
  imports Workloads
begin

text \<open>
  The start of the controller (\<open>pkg/oidc-apps\<close>: \<open>options.go\<close> and \<open>cmd.go\<close>), the event predicate, the
  cache, and the functions that map an event on an owned object to the workload to reconcile. What
  the controller-runtime manager does in a start-up step is an outcome given as an argument; the
  state of \<open>RunController\<close> is the list of the steps taken.
\<close>

subsection \<open>Options\<close>

record options =
  useCertManager :: bool
  enableVpa :: bool
  webhookPort :: int
  metricsPort :: int
  controllerConfigPath :: string
  cacheSelectorString :: string
  webhookCertsDir :: string
  opt_webhookName :: string
  registrySecret :: string

text \<open>The values the flags start with; parsing the command line is the flag library's.\<close>

definition AddFlags :: options where
  "AddFlags =
     \<lparr>useCertManager = False, enableVpa = False, webhookPort = 10250, metricsPort = 8080,
      controllerConfigPath = ''extension-config.yaml'', cacheSelectorString = '''',
      webhookCertsDir = ''./certs'', opt_webhookName = ''oidc-apps-controller'', registrySecret = ''''\<rparr>"

subsection \<open>Loading the configuration\<close>

text \<open>The configuration with its two unexported fields: the client, of which it uses the reader of
  namespaces, and the logger, by its name (\<open>None\<close> is the zero logger).\<close>

record config_handle =
  handle_config :: controller_config
  handle_client :: namespace_reader
  handle_log :: "string option"

definition zero_handle :: config_handle where
  "zero_handle = \<lparr>handle_config = \<lparr>Global = empty_global, Targets = []\<rparr>, handle_client = None, handle_log = None\<rparr>"

definition WithClient :: "namespace_reader \<Rightarrow> config_handle \<Rightarrow> config_handle" where
  "WithClient c config = config\<lparr>handle_client := c\<rparr>"

definition WithLog :: "string option \<Rightarrow> config_handle \<Rightarrow> config_handle" where
  "WithLog l config = config\<lparr>handle_log := l\<rparr>"

definition SetClient :: "namespace_reader \<Rightarrow> config_handle \<Rightarrow> config_handle" where
  "SetClient cl c = c\<lparr>handle_client := cl\<rparr>"

definition SetLogger :: "string option \<Rightarrow> config_handle \<Rightarrow> config_handle" where
  "SetLogger l c = c\<lparr>handle_log := l\<rparr>"

text \<open>An error is logged, by a logger of its own when there is none, and ends in a panic.\<close>

definition handleError :: "config_handle \<Rightarrow> go_error \<times> config_handle" where
  "handleError c =
     (let c' = (if handle_log c = None then c\<lparr>handle_log := Some ''oidcAppsExtensionConfig''\<rparr> else c)
      in (Panic ''terminating'', c'))"

text \<open>\<open>read_file\<close> is \<open>os.ReadFile\<close> on the cleaned path.\<close>

definition CreateControllerConfigOrDie ::
  "(string \<Rightarrow> string res) \<Rightarrow> (string \<Rightarrow> controller_config res) \<Rightarrow> string
     \<Rightarrow> (config_handle \<Rightarrow> config_handle) list \<Rightarrow> config_handle res" where
  "CreateControllerConfigOrDie read_file unmarshal path opts =
     (let config = fold (\<lambda>o1 c. o1 c) opts zero_handle in
      case read_file path of
        Inl _ \<Rightarrow> Inl (fst (handleError config))
      | Inr cf \<Rightarrow>
          (case unmarshal cf of
             Inl _ \<Rightarrow> Inl (fst (handleError config))
           | Inr cfg \<Rightarrow> Inr (config\<lparr>handle_config := cfg\<rparr>)))"

subsection \<open>The cache\<close>

text \<open>The selector of a kind in the cache: the user's, the controller's label, or everything.\<close>

datatype cache_selector = UserSelector string | ControllerLabel | AllObjects

definition oidcAppsSelector :: "options \<Rightarrow> cache_selector" where
  "oidcAppsSelector opts =
     (if length (cacheSelectorString opts) > 0 then UserSelector (cacheSelectorString opts) else AllObjects)"

definition cache_by_object :: "options \<Rightarrow> controller_config option \<Rightarrow> (string \<times> cache_selector) list" where
  "cache_by_object opts cfg =
     [(''Pod'', oidcAppsSelector opts), (''Secret'', ControllerLabel), (''Service'', ControllerLabel),
      (''Namespace'', AllObjects)]
     @ (if enableVpa opts then [(''VerticalPodAutoscaler'', oidcAppsSelector opts)] else [])
     @ [(''HTTPRoute'', ControllerLabel)]
     @ (if IsManagedGatewayEnabled cfg then [(''Gateway'', ControllerLabel)] else [])"

subsection \<open>Start-up\<close>

datatype startup_step =
    AddCoreScheme | AddAutoscalerScheme | InstallGatewayScheme | ParseCacheSelector string
  | GetConfig
  | NewManager "(string \<times> cache_selector) list" string int
  | IndexField string string
  | DeploymentController reconciler_conf
  | StatefulSetController reconciler_conf
  | NewCertificateManager string string string
  | AddCertificateManager
  | RegistrySecretController string
  | ManagedGatewayController string string
  | PodWebhook pod_mutator
  | VpaScheme
  | VpaWebhook controller_config
  | AddWebhookServer int string
  | ReadyzCheck | HealthzCheck | StartManager

type_synonym startup = "(startup_step list, unit) go"

definition attempt :: "(startup_step \<Rightarrow> go_error option) \<Rightarrow> startup_step \<Rightarrow> startup" where
  "attempt outcome st =
     (\<lambda>taken. (case outcome st of None \<Rightarrow> Inr () | Some e \<Rightarrow> Inl e, taken @ [st]))"

text \<open>A step that cannot fail.\<close>

definition performed :: "startup_step \<Rightarrow> startup" where
  "performed st = (\<lambda>taken. (Inr (), taken @ [st]))"

definition require :: "bool \<Rightarrow> string \<Rightarrow> startup" where
  "require b msg = (if b then ret () else throw (ErrOther msg))"

text \<open>A sequence of calls, each left with its error.\<close>

fun in_order :: "startup list \<Rightarrow> startup" where
  "in_order [] = ret ()"
| "in_order (m # ms) = and_then m (\<lambda>_. in_order ms)"

text \<open>One index per kind, by the value of the controller's label.\<close>

definition initializeManagerIndices :: "(startup_step \<Rightarrow> go_error option) \<Rightarrow> startup" where
  "initializeManagerIndices outcome =
     in_order (map (\<lambda>(kind, ty).
         wrapping (''could not set up the oidc-app-controller '' @ ty @ '' index'')
           (attempt outcome (IndexField kind (''metadata.labels'' @ LabelKey))))
       [(''Secret'', ''v1.Secret''), (''Service'', ''v1.Service''), (''HTTPRoute'', ''v1.HTTPRoute'')])"

definition addWebhookCertificateManager ::
  "'e env_scheme \<Rightarrow> (startup_step \<Rightarrow> go_error option) \<Rightarrow> options \<Rightarrow> startup" where
  "addWebhookCertificateManager E outcome opts =
     (if \<not> useCertManager opts
      then and_then
        (attempt outcome (NewCertificateManager (webhookCertsDir opts) (opt_webhookName opts) (getenv E NAMESPACE)))
        (\<lambda>_. attempt outcome AddCertificateManager)
      else ret ())"

definition addPrivateRegistrySecretControllers ::
  "(startup_step \<Rightarrow> go_error option) \<Rightarrow> options \<Rightarrow> startup" where
  "addPrivateRegistrySecretControllers outcome opts =
     (if registrySecret opts \<noteq> [] then attempt outcome (RegistrySecretController (registrySecret opts)) else ret ())"

text \<open>The controller of the Gateway starts with a request for the name it will have.\<close>

definition addManagedGateway ::
  "'e env_scheme \<Rightarrow> (startup_step \<Rightarrow> go_error option) \<Rightarrow> controller_config \<Rightarrow> startup" where
  "addManagedGateway E outcome cfg =
     (if \<not> IsManagedGatewayEnabled (Some cfg) then ret ()
      else (let name = (case GetManagedGatewayConf cfg of
                          None \<Rightarrow> ManagedGatewayName
                        | Some conf \<Rightarrow> if gw_Name conf \<noteq> [] then gw_Name conf else ManagedGatewayName)
            in attempt outcome (ManagedGatewayController name (getenv E NAMESPACE))))"

definition addWebhooks ::
  "(startup_step \<Rightarrow> go_error option) \<Rightarrow> options \<Rightarrow> controller_config \<Rightarrow> startup" where
  "addWebhooks outcome opts cfg =
     and_then (performed (PodWebhook \<lparr>pm_ImagePullSecret = registrySecret opts, pm_Config = Some cfg\<rparr>)) (\<lambda>_.
     and_then (if enableVpa opts
               then and_then (attempt outcome VpaScheme) (\<lambda>_. performed (VpaWebhook cfg))
               else ret ()) (\<lambda>_.
     attempt outcome (AddWebhookServer (webhookPort opts) (webhookCertsDir opts))))"

text \<open>What can end \<open>RunController\<close> with an error before the configuration of the API client is read, and
  everything after. The namespace variable is needed by the certificate manager of the controller, by
  the registry secret and by the managed Gateway.\<close>

definition startup_checks ::
  "'e env_scheme \<Rightarrow> (startup_step \<Rightarrow> go_error option) \<Rightarrow> options \<Rightarrow> controller_config \<Rightarrow> startup list" where
  "startup_checks E outcome opts cfg =
     (let namespace_set = (getenv E NAMESPACE \<noteq> []);
          missing = ''NAMESPACE environment variable is not set''
      in
      [wrapping ''could not initialize the runtime scheme'' (attempt outcome AddCoreScheme),
       if enableVpa opts
       then wrapping ''could not initialize the runtime scheme'' (attempt outcome AddAutoscalerScheme) else ret (),
       wrapping ''could not initialize the gateway-api scheme'' (attempt outcome InstallGatewayScheme),
       if length (cacheSelectorString opts) > 0
       then wrapping ''could not parse the cache selector'' (attempt outcome (ParseCacheSelector (cacheSelectorString opts))) else ret (),
       require (\<not> (\<not> useCertManager opts \<and> \<not> namespace_set)) missing,
       require (\<not> (registrySecret opts \<noteq> [] \<and> \<not> namespace_set)) missing,
       require (\<not> (IsManagedGatewayEnabled (Some cfg) \<and> \<not> namespace_set)) missing])"

definition startup_steps ::
  "'e env_scheme \<Rightarrow> (startup_step \<Rightarrow> go_error option) \<Rightarrow> options \<Rightarrow> controller_config \<Rightarrow> startup list" where
  "startup_steps E outcome opts cfg =
     (let reconciler = \<lparr>rec_Config = Some cfg, RegistrySecretName = registrySecret opts,
                        ControllerNamespace = getenv E NAMESPACE\<rparr>
      in
      [wrapping ''could not initialize the controller-runtime manager''
         (attempt outcome (NewManager (cache_by_object opts (Some cfg)) (getenv E NAMESPACE) (metricsPort opts))),
       wrapping ''could not initialize cache indices'' (initializeManagerIndices outcome),
       wrapping ''could not initialize deployment controller'' (attempt outcome (DeploymentController reconciler)),
       wrapping ''could not initialize statefulset controller'' (attempt outcome (StatefulSetController reconciler)),
       wrapping ''could not initialize webhook certificate manager'' (addWebhookCertificateManager E outcome opts),
       wrapping ''could not initialize private registry secret manager''
         (addPrivateRegistrySecretControllers outcome opts),
       wrapping ''could not initialize managed gateway'' (addManagedGateway E outcome cfg),
       wrapping ''could not initialize mutating webhooks'' (addWebhooks outcome opts cfg),
       wrapping ''could not initialize controller readycheck'' (attempt outcome ReadyzCheck),
       wrapping ''could not initialize controller healthcheck'' (attempt outcome HealthzCheck),
       attempt outcome StartManager])"

text \<open>How a command ends: it returns, or the program exits in the middle of it. \<open>GetConfigOrDie\<close> exits with
  code one when there is no configuration of the API client.\<close>

datatype command_end = ExitCode nat | Ran "unit res"

definition RunController ::
  "'e env_scheme \<Rightarrow> (string \<Rightarrow> string res) \<Rightarrow> (string \<Rightarrow> controller_config res)
     \<Rightarrow> (startup_step \<Rightarrow> go_error option) \<Rightarrow> options \<Rightarrow> startup_step list \<Rightarrow> command_end \<times> startup_step list" where
  "RunController E read_file unmarshal outcome opts taken =
     (case CreateControllerConfigOrDie read_file unmarshal (controllerConfigPath opts) [] of
        Inl e \<Rightarrow> (Ran (Inl e), taken)
      | Inr config \<Rightarrow>
          (case in_order (startup_checks E outcome opts (handle_config config)) taken of
             (Inl e, taken1) \<Rightarrow> (Ran (Inl e), taken1)
           | (Inr _, taken1) \<Rightarrow>
               (case attempt outcome GetConfig taken1 of
                  (Inl _, taken2) \<Rightarrow> (ExitCode 1, taken2)
                | (Inr _, taken2) \<Rightarrow>
                    (case in_order (startup_steps E outcome opts (handle_config config)) taken2 of
                       (r, taken3) \<Rightarrow> (Ran r, taken3)))))"

subsection \<open>Predicates and indices\<close>

text \<open>The function of the create, delete and generic events of \<open>fetchPredicates\<close>.\<close>

definition matchOrLabeled ::
  "'e env_scheme \<Rightarrow> namespace_reader \<Rightarrow> controller_config option \<Rightarrow> 'a object_meta_scheme \<Rightarrow> bool" where
  "matchOrLabeled E client cfg ob =
     (if Match E client cfg ob then True else fmlookup (GetLabels ob) LabelKey \<noteq> None)"

text \<open>An update event carries the old and the new state of the object, of which the predicates read the
  generation and the resource version; the promoted \<open>Update\<close> of the generation predicate passes when the
  generation changed.\<close>

record revision =
  Generation :: int
  ResourceVersion :: string

datatype event_kind = CreateEvent | DeleteEvent | GenericEvent | UpdateEvent revision revision

definition fetchPredicates ::
  "'e env_scheme \<Rightarrow> namespace_reader \<Rightarrow> controller_config option \<Rightarrow> event_kind \<Rightarrow> 'a object_meta_scheme \<Rightarrow> bool" where
  "fetchPredicates E client cfg ev ob =
     (case ev of UpdateEvent old new \<Rightarrow> Generation old \<noteq> Generation new | _ \<Rightarrow> matchOrLabeled E client cfg ob)"

text \<open>The index function, the same for secrets, services and HTTPRoutes.\<close>

definition label_index :: "'a object_meta_scheme \<Rightarrow> string list" where
  "label_index ob = (case fmlookup (GetLabels ob) LabelKey of Some v \<Rightarrow> [v] | None \<Rightarrow> [])"

definition imagePullSecretPredicate :: "'e env_scheme \<Rightarrow> options \<Rightarrow> 'a object_meta_scheme \<Rightarrow> bool" where
  "imagePullSecretPredicate E opts ob \<longleftrightarrow>
     GetName ob = registrySecret opts \<and> GetNamespace ob = getenv E NAMESPACE"

definition gatewayPredicate :: "'a object_meta_scheme \<Rightarrow> bool" where
  "gatewayPredicate ob = (fmlookup (GetLabels ob) LabelKey = Some LabelValue)"

subsection \<open>Mapping events to workloads\<close>

definition IsOidcAppsPod :: "pod \<Rightarrow> bool" where
  "IsOidcAppsPod p =
     list_ex (\<lambda>c. c_Name c = ContainerNameOauth2Proxy \<or> c_Name c = ContainerNameKubeRbacProxy)
       (Containers (pod_Spec p))"

text \<open>A failed read is logged and leaves the zero object, whose name and namespace are empty.\<close>

definition read_or_zero :: "'o \<Rightarrow> 'o res \<Rightarrow> 'o" where
  "read_or_zero z r = (case r of Inl _ \<Rightarrow> z | Inr x \<Rightarrow> x)"

fun first_deployment ::
  "'s kube \<Rightarrow> 's \<Rightarrow> string \<Rightarrow> owner_reference list \<Rightarrow> key option" where
  "first_deployment K s ns [] = None"
| "first_deployment K s ns (d # ds) =
     (if or_Kind d \<noteq> ''Deployment'' then first_deployment K s ns ds
      else Some (key_of (read_or_zero (new_meta '''' '''') (Get (deployments K) s (ns, or_Name d)))))"

fun deployment_of_refs :: "'s kube \<Rightarrow> 's \<Rightarrow> string \<Rightarrow> owner_reference list \<Rightarrow> key list" where
  "deployment_of_refs K s ns [] = []"
| "deployment_of_refs K s ns (r # rs) =
     (if or_Kind r \<noteq> ''ReplicaSet'' then deployment_of_refs K s ns rs
      else (let replica = read_or_zero (new_meta '''' '''') (Get (replicasets K) s (ns, or_Name r)) in
            case first_deployment K s (GetNamespace replica) (GetOwnerReferences replica) of
              Some k \<Rightarrow> [k]
            | None \<Rightarrow> deployment_of_refs K s ns rs))"

definition PodMapFuncForDeployment :: "'s kube \<Rightarrow> 's \<Rightarrow> pod \<Rightarrow> key list" where
  "PodMapFuncForDeployment K s p =
     (if \<not> IsOidcAppsPod p then [] else deployment_of_refs K s (GetNamespace p) (GetOwnerReferences p))"

definition zero_pod :: pod where
  "zero_pod = object_meta.extend (new_meta '''' '''')
     \<lparr>pod_Spec = \<lparr>Containers = [], Volumes = [], ImagePullSecrets = []\<rparr>\<rparr>"

fun first_statefulset :: "'s kube \<Rightarrow> 's \<Rightarrow> string \<Rightarrow> owner_reference list \<Rightarrow> key option" where
  "first_statefulset K s ns [] = None"
| "first_statefulset K s ns (r # rs) =
     (if or_Kind r \<noteq> ''StatefulSet'' then first_statefulset K s ns rs
      else Some (key_of (read_or_zero zero_stateful_set (Get (statefulsets K) s (ns, or_Name r)))))"

fun statefulset_of_refs :: "'s kube \<Rightarrow> 's \<Rightarrow> string \<Rightarrow> owner_reference list \<Rightarrow> key list" where
  "statefulset_of_refs K s ns [] = []"
| "statefulset_of_refs K s ns (r # rs) =
     (if or_Kind r \<noteq> ''Pod'' then statefulset_of_refs K s ns rs
      else (let p = read_or_zero zero_pod (Get (pods K) s (ns, or_Name r)) in
            if GetName p = [] then statefulset_of_refs K s ns rs
            else (case first_statefulset K s (GetNamespace p) (GetOwnerReferences p) of
                    Some k \<Rightarrow> [k]
                  | None \<Rightarrow> statefulset_of_refs K s ns rs)))"

definition ServiceMapFuncForStatefulset :: "'s kube \<Rightarrow> 's \<Rightarrow> service \<Rightarrow> key list" where
  "ServiceMapFuncForStatefulset K s svc = statefulset_of_refs K s (GetNamespace svc) (GetOwnerReferences svc)"

definition HTTPRouteMapFuncForStatefulset :: "'s kube \<Rightarrow> 's \<Rightarrow> http_route \<Rightarrow> key list" where
  "HTTPRouteMapFuncForStatefulset K s r = statefulset_of_refs K s (GetNamespace r) (GetOwnerReferences r)"

subsection \<open>Facts\<close>

lemma deployment_of_refs_length: "length (deployment_of_refs K s ns rs) \<le> 1"
  by (induction rs) (auto simp: Let_def split: option.splits)

lemma statefulset_of_refs_length: "length (statefulset_of_refs K s ns rs) \<le> 1"
  by (induction rs) (auto simp: Let_def split: option.splits)

end
