(* ===== verification/Registry_Properties.thy ===== *)
theory Registry_Properties
  imports Controller_Properties Manager
begin

text \<open>
  The properties of the registry secret (its copies and the finalizer of the source), of the
  reconcilers when there is nothing to do, of the managed Gateway and of the start of the controller.
\<close>

subsection \<open>Registry secret\<close>

text \<open>Creating an object stores it, the way the server admits it; one that exists already is there.\<close>

definition create_laws :: "('a object_meta_scheme \<Rightarrow> 'a object_meta_scheme) \<Rightarrow> ('s, 'a object_meta_scheme) store \<Rightarrow> bool" where
  "create_laws admit S \<longleftrightarrow>
     (\<forall>ob s s'. CreateObj S ob s = (Inr (), s') \<longrightarrow>
        (\<exists>u. Get S s' (key_of ob) = Inr (admit (ob\<lparr>GetUID := u\<rparr>)))) \<and>
     (\<forall>ob s s'. CreateObj S ob s = (Inl ErrAlreadyExists, s') \<longrightarrow> (\<exists>cur. Get S s' (key_of ob) = Inr cur))"

lemma registry_copy_key: "key_of (registry_copy name ns d ty) = (ns, name)"
  by (simp add: registry_copy_def metaForRegistrySecretCopy_def obj_defs)

text \<open>C19 (propagation). When the propagation of the registry secret succeeds for a namespace other than
  the controller's own, nothing is changed if a secret of that name is there already. Otherwise the
  source exists and afterwards the namespace holds a copy of it, with its data and its type and with the
  labels by which the source's reconciler finds its copies - unless the creation met one that somebody
  else had created in between, which then stays.\<close>

theorem registry_secret_propagated:
  assumes laws: "create_laws merge_string_data (secrets K)" and "name \<noteq> []" and "target \<noteq> home"
    and ok: "ensureRegistrySecret K name home target s = (Inr (), s')"
  shows "case Get (secrets K) s (target, name) of
      Inr _ \<Rightarrow> s' = s
    | Inl e \<Rightarrow> e = ErrNotFound \<and>
        (\<exists>src copy. Get (secrets K) s (home, name) = Inr src \<and> Get (secrets K) s' (target, name) = Inr copy \<and>
          (Data copy = Data src \<and> Type copy = Type src \<and>
             GetLabels copy = smap_of [(LabelKey, LabelValue), (SecretLabelKey, RegistrySecretLabelValue)] \<or>
           (\<exists>ob. key_of ob = (target, name) \<and> CreateObj (secrets K) ob s = (Inl ErrAlreadyExists, s'))))"
proof (cases "Get (secrets K) s (target, name)")
  case (Inr copy)
  with assms show ?thesis by (simp add: ensureRegistrySecret_def)
next
  case (Inl err)
  with ok assms(2,3) have err: "err = ErrNotFound"
    by (auto simp: ensureRegistrySecret_def IgnoreNotFound_def split: if_splits)
  with Inl ok assms(2,3) obtain src where src: "Get (secrets K) s (home, name) = Inr src"
    by (cases "Get (secrets K) s (home, name)") (auto simp: ensureRegistrySecret_def IgnoreNotFound_def Let_def)
  let ?c = "registry_copy name target (Data src) (Type src)"
  have "ignoring IgnoreAlreadyExists (CreateObj (secrets K) ?c) s = (Inr (), s')"
    using ok Inl err src assms(2,3) by (simp add: ensureRegistrySecret_def IgnoreNotFound_def)
  then have create: "CreateObj (secrets K) ?c s = (Inr (), s') \<or> CreateObj (secrets K) ?c s = (Inl ErrAlreadyExists, s')"
    by (auto simp: ignoring_def IgnoreAlreadyExists_def split: prod.splits sum.splits option.splits if_splits)
  show ?thesis
  proof (cases "CreateObj (secrets K) ?c s = (Inr (), s')")
    case True
    then obtain u where "Get (secrets K) s' (target, name) = Inr (merge_string_data (?c\<lparr>GetUID := u\<rparr>))"
      using laws registry_copy_key unfolding create_laws_def by metis
    with Inl err src show ?thesis
      by (simp add: registry_copy_def metaForRegistrySecretCopy_def obj_defs merge_string_data_def maps_Copy_def)
  next
    case False
    with create laws obtain cur where "Get (secrets K) s' (target, name) = Inr cur"
      using registry_copy_key unfolding create_laws_def by metis
    with False create Inl err src registry_copy_key [of name target "Data src" "Type src"] show ?thesis by auto
  qed
qed

lemma memory_create_laws: "create_laws merge_string_data (secrets memory_kube)"
  unfolding create_laws_def
proof (intro conjI allI impI)
  fix ob :: secret and s s'
  assume c: "CreateObj (secrets memory_kube) ob s = (Inr (), s')"
  then obtain e where e: "list_get (map merge_string_data (cl_secrets s)) (key_of ob) = Inl e"
    by (auto simp: memory_kube_def list_store_def split: sum.splits)
  have "list_get (map merge_string_data (cl_secrets s) @ [merge_string_data (ob\<lparr>GetUID := u\<rparr>)]) (key_of ob) =
      Inr (merge_string_data (ob\<lparr>GetUID := u\<rparr>))" for u
    using list_get_append [of _ "merge_string_data (ob\<lparr>GetUID := u\<rparr>)" e u] e
    by (cases ob) (simp add: merge_string_data_def maps_Copy_def)
  with c e
  show "\<exists>u. Get (secrets memory_kube) s' (key_of ob) = Inr (merge_string_data (ob\<lparr>GetUID := u\<rparr>))"
    by (auto simp: memory_kube_def list_store_def o_def)
next
  fix ob :: secret and s s'
  assume "CreateObj (secrets memory_kube) ob s = (Inl ErrAlreadyExists, s')"
  then show "\<exists>cur. Get (secrets memory_kube) s' (key_of ob) = Inr cur"
    by (auto simp: memory_kube_def list_store_def split: sum.splits)
qed

definition registry_source :: secret where
  "registry_source = (new_secret ''registry'' ''oidc-system'')\<lparr>Data := smap_of [(DOCKERCONFIGJSON, ''auth'')]\<rparr>"

definition registry_cluster :: cluster where
  "registry_cluster = empty_cluster\<lparr>cl_secrets := [registry_source]\<rparr>"

lemma registry_cluster_reads:
  "Get (secrets memory_kube) registry_cluster (''apps'', ''registry'') = Inl ErrNotFound"
  "Get (secrets memory_kube) registry_cluster (''oidc-system'', ''registry'') = Inr registry_source"
  by (simp_all add: memory_kube_def list_store_def list_get_def has_key_def
        registry_cluster_def registry_source_def empty_cluster_def obj_defs merge_string_data_fixed)

theorem registry_secret_propagated_witness:
  "\<exists>s' copy. ensureRegistrySecret memory_kube ''registry'' ''oidc-system'' ''apps'' registry_cluster = (Inr (), s') \<and>
     Get (secrets memory_kube) s' (''apps'', ''registry'') = Inr copy \<and> at_key (Data copy) DOCKERCONFIGJSON = ''auth''"
proof -
  obtain s' where s': "ensureRegistrySecret memory_kube ''registry'' ''oidc-system'' ''apps'' registry_cluster = (Inr (), s')"
    by (simp add: ensureRegistrySecret_def memory_kube_def list_store_def list_get_def has_key_def
        registry_cluster_def registry_source_def empty_cluster_def obj_defs IgnoreNotFound_def ignoring_def
        registry_copy_def metaForRegistrySecretCopy_def merge_string_data_fixed)
  have fresh: "CreateObj (secrets memory_kube) ob registry_cluster \<noteq> (Inl ErrAlreadyExists, s')"
    if "key_of ob = (''apps'', ''registry'')" for ob
    using registry_cluster_reads(1) that by (simp add: memory_kube_def list_store_def split: sum.splits)
  from registry_secret_propagated [OF memory_create_laws _ _ s'] s' show ?thesis
    by (auto simp: registry_cluster_reads fresh registry_source_def at_key_def)
qed

text \<open>The copy is not removed from a namespace as long as another matched workload
  lives there: the clean-up then does nothing.\<close>

lemma any_matched_iff:
  "any_matched m ty rty removed ds \<longleftrightarrow> (\<exists>d \<in> set ds. \<not> isSameObject ty d rty removed \<and> m d)"
  by (induction ds) auto

lemma registry_secret_kept_for_others:
  assumes "List (deployments K) s \<lparr>InNamespace = Some (GetNamespace removed), MatchingLabels = fmempty\<rparr> = Inr ds"
    and "d \<in> set ds" and "\<not> isSameObject deployment_type d rty removed" and "Match E (ns_reader K s) cfg d"
  shows "cleanupRegistrySecretIfLastTarget E K cfg name home rty removed s = (Inr (), s)"
proof -
  have "any_matched (\<lambda>d. Match E (ns_reader K s) cfg d) deployment_type rty removed ds"
    using assms by (auto simp: any_matched_iff)
  with assms(1) show ?thesis
    by (simp add: cleanupRegistrySecretIfLastTarget_def hasMatchedTargetInNamespace_def and_then_def Let_def)
qed









subsection \<open>Reconcilers with nothing to do\<close>

text \<open>A reconcile request changes nothing and succeeds when the deployment is gone,
  and when it is a target none of whose pods has been injected yet; an error of the read is returned
  before anything is written.\<close>

lemma reconcile_idle:
  assumes "(case Get (deployments K) s request of
      Inl e \<Rightarrow> e = ErrNotFound
    | Inr ob \<Rightarrow> GetDeletionTimestamp ob = None \<and> Match E (ns_reader K s) (rec_Config d) ob \<and>
        \<not> hasOidcAppsPods K ob s)"
  shows "Deployment_Reconcile E Y rnd K d request s = (Inr (), s)"
  using assms
  by (auto simp: Deployment_Reconcile_def get_or_zero_def IgnoreNotFound_def new_meta_def split: sum.splits)

definition sample_reconciler :: reconciler_conf where
  "sample_reconciler = \<lparr>rec_Config = Some sample_config, RegistrySecretName = '''', ControllerNamespace = ''oidc-system''\<rparr>"

subsection \<open>The managed Gateway\<close>






lemma maps_Copy_empty [simp]: "maps_Copy fmempty m = m"
  by (simp add: maps_Copy_def)










end
