(* ===== verification/Watches.thy ===== *)
theory Watches
  imports Manager Gateway
begin

text \<open>
  The watches of the four controllers (\<open>addDeploymentController\<close>, \<open>addStatefulSetController\<close>,
  \<open>addPrivateRegistrySecretControllers\<close> and \<open>addManagedGateway\<close> of \<open>pkg/oidc-apps/cmd.go\<close>): which
  requests an event on an object puts into the queue of a controller, when the selectors of the cache let
  it through. The handlers and predicates of
  controller-runtime are parameters with their documented behaviour as laws; the mapping functions and
  the event filters are those of the repository.
\<close>

subsection \<open>The runtime\<close>

text \<open>\<open>handler.EnqueueRequestForObject\<close> is the handler of the kind a controller is for,
  \<open>handler.EnqueueRequestForOwner\<close> takes the Go type of the owner, whose kind the scheme knows;
  \<open>run_predicates\<close> is how the builder combines the event filter with the predicates of a watch;
  \<open>parsed_selector\<close> is \<open>labels.Parse\<close> with the \<open>Matches\<close> of its result.\<close>

record runtime =
  kind_of_type :: "string \<Rightarrow> string"
  EnqueueRequestForObject :: "object_meta \<Rightarrow> key list"
  EnqueueRequestForOwner :: "string \<Rightarrow> object_meta \<Rightarrow> key list"
  ResourceVersionChangedPredicate :: "event_kind \<Rightarrow> bool"
  run_predicates :: "bool list \<Rightarrow> bool"
  parsed_selector :: "string \<Rightarrow> smap \<Rightarrow> bool"

definition runtime_laws :: "runtime \<Rightarrow> bool" where
  "runtime_laws R \<longleftrightarrow>
     (\<forall>ob. EnqueueRequestForObject R ob = [key_of ob]) \<and>
     (\<forall>ty ob. set (EnqueueRequestForOwner R ty ob) =
        {(GetNamespace ob, or_Name r) | r. r \<in> set (GetOwnerReferences ob) \<and> or_Kind r = kind_of_type R ty}) \<and>
     (\<forall>ev. ResourceVersionChangedPredicate R ev =
        (case ev of UpdateEvent old new \<Rightarrow> ResourceVersion old \<noteq> ResourceVersion new | _ \<Rightarrow> True)) \<and>
     (\<forall>bs. run_predicates R bs = (\<forall>b \<in> set bs. b))"

text \<open>\<open>SetOwnerReference\<close> writes the kind of the owner's type and its name.\<close>

definition reference_laws :: "runtime \<Rightarrow> 's kube \<Rightarrow> bool" where
  "reference_laws R K \<longleftrightarrow>
     (\<forall>ty ow ob refs. SetOwnerReference K ty ow ob = Inr refs \<longrightarrow>
        (\<exists>r \<in> set refs. or_Kind r = kind_of_type R ty \<and> or_Name r = GetName ow \<and> or_UID r = GetUID ow))"

subsection \<open>The controllers\<close>

datatype watched =
    DeploymentObj deployment | StatefulSetObj stateful_set | SecretObj secret | ServiceObj service
  | PodObj pod | HTTPRouteObj http_route | GatewayObj gateway

fun meta :: "watched \<Rightarrow> object_meta" where
  "meta (DeploymentObj x) = x" | "meta (StatefulSetObj x) = meta_of x" | "meta (SecretObj x) = meta_of x"
| "meta (ServiceObj x) = meta_of x" | "meta (PodObj x) = meta_of x" | "meta (HTTPRouteObj x) = meta_of x"
| "meta (GatewayObj x) = meta_of x"

fun kind_of :: "watched \<Rightarrow> string" where
  "kind_of (DeploymentObj _) = ''Deployment''" | "kind_of (StatefulSetObj _) = ''StatefulSet''"
| "kind_of (SecretObj _) = ''Secret''" | "kind_of (ServiceObj _) = ''Service''" | "kind_of (PodObj _) = ''Pod''"
| "kind_of (HTTPRouteObj _) = ''HTTPRoute''" | "kind_of (GatewayObj _) = ''Gateway''"

text \<open>The informers of the manager's cache list and watch under the selector of their kind: there is no
  event on an object it does not select. A kind that is not listed is watched without a selector.\<close>

definition cache_selects :: "runtime \<Rightarrow> cache_selector \<Rightarrow> smap \<Rightarrow> bool" where
  "cache_selects R sel lbls =
     (case sel of
        UserSelector str \<Rightarrow> parsed_selector R str lbls
      | ControllerLabel \<Rightarrow> fmlookup lbls LabelKey = Some LabelValue
      | AllObjects \<Rightarrow> True)"

definition delivered :: "runtime \<Rightarrow> options \<Rightarrow> controller_config option \<Rightarrow> watched \<Rightarrow> bool" where
  "delivered R opts cfg ob =
     (case map_of (cache_by_object opts cfg) (kind_of ob) of
        None \<Rightarrow> True
      | Some sel \<Rightarrow> cache_selects R sel (GetLabels (meta ob)))"

text \<open>The handler of an event, behind the predicates it has to pass.\<close>

definition filtered :: "runtime \<Rightarrow> bool list \<Rightarrow> key list \<Rightarrow> key list" where
  "filtered R predicates requests = (if run_predicates R predicates then requests else [])"

text \<open>The event filter of the builder comes first on every watch; the kind the controller is for has no
  predicate of its own, the other watches have the one for the resource version.\<close>

definition addDeploymentController ::
  "'e env_scheme \<Rightarrow> 's kube \<Rightarrow> runtime \<Rightarrow> options \<Rightarrow> controller_config option \<Rightarrow> event_kind \<Rightarrow> watched \<Rightarrow> 's
     \<Rightarrow> key list" where
  "addDeploymentController E K R opts cfg ev ob s =
     (let filter = fetchPredicates E (ns_reader K s) cfg ev (meta ob);
          watches = filtered R [filter, ResourceVersionChangedPredicate R ev]
      in if \<not> delivered R opts cfg ob then [] else
         case ob of
           DeploymentObj d \<Rightarrow> filtered R [filter] (EnqueueRequestForObject R d)
         | SecretObj x \<Rightarrow> watches (EnqueueRequestForOwner R deployment_type (meta_of x))
         | ServiceObj x \<Rightarrow> watches (EnqueueRequestForOwner R deployment_type (meta_of x))
         | PodObj p \<Rightarrow> watches (PodMapFuncForDeployment K s p)
         | HTTPRouteObj x \<Rightarrow> watches (EnqueueRequestForOwner R deployment_type (meta_of x))
         | _ \<Rightarrow> [])"

definition addStatefulSetController ::
  "'e env_scheme \<Rightarrow> 's kube \<Rightarrow> runtime \<Rightarrow> options \<Rightarrow> controller_config option \<Rightarrow> event_kind \<Rightarrow> watched \<Rightarrow> 's
     \<Rightarrow> key list" where
  "addStatefulSetController E K R opts cfg ev ob s =
     (let filter = fetchPredicates E (ns_reader K s) cfg ev (meta ob);
          watches = filtered R [filter, ResourceVersionChangedPredicate R ev]
      in if \<not> delivered R opts cfg ob then [] else
         case ob of
           StatefulSetObj x \<Rightarrow> filtered R [filter] (EnqueueRequestForObject R (meta_of x))
         | PodObj p \<Rightarrow> watches (EnqueueRequestForOwner R statefulset_type (meta_of p))
         | SecretObj x \<Rightarrow> watches (EnqueueRequestForOwner R statefulset_type (meta_of x))
         | ServiceObj x \<Rightarrow> watches (ServiceMapFuncForStatefulset K s x)
         | HTTPRouteObj x \<Rightarrow> watches (HTTPRouteMapFuncForStatefulset K s x)
         | _ \<Rightarrow> [])"

definition image_pull_secret_requests ::
  "'e env_scheme \<Rightarrow> runtime \<Rightarrow> options \<Rightarrow> controller_config option \<Rightarrow> watched \<Rightarrow> key list" where
  "image_pull_secret_requests E R opts cfg ob =
     (if \<not> delivered R opts cfg ob then [] else
      case ob of
        SecretObj x \<Rightarrow> filtered R [imagePullSecretPredicate E opts x] (EnqueueRequestForObject R (meta_of x))
      | _ \<Rightarrow> [])"

definition gateway_requests ::
  "runtime \<Rightarrow> options \<Rightarrow> controller_config option \<Rightarrow> watched \<Rightarrow> key list" where
  "gateway_requests R opts cfg ob =
     (if \<not> delivered R opts cfg ob then [] else
      case ob of
        GatewayObj x \<Rightarrow> filtered R [gatewayPredicate x] (EnqueueRequestForObject R (meta_of x))
      | _ \<Rightarrow> [])"

subsection \<open>Facts\<close>

lemma filtered_pass: "runtime_laws R \<Longrightarrow> (\<And>b. b \<in> set bs \<Longrightarrow> b) \<Longrightarrow> filtered R bs rs = rs"
  by (auto simp: filtered_def runtime_laws_def)

lemma filtered_drop: "runtime_laws R \<Longrightarrow> False \<in> set bs \<Longrightarrow> filtered R bs rs = []"
  by (auto simp: filtered_def runtime_laws_def)

text \<open>The dependent objects are delivered with the controller's label only, and pods in general.\<close>

lemma delivered_dependents [simp]:
  "delivered R opts cfg (SecretObj x) \<longleftrightarrow> fmlookup (GetLabels x) LabelKey = Some LabelValue"
  "delivered R opts cfg (ServiceObj svc) \<longleftrightarrow> fmlookup (GetLabels svc) LabelKey = Some LabelValue"
  "delivered R opts cfg (HTTPRouteObj r) \<longleftrightarrow> fmlookup (GetLabels r) LabelKey = Some LabelValue"
  "delivered R opts cfg (DeploymentObj d)"
  by (simp_all add: delivered_def cache_by_object_def cache_selects_def)

lemma owner_enqueued:
  "runtime_laws R \<Longrightarrow> r \<in> set (GetOwnerReferences ob) \<Longrightarrow> or_Kind r = kind_of_type R ty \<Longrightarrow>
   (GetNamespace ob, or_Name r) \<in> set (EnqueueRequestForOwner R ty (meta_of ob))"
  by (auto simp: runtime_laws_def object_meta.truncate_def)

text \<open>Events other than updates of a labelled object pass both predicates of a watch.\<close>

definition arrival :: "event_kind \<Rightarrow> bool" where
  "arrival ev = (case ev of UpdateEvent _ _ \<Rightarrow> False | _ \<Rightarrow> True)"

lemma watch_passes:
  assumes "runtime_laws R" "arrival ev" "fmlookup (GetLabels ob) LabelKey \<noteq> None"
  shows "filtered R [fetchPredicates E client cfg ev (meta_of ob), ResourceVersionChangedPredicate R ev] rs = rs"
  using assms
  by (cases ev) (auto simp: filtered_def runtime_laws_def arrival_def fetchPredicates_def matchOrLabeled_def)

text \<open>An update that leaves the generation, as every update of a secret or a service does, reaches
  neither of the workload controllers, whatever it changed.\<close>

lemma same_generation_dropped:
  assumes "runtime_laws R" "Generation old = Generation new"
  shows "addDeploymentController E K R opts cfg (UpdateEvent old new) ob s = []"
    and "addStatefulSetController E K R opts cfg (UpdateEvent old new) ob s = []"
  using assms
  by (auto simp: addDeploymentController_def addStatefulSetController_def Let_def fetchPredicates_def filtered_drop
      split: watched.splits)

end
