(* ===== verification/Availability.thy ===== *)
theory Availability
  imports Workloads Webhook_Facts
begin

text \<open>
  The secrets a reconcile of a workload leaves behind, and the secrets the webhook mounts into its
  pods: the names agree, and every step after the one that writes a secret leaves it in place.
\<close>

subsection \<open>What a sequence of steps establishes\<close>

definition establishes :: "('s \<Rightarrow> bool) \<Rightarrow> ('s, 'a) go \<Rightarrow> bool" where
  "establishes P m \<longleftrightarrow> (\<forall>s x s'. m s = (Inr x, s') \<longrightarrow> P s')"

lemma establishesD: "establishes P m \<Longrightarrow> m s = (Inr x, s') \<Longrightarrow> P s'"
  by (simp add: establishes_def)

lemma establishes_first: "establishes P m \<Longrightarrow> (\<And>x. keeps P (f x)) \<Longrightarrow> establishes P (and_then m f)"
  by (auto simp: establishes_def keeps_def and_then_Inr_iff) (metis snd_conv)

lemma establishes_rest: "(\<And>x. establishes P (f x)) \<Longrightarrow> establishes P (and_then m f)"
  by (auto simp: establishes_def and_then_Inr_iff)

lemma establishes_wrapping: "establishes P m \<Longrightarrow> establishes P (wrapping msg m)"
  by (simp add: establishes_def)

lemma keeps_when_true [intro]: "keeps P m \<Longrightarrow> keeps P (when_true b m)"
  by (simp add: when_true_def keeps_if)

lemma establishes_when_true: "b \<Longrightarrow> establishes P m \<Longrightarrow> establishes P (when_true b m)"
  by (simp add: when_true_def)

lemma keeps_apply: "(\<And>s. keeps P (m s)) \<Longrightarrow> keeps P (\<lambda>s. m s s)"
  by (simp add: keeps_def)

subsection \<open>Present secrets\<close>

definition present :: "'s kube \<Rightarrow> key \<Rightarrow> 's \<Rightarrow> bool" where
  "present K k s \<longleftrightarrow> (\<exists>cur. Get (secrets K) s k = Inr cur)"

text \<open>A \<open>CreateOrUpdate\<close> that succeeds has written its object; none of the writes of the reconcilers
  deletes a secret.\<close>

definition upsert_laws :: "'s kube \<Rightarrow> bool" where
  "upsert_laws K \<longleftrightarrow>
     (\<forall>ob f. establishes (present K (key_of ob)) (CreateOrUpdate (secrets K) ob f)) \<and>
     (\<forall>k ob f. keeps (present K k) (CreateOrUpdate (secrets K) ob f)) \<and>
     (\<forall>k ob f. keeps (present K k) (CreateOrUpdate (services K) ob f)) \<and>
     (\<forall>k ob f. keeps (present K k) (CreateOrUpdate (httproutes K) ob f)) \<and>
     (\<forall>k v. keeps (present K k) (PatchEmpty K v))"

lemma secret_written:
  "upsert_laws K \<Longrightarrow> key_of obj = k \<Longrightarrow>
   establishes (present K k) (reconcileOwnedResource K (secrets K) ty owner obj f)"
  by (auto simp: upsert_laws_def reconcileOwnedResource_def)

lemma secret_kept:
  assumes "upsert_laws K"
  shows "keeps (present K k) (reconcileOwnedResource K (secrets K) ty owner ob1 f1)"
    "keeps (present K k) (reconcileOwnedResource K (services K) ty owner ob2 f2)"
    "keeps (present K k) (reconcileOwnedResource K (httproutes K) ty owner ob3 f3)"
    "keeps (present K k) (PatchEmpty K v)"
  using assms unfolding upsert_laws_def reconcileOwnedResource_def by blast+

lemma trigger_patches_kept: "upsert_laws K \<Longrightarrow> keeps (present K k) (trigger_patches K v policies)"
  by (induction K v policies rule: trigger_patches.induct) (auto intro: secret_kept(4))

lemma patchVpa_kept: "upsert_laws K \<Longrightarrow> keeps (present K k) (patchVpa K rc ob)"
  by (auto simp: patchVpa_def intro!: keeps_and_then keeps_for_each trigger_patches_kept keeps_wrapping
      split: option.split)

lemma steps_kept:
  assumes "upsert_laws K"
  shows "keeps (present K k) (reconcile_attributes E Y K ty ob)"
    "keeps (present K k) (reconcile_kubeconfig E Y K rc ty ob)"
    "keeps (present K k) (reconcile_oidc_ca E K rc ty ob)"
    "keeps (present K k) (reconcileHTTPRouteForDeployment E K rc ob)"
    "keeps (present K k) (reconcileHTTPRouteForStatefulSetPod E K rc p ob)"
  by (auto simp: reconcile_attributes_def reconcile_kubeconfig_def reconcile_oidc_ca_def
      reconcileHTTPRouteForDeployment_def reconcileHTTPRouteForStatefulSetPod_def
      intro!: keeps_wrapping secret_kept [OF assms])

lemma reconcile_pod_kept: "upsert_laws K \<Longrightarrow> keeps (present K k) (reconcile_pod E K cfg rc ob p)"
  unfolding reconcile_pod_def Let_def
  by (rule keeps_if, simp, rule keeps_apply, rule keeps_and_then, rule keeps_wrapping)
    (simp_all add: secret_kept steps_kept)

subsection \<open>The generated secrets\<close>

text \<open>The names of the secrets a reconcile writes for a workload.\<close>

definition generated_secrets :: "'e env_scheme \<Rightarrow> resolved_config \<Rightarrow> 'a object_meta_scheme \<Rightarrow> string list" where
  "generated_secrets E rc ob =
     [GetName (oauth2SecretObject E ob), GetName (resourceAttributesSecretObject E ob)]
     @ (if needsKubeconfigSecret rc then [GetName (kubeconfigSecretObject E ob)] else [])
     @ (if needsOidcCaBundleSecret rc then [GetName (oidcCaBundleSecretObject E ob)] else [])"

text \<open>They are named by the name and the namespace of the workload only, not by its kind.\<close>

lemma kinds_share_secrets:
  "GetName a = GetName b \<Longrightarrow> GetNamespace a = GetNamespace b \<Longrightarrow> generated_secrets E rc a = generated_secrets E rc b"
  by (simp add: generated_secrets_def oauth2SecretObject_def resourceAttributesSecretObject_def
      kubeconfigSecretObject_def oidcCaBundleSecretObject_def owner_suffix_def)

lemmas secret_objects = oauth2SecretObject_def resourceAttributesSecretObject_def kubeconfigSecretObject_def
  oidcCaBundleSecretObject_def

text \<open>What the webhook mounts is generated, or the configuration refers to it.\<close>

lemma mounted_generated:
  assumes "(v, n) \<in> set (volume_mounts rc (fst (fetchTargetSuffix E ob)))"
    and "fmlookup (GetAnnotations ob) AnnotationSuffixKey = None"
    and "n \<notin> {GetClientSecretName rc, GetKubeSecretName rc, GetOidcCASecretName rc}"
  shows "n \<in> set (generated_secrets E rc ob)"
proof -
  have "fst (fetchTargetSuffix E ob) = owner_suffix E ob"
    using assms(2) by (simp add: fetchTargetSuffix_def owner_suffix_def Let_def)
  with assms(1,3) show ?thesis
    by (auto simp: volume_mounts_def generated_secrets_def secret_objects needsKubeconfigSecret_def
        needsOidcCaBundleSecret_def shallAddOidcCaSecretName_def shallAddKubeConfigSecretName_def
        fetchOidcCASecretName_def fetchKubconfigSecretName_def SecretNameKubeconfig_def obj_defs
        split: if_splits)
qed

text \<open>Each is written by its own step.\<close>

lemma oauth2_written:
  "upsert_laws K \<Longrightarrow> establishes (present K (GetNamespace ob, GetName (oauth2SecretObject E ob)))
     (reconcile_oauth2_secret E rnd K rc ty ob)"
  unfolding reconcile_oauth2_secret_def
  by (rule establishes_wrapping, rule secret_written) (simp_all add: secret_objects obj_defs)

lemma attributes_written:
  "upsert_laws K \<Longrightarrow> establishes (present K (GetNamespace ob, GetName (resourceAttributesSecretObject E ob)))
     (reconcile_attributes E Y K ty ob)"
  unfolding reconcile_attributes_def
  by (rule establishes_wrapping, rule secret_written) (simp_all add: secret_objects obj_defs)

lemma kubeconfig_written:
  "upsert_laws K \<Longrightarrow> needsKubeconfigSecret rc \<Longrightarrow>
   establishes (present K (GetNamespace ob, GetName (kubeconfigSecretObject E ob)))
     (reconcile_kubeconfig E Y K rc ty ob)"
  unfolding reconcile_kubeconfig_def
  by (rule establishes_when_true, simp, rule establishes_wrapping, rule secret_written)
    (simp_all add: secret_objects obj_defs)

lemma oidc_ca_written:
  "upsert_laws K \<Longrightarrow> needsOidcCaBundleSecret rc \<Longrightarrow>
   establishes (present K (GetNamespace ob, GetName (oidcCaBundleSecretObject E ob)))
     (reconcile_oidc_ca E K rc ty ob)"
  unfolding reconcile_oidc_ca_def
  by (rule establishes_when_true, simp, rule establishes_wrapping, rule secret_written)
    (simp_all add: secret_objects obj_defs)

lemmas written = oauth2_written attributes_written kubeconfig_written oidc_ca_written

lemma tail_written:
  assumes laws: "upsert_laws K" and n: "n \<in> set (generated_secrets E rc ob)"
    and not_first: "n \<noteq> GetName (oauth2SecretObject E ob)"
    and rest: "keeps (present K (GetNamespace ob, n)) rest"
  shows "establishes (present K (GetNamespace ob, n))
    (and_then (reconcile_attributes E Y K ty ob) (\<lambda>_.
     and_then (reconcile_kubeconfig E Y K rc ty ob) (\<lambda>_.
     and_then (reconcile_oidc_ca E K rc ty ob) (\<lambda>_. rest))))"
proof -
  consider "n = GetName (resourceAttributesSecretObject E ob)"
    | "needsKubeconfigSecret rc" "n = GetName (kubeconfigSecretObject E ob)"
    | "needsOidcCaBundleSecret rc" "n = GetName (oidcCaBundleSecretObject E ob)"
    using n not_first by (auto simp: generated_secrets_def split: if_splits)
  then show ?thesis
  proof cases
    case 1
    then show ?thesis using rest
      by (auto intro!: establishes_first written [OF laws] keeps_and_then steps_kept [OF laws])
  next
    case 2
    show ?thesis unfolding 2(2) using rest [unfolded 2(2)]
      by (intro establishes_rest [of _ _ "reconcile_attributes E Y K ty ob"] establishes_first
          written(3) [OF laws 2(1)] keeps_and_then steps_kept [OF laws])
  next
    case 3
    then show ?thesis using rest
      by (auto intro!: establishes_rest [of _ _ "reconcile_attributes E Y K ty ob"]
          establishes_rest [of _ _ "reconcile_kubeconfig E Y K rc ty ob"]
          establishes_first written [OF laws] keeps_and_then steps_kept [OF laws])
  qed
qed

lemma tail_kept:
  assumes laws: "upsert_laws K" and rest: "keeps (present K k) rest"
  shows "keeps (present K k)
    (and_then (reconcile_attributes E Y K ty ob) (\<lambda>_.
     and_then (reconcile_kubeconfig E Y K rc ty ob) (\<lambda>_.
     and_then (reconcile_oidc_ca E K rc ty ob) (\<lambda>_. rest))))"
  using rest by (auto intro!: keeps_and_then steps_kept [OF laws])

lemma dependencies_written:
  assumes laws: "upsert_laws K" and n: "n \<in> set (generated_secrets E rc ob)"
    and middle: "\<And>f k. (\<And>x. keeps (present K k) (f x)) \<Longrightarrow> keeps (present K k) (middle f)"
      "\<And>f. (\<And>x. establishes (present K (GetNamespace ob, n)) (f x)) \<Longrightarrow>
        establishes (present K (GetNamespace ob, n)) (middle f)"
    and rest: "\<And>k. keeps (present K k) rest"
  shows "establishes (present K (GetNamespace ob, n))
    (and_then (reconcile_oauth2_secret E rnd K rc ty ob) (\<lambda>_. middle (\<lambda>_.
     and_then (reconcile_attributes E Y K ty ob) (\<lambda>_.
     and_then (reconcile_kubeconfig E Y K rc ty ob) (\<lambda>_.
     and_then (reconcile_oidc_ca E K rc ty ob) (\<lambda>_. rest))))))"
proof (cases "n = GetName (oauth2SecretObject E ob)")
  case True
  then show ?thesis
    by (auto intro!: establishes_first written(1) [OF laws] middle(1) tail_kept [OF laws] rest)
next
  case False
  show ?thesis
    by (rule establishes_rest, rule middle(2), rule tail_written [OF laws n False rest])
qed

subsection \<open>The two reconcilers\<close>

lemma deployment_secrets_present:
  assumes laws: "upsert_laws K" and ok: "reconcileDeploymentDependencies E Y rnd K cfg ob s = (Inr (), s')"
    and "GetDeletionTimestamp ob = None" "n \<in> set (generated_secrets E (Resolve E (ns_reader K s) cfg ob) ob)"
  shows "present K (GetNamespace ob, n) s'"
proof -
  let ?rc = "Resolve E (ns_reader K s) cfg ob"
  let ?service = "wrapping ''failed to reconcile oauth2 service''
    (reconcileOwnedResource K (services K) deployment_type ob (oauth2ServiceObject E ob)
      (mutate_selected (GetTargetLabelSelector ?rc)))"
  have "establishes (present K (GetNamespace ob, n))
    (and_then (reconcile_oauth2_secret E rnd K ?rc deployment_type ob) (\<lambda>_. and_then ?service (\<lambda>_.
     and_then (reconcile_attributes E Y K deployment_type ob) (\<lambda>_.
     and_then (reconcile_kubeconfig E Y K ?rc deployment_type ob) (\<lambda>_.
     and_then (reconcile_oidc_ca E K ?rc deployment_type ob) (\<lambda>_.
     and_then (reconcileHTTPRouteForDeployment E K ?rc ob) (\<lambda>_.
     when_true (IsGroupRegistered K ''autoscaling.k8s.io'') (patchVpa K ?rc ob))))))))"
    by (rule dependencies_written [OF laws assms(4), of "and_then ?service"])
      (auto intro!: establishes_rest keeps_and_then keeps_wrapping secret_kept [OF laws] steps_kept [OF laws]
        patchVpa_kept [OF laws])
  then show ?thesis
    by (rule establishesD) (use ok assms(3) in \<open>simp add: reconcileDeploymentDependencies_def Let_def\<close>)
qed

lemma stateful_set_secrets_present:
  assumes laws: "upsert_laws K" and ok: "reconcileStatefulSetDependencies E Y rnd K cfg sts s = (Inr (), s')"
    and "GetDeletionTimestamp sts = None"
    and "n \<in> set (generated_secrets E (Resolve E (ns_reader K s) cfg sts) (meta_of sts))"
  shows "present K (GetNamespace sts, n) s'"
proof -
  let ?rc = "Resolve E (ns_reader K s) cfg sts" and ?ob = "meta_of sts"
  let ?pods = "case sts_Selector sts of
      None \<Rightarrow> throw (Panic ''nil pointer dereference'')
    | Some l \<Rightarrow> wrapping ''failed to list pods'' (reading (\<lambda>s. listed (pods K) s ?ob (MatchLabels l)))"
  have pods: "keeps (present K k) ?pods" for k
    by (auto intro: keeps_wrapping split: option.split)
  have "establishes (present K (GetNamespace ?ob, n))
    (and_then (reconcile_oauth2_secret E rnd K ?rc statefulset_type ?ob) (\<lambda>_.
     and_then ?pods (\<lambda>items. and_then (for_each (reconcile_pod E K cfg ?rc ?ob) items) (\<lambda>_.
     and_then (reconcile_attributes E Y K statefulset_type ?ob) (\<lambda>_.
     and_then (reconcile_kubeconfig E Y K ?rc statefulset_type ?ob) (\<lambda>_.
     and_then (reconcile_oidc_ca E K ?rc statefulset_type ?ob) (\<lambda>_.
     when_true (IsGroupRegistered K ''autoscaling.k8s.io'') (patchVpa K ?rc ?ob))))))))"
    by (rule dependencies_written [OF laws assms(4), of "\<lambda>f. and_then ?pods (\<lambda>items.
          and_then (for_each (reconcile_pod E K cfg ?rc ?ob) items) f)"])
      (auto intro!: establishes_rest keeps_and_then pods keeps_for_each reconcile_pod_kept [OF laws]
        patchVpa_kept [OF laws])
  then have "present K (GetNamespace ?ob, n) s'"
    by (rule establishesD) (use ok assms(3) in \<open>simp add: reconcileStatefulSetDependencies_def Let_def\<close>)
  then show ?thesis by (simp add: object_meta.truncate_def)
qed

end
