(* ===== verification/Memory_Upsert.thy ===== *)
theory Memory_Upsert
  imports Availability Sample
begin

text \<open>
  The client over lists keeps the laws of writing secrets, a mutation that keeps the key of its object
  always succeeds on it, and the reconcile of the sample deployment therefore succeeds.
\<close>

lemma find_append_other: "find (has_key k) obs = Some x \<Longrightarrow> find (has_key k) (obs @ [ob]) = Some x"
  by (induction obs) (auto split: if_splits)

lemma find_list_put: "find (has_key k) obs \<noteq> None \<Longrightarrow> find (has_key k) (list_put ob obs) \<noteq> None"
  by (induction obs) (auto simp: list_put_def has_key_def split: if_splits)

lemma list_store_keeps:
  assumes "list_backed admit get put"
  shows "keeps (\<lambda>s. \<exists>cur. Get (list_store get put) s k = Inr cur) (CreateOrUpdate (list_store get put) ob f)"
proof (rule keepsI)
  fix s
  assume "\<exists>cur. Get (list_store get put) s k = Inr cur"
  then have "find (has_key k) (get s) \<noteq> None"
    by (auto simp: list_store_def list_get_def split: option.splits)
  then have "find (has_key k) (get (snd (CreateOrUpdate (list_store get put) ob f s))) \<noteq> None"
    using find_list_put [of k "get s"] find_append_other [of k "get s"]
    by (auto simp: list_store_def list_backedD [OF assms] split: sum.split)
  then show "\<exists>cur. Get (list_store get put) (snd (CreateOrUpdate (list_store get put) ob f s)) k = Inr cur"
    by (auto simp: list_store_def list_get_def)
qed

lemma memory_upsert_laws: "upsert_laws memory_kube"
proof -
  have "establishes (present memory_kube (key_of ob)) (CreateOrUpdate (secrets memory_kube) ob f)" for ob f
    by (auto simp: establishes_def present_def dest!: create_or_update_success [OF memory_store_laws(1)])
  moreover have "keeps (present memory_kube k) (CreateOrUpdate (secrets memory_kube) ob f)" for k ob f
    using list_store_keeps [OF memory_backed, of k ob f]
    by (simp add: present_def [abs_def] memory_kube_def)
  moreover have "keeps (present memory_kube k) (CreateOrUpdate (services memory_kube) ob f)"
    "keeps (present memory_kube k) (CreateOrUpdate (httproutes memory_kube) ob' f')" for k ob f ob' f'
    by (auto simp: keeps_def present_def memory_kube_def list_store_def split: sum.split)
  moreover have "keeps (present memory_kube k) (PatchEmpty memory_kube v)" for k v
    by (simp add: keeps_def memory_kube_def)
  ultimately show ?thesis unfolding upsert_laws_def by blast
qed

lemma memory_upsert_total:
  assumes "\<And>ob. \<exists>ob'. f ob = Inr ob' \<and> key_of ob' = key_of ob"
  shows "\<exists>s'. CreateOrUpdate (list_store get put) ob f s = (Inr (), s')"
proof (cases "list_get (get s) (key_of ob)")
  case (Inl e)
  obtain new where "f ob = Inr new" "key_of new = key_of ob" using assms by blast
  with Inl show ?thesis by (simp add: list_store_def)
next
  case (Inr cur)
  then have key: "key_of cur = key_of ob"
    by (auto simp: list_get_def find_Some_iff has_key_def split: option.splits)
  obtain new where "f cur = Inr new" "key_of new = key_of cur" using assms by blast
  with Inr key show ?thesis by (cases "new = cur") (simp_all add: list_store_def)
qed

lemma memory_reconcile_total:
  assumes "\<And>ob. \<exists>ob'. f ob = Inr ob' \<and> key_of ob' = key_of ob"
  shows "\<exists>s'. reconcileOwnedResource memory_kube (list_store get put) ty owner obj f s = (Inr (), s')"
proof -
  have "\<exists>ob'. res_bind (f ob) (own memory_kube ty owner) = Inr ob' \<and> key_of ob' = key_of ob" for ob
  proof -
    obtain m where m: "f ob = Inr m" "key_of m = key_of ob" using assms by blast
    obtain refs where "SetOwnerReference memory_kube ty (meta_of owner) (meta_of m) = Inr refs"
      by (cases "SetOwnerReference memory_kube ty (meta_of owner) (meta_of m)")
        (auto simp: memory_kube_def add_owner_def Let_def split: if_splits)
    with m show ?thesis by (simp add: own_def)
  qed
  then show ?thesis unfolding reconcileOwnedResource_def by (rule memory_upsert_total)
qed

subsection \<open>The sample deployment\<close>

lemma memory_stores:
  "secrets memory_kube = list_store (\<lambda>s. map merge_string_data (cl_secrets s)) (\<lambda>xs s. s\<lparr>cl_secrets := xs\<rparr>)"
  "services memory_kube = list_store cl_services (\<lambda>xs s. s\<lparr>cl_services := xs\<rparr>)"
  "httproutes memory_kube = list_store cl_httproutes (\<lambda>xs s. s\<lparr>cl_httproutes := xs\<rparr>)"
  by (simp_all add: memory_kube_def)

definition sample_reconcile :: "(cluster, unit) go" where
  "sample_reconcile = reconcileDeploymentDependencies sample_env sample_yaml (\<lambda>_. Some 0) memory_kube sample_config
     sample_deployment"

lemma DecodeString_Nil: "DecodeString [] = Some []"
  by code_simp

lemma sample_no_optional_secrets:
  assumes "rc_target rc = sample_target" "rc_global rc = Global sample_config"
  shows "\<not> needsKubeconfigSecret rc" "\<not> needsOidcCaBundleSecret rc"
  using assms
  by (simp_all add: needsKubeconfigSecret_def needsOidcCaBundleSecret_def cfg_defs sample_target_def
      sample_config_def empty_target_def empty_global_def global_conf.extend_def non_empty_def DecodeString_Nil)

lemma sample_reconcile_total: "\<exists>s'. sample_reconcile s = (Inr (), s')"
proof -
  let ?ob = sample_deployment and ?rc = sample_rc and ?Y = sample_yaml and ?E = sample_env
  have rc: "Resolve ?E (ns_reader memory_kube s) sample_config ?ob = ?rc" by (rule sample_Resolve)
  have live: "GetDeletionTimestamp ?ob = None" by (simp add: sample_defs)
  have m: "\<exists>ob'. mutateOauth2Secret ?E (\<lambda>_. Some 0) ?rc ob = Inr ob' \<and> key_of ob' = key_of ob"
    "\<exists>ob'. mutateResourceAttributesSecret ?Y ?ob (GetNamespace ?ob) ob = Inr ob' \<and> key_of ob' = key_of ob"
    "\<exists>sv'. mutate_selected (GetTargetLabelSelector ?rc) sv = Inr sv' \<and> key_of sv' = key_of sv"
    "\<exists>r'. mutateHTTPRouteForDeployment ?E ?ob ?rc r = Inr r' \<and> key_of r' = key_of r" for ob sv r
    by (simp_all add: mutateOauth2Secret_def mutateResourceAttributesSecret_def mutate_selected_def
        mutateOauth2Service_def mutateHTTPRouteForDeployment_def finish_route_fields Let_def
        GetTargetLabelSelector_def sample_rc_def sample_target_def)
  note total = memory_reconcile_total [OF m(1)] memory_reconcile_total [OF m(2)] memory_reconcile_total [OF m(3)]
    memory_reconcile_total [OF m(4)]
  obtain s1 where 1: "reconcile_oauth2_secret ?E (\<lambda>_. Some 0) memory_kube ?rc deployment_type ?ob s = (Inr (), s1)"
    using total(1) unfolding reconcile_oauth2_secret_def memory_stores wrapping_Inr_iff by blast
  obtain s2 where 2: "reconcileOwnedResource memory_kube (services memory_kube) deployment_type ?ob
      (oauth2ServiceObject ?E ?ob) (mutate_selected (GetTargetLabelSelector ?rc)) s1 = (Inr (), s2)"
    using total(3) unfolding memory_stores by blast
  obtain s3 where 3: "reconcile_attributes ?E ?Y memory_kube deployment_type ?ob s2 = (Inr (), s3)"
    using total(2) unfolding reconcile_attributes_def memory_stores wrapping_Inr_iff by blast
  obtain s4 where 4: "reconcileHTTPRouteForDeployment ?E memory_kube ?rc ?ob s3 = (Inr (), s4)"
  proof (cases "ShallCreateHTTPRoute ?rc")
    case True
    with that show ?thesis
      using total(4) unfolding reconcileHTTPRouteForDeployment_def memory_stores
      by (simp only: True not_True_eq_False if_False wrapping_Inr_iff) blast
  qed (simp add: reconcileHTTPRouteForDeployment_def)
  have vpa: "\<not> IsGroupRegistered memory_kube g" for g by (simp add: memory_kube_def)
  have "\<not> needsKubeconfigSecret ?rc" "\<not> needsOidcCaBundleSecret ?rc"
    by (simp_all add: sample_no_optional_secrets sample_rc_def)
  then show ?thesis
    using 1 2 3 4 vpa live
    by (simp add: sample_reconcile_def reconcileDeploymentDependencies_def rc Let_def and_then_Inr_iff
        reconcile_kubeconfig_def reconcile_oidc_ca_def when_true_def)
qed

text \<open>A stateful set of the same target, without pods yet.\<close>

definition sample_sts :: stateful_set where
  "sample_sts =
     object_meta.extend ((new_meta ''demo'' ''apps'')\<lparr>GetUID := ''s1'', GetLabels := app_labels\<rparr>)
       \<lparr>sts_Selector = Some \<lparr>MatchLabels = app_labels, MatchExpressions = []\<rparr>\<rparr>"

definition sts_cluster :: cluster where
  "sts_cluster = empty_cluster\<lparr>cl_statefulsets := [sample_sts]\<rparr>"

lemma sample_sts_rc:
  "Resolve sample_env client sample_config sample_sts =
     \<lparr>rc_target = sample_target, rc_global = Global sample_config, rc_object = meta_of sample_sts\<rparr>"
  using sample_matches [of sample_sts client]
  by (simp add: Resolve_def FetchTarget_first sample_config_def sample_sts_def app_labels_def obj_defs)

lemma memory_pod_total: "\<exists>s'. reconcile_pod E memory_kube cfg rc ob p s = (Inr (), s')"
proof (cases "fmlookup (GetAnnotations p) AnnotationHostKey")
  case (Some h)
  let ?sel = "pod_selectors (Resolve E (ns_reader memory_kube s) cfg p) p"
  have m: "\<exists>v'. mutateOauth2Service ?sel v = Inr v' \<and> key_of v' = key_of v"
    "\<exists>r'. mutateHTTPRouteForStatefulSetPod E p rc r = Inr r' \<and> key_of r' = key_of r" for v r
    by (simp_all add: mutateOauth2Service_def mutateHTTPRouteForStatefulSetPod_def Some finish_route_fields)
  obtain t where 1: "reconcileOwnedResource memory_kube (services memory_kube) pod_type p (oauth2ServiceObject E p)
      (mutateOauth2Service ?sel) s = (Inr (), t)"
    using memory_reconcile_total [OF m(1)] unfolding memory_stores by blast
  obtain s' where 2: "reconcileOwnedResource memory_kube (httproutes memory_kube) pod_type p
      (httpRouteForStatefulSetPodObject E p ob) (mutateHTTPRouteForStatefulSetPod E p rc) t = (Inr (), s')"
    using memory_reconcile_total [OF m(2)] unfolding memory_stores by blast
  have "\<exists>s'. reconcileHTTPRouteForStatefulSetPod E memory_kube rc p ob t = (Inr (), s')"
    using 2 by (cases "ShallCreateHTTPRoute rc") (simp_all add: reconcileHTTPRouteForStatefulSetPod_def)
  with 1 Some show ?thesis by (simp add: reconcile_pod_def Let_def and_then_Inr_iff)
qed (simp add: reconcile_pod_def)

lemma for_each_total:
  assumes "\<And>x s. \<exists>s'. f x s = (Inr (), s')"
  shows "\<exists>s'. for_each f xs s = (Inr (), s')"
proof (induction xs arbitrary: s)
  case (Cons x xs)
  obtain t where "f x s = (Inr (), t)" using assms by blast
  moreover obtain s' where "for_each f xs t = (Inr (), s')" using Cons by blast
  ultimately show ?case by (auto simp: and_then_Inr_iff)
qed simp

lemma sts_reconcile_total:
  "\<exists>s'. reconcileStatefulSetDependencies sample_env sample_yaml (\<lambda>_. Some 0) memory_kube sample_config
     sample_sts s = (Inr (), s')"
proof -
  let ?sts = sample_sts and ?Y = sample_yaml and ?E = sample_env
  let ?rc = "Resolve ?E (ns_reader memory_kube s) sample_config ?sts"
  have live: "GetDeletionTimestamp ?sts = None" by (simp add: sample_sts_def obj_defs)
  have m: "\<exists>ob'. mutateOauth2Secret ?E (\<lambda>_. Some 0) ?rc ob = Inr ob' \<and> key_of ob' = key_of ob"
    "\<exists>ob'. mutateResourceAttributesSecret ?Y ow (GetNamespace ow) ob = Inr ob' \<and> key_of ob' = key_of ob"
    for ob and ow :: object_meta
    by (simp_all add: mutateOauth2Secret_def mutateResourceAttributesSecret_def Let_def)
  note total = memory_reconcile_total [OF m(1)]
    memory_reconcile_total [where f = "mutateResourceAttributesSecret ?Y ow (GetNamespace ow)" for ow, OF m(2)]

  obtain s1 where 1: "reconcile_oauth2_secret ?E (\<lambda>_. Some 0) memory_kube ?rc statefulset_type (meta_of ?sts)
      s = (Inr (), s1)"
    using total(1) unfolding reconcile_oauth2_secret_def memory_stores wrapping_Inr_iff by blast
  have p: "\<exists>items. listed (pods memory_kube) s1 ow l = Inr items" for ow :: object_meta and l
    by (simp add: listed_def memory_kube_def list_store_def)
  obtain l items where l: "sts_Selector ?sts = Some l" and items: "listed (pods memory_kube) s1 (meta_of ?sts) (MatchLabels l) = Inr items"
    using p by (fastforce simp: sample_sts_def object_meta.extend_def)
  obtain s1' where pods: "for_each (reconcile_pod ?E memory_kube sample_config ?rc (meta_of ?sts)) items s1 = (Inr (), s1')"
    using for_each_total [where f = "reconcile_pod ?E memory_kube sample_config ?rc (meta_of ?sts)", OF memory_pod_total] by blast
  obtain s2 where 2: "reconcile_attributes ?E ?Y memory_kube statefulset_type (meta_of ?sts) s1' = (Inr (), s2)"
    using total(2) unfolding reconcile_attributes_def memory_stores wrapping_Inr_iff by blast
  have vpa: "\<not> IsGroupRegistered memory_kube g" for g by (simp add: memory_kube_def)
  have opt: "\<not> needsKubeconfigSecret ?rc" "\<not> needsOidcCaBundleSecret ?rc"
    by (simp_all add: sample_no_optional_secrets sample_sts_rc)
  from 1 pods 2 l items vpa live opt show ?thesis
    by (simp add: reconcileStatefulSetDependencies_def Let_def and_then_Inr_iff
        reconcile_kubeconfig_def reconcile_oidc_ca_def when_true_def)
qed

end
