(* ===== verification/Watch_Properties.thy ===== *)
theory Watch_Properties
  imports Watches Memory_Upsert
begin

text \<open>
  What the watches are for: an object the deployment reconciler has written is owned and labelled so
  that its removal puts the deployment into the queue, and the reconcile of that request restores it.
\<close>

subsection \<open>Objects that a reconcile has written\<close>

text \<open>A read returns the object of the key it was asked for.\<close>

definition keyed :: "('s, 'a object_meta_scheme) store \<Rightarrow> bool" where
  "keyed S \<longleftrightarrow> (\<forall>s k x. Get S s k = Inr x \<longrightarrow> key_of x = k)"

definition owned_by_type :: "runtime \<Rightarrow> string \<Rightarrow> 'b object_meta_scheme \<Rightarrow> 'a object_meta_scheme \<Rightarrow> bool" where
  "owned_by_type R ty owner ob \<longleftrightarrow>
     GetNamespace ob = GetNamespace owner \<and>
     (\<exists>r \<in> set (GetOwnerReferences ob). or_Kind r = kind_of_type R ty \<and> or_Name r = GetName owner)"

context settling_mutation
begin

lemma reconciled_watchable:
  assumes laws: "owner_laws (SetOwnerReference K)" "create_or_update_laws admit S" "keyed S" "reference_laws R K"
    and "admit obj = obj"
    and ok: "reconcileOwnedResource K S ty owner obj mutate s = (Inr (), s')"
    and ns: "GetNamespace obj = GetNamespace owner"
  obtains cur m where "Get S s' (key_of obj) = Inr cur" "owned_by_type R ty owner cur"
    "mutate cur = Inr m" "GetLabels cur = GetLabels m"
proof -
  obtain cur where cur: "Get S s' (key_of obj) = Inr cur" and settled: "settled_for mutate admit K ty owner cur"
    using reconciled_settled [OF laws(1,2) assms(5) ok] by blast
  obtain m refs where m: "mutate cur = Inr m" and eq: "admit (m\<lparr>GetOwnerReferences := refs\<rparr>) = cur"
    and refs: "SetOwnerReference K ty (meta_of owner) (meta_of m) = Inr refs"
    using settled by (auto simp: settled_for_def owned_step_def own_def res_bind_Inr_iff)
  have "GetOwnerReferences cur = refs" "GetLabels cur = GetLabels m"
    by (subst eq [symmetric], simp add: admit_meta)+
  moreover have "\<exists>r \<in> set refs. or_Kind r = kind_of_type R ty \<and> or_Name r = GetName owner"
    using laws(4) [unfolded reference_laws_def] refs by fastforce
  moreover have "GetNamespace cur = GetNamespace owner"
    using laws(3) [unfolded keyed_def] cur ns by (metis prod.inject)
  ultimately show ?thesis using that [OF cur _ m] by (simp add: owned_by_type_def)
qed

end

text \<open>Such an object, when it carries the label, is delivered by the cache and enqueues its owner on every event that is not an update.\<close>

lemma deployment_enqueued:
  assumes "runtime_laws R" "arrival ev" "owned_by_type R deployment_type d cur"
    and "fmlookup (GetLabels cur) LabelKey \<noteq> None"
  shows "key_of d \<in> set (filtered R [fetchPredicates E client cfg ev (meta_of cur), ResourceVersionChangedPredicate R ev]
      (EnqueueRequestForOwner R deployment_type (meta_of cur)))"
proof -
  obtain r where "r \<in> set (GetOwnerReferences cur)" "or_Kind r = kind_of_type R deployment_type"
    "or_Name r = GetName d" "GetNamespace cur = GetNamespace d"
    using assms(3) by (auto simp: owned_by_type_def)
  with owner_enqueued [OF assms(1), of r cur deployment_type] show ?thesis
    by (simp add: watch_passes [OF assms(1,2,4)])
qed

lemmas controller_cases = addDeploymentController_def Let_def watched.case meta.simps delivered_dependents

context labelled_mutation
begin

lemma removal_enqueues:
  assumes laws: "owner_laws (SetOwnerReference K)" "create_or_update_laws admit S" "keyed S" "reference_laws R K"
      "runtime_laws R" "arrival ev" and "admit obj = obj"
    and ok: "reconcileOwnedResource K S deployment_type d obj mutate s = (Inr (), s')"
    and ns: "GetNamespace obj = GetNamespace d"
  shows "\<exists>cur. Get S s' (key_of obj) = Inr cur \<and>
    key_of d \<in> set (if \<not> fmlookup (GetLabels cur) LabelKey = Some LabelValue then []
      else filtered R [fetchPredicates E client cfg ev (meta_of cur), ResourceVersionChangedPredicate R ev]
        (EnqueueRequestForOwner R deployment_type (meta_of cur)))"
proof -
  obtain cur m where cur: "Get S s' (key_of obj) = Inr cur" "owned_by_type R deployment_type d cur"
    "mutate cur = Inr m" "GetLabels cur = GetLabels m"
    by (rule reconciled_watchable [OF laws(1-4) assms(7) ok ns])
  then have "fmlookup (GetLabels cur) LabelKey = Some LabelValue" using labelled by simp
  with cur(1) deployment_enqueued [OF laws(5,6) cur(2)] show ?thesis by auto
qed

end

lemmas dependent_objects = oauth2SecretObject_def resourceAttributesSecretObject_def kubeconfigSecretObject_def
  oidcCaBundleSecretObject_def oauth2ServiceObject_def httpRouteForDeploymentObject_def obj_defs

lemma dependent_namespaces [simp]:
  "GetNamespace (oauth2SecretObject E ob) = GetNamespace ob"
  "GetNamespace (resourceAttributesSecretObject E ob) = GetNamespace ob"
  "GetNamespace (kubeconfigSecretObject E ob) = GetNamespace ob"
  "GetNamespace (oidcCaBundleSecretObject E ob) = GetNamespace ob"
  "GetNamespace (oauth2ServiceObject E ob) = GetNamespace ob"
  "GetNamespace (httpRouteForDeploymentObject E ob) = GetNamespace ob"
  by (simp_all add: dependent_objects)

lemma mutate_selected_Some: "mutate_selected (Some l) = mutateOauth2Service (MatchLabels l)"
  by (rule ext) (simp add: mutate_selected_def)

text \<open>The laws of the client that the dependent objects need.\<close>

definition dependent_laws :: "'s kube \<Rightarrow> bool" where
  "dependent_laws K \<longleftrightarrow>
     owner_laws (SetOwnerReference K) \<and> create_or_update_laws merge_string_data (secrets K) \<and> keyed (secrets K) \<and>
     create_or_update_laws (\<lambda>x. x) (services K) \<and> keyed (services K) \<and>
     create_or_update_laws (\<lambda>x. x) (httproutes K) \<and> keyed (httproutes K)"

lemma secret_objects_admitted [simp]:
  "merge_string_data (oauth2SecretObject E ob) = oauth2SecretObject E ob"
  "merge_string_data (resourceAttributesSecretObject E ob) = resourceAttributesSecretObject E ob"
  "merge_string_data (kubeconfigSecretObject E ob) = kubeconfigSecretObject E ob"
  "merge_string_data (oidcCaBundleSecretObject E ob) = oidcCaBundleSecretObject E ob"
  by (simp_all add: merge_string_data_fixed dependent_objects)

lemma dependents_enqueue:
  assumes laws: "dependent_laws K" "reference_laws R K" "runtime_laws R" and ev: "arrival ev"
  shows "(reconcile_oauth2_secret E rnd K rc deployment_type d s = (Inr (), s') \<longrightarrow>
      (\<exists>cur. Get (secrets K) s' (key_of (oauth2SecretObject E d)) = Inr cur \<and>
        key_of d \<in> set (addDeploymentController E K R opts cfg ev (SecretObj cur) t))) \<and>
    (reconcile_attributes E Y K deployment_type d s = (Inr (), s') \<longrightarrow>
      (\<exists>cur. Get (secrets K) s' (key_of (resourceAttributesSecretObject E d)) = Inr cur \<and>
        key_of d \<in> set (addDeploymentController E K R opts cfg ev (SecretObj cur) t))) \<and>
    (needsKubeconfigSecret rc \<longrightarrow> reconcile_kubeconfig E Y K rc deployment_type d s = (Inr (), s') \<longrightarrow>
      (\<exists>cur. Get (secrets K) s' (key_of (kubeconfigSecretObject E d)) = Inr cur \<and>
        key_of d \<in> set (addDeploymentController E K R opts cfg ev (SecretObj cur) t))) \<and>
    (needsOidcCaBundleSecret rc \<longrightarrow> reconcile_oidc_ca E K rc deployment_type d s = (Inr (), s') \<longrightarrow>
      (\<exists>cur. Get (secrets K) s' (key_of (oidcCaBundleSecretObject E d)) = Inr cur \<and>
        key_of d \<in> set (addDeploymentController E K R opts cfg ev (SecretObj cur) t))) \<and>
    (reconcileOwnedResource K (services K) deployment_type d (oauth2ServiceObject E d) (mutate_selected (Some l)) s
        = (Inr (), s') \<longrightarrow>
      (\<exists>cur. Get (services K) s' (key_of (oauth2ServiceObject E d)) = Inr cur \<and>
        key_of d \<in> set (addDeploymentController E K R opts cfg ev (ServiceObj cur) t))) \<and>
    (ShallCreateHTTPRoute rc \<longrightarrow> reconcileHTTPRouteForDeployment E K rc d s = (Inr (), s') \<longrightarrow>
      (\<exists>cur. Get (httproutes K) s' (key_of (httpRouteForDeploymentObject E d)) = Inr cur \<and>
        (key_of d \<in> set (addDeploymentController E K R opts cfg ev (HTTPRouteObj cur) t) \<longleftrightarrow>
         fmlookup (GetHTTPRouteLabels rc) LabelKey \<in> {None, Some LabelValue})))"
proof -
  note K = laws(1) [unfolded dependent_laws_def]
  have o: "owner_laws (SetOwnerReference K)" and S: "create_or_update_laws merge_string_data (secrets K)" "keyed (secrets K)"
    and V: "create_or_update_laws (\<lambda>x. x) (services K)" "keyed (services K)"
    and H: "create_or_update_laws (\<lambda>x. x) (httproutes K)" "keyed (httproutes K)" using K by simp_all
  note secret = o S laws(2,3) ev
  note service = o V laws(2,3) ev
  have route: "\<exists>cur. Get (httproutes K) s' (key_of (httpRouteForDeploymentObject E d)) = Inr cur \<and>
      (key_of d \<in> set (addDeploymentController E K R opts cfg ev (HTTPRouteObj cur) t) \<longleftrightarrow>
       fmlookup (GetHTTPRouteLabels rc) LabelKey \<in> {None, Some LabelValue})"
    if r: "reconcileOwnedResource K (httproutes K) deployment_type d (httpRouteForDeploymentObject E d)
      (mutateHTTPRouteForDeployment E d rc) s = (Inr (), s')"
  proof -
    obtain cur m where cur: "Get (httproutes K) s' (key_of (httpRouteForDeploymentObject E d)) = Inr cur"
      "owned_by_type R deployment_type d cur" "mutateHTTPRouteForDeployment E d rc cur = Inr m" "GetLabels cur = GetLabels m"
      by (rule deployment_route.reconciled_watchable [OF o H laws(2) refl r]) (simp add: dependent_objects)
    have label: "fmlookup (GetLabels cur) LabelKey =
        (case fmlookup (GetHTTPRouteLabels rc) LabelKey of None \<Rightarrow> Some LabelValue | Some v \<Rightarrow> Some v)"
      using cur(3,4) build_route_label unfolding mutateHTTPRouteForDeployment_build by (metis sum.inject(2))
    then have "fmlookup (GetLabels cur) LabelKey \<noteq> None" by (simp split: option.splits)
    from deployment_enqueued [OF laws(3) ev cur(2) this] label cur(1) show ?thesis
      unfolding controller_cases by (auto split: option.splits)
  qed
  show ?thesis
    unfolding reconcile_oauth2_secret_def reconcile_attributes_def reconcile_kubeconfig_def reconcile_oidc_ca_def
      reconcileHTTPRouteForDeployment_def when_true_def mutate_selected_Some
  proof (intro conjI impI, goal_cases)
    case 1
    then show ?case unfolding wrapping_Inr_iff controller_cases
      by (intro oauth2_secret.removal_enqueues [OF secret]) simp_all
  next
    case 2
    then show ?case unfolding wrapping_Inr_iff controller_cases
      by (intro attributes_secret.removal_enqueues [OF secret]) simp_all
  next
    case 3
    then show ?case unfolding controller_cases
      by (intro kubeconfig_secret.removal_enqueues [OF secret]) simp_all
  next
    case 4
    then show ?case unfolding controller_cases by (intro ca_secret.removal_enqueues [OF secret]) simp_all
  next
    case 5
    then show ?case unfolding controller_cases by (intro oauth2_service.removal_enqueues [OF service]) simp_all
  next
    case 6
    then show ?case by (intro route) simp_all
  qed
qed

text \<open>C7 (dependents are watched). Whatever object a successful step of the deployment reconciler has
  written - each of the four secrets, the service and the route - the stored object passes the selector of
  the manager's cache and puts the deployment into the queue of its controller when it is created,
  deleted or announced. The one exception is a route whose target overrides the controller's label with
  another value among the extra labels: such a route is never delivered.\<close>

theorem dependents_watched:
  assumes laws: "dependent_laws K" "reference_laws R K" "runtime_laws R" and ev: "arrival ev"
  shows "(reconcile_oauth2_secret E rnd K rc deployment_type d s = (Inr (), s') \<longrightarrow>
      (\<exists>cur. Get (secrets K) s' (key_of (oauth2SecretObject E d)) = Inr cur \<and>
        key_of d \<in> set (addDeploymentController E K R opts cfg ev (SecretObj cur) t))) \<and>
    (reconcile_attributes E Y K deployment_type d s = (Inr (), s') \<longrightarrow>
      (\<exists>cur. Get (secrets K) s' (key_of (resourceAttributesSecretObject E d)) = Inr cur \<and>
        key_of d \<in> set (addDeploymentController E K R opts cfg ev (SecretObj cur) t))) \<and>
    (needsKubeconfigSecret rc \<longrightarrow> reconcile_kubeconfig E Y K rc deployment_type d s = (Inr (), s') \<longrightarrow>
      (\<exists>cur. Get (secrets K) s' (key_of (kubeconfigSecretObject E d)) = Inr cur \<and>
        key_of d \<in> set (addDeploymentController E K R opts cfg ev (SecretObj cur) t))) \<and>
    (needsOidcCaBundleSecret rc \<longrightarrow> reconcile_oidc_ca E K rc deployment_type d s = (Inr (), s') \<longrightarrow>
      (\<exists>cur. Get (secrets K) s' (key_of (oidcCaBundleSecretObject E d)) = Inr cur \<and>
        key_of d \<in> set (addDeploymentController E K R opts cfg ev (SecretObj cur) t))) \<and>
    (reconcileOwnedResource K (services K) deployment_type d (oauth2ServiceObject E d) (mutate_selected (Some l)) s
        = (Inr (), s') \<longrightarrow>
      (\<exists>cur. Get (services K) s' (key_of (oauth2ServiceObject E d)) = Inr cur \<and>
        key_of d \<in> set (addDeploymentController E K R opts cfg ev (ServiceObj cur) t))) \<and>
    (ShallCreateHTTPRoute rc \<longrightarrow> reconcileHTTPRouteForDeployment E K rc d s = (Inr (), s') \<longrightarrow>
      (\<exists>cur. Get (httproutes K) s' (key_of (httpRouteForDeploymentObject E d)) = Inr cur \<and>
        (key_of d \<in> set (addDeploymentController E K R opts cfg ev (HTTPRouteObj cur) t) \<longleftrightarrow>
         fmlookup (GetHTTPRouteLabels rc) LabelKey \<in> {None, Some LabelValue})))"
  by (rule dependents_enqueue [OF assms])


subsection \<open>The sample cluster\<close>

text \<open>A runtime that keeps its laws, with the kinds of the client over lists.\<close>

definition sample_runtime :: runtime where
  "sample_runtime =
     \<lparr>kind_of_type = drop 4,
      EnqueueRequestForObject = (\<lambda>ob. [key_of ob]),
      EnqueueRequestForOwner = (\<lambda>ty ob. map (\<lambda>r. (GetNamespace ob, or_Name r))
        (filter (\<lambda>r. or_Kind r = drop 4 ty) (GetOwnerReferences ob))),
      ResourceVersionChangedPredicate = (\<lambda>ev. case ev of
        UpdateEvent old new \<Rightarrow> ResourceVersion old \<noteq> ResourceVersion new | _ \<Rightarrow> True),
      run_predicates = (\<lambda>bs. \<forall>b \<in> set bs. b), parsed_selector = (\<lambda>_ _. True)\<rparr>"

lemma sample_runtime_laws: "runtime_laws sample_runtime"
  by (auto simp: runtime_laws_def sample_runtime_def)

lemma memory_reference_laws: "reference_laws sample_runtime memory_kube"
  by (force simp: reference_laws_def sample_runtime_def memory_kube_def add_owner_def Let_def split: if_splits)

lemma list_store_keyed: "keyed (list_store get put)"
  by (auto simp: keyed_def list_store_def list_get_def find_Some_iff has_key_def split: option.splits)

lemma memory_dependent_laws: "dependent_laws memory_kube"
  using memory_owner_laws memory_store_laws
  by (simp add: dependent_laws_def memory_stores list_store_keyed)

lemma sample_secret_total:
  "\<exists>s'. reconcile_oauth2_secret sample_env (\<lambda>_. Some 0) memory_kube sample_rc deployment_type sample_deployment s = (Inr (), s')"
  using memory_reconcile_total [of "mutateOauth2Secret sample_env (\<lambda>_. Some 0) sample_rc"]
  unfolding reconcile_oauth2_secret_def memory_stores wrapping_Inr_iff
  by (simp add: mutateOauth2Secret_def Let_def)

theorem dependents_watched_witness:
  "\<exists>s' cur. reconcile_oauth2_secret sample_env (\<lambda>_. Some 0) memory_kube sample_rc deployment_type sample_deployment
       sample_cluster = (Inr (), s') \<and>
     Get (secrets memory_kube) s' (key_of (oauth2SecretObject sample_env sample_deployment)) = Inr cur \<and>
     (''apps'', ''demo'') \<in> set (addDeploymentController sample_env memory_kube sample_runtime AddFlags (Some sample_config)
       DeleteEvent (SecretObj cur) empty_cluster)"
proof -
  obtain s' where s': "reconcile_oauth2_secret sample_env (\<lambda>_. Some 0) memory_kube sample_rc deployment_type
      sample_deployment sample_cluster = (Inr (), s')" using sample_secret_total by blast
  have "key_of sample_deployment = (''apps'', ''demo'')" by (simp add: sample_defs)
  with dependents_watched [OF memory_dependent_laws memory_reference_laws sample_runtime_laws, of DeleteEvent] s'
  show ?thesis by (fastforce simp: arrival_def)
qed

subsection \<open>Self-healing\<close>

lemma Deployment_Reconcile_live:
  assumes "Get (deployments K) s (key_of d) = Inr d" "GetName d \<noteq> []"
    and "Match E (ns_reader K s) (rec_Config c) d" "GetDeletionTimestamp d = None" "hasOidcAppsPods K d s"
  shows "Deployment_Reconcile E Y rnd K c (key_of d) s =
    and_then (ensureRegistrySecret K (RegistrySecretName c) (ControllerNamespace c) (GetNamespace d))
      (\<lambda>_. case rec_Config c of
         None \<Rightarrow> throw (Panic ''nil pointer dereference'')
       | Some cfg \<Rightarrow> reconcileDeploymentDependencies E Y rnd K cfg d) s"
  using assms by (simp add: Deployment_Reconcile_def get_or_zero_def)

text \<open>C6 (a deleted secret comes back). Let the configuration secret of a deployment, written by an
  earlier reconcile, be deleted while the deployment is a target with proxied pods. The delete event
  enqueues a request, and every reconcile of that request that succeeds leaves the secret in place
  again.\<close>

theorem deleted_secret_restored:
  assumes laws: "dependent_laws K" "reference_laws R K" "runtime_laws R" "upsert_laws K"
    and written: "reconcile_oauth2_secret E rnd0 K rc0 deployment_type d t = (Inr (), t')"
      "Get (secrets K) t' (key_of (oauth2SecretObject E d)) = Inr old"
    and target: "Get (deployments K) s (key_of d) = Inr d" "GetName d \<noteq> []"
      "Match E (ns_reader K s) (rec_Config c) d" "GetDeletionTimestamp d = None" "hasOidcAppsPods K d s"
  shows "key_of d \<in> set (addDeploymentController E K R opts (rec_Config c) DeleteEvent (SecretObj old) s) \<and>
    (\<forall>s'. Deployment_Reconcile E Y rnd K c (key_of d) s = (Inr (), s') \<longrightarrow>
      present K (key_of (oauth2SecretObject E d)) s')"
proof (intro conjI allI impI)
  show "key_of d \<in> set (addDeploymentController E K R opts (rec_Config c) DeleteEvent (SecretObj old) s)"
    using dependents_enqueue [OF laws(1-3), of DeleteEvent] written by (fastforce simp: arrival_def)
next
  fix s'
  assume "Deployment_Reconcile E Y rnd K c (key_of d) s = (Inr (), s')"
  then obtain cfg s1 where ok: "reconcileDeploymentDependencies E Y rnd K cfg d s1 = (Inr (), s')"
    unfolding Deployment_Reconcile_live [OF target]
    by (auto simp: and_then_Inr_iff throw_def split: option.splits)
  have "present K (GetNamespace d, GetName (oauth2SecretObject E d)) s'"
    by (rule deployment_secrets_present [OF laws(4) ok target(4)]) (simp add: generated_secrets_def)
  then show "present K (key_of (oauth2SecretObject E d)) s'" by (simp add: dependent_objects)
qed

text \<open>The sample cluster after its pod was admitted: it has the sidecar.\<close>

definition proxied_pod :: pod where
  "proxied_pod = sample_pod\<lparr>pod_Spec := \<lparr>Containers = [empty_container\<lparr>c_Name := ContainerNameOauth2Proxy\<rparr>],
     Volumes = [], ImagePullSecrets = []\<rparr>\<rparr>"

definition proxied_cluster :: cluster where
  "proxied_cluster = sample_cluster\<lparr>cl_pods := [proxied_pod]\<rparr>"

definition open_reconciler :: reconciler_conf where
  "open_reconciler = \<lparr>rec_Config = Some sample_config, RegistrySecretName = '''', ControllerNamespace = ''oidc-system''\<rparr>"

lemma proxied_has_pods: "hasOidcAppsPods memory_kube sample_deployment proxied_cluster"
  by (simp add: hasOidcAppsPods_def listed_def memory_kube_def list_store_def proxied_cluster_def proxied_pod_def
      isOidcAppPod_def selected_def carries_iff list_get_def has_key_def sample_defs empty_cluster_def)

lemma proxied_target:
  "Get (deployments memory_kube) proxied_cluster (key_of sample_deployment) = Inr sample_deployment"
  "GetName sample_deployment \<noteq> []" "GetDeletionTimestamp sample_deployment = None"
  by (simp_all add: memory_kube_def list_store_def list_get_def has_key_def proxied_cluster_def sample_defs)

theorem deleted_secret_restored_witness:
  "\<exists>s'. Deployment_Reconcile sample_env sample_yaml (\<lambda>_. Some 0) memory_kube open_reconciler
       (''apps'', ''demo'') proxied_cluster = (Inr (), s') \<and>
     present memory_kube (key_of (oauth2SecretObject sample_env sample_deployment)) s'"
proof -
  let ?d = sample_deployment and ?c = open_reconciler
  have m: "Match sample_env (ns_reader memory_kube proxied_cluster) (rec_Config ?c) ?d"
    using sample_Match by (simp add: open_reconciler_def)
  obtain t' where t': "reconcile_oauth2_secret sample_env (\<lambda>_. Some 0) memory_kube sample_rc deployment_type ?d
      proxied_cluster = (Inr (), t')" using sample_secret_total by blast
  obtain old where old: "Get (secrets memory_kube) t' (key_of (oauth2SecretObject sample_env ?d)) = Inr old"
    using dependents_enqueue [OF memory_dependent_laws memory_reference_laws sample_runtime_laws, of DeleteEvent] t'
    by (fastforce simp: arrival_def)
  obtain s' where s': "sample_reconcile proxied_cluster = (Inr (), s')" using sample_reconcile_total by blast
  have run: "Deployment_Reconcile sample_env sample_yaml (\<lambda>_. Some 0) memory_kube ?c (key_of ?d) proxied_cluster = (Inr (), s')"
    using s' unfolding Deployment_Reconcile_live [OF proxied_target(1,2) m proxied_target(3) proxied_has_pods]
    by (simp add: open_reconciler_def ensureRegistrySecret_def sample_reconcile_def)
  have "key_of ?d = (''apps'', ''demo'')" by (simp add: sample_defs)
  with run deleted_secret_restored [OF memory_dependent_laws memory_reference_laws sample_runtime_laws memory_upsert_laws
      t' old proxied_target(1,2) m proxied_target(3) proxied_has_pods] show ?thesis by metis
qed

end
