(* ===== verification/Convergence.thy ===== *)
theory Convergence
  imports Controller_Properties Watch_Properties
begin

text \<open>
  A whole reconcile of the dependencies of a workload, run twice. The steps of
  \<open>reconcileDeploymentDependencies\<close> and \<open>reconcileStatefulSetDependencies\<close> are listed as data, each with
  the object it writes; a locale states what a list of such steps needs in order to come to rest.
\<close>

subsection \<open>Lists of steps that come to rest\<close>

text \<open>
  \<open>look\<close> is what can be read of the state, \<open>target\<close> the place a step writes, \<open>settled\<close> what the step leaves
  there. A first run may have other parameters than the second one.
\<close>

locale converging =
  fixes look :: "'s \<Rightarrow> 'r \<Rightarrow> 'c" and target :: "'i \<Rightarrow> 'r" and settled :: "'i \<Rightarrow> 'c \<Rightarrow> bool"
    and first again :: "'i \<Rightarrow> ('s, unit) go"
  assumes settles: "first i s = (Inr (), s') \<Longrightarrow> settled i (look s' (target i))"
    and first_frame: "first i s = (Inr (), s') \<Longrightarrow> r \<noteq> target i \<Longrightarrow> look s' r = look s r"
    and rests: "settled i (look s (target i)) \<Longrightarrow> again i s = (Inr (), s') \<Longrightarrow> look s' = look s"
begin

lemma first_untouched:
  assumes "for_each first is s = (Inr (), s')" "r \<notin> target ` set is"
  shows "look s' r = look s r"
  using assms by (induction "is" arbitrary: s) (auto simp: and_then_Inr_iff first_frame)

lemma first_settles:
  assumes "for_each first is s = (Inr (), s')" "distinct (map target is)" "i \<in> set is"
  shows "settled i (look s' (target i))"
  using assms
proof (induction "is" arbitrary: s)
  case (Cons a as)
  then obtain t where t: "first a s = (Inr (), t)" "for_each first as t = (Inr (), s')"
    by (auto simp: and_then_Inr_iff)
  with Cons show ?case using settles [OF t(1)] first_untouched [OF t(2), of "target a"] by auto
qed simp

lemma again_rests:
  assumes "for_each again is s = (Inr (), s')" "\<And>i. i \<in> set is \<Longrightarrow> settled i (look s (target i))"
  shows "look s' = look s"
  using assms
proof (induction "is" arbitrary: s)
  case (Cons a as)
  then obtain t where t: "again a s = (Inr (), t)" "for_each again as t = (Inr (), s')"
    by (auto simp: and_then_Inr_iff)
  have "look t = look s" using rests [OF _ t(1)] Cons.prems(2) by simp
  with Cons.IH [OF t(2)] Cons.prems(2) show ?case by simp
qed simp

end

subsection \<open>What is read of the cluster\<close>

datatype resource = SecretAt key | ServiceAt key | RouteAt key | NamespaceAt key | PodsUnder list_options

datatype content = SecretIs "secret res" | ServiceIs "service res" | RouteIs "http_route res"
  | NamespaceIs "object_meta res" | PodsAre "pod list res"

fun look :: "'s kube \<Rightarrow> 's \<Rightarrow> resource \<Rightarrow> content" where
  "look K s (SecretAt k) = SecretIs (Get (secrets K) s k)"
| "look K s (ServiceAt k) = ServiceIs (Get (services K) s k)"
| "look K s (RouteAt k) = RouteIs (Get (httproutes K) s k)"
| "look K s (NamespaceAt k) = NamespaceIs (Get (namespaces K) s k)"
| "look K s (PodsUnder opts) = PodsAre (List (pods K) s opts)"

text \<open>A write that succeeded changed the object it is about; an empty patch of an autoscaler changed none
  of these.\<close>

definition write_frame :: "'s kube \<Rightarrow> ('s, 'a object_meta_scheme) store \<Rightarrow> (key \<Rightarrow> resource) \<Rightarrow> bool" where
  "write_frame K S at \<longleftrightarrow>
     (\<forall>ob f s s' r. CreateOrUpdate S ob f s = (Inr (), s') \<longrightarrow> r \<noteq> at (key_of ob) \<longrightarrow> look K s' r = look K s r)"

definition convergence_laws :: "'s kube \<Rightarrow> bool" where
  "convergence_laws K \<longleftrightarrow>
     owner_laws (SetOwnerReference K) \<and>
     create_or_update_laws merge_string_data (secrets K) \<and> write_frame K (secrets K) SecretAt \<and>
     create_or_update_laws (\<lambda>x. x) (services K) \<and> write_frame K (services K) ServiceAt \<and>
     create_or_update_laws (\<lambda>x. x) (httproutes K) \<and> write_frame K (httproutes K) RouteAt \<and>
     (\<forall>v s s'. PatchEmpty K v s = (Inr (), s') \<longrightarrow> look K s' = look K s)"

lemma resolve_look:
  assumes "look K s' = look K s"
  shows "ns_reader K s' = ns_reader K s" "List (pods K) s' = List (pods K) s"
proof -
  have "look K s' (NamespaceAt k) = look K s (NamespaceAt k)" "look K s' (PodsUnder opts) = look K s (PodsUnder opts)"
    for k opts by (simp_all add: assms)
  then show "ns_reader K s' = ns_reader K s" "List (pods K) s' = List (pods K) s" by (auto simp: ns_reader_def)
qed

subsection \<open>One step\<close>

interpretation selected_service: settling_mutation "mutate_selected sel" "\<lambda>x. x" for sel
  by unfold_locales (auto simp: mutate_selected_def mutateOauth2Service_def split: option.splits)

definition settled_res ::
  "('a object_meta_scheme \<Rightarrow> 'a object_meta_scheme res) \<Rightarrow> ('a object_meta_scheme \<Rightarrow> 'a object_meta_scheme)
     \<Rightarrow> 's kube \<Rightarrow> string \<Rightarrow> 'b object_meta_scheme \<Rightarrow> 'a object_meta_scheme res \<Rightarrow> bool" where
  "settled_res mutate admit K ty owner r = (case r of Inl _ \<Rightarrow> False | Inr cur \<Rightarrow> settled_for mutate admit K ty owner cur)"

context settling_mutation
begin

lemma step_settles:
  assumes "owner_laws (SetOwnerReference K)" "create_or_update_laws admit S" "admit obj = obj"
    and "reconcileOwnedResource K S ty owner obj mutate s = (Inr (), s')"
  shows "settled_res mutate admit K ty owner (Get S s' (key_of obj))"
  using reconciled_settled [OF assms] by (auto simp: settled_res_def)

lemma step_rests:
  assumes laws: "create_or_update_laws admit S" "write_frame K S at" and look: "\<And>t. look K t (at (key_of obj)) = is (Get S t (key_of obj))"
    and "settled_res mutate admit K ty owner (Get S s (key_of obj))"
    and ok: "reconcileOwnedResource K S ty owner obj mutate s = (Inr (), s')"
  shows "look K s' = look K s"
proof
  fix r
  obtain cur where cur: "Get S s (key_of obj) = Inr cur" "settled_for mutate admit K ty owner cur"
    using assms(4) by (auto simp: settled_res_def split: sum.splits)
  show "look K s' r = look K s r"
  proof (cases "r = at (key_of obj)")
    case True
    then show ?thesis using settled_again [OF laws(1) cur ok] cur(1) look by simp
  next
    case False
    then show ?thesis using laws(2) ok unfolding write_frame_def reconcileOwnedResource_def by blast
  qed
qed

end

lemma write_frameD:
  assumes "write_frame K S at" "reconcileOwnedResource K S ty owner obj mutate s = (Inr (), s')" "r \<noteq> at (key_of obj)"
  shows "look K s' r = look K s r"
  using assms unfolding write_frame_def reconcileOwnedResource_def by blast

subsection \<open>The steps of the two reconcilers\<close>

text \<open>The service of a pod is given the selector it gets.\<close>

datatype dependency = Oauth2Secret | AttributesSecret | KubeconfigSecret | OidcCaSecret
  | DeploymentService | DeploymentRoute | PodService pod smap | PodRoute pod

fun target_of :: "'e env_scheme \<Rightarrow> object_meta \<Rightarrow> dependency \<Rightarrow> resource" where
  "target_of E ob Oauth2Secret = SecretAt (key_of (oauth2SecretObject E ob))"
| "target_of E ob AttributesSecret = SecretAt (key_of (resourceAttributesSecretObject E ob))"
| "target_of E ob KubeconfigSecret = SecretAt (key_of (kubeconfigSecretObject E ob))"
| "target_of E ob OidcCaSecret = SecretAt (key_of (oidcCaBundleSecretObject E ob))"
| "target_of E ob DeploymentService = ServiceAt (key_of (oauth2ServiceObject E ob))"
| "target_of E ob DeploymentRoute = RouteAt (key_of (httpRouteForDeploymentObject E ob))"
| "target_of E ob (PodService p sel) = ServiceAt (key_of (oauth2ServiceObject E p))"
| "target_of E ob (PodRoute p) = RouteAt (key_of (httpRouteForStatefulSetPodObject E p ob))"

fun step_of ::
  "'e env_scheme \<Rightarrow> yaml_codec \<Rightarrow> (nat \<Rightarrow> nat option) \<Rightarrow> 's kube \<Rightarrow> resolved_config \<Rightarrow> string \<Rightarrow> object_meta
     \<Rightarrow> dependency \<Rightarrow> ('s, unit) go" where
  "step_of E Y rnd K rc ty ob Oauth2Secret = reconcile_oauth2_secret E rnd K rc ty ob"
| "step_of E Y rnd K rc ty ob AttributesSecret = reconcile_attributes E Y K ty ob"
| "step_of E Y rnd K rc ty ob KubeconfigSecret = wrapping ''failed to reconcile kubeconfig secret''
     (reconcileOwnedResource K (secrets K) ty ob (kubeconfigSecretObject E ob) (mutateKubeconfigSecret Y rc))"
| "step_of E Y rnd K rc ty ob OidcCaSecret = wrapping ''failed to reconcile oidc ca bundle secret''
     (reconcileOwnedResource K (secrets K) ty ob (oidcCaBundleSecretObject E ob) (mutateOidcCaBundleSecret rc))"
| "step_of E Y rnd K rc ty ob DeploymentService = wrapping ''failed to reconcile oauth2 service''
     (reconcileOwnedResource K (services K) ty ob (oauth2ServiceObject E ob) (mutate_selected (GetTargetLabelSelector rc)))"
| "step_of E Y rnd K rc ty ob DeploymentRoute = wrapping ''failed to reconcile oauth2 httproute''
     (reconcileOwnedResource K (httproutes K) ty ob (httpRouteForDeploymentObject E ob) (mutateHTTPRouteForDeployment E ob rc))"
| "step_of E Y rnd K rc ty ob (PodService p sel) = wrapping ''failed to reconcile oauth2 service''
     (reconcileOwnedResource K (services K) pod_type p (oauth2ServiceObject E p) (mutateOauth2Service sel))"
| "step_of E Y rnd K rc ty ob (PodRoute p) = wrapping ''failed to reconcile oauth2 httproute''
     (reconcileOwnedResource K (httproutes K) pod_type p (httpRouteForStatefulSetPodObject E p ob)
       (mutateHTTPRouteForStatefulSetPod E p rc))"

text \<open>What a step leaves: the object it writes, settled for its mutation; for the secret with the cookie,
  settled whatever randomness the next run draws.\<close>

fun settled_at ::
  "'e env_scheme \<Rightarrow> yaml_codec \<Rightarrow> 's kube \<Rightarrow> resolved_config \<Rightarrow> string \<Rightarrow> object_meta \<Rightarrow> dependency \<Rightarrow> content \<Rightarrow> bool" where
  "settled_at E Y K rc ty ob Oauth2Secret (SecretIs r) =
     (\<forall>rnd. settled_res (mutateOauth2Secret E rnd rc) merge_string_data K ty ob r)"
| "settled_at E Y K rc ty ob AttributesSecret (SecretIs r) =
     settled_res (mutateResourceAttributesSecret Y ob (GetNamespace ob)) merge_string_data K ty ob r"
| "settled_at E Y K rc ty ob KubeconfigSecret (SecretIs r) =
     settled_res (mutateKubeconfigSecret Y rc) merge_string_data K ty ob r"
| "settled_at E Y K rc ty ob OidcCaSecret (SecretIs r) =
     settled_res (mutateOidcCaBundleSecret rc) merge_string_data K ty ob r"
| "settled_at E Y K rc ty ob DeploymentService (ServiceIs r) =
     settled_res (mutate_selected (GetTargetLabelSelector rc)) (\<lambda>x. x) K ty ob r"
| "settled_at E Y K rc ty ob DeploymentRoute (RouteIs r) =
     settled_res (mutateHTTPRouteForDeployment E ob rc) (\<lambda>x. x) K ty ob r"
| "settled_at E Y K rc ty ob (PodService p sel) (ServiceIs r) =
     settled_res (mutateOauth2Service sel) (\<lambda>x. x) K pod_type p r"
| "settled_at E Y K rc ty ob (PodRoute p) (RouteIs r) =
     settled_res (mutateHTTPRouteForStatefulSetPod E p rc) (\<lambda>x. x) K pod_type p r"
| "settled_at E Y K rc ty ob _ _ = False"

lemma oauth2_settled:
  assumes laws: "owner_laws (SetOwnerReference K)" "create_or_update_laws merge_string_data (secrets K)"
    and ok: "reconcile_oauth2_secret E rnd K rc ty ob s = (Inr (), s')" and rnd: "\<And>i. rnd i \<noteq> None"
  shows "settled_res (mutateOauth2Secret E rnd' rc) merge_string_data K ty ob
    (Get (secrets K) s' (key_of (oauth2SecretObject E ob)))"
proof -
  obtain cur where cur: "Get (secrets K) s' (key_of (oauth2SecretObject E ob)) = Inr cur"
    and fixed: "settled_for (mutateOauth2Secret E rnd rc) merge_string_data K ty ob cur"
      "owned_step K ty ob (mutateOauth2Secret E rnd rc) cur = Inr cur"
    by (rule oauth2_reconciled [OF laws ok])
  have "mutateOauth2Secret E rnd' rc cur = mutateOauth2Secret E rnd rc cur"
    using stored_cookie [OF fixed(2) rnd] by (simp add: mutateOauth2Secret_def)
  with fixed(1) cur show ?thesis by (simp add: settled_res_def settled_for_def owned_step_def)
qed

lemmas step_defs = reconcile_oauth2_secret_def reconcile_attributes_def wrapping_Inr_iff

lemma step_frame:
  assumes "convergence_laws K" "step_of E Y rnd K rc ty ob i s = (Inr (), s')" "r \<noteq> target_of E ob i"
  shows "look K s' r = look K s r"
proof -
  have F: "write_frame K (secrets K) SecretAt" "write_frame K (services K) ServiceAt" "write_frame K (httproutes K) RouteAt"
    using assms(1) by (simp_all add: convergence_laws_def)
  show ?thesis
    using assms(2,3)
    by (cases i) (auto simp: step_defs simp del: dependent_namespaces
        dest: write_frameD [OF F(1)] write_frameD [OF F(2)] write_frameD [OF F(3)])
qed

lemma dependencies_converging:
  assumes laws: "convergence_laws K" and rnd: "\<And>i. rnd i \<noteq> None"
  shows "converging (look K) (target_of E ob) (settled_at E Y K rc ty ob) (step_of E Y rnd K rc ty ob)
    (step_of E Y rnd' K rc ty ob)"
proof
  note L = laws [unfolded convergence_laws_def]
  have o: "owner_laws (SetOwnerReference K)" and S: "create_or_update_laws merge_string_data (secrets K)"
    and V: "create_or_update_laws (\<lambda>x. x) (services K)" and H: "create_or_update_laws (\<lambda>x. x) (httproutes K)"
    and F: "write_frame K (secrets K) SecretAt" "write_frame K (services K) ServiceAt" "write_frame K (httproutes K) RouteAt"
    using L by simp_all
  fix i s s'
  show "settled_at E Y K rc ty ob i (look K s' (target_of E ob i))" if ok: "step_of E Y rnd K rc ty ob i s = (Inr (), s')"
  proof (cases i)
    case Oauth2Secret
    then show ?thesis using ok by (auto simp del: dependent_namespaces intro!: oauth2_settled [where rnd = rnd, OF o S _ rnd])
  next
    case AttributesSecret
    then show ?thesis using ok
      by (auto simp: step_defs simp del: dependent_namespaces
        intro!: attributes_secret.step_settles [OF o S secret_objects_admitted(2)])
  next
    case KubeconfigSecret
    then show ?thesis using ok by (auto simp del: dependent_namespaces intro!: kubeconfig_secret.step_settles [OF o S secret_objects_admitted(3)])
  next
    case OidcCaSecret
    then show ?thesis using ok by (auto simp del: dependent_namespaces intro!: ca_secret.step_settles [OF o S secret_objects_admitted(4)])
  next
    case DeploymentService
    then show ?thesis using ok by (auto simp del: dependent_namespaces intro!: selected_service.step_settles [OF o V refl])
  next
    case DeploymentRoute
    then show ?thesis using ok by (auto simp del: dependent_namespaces intro!: deployment_route.step_settles [OF o H refl])
  next
    case (PodService p sel)
    then show ?thesis using ok by (auto simp del: dependent_namespaces intro!: oauth2_service.step_settles [OF o V refl])
  next
    case (PodRoute p)
    then show ?thesis using ok by (auto simp del: dependent_namespaces intro!: pod_route.step_settles [OF o H refl])
  qed
  show "look K s' r = look K s r" if "step_of E Y rnd K rc ty ob i s = (Inr (), s')" "r \<noteq> target_of E ob i" for r
    by (rule step_frame [OF laws that])
  show "look K s' = look K s"
    if "settled_at E Y K rc ty ob i (look K s (target_of E ob i))" "step_of E Y rnd' K rc ty ob i s = (Inr (), s')"
  proof (cases i)
    case Oauth2Secret
    show ?thesis by (rule oauth2_secret.step_rests [OF S F(1) look.simps(1)]) (use that Oauth2Secret in \<open>auto simp: step_defs\<close>)
  next
    case AttributesSecret
    show ?thesis by (rule attributes_secret.step_rests [OF S F(1) look.simps(1)])
      (use that AttributesSecret in \<open>auto simp: step_defs\<close>)
  next
    case KubeconfigSecret
    show ?thesis by (rule kubeconfig_secret.step_rests [OF S F(1) look.simps(1)]) (use that KubeconfigSecret in auto)
  next
    case OidcCaSecret
    show ?thesis by (rule ca_secret.step_rests [OF S F(1) look.simps(1)]) (use that OidcCaSecret in auto)
  next
    case DeploymentService
    show ?thesis by (rule selected_service.step_rests [OF V F(2) look.simps(2)]) (use that DeploymentService in auto)
  next
    case DeploymentRoute
    show ?thesis by (rule deployment_route.step_rests [OF H F(3) look.simps(3)]) (use that DeploymentRoute in auto)
  next
    case (PodService p sel)
    show ?thesis by (rule oauth2_service.step_rests [OF V F(2) look.simps(2)]) (use that PodService in auto)
  next
    case (PodRoute p)
    show ?thesis by (rule pod_route.step_rests [OF H F(3) look.simps(3)]) (use that PodRoute in auto)
  qed
qed

subsection \<open>Deployments\<close>

lemma for_each_append: "for_each f (xs @ ys) = and_then (for_each f xs) (\<lambda>_. for_each f ys)"
  by (induction xs) (simp_all only: for_each.simps append.simps and_then_ret and_then_assoc)

definition optional_secrets :: "resolved_config \<Rightarrow> dependency list" where
  "optional_secrets rc =
     (if needsKubeconfigSecret rc then [KubeconfigSecret] else []) @ (if needsOidcCaBundleSecret rc then [OidcCaSecret] else [])"

definition deployment_steps :: "resolved_config \<Rightarrow> dependency list" where
  "deployment_steps rc =
     [Oauth2Secret, DeploymentService, AttributesSecret] @ optional_secrets rc
     @ (if ShallCreateHTTPRoute rc then [DeploymentRoute] else [])"

lemma and_then_unit [simp]: "and_then m ret = m"
  by (rule ext) (auto simp: and_then_def split: prod.split sum.split)

lemma optional_secrets_run:
  "for_each (step_of E Y rnd K rc ty ob) (optional_secrets rc) =
     and_then (reconcile_kubeconfig E Y K rc ty ob) (\<lambda>_. reconcile_oidc_ca E K rc ty ob)"
  by (simp add: optional_secrets_def reconcile_kubeconfig_def reconcile_oidc_ca_def when_true_def)

definition patch_autoscalers :: "'s kube \<Rightarrow> resolved_config \<Rightarrow> object_meta \<Rightarrow> ('s, unit) go" where
  "patch_autoscalers K rc ob = when_true (IsGroupRegistered K ''autoscaling.k8s.io'') (patchVpa K rc ob)"

lemma deployment_run:
  assumes "GetDeletionTimestamp ob = None" "rc = Resolve E (ns_reader K s) cfg ob"
  shows "reconcileDeploymentDependencies E Y rnd K cfg ob s =
    and_then (for_each (step_of E Y rnd K rc deployment_type ob) (deployment_steps rc)) (\<lambda>_. patch_autoscalers K rc ob) s"
proof -
  have "for_each (step_of E Y rnd K rc deployment_type ob) (if ShallCreateHTTPRoute rc then [DeploymentRoute] else []) =
      reconcileHTTPRouteForDeployment E K rc ob"
    by (simp add: reconcileHTTPRouteForDeployment_def)
  with assms show ?thesis
    by (simp add: reconcileDeploymentDependencies_def deployment_steps_def for_each_append optional_secrets_run
        and_then_assoc patch_autoscalers_def Let_def)
qed

lemma trigger_patches_look:
  "convergence_laws K \<Longrightarrow> trigger_patches K v ps s = (Inr (), s') \<Longrightarrow> look K s' = look K s"
proof (induction K v ps arbitrary: s rule: trigger_patches.induct)
  case (2 K v p ps)
  then show ?case by (auto simp: and_then_Inr_iff convergence_laws_def split: if_splits)
qed simp

lemma patch_autoscalers_look:
  assumes laws: "convergence_laws K" and ok: "patch_autoscalers K rc ob s = (Inr (), s')"
  shows "look K s' = look K s"
proof (cases "IsGroupRegistered K ''autoscaling.k8s.io''")
  case True
  then obtain l vs where run: "for_each (\<lambda>v. case ResourcePolicy v of
                None \<Rightarrow> throw (Panic ''nil pointer dereference'')
              | Some ps \<Rightarrow> trigger_patches K v ps) vs s = (Inr (), s')"
    using ok by (auto simp: patch_autoscalers_def when_true_def patchVpa_def and_then_Inr_iff split: option.splits)
  show ?thesis
    by (rule for_each_Inr_induct [OF run, where P = "\<lambda>t. look K t = look K s"])
      (auto dest: trigger_patches_look [OF laws] split: option.splits)
qed (use ok in \<open>simp add: patch_autoscalers_def when_true_def\<close>)

lemma secret_targets:
  "distinct (map (target_of E ob) ([Oauth2Secret, AttributesSecret] @ optional_secrets rc))"
  by (simp add: optional_secrets_def dependent_objects constant_defs obj_defs)

lemma deployment_targets: "distinct (map (target_of E ob) (deployment_steps rc))"
  using secret_targets [of E ob rc] by (auto simp: deployment_steps_def optional_secrets_def)

text \<open>A list of steps with distinct targets, run twice.\<close>

lemma steps_twice:
  assumes laws: "convergence_laws K" and rnd: "\<And>i. rnd i \<noteq> None"
    and "distinct (map (target_of E ob) is)"
    and first: "and_then (for_each (step_of E Y rnd K rc ty ob) is) (\<lambda>_. patch_autoscalers K rc' ob') s = (Inr (), s1)"
    and second: "and_then (for_each (step_of E Y rnd' K rc ty ob) is) (\<lambda>_. patch_autoscalers K rc' ob') s1 = (Inr (), s2)"
  shows "look K s2 = look K s1"
proof -
  note conv = dependencies_converging [OF laws rnd]
  obtain t1 t2 where t: "for_each (step_of E Y rnd K rc ty ob) is s = (Inr (), t1)" "look K s1 = look K t1"
      "for_each (step_of E Y rnd' K rc ty ob) is s1 = (Inr (), t2)" "look K s2 = look K t2"
    using first second patch_autoscalers_look [OF laws] by (auto simp: and_then_Inr_iff)
  have "settled_at E Y K rc ty ob i (look K s1 (target_of E ob i))" if "i \<in> set is" for i
    using converging.first_settles [OF conv t(1) assms(3) that] t(2) by simp
  then have "look K t2 = look K s1" using converging.again_rests [OF conv t(3)] by blast
  with t(4) show ?thesis by simp
qed

lemma look_stores:
  assumes "look K s' = look K s"
  shows "Get (secrets K) s' = Get (secrets K) s" "Get (services K) s' = Get (services K) s"
    "Get (httproutes K) s' = Get (httproutes K) s"
proof -
  have "look K s' (SecretAt k) = look K s (SecretAt k)" "look K s' (ServiceAt k) = look K s (ServiceAt k)"
    "look K s' (RouteAt k) = look K s (RouteAt k)" for k by (simp_all only: assms)
  then show "Get (secrets K) s' = Get (secrets K) s" "Get (services K) s' = Get (services K) s"
    "Get (httproutes K) s' = Get (httproutes K) s" by auto
qed

lemma untouched_by_steps:
  assumes laws: "convergence_laws K" and run: "for_each (step_of E Y rnd K rc ty ob) is s = (Inr (), s')"
  shows "ns_reader K s' = ns_reader K s" "List (pods K) s' = List (pods K) s"
proof -
  have untouched: "look K s' r = look K s r" if "\<And>i. r \<noteq> target_of E ob i" for r
    by (rule for_each_Inr_induct [OF run, where P = "\<lambda>t. look K t r = look K s r"])
      (simp, use step_frame [OF laws] that in metis)
  have "r \<noteq> target_of E ob i" if "r = NamespaceAt k \<or> r = PodsUnder opts" for r i k opts using that by (cases i) auto
  with untouched have "look K s' (NamespaceAt k) = look K s (NamespaceAt k)" "look K s' (PodsUnder opts) = look K s (PodsUnder opts)"
    for k opts by blast+
  then show "ns_reader K s' = ns_reader K s" "List (pods K) s' = List (pods K) s" by (auto simp: ns_reader_def)
qed

lemma run_reads:
  assumes laws: "convergence_laws K"
    and "and_then (for_each (step_of E Y rnd K rc ty ob) is) (\<lambda>_. patch_autoscalers K rc ob) s = (Inr (), s')"
  shows "ns_reader K s' = ns_reader K s" "List (pods K) s' = List (pods K) s"
  using assms(2) untouched_by_steps [OF laws] resolve_look [OF patch_autoscalers_look [OF laws]]
  by (auto simp: and_then_Inr_iff)




text \<open>C4 (a deployment comes to rest). After a reconcile of the dependencies of a deployment that succeeded,
  with a working random source, the next one that succeeds - with whatever randomness - leaves every
  secret, every service and every HTTPRoute of the cluster as it is.\<close>

theorem deployment_converges:
  assumes laws: "convergence_laws K" and rnd: "\<And>i. rnd i \<noteq> None"
    and first: "reconcileDeploymentDependencies E Y rnd K cfg d s = (Inr (), s1)"
    and second: "reconcileDeploymentDependencies E Y rnd' K cfg d s1 = (Inr (), s2)"
  shows "Get (secrets K) s2 = Get (secrets K) s1 \<and> Get (services K) s2 = Get (services K) s1 \<and>
    Get (httproutes K) s2 = Get (httproutes K) s1"
proof (cases "GetDeletionTimestamp d = None")
  case live: True
  define rc where rc: "rc = Resolve E (ns_reader K s) cfg d"
  note run1 = first [unfolded deployment_run [OF live rc]]
  have rc1: "rc = Resolve E (ns_reader K s1) cfg d" by (simp add: rc run_reads [OF laws run1])
  have "look K s2 = look K s1"
    by (rule steps_twice [OF laws rnd deployment_targets run1 second [unfolded deployment_run [OF live rc1]]])
  from look_stores [OF this] show ?thesis by simp
next
  case False
  then have "s2 = s1" using second by (simp add: reconcileDeploymentDependencies_def)
  then show ?thesis by simp
qed

lemma list_store_frame:
  assumes backed: "list_backed admit get put" and ok: "CreateOrUpdate (list_store get put) ob f s = (Inr (), s')"
  shows "k \<noteq> key_of ob \<Longrightarrow> list_get (get s') k = list_get (get s) k" and "\<exists>xs. s' = s \<or> s' = put xs s"
proof -
  note b = list_backedD [OF backed]
  have put: "list_get (list_put x ys) k = list_get ys k" if "k \<noteq> key_of x" for x ys
    using that by (induction ys) (auto simp: list_get_def list_put_def has_key_def prod_eq_iff)
  have app: "list_get (ys @ [x]) k = list_get ys k" if "k \<noteq> key_of x" for x ys
    using that by (induction ys) (auto simp: list_get_def has_key_def prod_eq_iff)
  show "\<exists>xs. s' = s \<or> s' = put xs s"
    using ok by (auto simp: list_store_def split: sum.splits if_splits)
  assume k: "k \<noteq> key_of ob"
  then show "list_get (get s') k = list_get (get s) k"
    using ok by (auto simp: list_store_def b put app split: sum.splits if_splits)
qed

lemma memory_convergence_laws: "convergence_laws memory_kube"
proof -
  have "look memory_kube s' r = look memory_kube s r"
    if "CreateOrUpdate (secrets memory_kube) ob f s = (Inr (), s')" "r \<noteq> SecretAt (key_of ob)" for ob f s s' r
    using list_store_frame [OF memory_backed, of ob f s s'] that
    by (cases r) (auto simp: memory_kube_def, auto simp: list_store_def)
  moreover have "look memory_kube s' r = look memory_kube s r"
    if "CreateOrUpdate (services memory_kube) ob f s = (Inr (), s')" "r \<noteq> ServiceAt (key_of ob)" for ob f s s' r
    using list_store_frame [of "\<lambda>x. x" cl_services "\<lambda>xs s. s\<lparr>cl_services := xs\<rparr>" ob f s s', OF list_backed_plain] that
    by (cases r) (auto simp: memory_kube_def, auto simp: list_store_def)
  moreover have "look memory_kube s' r = look memory_kube s r"
    if "CreateOrUpdate (httproutes memory_kube) ob f s = (Inr (), s')" "r \<noteq> RouteAt (key_of ob)" for ob f s s' r
    using list_store_frame [of "\<lambda>x. x" cl_httproutes "\<lambda>xs s. s\<lparr>cl_httproutes := xs\<rparr>" ob f s s', OF list_backed_plain] that
    by (cases r) (auto simp: memory_kube_def, auto simp: list_store_def)
  moreover have "PatchEmpty memory_kube v s = (Inr (), s') \<Longrightarrow> look memory_kube s' = look memory_kube s" for v s s'
    by (simp add: memory_kube_def)
  ultimately show ?thesis
    using memory_owner_laws memory_store_laws unfolding convergence_laws_def write_frame_def by blast
qed




theorem deployment_converges_witness:
  "\<exists>s1 s2. sample_reconcile sample_cluster = (Inr (), s1) \<and> sample_reconcile s1 = (Inr (), s2) \<and>
     Get (secrets memory_kube) s2 = Get (secrets memory_kube) s1 \<and>
     Get (services memory_kube) s2 = Get (services memory_kube) s1 \<and>
     Get (httproutes memory_kube) s2 = Get (httproutes memory_kube) s1"
proof -
  obtain s1 where s1: "sample_reconcile sample_cluster = (Inr (), s1)" using sample_reconcile_total by blast
  obtain s2 where s2: "sample_reconcile s1 = (Inr (), s2)" using sample_reconcile_total by blast
  have "Get (secrets memory_kube) s2 = Get (secrets memory_kube) s1 \<and>
     Get (services memory_kube) s2 = Get (services memory_kube) s1 \<and>
     Get (httproutes memory_kube) s2 = Get (httproutes memory_kube) s1"
    by (rule deployment_converges [OF memory_convergence_laws _ s1 [unfolded sample_reconcile_def]
        s2 [unfolded sample_reconcile_def]]) simp
  with s1 s2 show ?thesis by blast
qed

interpretation memory_dependencies: converging "look memory_kube" "target_of E ob" "settled_at E Y memory_kube rc ty ob"
  "step_of E Y (\<lambda>i. Some (g i)) memory_kube rc ty ob" "step_of E Y rnd' memory_kube rc ty ob"
  for E :: "'e env_scheme" and Y rc ty ob g rnd'
  by (rule dependencies_converging [OF memory_convergence_laws]) simp

subsection \<open>Stateful sets\<close>

definition hosted :: "pod \<Rightarrow> bool" where
  "hosted p \<longleftrightarrow> fmlookup (GetAnnotations p) AnnotationHostKey \<noteq> None"

definition pod_steps ::
  "'e env_scheme \<Rightarrow> namespace_reader \<Rightarrow> controller_config \<Rightarrow> resolved_config \<Rightarrow> pod \<Rightarrow> dependency list" where
  "pod_steps E client cfg rc p =
     (if hosted p
      then PodService p (pod_selectors (Resolve E client cfg p) p) # (if ShallCreateHTTPRoute rc then [PodRoute p] else [])
      else [])"

definition stateful_set_steps ::
  "'e env_scheme \<Rightarrow> namespace_reader \<Rightarrow> controller_config \<Rightarrow> resolved_config \<Rightarrow> pod list \<Rightarrow> dependency list" where
  "stateful_set_steps E client cfg rc ps =
     Oauth2Secret # concat (map (pod_steps E client cfg rc) ps) @ AttributesSecret # optional_secrets rc"

lemma reconcile_pod_run:
  "reconcile_pod E K cfg rc ob p s = for_each (step_of E Y rnd K rc ty ob) (pod_steps E (ns_reader K s) cfg rc p) s"
  by (simp add: reconcile_pod_def pod_steps_def hosted_def reconcileHTTPRouteForStatefulSetPod_def Let_def)

lemma reconcile_pods_run:
  assumes laws: "convergence_laws K"
  shows "for_each (reconcile_pod E K cfg rc ob) ps s = (Inr (), s') \<longleftrightarrow>
    for_each (step_of E Y rnd K rc ty ob) (concat (map (pod_steps E (ns_reader K s) cfg rc) ps)) s = (Inr (), s')"
proof (induction ps arbitrary: s)
  case (Cons p ps)
  have "ns_reader K t = ns_reader K s"
    if "for_each (step_of E Y rnd K rc ty ob) (pod_steps E (ns_reader K s) cfg rc p) s = (Inr (), t)" for t
    using untouched_by_steps [OF laws that] by simp
  with Cons show ?case
    by (auto simp: for_each_append and_then_Inr_iff reconcile_pod_run [where Y = Y and rnd = rnd and ty = ty])
qed simp

text \<open>A run that succeeds is a run of the steps.\<close>

lemma stateful_set_run:
  assumes laws: "convergence_laws K" and live: "GetDeletionTimestamp sts = None"
    and rc: "rc = Resolve E (ns_reader K s) cfg sts" and sel: "sts_Selector sts = Some l"
    and ps: "listed (pods K) s sts (MatchLabels l) = Inr ps"
    and ok: "reconcileStatefulSetDependencies E Y rnd K cfg sts s = (Inr (), s')"
  shows "and_then (for_each (step_of E Y rnd K rc statefulset_type (meta_of sts))
      (stateful_set_steps E (ns_reader K s) cfg rc ps)) (\<lambda>_. patch_autoscalers K rc (meta_of sts)) s = (Inr (), s')"
proof -
  let ?ob = "meta_of sts" and ?step = "step_of E Y rnd K rc statefulset_type (meta_of sts)"
  obtain t items t1 where t: "?step Oauth2Secret s = (Inr (), t)" "listed (pods K) t ?ob (MatchLabels l) = Inr items"
      "for_each (reconcile_pod E K cfg rc ?ob) items t = (Inr (), t1)"
    and tail: "and_then (reconcile_attributes E Y K statefulset_type ?ob) (\<lambda>_.
      and_then (reconcile_kubeconfig E Y K rc statefulset_type ?ob) (\<lambda>_.
      and_then (reconcile_oidc_ca E K rc statefulset_type ?ob) (\<lambda>_. patch_autoscalers K rc ?ob))) t1 = (Inr (), s')"
    using ok live sel unfolding reconcileStatefulSetDependencies_def Let_def patch_autoscalers_def
    by (auto simp: and_then_Inr_iff rc)
  have reads: "ns_reader K t = ns_reader K s" "List (pods K) t = List (pods K) s"
    using untouched_by_steps [OF laws, of E Y rnd rc statefulset_type ?ob "[Oauth2Secret]" s t] t(1) by simp_all
  then have "items = ps" using ps t(2) by (simp add: listed_def object_meta.truncate_def)
  then have "for_each ?step (concat (map (pod_steps E (ns_reader K s) cfg rc) ps)) t = (Inr (), t1)"
    using t(3) reads reconcile_pods_run [OF laws] by metis
  with t(1) tail show ?thesis
    by (simp add: stateful_set_steps_def for_each_append optional_secrets_run and_then_assoc and_then_ok)
qed

text \<open>The pods that get a service have it under different names: the names end in a hash.\<close>

definition pods_apart :: "'e env_scheme \<Rightarrow> pod list \<Rightarrow> bool" where
  "pods_apart E ps \<longleftrightarrow> distinct (map (\<lambda>p. index_of p @ owner_suffix E p) (filter hosted ps))"

lemma pod_targets_named:
  assumes "r \<in> set (map (target_of E ob) (concat (map (pod_steps E client cfg rc) ps)))"
  shows "\<exists>p \<in> set (filter hosted ps). \<exists>ns.
    r = ServiceAt (ns, ServiceNameOauth2Service @ ''-'' @ index_of p @ owner_suffix E p) \<or>
    r = RouteAt (ns, HTTPRouteName @ ''-'' @ index_of p @ owner_suffix E p)"
  using assms
  by (fastforce simp: pod_steps_def oauth2ServiceObject_def httpRouteForStatefulSetPodObject_def obj_defs split: if_splits)

lemma pod_targets:
  "pods_apart E ps \<Longrightarrow> distinct (map (target_of E ob) (concat (map (pod_steps E client cfg rc) ps)))"
proof (induction ps)
  case (Cons p ps)
  have IH: "distinct (map (target_of E ob) (concat (map (pod_steps E client cfg rc) ps)))"
    using Cons by (auto simp: pods_apart_def split: if_splits)
  have one: "distinct (map (target_of E ob) (pod_steps E client cfg rc p))" by (simp add: pod_steps_def)
  have "r \<notin> set (map (target_of E ob) (concat (map (pod_steps E client cfg rc) ps)))"
    if r: "r \<in> set (map (target_of E ob) (pod_steps E client cfg rc p))" for r
  proof
    assume "r \<in> set (map (target_of E ob) (concat (map (pod_steps E client cfg rc) ps)))"
    from pod_targets_named [OF this] pod_targets_named [of r E ob client cfg rc "[p]"] r Cons.prems
    show False by (auto simp: pods_apart_def split: if_splits)
  qed
  with IH one show ?case unfolding list.map concat.simps map_append distinct_append by blast
qed (simp add: pods_apart_def)

lemma stateful_set_targets:
  assumes "pods_apart E ps"
  shows "distinct (map (target_of E ob) (stateful_set_steps E client cfg rc ps))"
proof -
  have weave: "distinct (a # ps @ b # qs)"
    if "distinct (map f ([x, y] @ zs))" "distinct ps" "set ps \<inter> set (map f ([x, y] @ zs)) = {}"
      "a = f x" "b = f y" "qs = map f zs" for a b ps qs x y zs and f :: "dependency \<Rightarrow> resource"
    using that by auto
  have "SecretAt k \<notin> set (map (target_of E ob) (concat (map (pod_steps E client cfg rc) ps)))" for k
    using pod_targets_named [of "SecretAt k" E ob client cfg rc ps] by (auto simp del: set_map set_concat)
  moreover have "\<exists>k. r = SecretAt k" if "r \<in> set (map (target_of E ob) ([Oauth2Secret, AttributesSecret] @ optional_secrets rc))" for r
    using that by (auto simp: optional_secrets_def split: if_splits)
  ultimately have apart: "set (map (target_of E ob) (concat (map (pod_steps E client cfg rc) ps))) \<inter>
      set (map (target_of E ob) ([Oauth2Secret, AttributesSecret] @ optional_secrets rc)) = {}" by blast
  from weave [OF secret_targets pod_targets [OF assms] apart refl refl refl]
  show ?thesis unfolding stateful_set_steps_def list.map map_append .
qed

text \<open>C5 (a stateful set comes to rest). The same of a stateful set, with the services and routes of its
  pods, as long as the hashes in the names of its pods' services differ.\<close>

theorem stateful_set_converges:
  assumes laws: "convergence_laws K" and rnd: "\<And>i. rnd i \<noteq> None"
    and pods: "sts_Selector sts = Some l" "listed (pods K) s sts (MatchLabels l) = Inr ps" "pods_apart E ps"
    and first: "reconcileStatefulSetDependencies E Y rnd K cfg sts s = (Inr (), s1)"
    and second: "reconcileStatefulSetDependencies E Y rnd' K cfg sts s1 = (Inr (), s2)"
  shows "Get (secrets K) s2 = Get (secrets K) s1 \<and> Get (services K) s2 = Get (services K) s1 \<and>
    Get (httproutes K) s2 = Get (httproutes K) s1"
proof (cases "GetDeletionTimestamp sts = None")
  case live: True
  define rc where rc: "rc = Resolve E (ns_reader K s) cfg sts"
  note run1 = stateful_set_run [OF laws live rc pods(1,2) first]
  note reads = run_reads [OF laws run1]
  have rc1: "rc = Resolve E (ns_reader K s1) cfg sts" by (simp add: rc reads)
  have ps1: "listed (pods K) s1 sts (MatchLabels l) = Inr ps" using pods(2) reads(2) by (simp add: listed_def)
  note run2 = stateful_set_run [OF laws live rc1 pods(1) ps1 second, unfolded reads(1)]
  have "look K s2 = look K s1"
    by (rule steps_twice [OF laws rnd stateful_set_targets [OF pods(3)] run1 run2])
  from look_stores [OF this] show ?thesis by simp
next
  case False
  then have "s2 = s1" using second by (simp add: reconcileStatefulSetDependencies_def)
  then show ?thesis by simp
qed

text \<open>The sample stateful set with two pods that were given a host by the webhook.\<close>

definition sts_pod :: "string \<Rightarrow> pod" where
  "sts_pod name = sample_pod\<lparr>GetName := name, GetLabels := smap_of [(''app'', ''demo''), (''statefulset.kubernetes.io/pod-name'', name)],
     GetAnnotations := smap_of [(AnnotationHostKey, ''demo.example.org'')]\<rparr>"

definition two_pods :: cluster where
  "two_pods = sts_cluster\<lparr>cl_pods := [sts_pod ''demo-0'', sts_pod ''demo-1'']\<rparr>"

lemma two_pods_listed:
  "listed (pods memory_kube) two_pods sample_sts app_labels = Inr [sts_pod ''demo-0'', sts_pod ''demo-1'']"
  by (simp add: listed_def memory_kube_def list_store_def two_pods_def sts_pod_def selected_def carries_iff
      sample_sts_def app_labels_def sample_defs has_key_def)

lemma two_pods_apart: "pods_apart sample_env [sts_pod ''demo-0'', sts_pod ''demo-1'']"
  by (simp add: pods_apart_def hosted_def sts_pod_def owner_suffix_def GenerateSha256_def sample_env_def Let_def)

theorem stateful_set_converges_witness:
  "\<exists>s1 s2. reconcileStatefulSetDependencies sample_env sample_yaml (\<lambda>_. Some 0) memory_kube sample_config sample_sts
       two_pods = (Inr (), s1) \<and>
     reconcileStatefulSetDependencies sample_env sample_yaml (\<lambda>_. Some 0) memory_kube sample_config sample_sts
       s1 = (Inr (), s2) \<and>
     Get (services memory_kube) s2 = Get (services memory_kube) s1"
proof -
  let ?run = "reconcileStatefulSetDependencies sample_env sample_yaml (\<lambda>_. Some 0) memory_kube sample_config sample_sts"
  obtain s1 where s1: "?run two_pods = (Inr (), s1)" using sts_reconcile_total by blast
  obtain s2 where s2: "?run s1 = (Inr (), s2)" using sts_reconcile_total by blast
  have sel: "sts_Selector sample_sts = Some \<lparr>MatchLabels = app_labels, MatchExpressions = []\<rparr>"
    by (simp add: sample_sts_def object_meta.extend_def)
  have "Get (secrets memory_kube) s2 = Get (secrets memory_kube) s1 \<and>
     Get (services memory_kube) s2 = Get (services memory_kube) s1 \<and>
     Get (httproutes memory_kube) s2 = Get (httproutes memory_kube) s1"
    by (rule stateful_set_converges [OF memory_convergence_laws _ sel _ two_pods_apart s1 s2])
      (simp_all add: two_pods_listed)
  with s1 s2 show ?thesis by blast
qed

end
