(* ===== verification/Routing.thy ===== *)
theory Routing
  imports Convergence Webhook_Properties
begin

text \<open>
  The way of a request: what a reconcile leaves as route and service of a workload, and the port of the
  pod it ends at, the one of the oauth2-proxy the webhook has injected.
\<close>

subsection \<open>Routes, services and pods\<close>

text \<open>A service selects a pod when the pod is in its namespace and carries every label of its selector,
  which is not empty. A port is only the sidecar's when the container named \<open>oauth2-proxy\<close> gives a port
  that name and no other container of the pod does.\<close>

definition selects :: "service \<Rightarrow> pod \<Rightarrow> bool" where
  "selects svc p \<longleftrightarrow> GetNamespace svc = GetNamespace p \<and> svc_Selector (svc_Spec svc) \<noteq> fmempty \<and>
     fset_of_fmap (svc_Selector (svc_Spec svc)) |\<subseteq>| fset_of_fmap (GetLabels p)"

definition sidecar_port :: "int_or_string \<Rightarrow> pod \<Rightarrow> bool" where
  "sidecar_port target p =
     (case target of
        IntVal _ \<Rightarrow> False
      | StrVal n \<Rightarrow>
          list_ex (\<lambda>c. c_Name c = ContainerNameOauth2Proxy \<and> list_ex (\<lambda>pt. port_Name pt = n) (Ports c))
            (Containers (pod_Spec p)) \<and>
          list_all (\<lambda>c. list_ex (\<lambda>pt. port_Name pt = n) (Ports c) \<longrightarrow> c_Name c = ContainerNameOauth2Proxy)
            (Containers (pod_Spec p)))"

text \<open>A backend leads through the service to the sidecar: it names the service and one of its ports, and
  every port of the service with that number targets the sidecar.\<close>

definition guarded :: "service \<Rightarrow> pod \<Rightarrow> backend_ref \<Rightarrow> bool" where
  "guarded svc p b \<longleftrightarrow> br_Name b = GetName svc \<and>
     list_ex (\<lambda>sp. sport_Port sp = br_Port b) (svc_Ports (svc_Spec svc)) \<and>
     list_all (\<lambda>sp. sport_Port sp = br_Port b \<longrightarrow> sidecar_port (sport_TargetPort sp) p) (svc_Ports (svc_Spec svc))"

text \<open>A route leads to a pod: it is in the namespace of the service, which selects the pod; a rule for every
  path has a backend; and no rule has a backend that is not guarded. A rule without one redirects.\<close>

definition leads_to :: "http_route \<Rightarrow> service \<Rightarrow> pod \<Rightarrow> bool" where
  "leads_to r svc p \<longleftrightarrow>
     GetNamespace r = GetNamespace svc \<and> selects svc p \<and>
     list_ex (\<lambda>rule. Matches rule = [PathMatchPathPrefix ''/''] \<and> BackendRefs rule \<noteq> []) (Rules (route_Spec r)) \<and>
     list_all (\<lambda>rule. list_all (guarded svc p) (BackendRefs rule) \<and> (BackendRefs rule = [] \<longrightarrow> Filters rule \<noteq> []))
       (Rules (route_Spec r))"

text \<open>What a reconcile leaves of a service and of a route.\<close>

lemma settled_service:
  assumes "settled_res (mutateOauth2Service sel) (\<lambda>x. x) K ty ow (Get (services K) s k)" "keyed (services K)"
  obtains svc where "Get (services K) s k = Inr svc" "key_of svc = k"
    "svc_Spec svc = \<lparr>svc_Ports = [\<lparr>sport_Name = ''http'', sport_Port = 8080, sport_TargetPort = StrVal ''oauth2''\<rparr>],
       svc_Selector = sel\<rparr>"
proof -
  obtain svc where svc: "Get (services K) s k = Inr svc" "settled_for (mutateOauth2Service sel) (\<lambda>x. x) K ty ow svc"
    using assms(1) by (auto simp: settled_res_def split: sum.splits)
  then obtain m refs where "mutateOauth2Service sel svc = Inr m" "m\<lparr>GetOwnerReferences := refs\<rparr> = svc"
    by (auto simp: settled_for_def owned_step_def own_def res_bind_Inr_iff)
  then have "svc_Spec svc = svc_Spec m" by auto
  also have "\<dots> = \<lparr>svc_Ports = [\<lparr>sport_Name = ''http'', sport_Port = 8080, sport_TargetPort = StrVal ''oauth2''\<rparr>],
       svc_Selector = sel\<rparr>" using \<open>mutateOauth2Service sel svc = Inr m\<close> by (auto simp: mutateOauth2Service_def)
  finally show ?thesis using svc(1) assms(2) that [of svc] unfolding keyed_def by blast
qed

lemma settled_route:
  assumes "settled_res (\<lambda>r. Inr (build_route rc spec r)) (\<lambda>x. x) K ty ow (Get (httproutes K) s k)" "keyed (httproutes K)"
  obtains r where "Get (httproutes K) s k = Inr r" "key_of r = k" "route_Spec r = route_Spec (build_route rc spec r)"
proof -
  obtain r where r: "Get (httproutes K) s k = Inr r" "settled_for (\<lambda>r. Inr (build_route rc spec r)) (\<lambda>x. x) K ty ow r"
    using assms(1) by (auto simp: settled_res_def split: sum.splits)
  then obtain refs where "(build_route rc spec r)\<lparr>GetOwnerReferences := refs\<rparr> = r"
    by (auto simp: settled_for_def owned_step_def own_def res_bind_Inr_iff)
  then have "route_Spec r = route_Spec ((build_route rc spec r)\<lparr>GetOwnerReferences := refs\<rparr>)" by simp
  then have "route_Spec r = route_Spec (build_route rc spec r)" by simp
  then show ?thesis using r(1) assms(2) that [of r] unfolding keyed_def by blast
qed

lemma leads_toI:
  assumes "route_Spec r = route_Spec (build_route rc (route_to host backend parents) r)"
    and "GetName svc = backend" "GetNamespace r = GetNamespace svc" "selects svc p"
    and "svc_Ports (svc_Spec svc) = [\<lparr>sport_Name = ''http'', sport_Port = 8080, sport_TargetPort = StrVal ''oauth2''\<rparr>]"
    and "sidecar_port (StrVal ''oauth2'') p"
  shows "leads_to r svc p"
proof -
  have "guarded svc p \<lparr>br_Name = backend, br_Port = 8080\<rparr>" using assms(2,5,6) by (simp add: guarded_def)
  then show ?thesis
    using assms(1,3,4) by (cases "GetHTTPRouteDefaultPath rc = []") (simp_all add: leads_to_def build_route_fields route_to_def)
qed

lemma injected_oauth2_container:
  assumes "Default E K pm s p = Inr q" "injected E K pm s p = Some (rc, suffix)"
    and "sidecars_unique (Containers (pod_Spec p))"
  obtains spec where "redirected E rc (pod_index p) (getOIDCProxyContainer E (Some spec) rc) \<in> set (Containers (pod_Spec q))"
proof -
  have inj: "inject E (pm_ImagePullSecret pm) rc suffix p = Inr q"
    using assms(1,2) by (simp add: Default_injected)
  obtain spec url where "Containers (pod_Spec q) = final_containers E rc url (pod_index p) (p\<lparr>pod_Spec := spec\<rparr>)"
    by (rule inject_Inr [OF inj assms(3)], rule that) simp
  then show ?thesis by (intro that [of spec]) (simp add: final_containers_def)
qed

text \<open>No container of the user has a port of the name the service targets.\<close>

definition oauth2_port_free :: "pod \<Rightarrow> bool" where
  "oauth2_port_free p = list_all (\<lambda>c. c_Name c \<in> set sidecar_names \<or> \<not> list_ex (\<lambda>pt. port_Name pt = ''oauth2'') (Ports c))
     (Containers (pod_Spec p))"

lemma injected_sidecar_port:
  assumes "Default E K pm s p = Inr q" "injected E K pm s p = Some (rc, suffix)"
    and "sidecars_unique (Containers (pod_Spec p))" and free: "oauth2_port_free p"
  shows "sidecar_port (StrVal ''oauth2'') q"
proof -
  have inj: "inject E (pm_ImagePullSecret pm) rc suffix p = Inr q"
    using assms(1,2) by (simp add: Default_injected)
  obtain spec url where "Containers (pod_Spec q) = final_containers E rc url (pod_index p) (p\<lparr>pod_Spec := spec\<rparr>)"
      "Containers spec = Containers (pod_Spec p)"
    by (rule inject_Inr [OF inj assms(3)], rule that) (simp, use add_volumes_frame in blast)
  then have cs: "Containers (pod_Spec q) = unnamed sidecar_names (Containers (pod_Spec p)) @
      [redirected E rc (pod_index p) (getOIDCProxyContainer E (Some spec) rc),
       getKubeRbacProxyContainer E (GetClientID rc) (GetOidcIssuerURL rc) url (Some (p\<lparr>pod_Spec := spec\<rparr>)) rc]"
    by (simp add: final_containers_def)
  have oauth2: "Ports (getOIDCProxyContainer E (Some spec) rc) = [\<lparr>port_Name = ''oauth2'', ContainerPort = 8000\<rparr>]"
    "Ports (getKubeRbacProxyContainer E ci iu url (Some x) rc) = [\<lparr>port_Name = ''rbac'', ContainerPort = 8100\<rparr>]" for ci iu x
    by (simp_all add: getOIDCProxyContainer_def getKubeRbacProxyContainer_def)
  show ?thesis
    using free by (simp add: sidecar_port_def cs oauth2) (auto simp: oauth2_port_free_def unnamed_def list_all_iff list_ex_iff)
qed

subsection \<open>What a reconcile leaves behind\<close>

text \<open>A step of a successful run whose place no other step writes.\<close>

lemma step_left:
  assumes laws: "convergence_laws K" and run: "for_each (step_of E Y rnd K rc ty ob) is s = (Inr (), s')"
    and "distinct (map (target_of E ob) is)" "i \<in> set is"
  obtains t t' where "step_of E Y rnd K rc ty ob i t = (Inr (), t')"
    "look K s' (target_of E ob i) = look K t' (target_of E ob i)"
proof -
  obtain xs ys where split: "is = xs @ i # ys" using split_list assms(4) by metis
  obtain t t' where t: "step_of E Y rnd K rc ty ob i t = (Inr (), t')"
      "for_each (step_of E Y rnd K rc ty ob) ys t' = (Inr (), s')"
    using run by (auto simp: split for_each_append and_then_Inr_iff)
  have "look K s' (target_of E ob i) = look K t' (target_of E ob i)"
    by (rule for_each_Inr_induct [OF t(2), where P = "\<lambda>u. look K u (target_of E ob i) = look K t' (target_of E ob i)"])
      (simp, use assms(3) step_frame [OF laws] in \<open>fastforce simp: split\<close>)
  with t(1) that show ?thesis by blast
qed

text \<open>The service and the route of a deployment after a reconcile.\<close>

lemma deployment_service_route:
  assumes laws: "convergence_laws K" "keyed (services K)" "keyed (httproutes K)"
    and ok: "reconcileDeploymentDependencies E Y rnd K cfg d s = (Inr (), s')" "GetDeletionTimestamp d = None"
    and rc: "rc = Resolve E (ns_reader K s) cfg d" "ShallCreateHTTPRoute rc" "GetTargetLabelSelector rc = Some l"
  obtains svc r where "Get (services K) s' (key_of (oauth2ServiceObject E d)) = Inr svc"
    "key_of svc = key_of (oauth2ServiceObject E d)"
    "svc_Spec svc = \<lparr>svc_Ports = [\<lparr>sport_Name = ''http'', sport_Port = 8080, sport_TargetPort = StrVal ''oauth2''\<rparr>],
       svc_Selector = MatchLabels l\<rparr>"
    "Get (httproutes K) s' (key_of (httpRouteForDeploymentObject E d)) = Inr r"
    "key_of r = key_of (httpRouteForDeploymentObject E d)"
    "route_Spec r = route_Spec (build_route rc (route_to (GetHost E rc)
       (ServiceNameOauth2Service @ ''-'' @ owner_suffix E d) (convertParentRefs (GetHTTPRouteParentRefs E rc))) r)"
proof -
  let ?step = "step_of E Y rnd K rc deployment_type d"
  have o: "owner_laws (SetOwnerReference K)" and V: "create_or_update_laws (\<lambda>x. x) (services K)"
    and H: "create_or_update_laws (\<lambda>x. x) (httproutes K)"
    using laws(1) by (simp_all add: convergence_laws_def)
  obtain t where run: "for_each ?step (deployment_steps rc) s = (Inr (), t)" "patch_autoscalers K rc d t = (Inr (), s')"
    using ok(1) [unfolded deployment_run [OF ok(2) rc(1)]] by (auto simp: and_then_Inr_iff)
  note patched = patch_autoscalers_look [OF laws(1) run(2)]
  obtain u u' where u: "?step DeploymentService u = (Inr (), u')"
      "look K t (target_of E d DeploymentService) = look K u' (target_of E d DeploymentService)"
    by (rule step_left [OF laws(1) run(1) deployment_targets, of DeploymentService]) (auto simp: deployment_steps_def)
  have "settled_res (mutateOauth2Service (MatchLabels l)) (\<lambda>x. x) K deployment_type d
      (Get (services K) u' (key_of (oauth2ServiceObject E d)))"
    by (rule oauth2_service.step_settles [OF o V refl])
      (use u(1) in \<open>simp add: rc(3) mutate_selected_Some del: dependent_namespaces\<close>)
  moreover have "Get (services K) s' (key_of (oauth2ServiceObject E d)) = Get (services K) u' (key_of (oauth2ServiceObject E d))"
    using u(2) look_stores [OF patched] by (simp del: dependent_namespaces)
  ultimately have svc: "settled_res (mutateOauth2Service (MatchLabels l)) (\<lambda>x. x) K deployment_type d
      (Get (services K) s' (key_of (oauth2ServiceObject E d)))" by simp
  obtain v v' where v: "?step DeploymentRoute v = (Inr (), v')"
      "look K t (target_of E d DeploymentRoute) = look K v' (target_of E d DeploymentRoute)"
    by (rule step_left [OF laws(1) run(1) deployment_targets, of DeploymentRoute]) (auto simp: deployment_steps_def rc(2))
  have "settled_res (mutateHTTPRouteForDeployment E d rc) (\<lambda>x. x) K deployment_type d
      (Get (httproutes K) v' (key_of (httpRouteForDeploymentObject E d)))"
    by (rule deployment_route.step_settles [OF o H refl]) (use v(1) in \<open>simp del: dependent_namespaces\<close>)
  moreover have "Get (httproutes K) s' (key_of (httpRouteForDeploymentObject E d)) =
      Get (httproutes K) v' (key_of (httpRouteForDeploymentObject E d))"
    using v(2) look_stores [OF patched] by (simp del: dependent_namespaces)
  ultimately have route: "settled_res (mutateHTTPRouteForDeployment E d rc) (\<lambda>x. x) K deployment_type d
      (Get (httproutes K) s' (key_of (httpRouteForDeploymentObject E d)))" by simp
  show ?thesis
    by (rule settled_service [OF svc laws(2)], rule settled_route [OF route [unfolded mutateHTTPRouteForDeployment_build] laws(3)],
        rule that)
qed

text \<open>The name index is empty on objects without the label of a stateful set pod.\<close>

lemma index_of_unlabelled:
  "fmlookup (GetLabels ob) ''statefulset.kubernetes.io/pod-name'' = None \<Longrightarrow> index_of ob = []"
  by (simp add: index_of_def fetchStrIndexIfPresent_def addOptionalIndex_def)

text \<open>The sample pod has one container, whose port has another name.\<close>

lemma sample_port_free: "oauth2_port_free sample_pod"
  by (simp add: oauth2_port_free_def sample_pod_def app_container_def obj_defs)

lemma smap_single_nonempty: "smap_of [(k, v)] \<noteq> fmempty"
proof
  assume "smap_of [(k, v)] = fmempty"
  then have "fmlookup (smap_of [(k, v)]) k = None" by simp
  then show False by simp
qed

text \<open>C3 (routing of a deployment). After a successful reconcile of a deployment with a route, the stored
  route leads through the stored service to the oauth2-proxy in every pod the webhook has injected that
  is in the namespace and carries the labels of the target: the service selects the pod, every backend
  of every rule is this service, and its port is that of the sidecar and of no other container. The
  selector of the target must have labels of its own - of its expressions the service has nothing -
  which do not speak of the label the webhook writes, and no container of the user may have a port
  named \<open>oauth2\<close>.\<close>

theorem route_leads_to_sidecar:
  assumes laws: "convergence_laws K" "keyed (services K)" "keyed (httproutes K)"
    and reconciled: "reconcileDeploymentDependencies E Y rnd K cfg d s = (Inr (), s')" "GetDeletionTimestamp d = None"
      "fmlookup (GetLabels d) ''statefulset.kubernetes.io/pod-name'' = None"
    and target: "rcd = Resolve E (ns_reader K s) cfg d" "ShallCreateHTTPRoute rcd" "GetTargetLabelSelector rcd = Some l"
      "MatchLabels l \<noteq> fmempty" "fmlookup (MatchLabels l) LabelKey = None"
    and admitted: "Default E K pm t p = Inr q" "injected E K pm t p = Some (rc, suffix)"
      "sidecars_unique (Containers (pod_Spec p))" "oauth2_port_free p"
    and pod: "GetNamespace p = GetNamespace d" "fset_of_fmap (MatchLabels l) |\<subseteq>| fset_of_fmap (GetLabels p)"
  shows "\<exists>svc r. Get (services K) s' (key_of (oauth2ServiceObject E d)) = Inr svc \<and>
    Get (httproutes K) s' (key_of (httpRouteForDeploymentObject E d)) = Inr r \<and> leads_to r svc q"
proof (rule deployment_service_route [OF laws reconciled(1,2) target(1-3)])
  fix svc r
  assume svc: "Get (services K) s' (key_of (oauth2ServiceObject E d)) = Inr svc"
      "key_of svc = key_of (oauth2ServiceObject E d)"
      "svc_Spec svc = \<lparr>svc_Ports = [\<lparr>sport_Name = ''http'', sport_Port = 8080, sport_TargetPort = StrVal ''oauth2''\<rparr>],
         svc_Selector = MatchLabels l\<rparr>"
    and r: "Get (httproutes K) s' (key_of (httpRouteForDeploymentObject E d)) = Inr r"
      "key_of r = key_of (httpRouteForDeploymentObject E d)"
      "route_Spec r = route_Spec (build_route rcd (route_to (GetHost E rcd)
         (ServiceNameOauth2Service @ ''-'' @ owner_suffix E d) (convertParentRefs (GetHTTPRouteParentRefs E rcd))) r)"
  have names: "GetName svc = ServiceNameOauth2Service @ ''-'' @ owner_suffix E d" "GetNamespace svc = GetNamespace d"
      "GetNamespace r = GetNamespace d"
    using svc(2) r(2) index_of_unlabelled [OF reconciled(3)] by (simp_all add: dependent_objects)
  have inj: "inject E (pm_ImagePullSecret pm) rc suffix p = Inr q"
    using admitted(1,2) by (simp add: Default_injected)
  have "selects svc q"
    using target(4,5) pod names(2) inject_meta [OF inj admitted(3)]
    by (auto simp: selects_def svc(3) labels_included)
  then have "leads_to r svc q"
    by (intro leads_toI [OF r(3) names(1)] injected_sidecar_port [OF admitted])
      (simp_all add: names svc(3))
  with svc(1) r(1) show ?thesis by blast
qed

theorem route_leads_to_sidecar_witness:
  "\<exists>s' q svc r. sample_reconcile sample_cluster = (Inr (), s') \<and>
     Default sample_env memory_kube sample_mutator sample_cluster sample_pod = Inr q \<and>
     Get (services memory_kube) s' (key_of (oauth2ServiceObject sample_env sample_deployment)) = Inr svc \<and>
     Get (httproutes memory_kube) s' (key_of (httpRouteForDeploymentObject sample_env sample_deployment)) = Inr r \<and>
     leads_to r svc q"
proof -
  obtain s' where s': "sample_reconcile sample_cluster = (Inr (), s')" using sample_reconcile_total by blast
  obtain q where q: "Default sample_env memory_kube sample_mutator sample_cluster sample_pod = Inr q"
    by (rule sample_Default)
  have keyed: "keyed (services memory_kube)" "keyed (httproutes memory_kube)" using memory_dependent_laws
    by (simp_all add: dependent_laws_def)
  have target: "ShallCreateHTTPRoute sample_rc" "GetTargetLabelSelector sample_rc =
      Some \<lparr>MatchLabels = smap_of [(''app'', ''demo'')], MatchExpressions = []\<rparr>"
    by (simp_all add: ShallCreateHTTPRoute_def GetTargetLabelSelector_def sample_rc_def sample_target_def empty_target_def
        empty_global_def global_conf.extend_def empty_http_route_conf_def)
  have d: "GetDeletionTimestamp sample_deployment = None"
    "fmlookup (GetLabels sample_deployment) ''statefulset.kubernetes.io/pod-name'' = None" by (simp_all add: sample_defs)
  have "\<exists>svc r. Get (services memory_kube) s' (key_of (oauth2ServiceObject sample_env sample_deployment)) = Inr svc \<and>
      Get (httproutes memory_kube) s' (key_of (httpRouteForDeploymentObject sample_env sample_deployment)) = Inr r \<and>
      leads_to r svc q"
    by (rule route_leads_to_sidecar [OF memory_convergence_laws keyed s' [unfolded sample_reconcile_def] d
          sample_Resolve [symmetric] target _ _ q sample_injected sample_unique sample_port_free])
      (simp_all add: smap_single_nonempty, simp_all add: sample_defs LabelKey_def labels_included)
  with s' q show ?thesis by blast
qed

subsection \<open>The pods of a stateful set\<close>

text \<open>The service and the route of a pod that has its host from the webhook.\<close>

lemma pod_service_route:
  assumes laws: "convergence_laws K" "keyed (services K)" "keyed (httproutes K)"
    and ok: "reconcileStatefulSetDependencies E Y rnd K cfg sts s = (Inr (), s')" "GetDeletionTimestamp sts = None"
    and rc: "rc = Resolve E (ns_reader K s) cfg sts" "ShallCreateHTTPRoute rc"
    and pods: "sts_Selector sts = Some l" "listed (pods K) s sts (MatchLabels l) = Inr ps" "pods_apart E ps"
    and p: "p \<in> set ps" "fmlookup (GetAnnotations p) AnnotationHostKey = Some hp"
      "fmlookup (GetLabels p) ''statefulset.kubernetes.io/pod-name'' = Some v"
  obtains svc r where "Get (services K) s' (key_of (oauth2ServiceObject E p)) = Inr svc"
    "key_of svc = key_of (oauth2ServiceObject E p)"
    "svc_Spec svc = \<lparr>svc_Ports = [\<lparr>sport_Name = ''http'', sport_Port = 8080, sport_TargetPort = StrVal ''oauth2''\<rparr>],
       svc_Selector = smap_of [(''statefulset.kubernetes.io/pod-name'', v)]\<rparr>"
    "Get (httproutes K) s' (key_of (httpRouteForStatefulSetPodObject E p (meta_of sts))) = Inr r"
    "key_of r = key_of (httpRouteForStatefulSetPodObject E p (meta_of sts))"
    "route_Spec r = route_Spec (build_route rc (route_to (pod_host hp (fetchStrIndexIfPresent p))
       (ServiceNameOauth2Service @ ''-'' @ index_of p @ owner_suffix E p)
       (convertParentRefs (GetHTTPRouteParentRefs E rc))) r)"
proof -
  let ?ob = "meta_of sts" and ?sel = "smap_of [(''statefulset.kubernetes.io/pod-name'', v)]"
  let ?step = "step_of E Y rnd K rc statefulset_type ?ob"
  have o: "owner_laws (SetOwnerReference K)" and V: "create_or_update_laws (\<lambda>x. x) (services K)"
    and H: "create_or_update_laws (\<lambda>x. x) (httproutes K)"
    using laws(1) by (simp_all add: convergence_laws_def)
  obtain t where run: "for_each ?step (stateful_set_steps E (ns_reader K s) cfg rc ps) s = (Inr (), t)"
      "patch_autoscalers K rc ?ob t = (Inr (), s')"
    using stateful_set_run [OF laws(1) ok(2) rc(1) pods(1,2) ok(1)] by (auto simp: and_then_Inr_iff)
  note patched = patch_autoscalers_look [OF laws(1) run(2)]
  have sel: "pod_selectors x p = ?sel" for x using p(3) by (simp add: pod_selectors_def Let_def)
  have "PodService p ?sel \<in> set (pod_steps E (ns_reader K s) cfg rc p)" "PodRoute p \<in> set (pod_steps E (ns_reader K s) cfg rc p)"
    using p(2) rc(2) by (simp_all add: pod_steps_def hosted_def sel)
  then have steps: "PodService p ?sel \<in> set (stateful_set_steps E (ns_reader K s) cfg rc ps)"
    "PodRoute p \<in> set (stateful_set_steps E (ns_reader K s) cfg rc ps)" using p(1) by (auto simp: stateful_set_steps_def)
  note left = step_left [OF laws(1) run(1) stateful_set_targets [OF pods(3)]]
  obtain u u' where u: "?step (PodService p ?sel) u = (Inr (), u')"
      "look K t (target_of E ?ob (PodService p ?sel)) = look K u' (target_of E ?ob (PodService p ?sel))"
    by (rule left [OF steps(1)])
  have "settled_res (mutateOauth2Service ?sel) (\<lambda>x. x) K pod_type p
      (Get (services K) u' (key_of (oauth2ServiceObject E p)))"
    by (rule oauth2_service.step_settles [OF o V refl]) (use u(1) in \<open>simp del: dependent_namespaces\<close>)
  moreover have "Get (services K) s' (key_of (oauth2ServiceObject E p)) = Get (services K) u' (key_of (oauth2ServiceObject E p))"
    using u(2) look_stores [OF patched] by (simp del: dependent_namespaces)
  ultimately have svc: "settled_res (mutateOauth2Service ?sel) (\<lambda>x. x) K pod_type p
      (Get (services K) s' (key_of (oauth2ServiceObject E p)))" by simp
  let ?route = "httpRouteForStatefulSetPodObject E p ?ob"
  obtain w w' where w: "?step (PodRoute p) w = (Inr (), w')"
      "look K t (target_of E ?ob (PodRoute p)) = look K w' (target_of E ?ob (PodRoute p))"
    by (rule left [OF steps(2)])
  have "settled_res (mutateHTTPRouteForStatefulSetPod E p rc) (\<lambda>x. x) K pod_type p (Get (httproutes K) w' (key_of ?route))"
    by (rule pod_route.step_settles [OF o H refl]) (use w(1) in \<open>simp del: dependent_namespaces\<close>)
  moreover have "Get (httproutes K) s' (key_of ?route) = Get (httproutes K) w' (key_of ?route)"
    using w(2) look_stores [OF patched] by (simp del: dependent_namespaces)
  ultimately have "settled_res (mutateHTTPRouteForStatefulSetPod E p rc) (\<lambda>x. x) K pod_type p
      (Get (httproutes K) s' (key_of ?route))" by simp
  from this [unfolded mutateHTTPRouteForStatefulSetPod_build p(2) option.case]
  show ?thesis by (rule settled_route [OF _ laws(3)], rule_tac settled_service [OF svc laws(2)], rule_tac that)
qed

text \<open>C22 (routing of a stateful set pod). After a successful reconcile of a stateful set with a route, every
  listed pod that the webhook has injected - as the webhook returned it, with the identifier of the
  server - has a stored route of its own that leads through a stored service of its own to the
  oauth2-proxy of that pod: the service selects the pod by its name. No container of the user may have a
  port named \<open>oauth2\<close>, and the hashes in the names of the services must differ.\<close>

theorem pod_route_leads_to_sidecar:
  assumes laws: "convergence_laws K" "keyed (services K)" "keyed (httproutes K)"
    and reconciled: "reconcileStatefulSetDependencies E Y rnd K cfg sts s = (Inr (), s')" "GetDeletionTimestamp sts = None"
    and target: "rcs = Resolve E (ns_reader K s) cfg sts" "ShallCreateHTTPRoute rcs"
    and pods: "sts_Selector sts = Some l" "listed (pods K) s sts (MatchLabels l) = Inr ps" "pods_apart E ps"
    and admitted: "Default E K pm t p = Inr q" "injected E K pm t p = Some (rc, suffix)"
      "sidecars_unique (Containers (pod_Spec p))" "oauth2_port_free p"
      "fmlookup (GetLabels p) ''statefulset.kubernetes.io/pod-name'' = Some v"
    and stored: "stored = q\<lparr>GetUID := u\<rparr>" "stored \<in> set ps" "GetNamespace p = GetNamespace sts"
  shows "\<exists>svc r. Get (services K) s' (key_of (oauth2ServiceObject E stored)) = Inr svc \<and>
    Get (httproutes K) s' (key_of (httpRouteForStatefulSetPodObject E stored (meta_of sts))) = Inr r \<and>
    svc_Selector (svc_Spec svc) = smap_of [(''statefulset.kubernetes.io/pod-name'', v)] \<and> leads_to r svc stored"
proof -
  have inj: "inject E (pm_ImagePullSecret pm) rc suffix p = Inr q"
    using admitted(1,2) by (simp add: Default_injected)
  have "GetAnnotations q = GetAnnotations (addAnnotations E p rc)" by (rule inject_Inr [OF inj admitted(3)], simp)
  then have host: "fmlookup (GetAnnotations stored) AnnotationHostKey = Some (GetHost E rc)"
    using annotated_addAnnotations [of E rc p] by (simp add: annotated_def stored(1))
  have label: "fmlookup (GetLabels stored) ''statefulset.kubernetes.io/pod-name'' = Some v"
    using admitted(5) inject_meta [OF inj admitted(3)] by (simp add: stored(1) LabelKey_def)
  have ns: "GetNamespace stored = GetNamespace sts" using stored(1,3) inject_meta [OF inj admitted(3)] by simp
  show ?thesis
  proof (rule pod_service_route [OF laws reconciled target pods stored(2) host label])
    fix svc r
    assume svc: "Get (services K) s' (key_of (oauth2ServiceObject E stored)) = Inr svc"
        "key_of svc = key_of (oauth2ServiceObject E stored)"
        "svc_Spec svc = \<lparr>svc_Ports = [\<lparr>sport_Name = ''http'', sport_Port = 8080, sport_TargetPort = StrVal ''oauth2''\<rparr>],
           svc_Selector = smap_of [(''statefulset.kubernetes.io/pod-name'', v)]\<rparr>"
      and r: "Get (httproutes K) s' (key_of (httpRouteForStatefulSetPodObject E stored (meta_of sts))) = Inr r"
        "key_of r = key_of (httpRouteForStatefulSetPodObject E stored (meta_of sts))"
        "route_Spec r = route_Spec (build_route rcs (route_to (pod_host (GetHost E rc) (fetchStrIndexIfPresent stored))
           (ServiceNameOauth2Service @ ''-'' @ index_of stored @ owner_suffix E stored)
           (convertParentRefs (GetHTTPRouteParentRefs E rcs))) r)"
    have names: "GetName svc = ServiceNameOauth2Service @ ''-'' @ index_of stored @ owner_suffix E stored"
        "GetNamespace svc = GetNamespace sts" "GetNamespace r = GetNamespace sts"
      using svc(2) r(2) ns by (simp_all add: dependent_objects httpRouteForStatefulSetPodObject_def)
    have "selects svc stored"
      using label names(2) ns by (simp add: selects_def svc(3) labels_included_single smap_single_nonempty)
    moreover have "sidecar_port (StrVal ''oauth2'') stored"
      using injected_sidecar_port [OF admitted(1-4)] by (simp add: sidecar_port_def stored(1))
    ultimately have "leads_to r svc stored"
      by (intro leads_toI [OF r(3) names(1)]) (simp_all add: names svc(3))
    with svc(1,3) r(1) show ?thesis by auto
  qed
qed

theorem pod_route_leads_to_sidecar_witness:
  "\<exists>q s' svc r. Default sample_env memory_kube sample_mutator sample_cluster (sts_pod ''demo-0'') = Inr q \<and>
     reconcileStatefulSetDependencies sample_env sample_yaml (\<lambda>_. Some 0) memory_kube sample_config sample_sts
       (sts_cluster\<lparr>cl_pods := [q]\<rparr>) = (Inr (), s') \<and>
     Get (services memory_kube) s' (key_of (oauth2ServiceObject sample_env q)) = Inr svc \<and>
     Get (httproutes memory_kube) s' (key_of (httpRouteForStatefulSetPodObject sample_env q (meta_of sample_sts))) = Inr r \<and>
     leads_to r svc q"
proof -
  let ?p = "sts_pod ''demo-0''"
  have same: "pod_Spec ?p = pod_Spec sample_pod" by (simp add: sts_pod_def)
  have unique: "sidecars_unique (Containers (pod_Spec ?p))" and free: "oauth2_port_free ?p"
    using sample_unique sample_port_free by (simp_all add: same oauth2_port_free_def)
  have injected: "injected sample_env memory_kube sample_mutator sample_cluster ?p = Some (sample_rc, ''demo-a'')"
    using injected_cong [of ?p sample_pod sample_env memory_kube sample_mutator sample_cluster] sample_injected
    by (simp add: sts_pod_def)
  have "\<exists>q. inject sample_env (pm_ImagePullSecret sample_mutator) sample_rc ''demo-a'' ?p = Inr q"
    by (rule inject_total [OF unique]) (simp add: same secret_sources_def)
  then obtain q where q: "Default sample_env memory_kube sample_mutator sample_cluster ?p = Inr q"
    by (auto simp: Default_injected injected)
  then have inj: "inject sample_env (pm_ImagePullSecret sample_mutator) sample_rc ''demo-a'' ?p = Inr q"
    by (simp add: Default_injected injected)
  let ?s = "sts_cluster\<lparr>cl_pods := [q]\<rparr>"
  obtain s' where s': "reconcileStatefulSetDependencies sample_env sample_yaml (\<lambda>_. Some 0) memory_kube sample_config
      sample_sts ?s = (Inr (), s')" using sts_reconcile_total by blast
  have keyed: "keyed (services memory_kube)" "keyed (httproutes memory_kube)" using memory_dependent_laws
    by (simp_all add: dependent_laws_def)
  have sel: "sts_Selector sample_sts = Some \<lparr>MatchLabels = app_labels, MatchExpressions = []\<rparr>"
    and live: "GetDeletionTimestamp sample_sts = None"
    by (simp_all add: sample_sts_def object_meta.extend_def new_meta_def)
  have listed: "listed (pods memory_kube) ?s sample_sts (MatchLabels \<lparr>MatchLabels = app_labels, MatchExpressions = []\<rparr>) = Inr [q]"
    using inject_meta [OF inj unique]
    by (simp add: listed_def memory_kube_def list_store_def sts_pod_def selected_def carries_iff
        sample_sts_def sample_defs has_key_def LabelKey_def)
  have route: "ShallCreateHTTPRoute (Resolve sample_env (ns_reader memory_kube ?s) sample_config sample_sts)"
    by (simp add: sample_sts_rc ShallCreateHTTPRoute_def sample_target_def empty_target_def
        empty_global_def global_conf.extend_def empty_http_route_conf_def)
  have apart: "pods_apart sample_env [q]" by (simp add: pods_apart_def)
  have "\<exists>svc r. Get (services memory_kube) s' (key_of (oauth2ServiceObject sample_env q)) = Inr svc \<and>
      Get (httproutes memory_kube) s' (key_of (httpRouteForStatefulSetPodObject sample_env q (meta_of sample_sts))) = Inr r \<and>
      svc_Selector (svc_Spec svc) = smap_of [(''statefulset.kubernetes.io/pod-name'', ''demo-0'')] \<and> leads_to r svc q"
    by (rule pod_route_leads_to_sidecar [where u = "GetUID q" and stored = q, OF memory_convergence_laws keyed s' live refl route sel listed apart q injected
          unique free])
      (simp_all add: sts_pod_def, simp add: sample_sts_def sample_defs)
  with q s' show ?thesis by blast
qed

end
