(* ===== verification/Cert_Bundles.thy ===== *)
theory Cert_Bundles
  imports Prelude
begin

text \<open>
  The CA bundles of the mutating webhook configuration (the bundle functions of
  \<open>pkg/certificates/manager.go\<close>). A byte string in PEM format is represented by the blocks
  \<open>pem.Decode\<close> finds in it, in order: text between blocks is skipped by the decoder, and the loops of
  the code end alike at the end of the string and where no further block is found. Encoding a block
  appends it. Parsing a DER certificate is a parameter.
\<close>

subsection \<open>Certificates and PEM\<close>

text \<open>\<open>x509.Certificate\<close>, used as a certificate and as a template; times are seconds.\<close>

record certificate =
  Raw :: string
  SerialNumber :: int
  CommonName :: string
  Organization :: "string list"
  DNSNames :: "string list"
  NotBefore :: int
  NotAfter :: int
  KeyUsage :: "string list"
  ExtKeyUsage :: "string list"
  BasicConstraintsValid :: bool
  IsCA :: bool
  PubKey :: string

record pem_block =
  pb_Type :: string
  pb_Bytes :: string

type_synonym pem = "pem_block list"

type_synonym der_parser = "string \<Rightarrow> certificate res"

definition cert_block :: "certificate \<Rightarrow> pem_block" where
  "cert_block c = \<lparr>pb_Type = ''CERTIFICATE'', pb_Bytes = Raw c\<rparr>"

text \<open>The loop over the blocks of a bundle that collects its certificates.\<close>

fun collect_certs :: "der_parser \<Rightarrow> pem \<Rightarrow> certificate list \<Rightarrow> certificate list res" where
  "collect_certs parse [] acc = Inr acc"
| "collect_certs parse (b # bs) acc =
     (if pb_Type b \<noteq> ''CERTIFICATE'' then collect_certs parse bs acc
      else (case parse (pb_Bytes b) of
              Inl e \<Rightarrow> Inl e
            | Inr crt \<Rightarrow> collect_certs parse bs (acc @ [crt])))"

text \<open>Expired certificates go, the rest stays in order, the current CA is appended.\<close>

fun drop_expired :: "int \<Rightarrow> certificate list \<Rightarrow> certificate list \<Rightarrow> certificate list" where
  "drop_expired now [] acc = acc"
| "drop_expired now (ca # cas) acc = drop_expired now cas (if NotAfter ca < now then acc else acc @ [ca])"

fun encode_certs :: "certificate list \<Rightarrow> pem \<Rightarrow> pem" where
  "encode_certs [] slice = slice"
| "encode_certs (ca # cas) slice = encode_certs cas (slice @ [cert_block ca])"

definition updateCABundles :: "der_parser \<Rightarrow> int \<Rightarrow> certificate \<Rightarrow> pem \<Rightarrow> pem res" where
  "updateCABundles parse now ca caBundle =
     res_bind (collect_certs parse caBundle [])
       (\<lambda>currentCAs. Inr (encode_certs (drop_expired now currentCAs [] @ [ca]) []))"

fun collect_others :: "der_parser \<Rightarrow> certificate \<Rightarrow> pem \<Rightarrow> certificate list \<Rightarrow> certificate list res" where
  "collect_others parse ca [] acc = Inr acc"
| "collect_others parse ca (b # bs) acc =
     (if pb_Type b \<noteq> ''CERTIFICATE'' then collect_others parse ca bs acc
      else (case parse (pb_Bytes b) of
              Inl e \<Rightarrow> Inl e
            | Inr crt \<Rightarrow>
                collect_others parse ca bs
                  (if SerialNumber ca \<noteq> SerialNumber crt then acc @ [crt] else acc)))"

definition removeCABundle :: "der_parser \<Rightarrow> certificate \<Rightarrow> pem \<Rightarrow> pem res" where
  "removeCABundle parse ca caBundle =
     res_bind (collect_others parse ca caBundle []) (\<lambda>currentCAs. Inr (encode_certs currentCAs []))"

fun caBundleFound :: "der_parser \<Rightarrow> pem \<Rightarrow> certificate \<Rightarrow> bool" where
  "caBundleFound parse [] cert = False"
| "caBundleFound parse (b # bs) cert =
     (if pb_Type b \<noteq> ''CERTIFICATE'' then caBundleFound parse bs cert
      else (case parse (pb_Bytes b) of
              Inl e \<Rightarrow> False
            | Inr crt \<Rightarrow>
                if SerialNumber cert = SerialNumber crt then True else caBundleFound parse bs cert))"

subsection \<open>Webhooks\<close>

record webhook =
  wh_Name :: string
  CABundle :: pem

record webhook_config =
  wc_Name :: string
  Webhooks :: "webhook list"

definition podsWebhookSuffix :: string where
  "podsWebhookSuffix = ''-pods.oidc-apps.io''"

definition vpasWebhookSuffix :: string where
  "vpasWebhookSuffix = ''-vpas.oidc-apps.io''"

definition own_webhook :: "string \<Rightarrow> webhook \<Rightarrow> bool" where
  "own_webhook name w \<longleftrightarrow> wh_Name w = name @ vpasWebhookSuffix \<or> wh_Name w = name @ podsWebhookSuffix"

text \<open>The loops over the webhooks skip the foreign ones and stop at the first error; what they changed
  before stays changed.\<close>

fun edit_webhooks :: "(pem \<Rightarrow> pem res) \<Rightarrow> string \<Rightarrow> webhook list \<Rightarrow> webhook list" where
  "edit_webhooks f name [] = []"
| "edit_webhooks f name (w # ws) =
     (if \<not> own_webhook name w then w # edit_webhooks f name ws
      else (case f (CABundle w) of
              Inl e \<Rightarrow> w # ws
            | Inr b \<Rightarrow> w\<lparr>CABundle := b\<rparr> # edit_webhooks f name ws))"

definition cleanWebhookCABundles :: "der_parser \<Rightarrow> certificate \<Rightarrow> string \<Rightarrow> webhook_config \<Rightarrow> webhook_config" where
  "cleanWebhookCABundles parse ca name c =
     c\<lparr>Webhooks := edit_webhooks (removeCABundle parse ca) name (Webhooks c)\<rparr>"

definition refreshWebhookCABundles ::
  "der_parser \<Rightarrow> int \<Rightarrow> certificate \<Rightarrow> string \<Rightarrow> webhook_config \<Rightarrow> webhook_config" where
  "refreshWebhookCABundles parse now ca name c =
     c\<lparr>Webhooks := edit_webhooks (updateCABundles parse now ca) name (Webhooks c)\<rparr>"

subsection \<open>Facts\<close>

definition is_cert :: "pem_block \<Rightarrow> bool" where
  "is_cert b \<longleftrightarrow> pb_Type b = ''CERTIFICATE''"

text \<open>The certificates of a bundle, when all of them parse.\<close>

definition certs_of :: "der_parser \<Rightarrow> pem \<Rightarrow> certificate list res" where
  "certs_of parse bs = collect_certs parse bs []"

lemma collect_certs_acc:
  "collect_certs parse bs acc = res_bind (certs_of parse bs) (\<lambda>cs. Inr (acc @ cs))"
  unfolding certs_of_def
proof (induction bs arbitrary: acc)
  case (Cons b bs)
  show ?case
  proof (cases "parse (pb_Bytes b)")
    case (Inr crt)
    show ?thesis
      using Cons.IH [of acc] Cons.IH [of "acc @ [crt]"] Cons.IH [of "[crt]"] Inr
      by (cases "collect_certs parse bs []") simp_all
  qed (use Cons.IH [of acc] in simp)
qed simp

lemma certs_of_Nil [simp]: "certs_of parse [] = Inr []"
  by (simp add: certs_of_def)

lemma certs_of_Cons [simp]:
  "certs_of parse (b # bs) =
     (if \<not> is_cert b then certs_of parse bs
      else res_bind (parse (pb_Bytes b)) (\<lambda>c. res_bind (certs_of parse bs) (\<lambda>cs. Inr (c # cs))))"
proof (cases "parse (pb_Bytes b)")
  case (Inr c)
  then have "certs_of parse (b # bs) =
      (if \<not> is_cert b then certs_of parse bs else collect_certs parse bs [c])"
    by (simp add: certs_of_def is_cert_def)
  with Inr show ?thesis by (simp add: collect_certs_acc)
qed (simp add: certs_of_def is_cert_def)

lemma drop_expired_filter: "drop_expired now cas acc = acc @ filter (\<lambda>c. \<not> NotAfter c < now) cas"
  by (induction cas arbitrary: acc) simp_all

lemma encode_certs_map: "encode_certs cas slice = slice @ map cert_block cas"
  by (induction cas arbitrary: slice) simp_all

lemma updateCABundles_eq:
  "updateCABundles parse now ca bs =
     res_bind (certs_of parse bs)
       (\<lambda>cs. Inr (map cert_block (filter (\<lambda>c. \<not> NotAfter c < now) cs @ [ca])))"
  by (simp add: updateCABundles_def certs_of_def drop_expired_filter encode_certs_map)

lemma collect_others_eq:
  "collect_others parse ca bs acc =
     res_bind (certs_of parse bs) (\<lambda>cs. Inr (acc @ filter (\<lambda>c. SerialNumber ca \<noteq> SerialNumber c) cs))"
proof (induction bs arbitrary: acc)
  case (Cons b bs)
  then show ?case
    by (cases "parse (pb_Bytes b)"; cases "certs_of parse bs") (simp_all add: is_cert_def)
qed simp

lemma removeCABundle_eq:
  "removeCABundle parse ca bs =
     res_bind (certs_of parse bs)
       (\<lambda>cs. Inr (map cert_block (filter (\<lambda>c. SerialNumber ca \<noteq> SerialNumber c) cs)))"
  by (cases "certs_of parse bs") (simp_all add: removeCABundle_def collect_others_eq encode_certs_map)

text \<open>A parsed certificate re-parses from its raw bytes: what \<open>x509.ParseCertificate\<close> documents of \<open>Raw\<close>.\<close>

definition reparses :: "der_parser \<Rightarrow> certificate \<Rightarrow> bool" where
  "reparses parse c \<longleftrightarrow> parse (Raw c) = Inr c"

definition parser_laws :: "der_parser \<Rightarrow> bool" where
  "parser_laws parse \<longleftrightarrow> (\<forall>der c. parse der = Inr c \<longrightarrow> reparses parse c)"

lemma certs_of_blocks:
  "(\<And>c. c \<in> set cs \<Longrightarrow> reparses parse c) \<Longrightarrow> certs_of parse (map cert_block cs) = Inr cs"
  by (induction cs) (simp_all add: cert_block_def is_cert_def reparses_def)

lemma certs_of_reparse:
  assumes "parser_laws parse"
  shows "certs_of parse bs = Inr cs \<Longrightarrow> c \<in> set cs \<Longrightarrow> reparses parse c"
proof (induction bs arbitrary: cs)
  case (Cons b bs)
  show ?case
  proof (cases "is_cert b")
    case True
    with Cons.prems(1) obtain d ds where "parse (pb_Bytes b) = Inr d" "certs_of parse bs = Inr ds" "cs = d # ds"
      by (auto simp: res_bind_Inr_iff)
    with Cons assms show ?thesis unfolding parser_laws_def by auto
  qed (use Cons in simp)
qed simp

lemma caBundleFound_certs:
  "certs_of parse bs = Inr cs \<Longrightarrow> caBundleFound parse bs ca \<longleftrightarrow> (\<exists>c \<in> set cs. SerialNumber ca = SerialNumber c)"
proof (induction bs arbitrary: cs)
  case (Cons b bs)
  show ?case
  proof (cases "is_cert b")
    case True
    with Cons.prems(1) obtain d ds where "parse (pb_Bytes b) = Inr d" "certs_of parse bs = Inr ds" "cs = d # ds"
      by (auto simp: res_bind_Inr_iff)
    with Cons.IH True show ?thesis by (simp add: is_cert_def)
  qed (use Cons in \<open>simp add: is_cert_def\<close>)
qed simp

text \<open>The bundle written for a CA.\<close>

lemma updated_certs:
  assumes "parser_laws parse" "reparses parse ca" "certs_of parse bs = Inr cs"
  shows "\<exists>bs'. updateCABundles parse now ca bs = Inr bs' \<and>
    certs_of parse bs' = Inr (filter (\<lambda>c. \<not> NotAfter c < now) cs @ [ca])"
  using assms certs_of_blocks [of "filter (\<lambda>c. \<not> NotAfter c < now) cs @ [ca]" parse]
    certs_of_reparse [OF assms(1,3)]
  by (auto simp: updateCABundles_eq)

lemma updated_found:
  assumes "parser_laws parse" "reparses parse ca" "updateCABundles parse now ca bs = Inr bs'"
  shows "caBundleFound parse bs' ca"
proof -
  obtain cs where cs: "certs_of parse bs = Inr cs"
    using assms(3) by (auto simp: updateCABundles_eq res_bind_Inr_iff)
  show ?thesis
    using updated_certs [OF assms(1,2) cs, of now] assms(3) caBundleFound_certs [of parse bs' _ ca] by auto
qed

lemma removed_certs:
  assumes "parser_laws parse" "certs_of parse bs = Inr cs"
  shows "\<exists>bs'. removeCABundle parse ca bs = Inr bs' \<and>
    certs_of parse bs' = Inr (filter (\<lambda>c. SerialNumber ca \<noteq> SerialNumber c) cs)"
  using assms certs_of_blocks [of "filter (\<lambda>c. SerialNumber ca \<noteq> SerialNumber c) cs" parse]
    certs_of_reparse [OF assms]
  by (auto simp: removeCABundle_eq)

end
