(* ===== verification/Cert_Manager.thy ===== *)
theory Cert_Manager
  imports Cert_Bundles Kube_Types
begin

text \<open>
  The certificate manager (\<open>pkg/certificates\<close>: \<open>generate.go\<close>, \<open>operations.go\<close>, \<open>rand.go\<close> and the
  manager of \<open>manager.go\<close>). The state is the world (\<open>'w\<close>: files, cluster, clock, random source), the
  two names the process generates once, and the two bundles. The crypto library, the file utilities
  and the API clients are parameters. A tick of one of the three loops is one
  operation here; the loops themselves, and how they share the bundles, are in \<open>Cert_Concurrent\<close>.
\<close>

datatype private_key = RSA string | OtherKey string

record cert_bundle =
  b_cert :: certificate
  b_key :: private_key

text \<open>A file is named by its directory and its name; its content is in PEM format.\<close>

type_synonym disk_file = "string \<times> string"

record 'w cert_env =
  GenerateKey :: "nat \<Rightarrow> ('w, string) go"
  x509_CreateCertificate :: "certificate \<Rightarrow> certificate \<Rightarrow> string \<Rightarrow> private_key \<Rightarrow> ('w, string) go"
  Public :: "private_key \<Rightarrow> string"
  rand_Int :: "int \<Rightarrow> ('w, int) go"
  ParseCertificate :: der_parser
  MarshalPKCS8PrivateKey :: "private_key \<Rightarrow> string res"
  ParsePKCS8PrivateKey :: "string \<Rightarrow> private_key res"
  WriteCert :: "disk_file \<Rightarrow> pem \<Rightarrow> ('w, unit) go"
  ReadFile :: "'w \<Rightarrow> disk_file \<Rightarrow> pem res"
  Now :: "'w \<Rightarrow> int"
  NameRandom :: "nat \<Rightarrow> nat option"
  NewForConfig :: "('w, unit) go"
  GetWebhook :: "'w \<Rightarrow> string \<Rightarrow> webhook_config res"
  UpdateWebhook :: "webhook_config \<Rightarrow> ('w, unit) go"
  RetryOnConflict :: "('w, unit) go \<Rightarrow> ('w, unit) go"

record 'w cert_state =
  world :: 'w
  generatedCAName :: "string option"
  generatedTLSName :: "string option"

text \<open>Working on the world part of a larger state.\<close>

definition in_world :: "('w, 'a) go \<Rightarrow> ('w cert_state, 'a) go" where
  "in_world m = (\<lambda>s. case m (world s) of (r, w) \<Rightarrow> (r, s\<lparr>world := w\<rparr>))"

lemma in_world_Inr_iff:
  "in_world m s = (Inr x, s') \<longleftrightarrow> (\<exists>w. m (world s) = (Inr x, w) \<and> s' = s\<lparr>world := w\<rparr>)"
  by (auto simp: in_world_def split: prod.splits)

subsection \<open>Constants\<close>

definition tlsCertValidity :: int where "tlsCertValidity = 24 * 3600"
definition tlsCertRotation :: int where "tlsCertRotation = 3600"
definition caCertValidity :: int where "caCertValidity = 168 * 3600"
definition caCertRotation :: int where "caCertRotation = 10 * 3600"
definition expirationTicker :: int where "expirationTicker = 10 * 60"
definition keyLength :: nat where "keyLength = 3072"
definition organizationName :: string where "organizationName = ''oidc-apps.io''"
definition commonTLSNamePrefix :: string where "commonTLSNamePrefix = ''oidc-apps-controller-webhook''"
definition commonCANamePrefix :: string where "commonCANamePrefix = ''oidc-apps-controller-ca''"

subsection \<open>Generation\<close>

text \<open>\<open>sync.Once\<close>: the first call generates the name, the others return it.\<close>

definition once_name :: "'w cert_env \<Rightarrow> string \<Rightarrow> string option \<Rightarrow> string" where
  "once_name C prefix cell =
     (case cell of Some n \<Rightarrow> n | None \<Rightarrow> prefix @ ''-'' @ GenerateRandomString (NameRandom C) 5)"

definition generateCACommonName :: "'w cert_env \<Rightarrow> string \<Rightarrow> ('w cert_state, string) go" where
  "generateCACommonName C prefix =
     (\<lambda>s. let n = once_name C prefix (generatedCAName s) in (Inr n, s\<lparr>generatedCAName := Some n\<rparr>))"

definition generateTLSCommonName :: "'w cert_env \<Rightarrow> string \<Rightarrow> ('w cert_state, string) go" where
  "generateTLSCommonName C prefix =
     (\<lambda>s. let n = once_name C prefix (generatedTLSName s) in (Inr n, s\<lparr>generatedTLSName := Some n\<rparr>))"

text \<open>A serial number is positive: a random number below \<open>2 ^ 63 - 2\<close> plus one.\<close>

definition generateSerial :: "'w cert_env \<Rightarrow> ('w, int) go" where
  "generateSerial C = and_then (rand_Int C (2 ^ 63 - 1 - 1)) (\<lambda>n. ret (n + 1))"

definition CreateCertificate ::
  "'w cert_env \<Rightarrow> certificate \<Rightarrow> certificate \<Rightarrow> string \<Rightarrow> private_key \<Rightarrow> ('w, certificate) go" where
  "CreateCertificate C template parent pub priv =
     and_then (x509_CreateCertificate C template parent pub priv) (\<lambda>der. reading (\<lambda>_. ParseCertificate C der))"

definition derToPem :: "'w cert_env \<Rightarrow> certificate \<Rightarrow> pem res" where
  "derToPem C c =
     (case ParseCertificate C (Raw c) of
        Inl e \<Rightarrow> Inl (Wrap ''error parcing bundle'' e)
      | Inr p \<Rightarrow> Inr [\<lparr>pb_Type = ''CERTIFICATE'', pb_Bytes = Raw p\<rparr>])"

definition rsaToPem :: "'w cert_env \<Rightarrow> private_key \<Rightarrow> pem res" where
  "rsaToPem C k =
     (case MarshalPKCS8PrivateKey C k of
        Inl e \<Rightarrow> Inl (Wrap ''error marshaling bundle private key'' e)
      | Inr m \<Rightarrow> Inr [\<lparr>pb_Type = ''RSA PRIVATE KEY'', pb_Bytes = m\<rparr>])"

definition as_rsa :: "private_key \<Rightarrow> private_key res" where
  "as_rsa k = (case k of RSA _ \<Rightarrow> Inr k | OtherKey _ \<Rightarrow> Inl (Panic ''interface conversion''))"

definition write_pair :: "'w cert_env \<Rightarrow> string \<Rightarrow> string \<Rightarrow> pem \<Rightarrow> pem \<Rightarrow> ('w, unit) go" where
  "write_pair C path ty certPEM keyPEM =
     and_then (wrapping ''error saving bundle public key'' (WriteCert C (path, ty @ ''.crt'') certPEM))
       (\<lambda>_. wrapping ''error saving bundle private key'' (WriteCert C (path, ty @ ''.key'') keyPEM))"

definition writeBundle :: "'w cert_env \<Rightarrow> string \<Rightarrow> cert_bundle \<Rightarrow> ('w, unit) go" where
  "writeBundle C path b =
     and_then (reading (\<lambda>_. derToPem C (b_cert b))) (\<lambda>certPEM.
     and_then (reading (\<lambda>_. res_bind (as_rsa (b_key b)) (rsaToPem C))) (\<lambda>keyPEM.
     if IsCA (b_cert b) then write_pair C path ''ca'' certPEM keyPEM
     else write_pair C path ''tls'' certPEM keyPEM))"

definition ca_template :: "int \<Rightarrow> string \<Rightarrow> int \<Rightarrow> certificate" where
  "ca_template serial name now =
     \<lparr>Raw = '''', SerialNumber = serial, CommonName = name, Organization = [organizationName],
      DNSNames = [''CA''], NotBefore = now, NotAfter = now + caCertValidity,
      KeyUsage = [''KeyEncipherment'', ''DigitalSignature'', ''CertSign''], ExtKeyUsage = [],
      BasicConstraintsValid = True, IsCA = True, PubKey = ''''\<rparr>"

definition generateCACert :: "'w cert_env \<Rightarrow> string \<Rightarrow> ('w cert_state, cert_bundle) go" where
  "generateCACert C path =
     and_then (wrapping ''error generating the CA private key'' (in_world (GenerateKey C keyLength))) (\<lambda>k.
     and_then (wrapping ''error generating bundle serial number'' (in_world (generateSerial C))) (\<lambda>serial.
     and_then (generateCACommonName C commonCANamePrefix) (\<lambda>name.
     and_then (reading (\<lambda>s. Inr (Now C (world s)))) (\<lambda>now.
     let privateKey = RSA k; certTmpl = ca_template serial name now in
     and_then (wrapping ''error creating the CA bundle''
       (in_world (CreateCertificate C certTmpl certTmpl (Public C privateKey) privateKey))) (\<lambda>caCert.
     let b = \<lparr>b_cert = caCert, b_key = privateKey\<rparr> in
     and_then (in_world (writeBundle C path b)) (\<lambda>_. ret b))))))"

definition tls_template :: "int \<Rightarrow> string \<Rightarrow> string list \<Rightarrow> int \<Rightarrow> certificate" where
  "tls_template serial name dnsnames now =
     \<lparr>Raw = '''', SerialNumber = serial, CommonName = name, Organization = [organizationName],
      DNSNames = dnsnames, NotBefore = now, NotAfter = now + tlsCertValidity,
      KeyUsage = [''DigitalSignature'', ''KeyEncipherment''], ExtKeyUsage = [''ServerAuth''],
      BasicConstraintsValid = False, IsCA = False, PubKey = ''''\<rparr>"

definition generateTLSCert ::
  "'w cert_env \<Rightarrow> string \<Rightarrow> string list \<Rightarrow> cert_bundle \<Rightarrow> ('w cert_state, cert_bundle) go" where
  "generateTLSCert C path dnsnames caBundle =
     and_then (wrapping ''error generating the TLS private key'' (in_world (GenerateKey C keyLength))) (\<lambda>k.
     and_then (wrapping ''error generating bundle serial number'' (in_world (generateSerial C))) (\<lambda>serial.
     and_then (generateTLSCommonName C commonTLSNamePrefix) (\<lambda>name.
     and_then (reading (\<lambda>s. Inr (Now C (world s)))) (\<lambda>now.
     let privateKey = RSA k; certTmpl = tls_template serial name dnsnames now in
     and_then (wrapping ''error generating the TLS bundle''
       (in_world (CreateCertificate C certTmpl (b_cert caBundle) (Public C privateKey) (b_key caBundle)))) (\<lambda>c.
     let b = \<lparr>b_cert = c, b_key = privateKey\<rparr> in
     and_then (in_world (writeBundle C path b)) (\<lambda>_. ret b))))))"

subsection \<open>Loading\<close>

definition first_block :: "pem \<Rightarrow> pem_block res" where
  "first_block p = (case p of [] \<Rightarrow> Inl (ErrOther ''no PEM block found'') | b # _ \<Rightarrow> Inr b)"

definition load_pair :: "'w cert_env \<Rightarrow> string \<Rightarrow> string \<Rightarrow> 'w \<Rightarrow> cert_bundle res" where
  "load_pair C ty path w =
     res_bind (ReadFile C w (path, ty @ ''.crt'')) (\<lambda>crt.
     res_bind (first_block crt) (\<lambda>block.
     res_bind (ParseCertificate C (pb_Bytes block)) (\<lambda>certificate.
     res_bind (ReadFile C w (path, ty @ ''.key'')) (\<lambda>key.
     res_bind (first_block key) (\<lambda>kblock.
     res_bind (ParsePKCS8PrivateKey C (pb_Bytes kblock)) (\<lambda>k.
     res_bind (as_rsa k) (\<lambda>rsa. Inr \<lparr>b_cert = certificate, b_key = rsa\<rparr>)))))))"

definition loadTLSFromDisk :: "'w cert_env \<Rightarrow> string \<Rightarrow> 'w \<Rightarrow> cert_bundle res" where
  "loadTLSFromDisk C path = load_pair C ''tls'' path"

definition loadCAFromDisk :: "'w cert_env \<Rightarrow> string \<Rightarrow> 'w \<Rightarrow> cert_bundle res" where
  "loadCAFromDisk C path = load_pair C ''ca'' path"

subsection \<open>The webhook configuration\<close>

text \<open>The body of the retry loop: read, edit, write. The clock is read once per run of the body.\<close>

definition refresh_once ::
  "'w cert_env \<Rightarrow> (go_error \<Rightarrow> go_error) \<Rightarrow> string \<Rightarrow> certificate \<Rightarrow> ('w, unit) go" where
  "refresh_once C get_err name ca = (\<lambda>w.
     case GetWebhook C w name of
       Inl e \<Rightarrow> (Inl (get_err e), w)
     | Inr hook \<Rightarrow>
         UpdateWebhook C (refreshWebhookCABundles (ParseCertificate C) (Now C w) ca name hook) w)"

definition setupWebhooksCABundles :: "'w cert_env \<Rightarrow> string \<Rightarrow> certificate \<Rightarrow> ('w, unit) go" where
  "setupWebhooksCABundles C name ca =
     and_then (wrapping ''error creating k8s client'' (NewForConfig C))
       (\<lambda>_. RetryOnConflict C (refresh_once C (Wrap ''error getting webhook'') name ca))"

definition updateWebhookConfiguration :: "'w cert_env \<Rightarrow> string \<Rightarrow> certificate \<Rightarrow> ('w, unit) go" where
  "updateWebhookConfiguration C name ca = RetryOnConflict C (refresh_once C (\<lambda>e. e) name ca)"

definition clean_once :: "'w cert_env \<Rightarrow> string \<Rightarrow> certificate \<Rightarrow> ('w, unit) go" where
  "clean_once C name ca = (\<lambda>w.
     case GetWebhook C w name of
       Inl e \<Rightarrow> (Inl e, w)
     | Inr hook \<Rightarrow> UpdateWebhook C (cleanWebhookCABundles (ParseCertificate C) ca name hook) w)"

definition cleanUpMutatingWebhookConfiguration :: "'w cert_env \<Rightarrow> string \<Rightarrow> certificate \<Rightarrow> ('w, unit) go" where
  "cleanUpMutatingWebhookConfiguration C name ca = RetryOnConflict C (clean_once C name ca)"

subsection \<open>The manager\<close>

record cert_manager =
  certPath :: string
  dnsNames :: "string list"
  webhookName :: string

record 'w manager_state = "'w cert_state" +
  cm_ca :: cert_bundle
  cm_tls :: cert_bundle

definition dns_names :: "string \<Rightarrow> string \<Rightarrow> string list" where
  "dns_names name namespace =
     [name] @
     (if namespace \<noteq> [] then
        (let prefix = name @ ''.'' @ namespace
         in [prefix, prefix @ ''.svc'', prefix @ ''.svc.cluster'', prefix @ ''.svc.cluster.local''])
      else [])"

text \<open>A bundle that could not be loaded is generated; the error of the load is logged.\<close>

definition load_or :: "('w \<Rightarrow> cert_bundle res) \<Rightarrow> ('w cert_state, cert_bundle) go \<Rightarrow> ('w cert_state, cert_bundle) go" where
  "load_or load generate = (\<lambda>s.
     case load (world s) of
       Inr b \<Rightarrow> (Inr b, s)
     | Inl e \<Rightarrow> if is_panic e then (Inl e, s) else generate s)"

definition New ::
  "'w cert_env \<Rightarrow> string \<Rightarrow> string \<Rightarrow> string \<Rightarrow> ('w cert_state, cert_manager \<times> cert_bundle \<times> cert_bundle) go" where
  "New C path name namespace =
     (let names = dns_names name namespace in
      and_then (load_or (loadCAFromDisk C path)
        (and_then (generateCACert C path) (\<lambda>ca.
           and_then (in_world (setupWebhooksCABundles C name (b_cert ca))) (\<lambda>_. ret ca)))) (\<lambda>ca.
      and_then (load_or (loadTLSFromDisk C path) (generateTLSCert C path names ca)) (\<lambda>tls.
      ret (\<lparr>certPath = path, dnsNames = names, webhookName = name\<rparr>, ca, tls))))"

subsection \<open>The loops\<close>

definition lift_state :: "('w cert_state, 'a) go \<Rightarrow> ('w manager_state, 'a) go" where
  "lift_state m = (\<lambda>s.
     case m (cert_state.truncate s) of
       (r, t) \<Rightarrow> (r, s\<lparr>world := world t, generatedCAName := generatedCAName t, generatedTLSName := generatedTLSName t\<rparr>))"

text \<open>The error of a generation is logged, and the nil bundle that came with it is dereferenced.\<close>

definition or_nil :: "('s, 'a) go \<Rightarrow> ('s, 'a) go" where
  "or_nil m = (\<lambda>s. case m s of
     (Inl e, s') \<Rightarrow> (Inl (if is_panic e then e else Panic ''nil pointer dereference''), s')
   | r \<Rightarrow> r)"

definition log_error :: "('s, unit) go \<Rightarrow> ('s, unit) go" where
  "log_error m = (\<lambda>s. case m s of
     (Inl e, s') \<Rightarrow> (if is_panic e then (Inl e, s') else (Inr (), s'))
   | r \<Rightarrow> r)"

definition rotateTLSCert :: "'w cert_env \<Rightarrow> cert_manager \<Rightarrow> ('w manager_state, unit) go" where
  "rotateTLSCert C c = (\<lambda>s.
     let expire = Now C (world s) + tlsCertRotation in
     if expire < NotAfter (b_cert (cm_tls s)) then (Inr (), s)
     else and_then (or_nil (lift_state (generateTLSCert C (certPath c) (dnsNames c) (cm_ca s))))
       (\<lambda>t s'. (Inr (), s'\<lparr>cm_tls := t\<rparr>)) s)"

definition rotateCACert :: "'w cert_env \<Rightarrow> cert_manager \<Rightarrow> ('w manager_state, unit) go" where
  "rotateCACert C c = (\<lambda>s.
     let expire = Now C (world s) + caCertRotation in
     if expire < NotAfter (b_cert (cm_ca s)) then (Inr (), s)
     else and_then (or_nil (lift_state (generateCACert C (certPath c)))) (\<lambda>crt.
       and_then (\<lambda>s'. (Inr (), s'\<lparr>cm_ca := crt\<rparr>)) (\<lambda>_.
       and_then (log_error (lift_state (in_world (updateWebhookConfiguration C (webhookName c) (b_cert crt))))) (\<lambda>_.
       and_then (or_nil (lift_state (generateTLSCert C (certPath c) (dnsNames c) crt)))
         (\<lambda>t s'. (Inr (), s'\<lparr>cm_tls := t\<rparr>))))) s)"

text \<open>One pass of the sync loop; a webhook configuration that cannot be read is the empty one.\<close>

definition syncWebhookCaBundle :: "'w cert_env \<Rightarrow> cert_manager \<Rightarrow> ('w manager_state, unit) go" where
  "syncWebhookCaBundle C c = (\<lambda>s.
     let hooks = (case GetWebhook C (world s) (webhookName c) of Inl _ \<Rightarrow> [] | Inr h \<Rightarrow> Webhooks h);
         ca = b_cert (cm_ca s)
     in for_each (\<lambda>w.
          if \<not> caBundleFound (ParseCertificate C) (CABundle w) ca
          then log_error (lift_state (in_world (updateWebhookConfiguration C (webhookName c) ca)))
          else ret ()) hooks s)"

end
