(* ===== verification/Cert_Facts.thy ===== *)
theory Cert_Facts
  imports Cert_Manager
begin

text \<open>
  What the certificate manager guarantees: the certificates it generates, the margin a tick leaves
  before expiry, the chain from the serving certificate to the CA as an invariant of the running
  manager, and the webhook configuration after an update. The documented behaviour of the crypto
  library, of the clock and of the retry helper is stated first.
\<close>

subsection \<open>Laws\<close>

text \<open>A created certificate carries what its template says and the key it was created for;
  \<open>signer\<close> is the public key under which the signature of a certificate verifies.\<close>

definition x509_laws :: "'w cert_env \<Rightarrow> (certificate \<Rightarrow> string) \<Rightarrow> bool" where
  "x509_laws C signer \<longleftrightarrow>
     parser_laws (ParseCertificate C) \<and>
     (\<forall>tmpl parent pub priv w der w' c.
        x509_CreateCertificate C tmpl parent pub priv w = (Inr der, w') \<longrightarrow>
        ParseCertificate C der = Inr c \<longrightarrow>
        SerialNumber c = SerialNumber tmpl \<and> NotAfter c = NotAfter tmpl \<and> IsCA c = IsCA tmpl \<and>
        DNSNames c = DNSNames tmpl \<and> PubKey c = pub \<and> signer c = Public C priv)"

text \<open>The calls between the decision to generate and the template do not set the clock back.\<close>

definition forward :: "'w cert_env \<Rightarrow> ('w, 'a) go \<Rightarrow> bool" where
  "forward C m \<longleftrightarrow> (\<forall>w. Now C w \<le> Now C (snd (m w)))"

definition clock_laws :: "'w cert_env \<Rightarrow> bool" where
  "clock_laws C \<longleftrightarrow> (\<forall>n. forward C (GenerateKey C n)) \<and> (\<forall>n. forward C (rand_Int C n))"

text \<open>\<open>retry.RetryOnConflict\<close> ends well only with a run of its body that ended well.\<close>

definition retry_laws :: "'w cert_env \<Rightarrow> bool" where
  "retry_laws C \<longleftrightarrow>
     (\<forall>m w w'. RetryOnConflict C m w = (Inr (), w') \<longrightarrow> (\<exists>v. m v = (Inr (), w')))"

text \<open>What was written is what is read, when the write succeeds.\<close>

definition webhook_laws :: "'w cert_env \<Rightarrow> bool" where
  "webhook_laws C \<longleftrightarrow>
     (\<forall>w name h. GetWebhook C w name = Inr h \<longrightarrow> wc_Name h = name) \<and>
     (\<forall>h w w'. UpdateWebhook C h w = (Inr (), w') \<longrightarrow> GetWebhook C w' (wc_Name h) = Inr h)"

lemma forwardD: "forward C m \<Longrightarrow> m w = (r, w') \<Longrightarrow> Now C w \<le> Now C w'"
  unfolding forward_def by (metis snd_conv)

subsection \<open>Generated certificates\<close>

lemma CreateCertificate_Inr:
  assumes "x509_laws C signer" "CreateCertificate C tmpl parent pub priv w = (Inr c, w')"
  shows "SerialNumber c = SerialNumber tmpl \<and> NotAfter c = NotAfter tmpl \<and> IsCA c = IsCA tmpl \<and>
    DNSNames c = DNSNames tmpl \<and> PubKey c = pub \<and> signer c = Public C priv \<and> reparses (ParseCertificate C) c"
proof -
  obtain der where "x509_CreateCertificate C tmpl parent pub priv w = (Inr der, w')"
    "ParseCertificate C der = Inr c"
    using assms(2) by (auto simp: CreateCertificate_def and_then_Inr_iff)
  with assms(1) show ?thesis unfolding x509_laws_def parser_laws_def by blast
qed

lemma generateSerial_clock:
  "clock_laws C \<Longrightarrow> generateSerial C w = (Inr n, w') \<Longrightarrow> Now C w \<le> Now C w'"
  unfolding clock_laws_def generateSerial_def
  by (auto simp: and_then_Inr_iff dest: forwardD)

text \<open>The common shape of the two generations.\<close>

lemma generateCACert_Inr:
  assumes laws: "x509_laws C signer" and clock: "clock_laws C"
    and ok: "generateCACert C path s = (Inr b, s')"
  shows "Now C (world s) + caCertValidity \<le> NotAfter (b_cert b)"
    and "IsCA (b_cert b)" and "PubKey (b_cert b) = Public C (b_key b)"
    and "signer (b_cert b) = Public C (b_key b)" and "reparses (ParseCertificate C) (b_cert b)"
proof -
  obtain k w1 serial w2 name c w3 where
      k: "GenerateKey C keyLength (world s) = (Inr k, w1)"
      and n: "generateSerial C w1 = (Inr serial, w2)"
      and c: "CreateCertificate C (ca_template serial name (Now C w2)) (ca_template serial name (Now C w2))
        (Public C (RSA k)) (RSA k) w2 = (Inr c, w3)"
      and b: "b = \<lparr>b_cert = c, b_key = RSA k\<rparr>"
    using ok by (auto simp: generateCACert_def and_then_Inr_iff in_world_Inr_iff generateCACommonName_def Let_def)
  have "Now C (world s) \<le> Now C w1" using clock k unfolding clock_laws_def by (blast dest: forwardD)
  moreover have "Now C w1 \<le> Now C w2" by (rule generateSerial_clock [OF clock n])
  ultimately show "Now C (world s) + caCertValidity \<le> NotAfter (b_cert b)"
    using CreateCertificate_Inr [OF laws c] by (simp add: b ca_template_def)
  show "IsCA (b_cert b)" "PubKey (b_cert b) = Public C (b_key b)"
    "signer (b_cert b) = Public C (b_key b)" "reparses (ParseCertificate C) (b_cert b)"
    using CreateCertificate_Inr [OF laws c] by (simp_all add: b ca_template_def)
qed

lemma generateTLSCert_Inr:
  assumes laws: "x509_laws C signer" and clock: "clock_laws C"
    and ok: "generateTLSCert C path names ca s = (Inr b, s')"
  shows "Now C (world s) + tlsCertValidity \<le> NotAfter (b_cert b)"
    and "\<not> IsCA (b_cert b)" and "PubKey (b_cert b) = Public C (b_key b)"
    and "signer (b_cert b) = Public C (b_key ca)" and "DNSNames (b_cert b) = names"
proof -
  obtain k w1 serial w2 name c w3 where
      k: "GenerateKey C keyLength (world s) = (Inr k, w1)"
      and n: "generateSerial C w1 = (Inr serial, w2)"
      and c: "CreateCertificate C (tls_template serial name names (Now C w2)) (b_cert ca)
        (Public C (RSA k)) (b_key ca) w2 = (Inr c, w3)"
      and b: "b = \<lparr>b_cert = c, b_key = RSA k\<rparr>"
    using ok by (auto simp: generateTLSCert_def and_then_Inr_iff in_world_Inr_iff generateTLSCommonName_def Let_def)
  have "Now C (world s) \<le> Now C w1" using clock k unfolding clock_laws_def by (blast dest: forwardD)
  moreover have "Now C w1 \<le> Now C w2" by (rule generateSerial_clock [OF clock n])
  ultimately show "Now C (world s) + tlsCertValidity \<le> NotAfter (b_cert b)"
    using CreateCertificate_Inr [OF laws c] by (simp add: b tls_template_def)
  show "\<not> IsCA (b_cert b)" "PubKey (b_cert b) = Public C (b_key b)"
    "signer (b_cert b) = Public C (b_key ca)" "DNSNames (b_cert b) = names"
    using CreateCertificate_Inr [OF laws c] by (simp_all add: b tls_template_def)
qed

text \<open>The serial number of a generated certificate is positive.\<close>

lemma generateSerial_positive:
  "(\<And>n w i w'. rand_Int C n w = (Inr i, w') \<Longrightarrow> 0 \<le> i \<and> i < n) \<Longrightarrow>
   generateSerial C w = (Inr serial, w') \<Longrightarrow> 0 < serial \<and> serial < 2 ^ 63 - 1"
  by (force simp: generateSerial_def and_then_Inr_iff)

subsection \<open>Ticks\<close>

lemma or_nil_Inr_iff [simp]: "or_nil m s = (Inr x, s') \<longleftrightarrow> m s = (Inr x, s')"
  by (auto simp: or_nil_def split: prod.splits sum.splits)

lemma lift_state_Inr_iff:
  "lift_state m s = (Inr x, s') \<longleftrightarrow>
     (\<exists>t. m (cert_state.truncate s) = (Inr x, t) \<and>
        s' = s\<lparr>world := world t, generatedCAName := generatedCAName t, generatedTLSName := generatedTLSName t\<rparr>)"
  by (auto simp: lift_state_def split: prod.splits)

lemma truncate_world [simp]: "world (cert_state.truncate s) = world s"
  by (simp add: cert_state.truncate_def)

lemma log_error_bundles:
  "log_error (lift_state m) s = (Inr u, s') \<Longrightarrow> cm_ca s' = cm_ca s \<and> cm_tls s' = cm_tls s"
  by (auto simp: log_error_def lift_state_def split: prod.splits sum.splits if_splits)

text \<open>A tick of the TLS loop either found the certificate good for longer than the margin or replaced
  it by one the current CA signed.\<close>

lemma rotateTLSCert_cases:
  assumes "rotateTLSCert C c s = (Inr (), s')"
  shows "(s' = s \<and> Now C (world s) + tlsCertRotation < NotAfter (b_cert (cm_tls s))) \<or>
    (\<exists>t u. generateTLSCert C (certPath c) (dnsNames c) (cm_ca s) (cert_state.truncate s) = (Inr t, u) \<and>
       cm_tls s' = t \<and> cm_ca s' = cm_ca s \<and> world s' = world u)"
  using assms
  by (auto simp: rotateTLSCert_def Let_def and_then_Inr_iff lift_state_Inr_iff split: if_splits)

lemma rotateCACert_cases:
  assumes "rotateCACert C c s = (Inr (), s')"
  shows "(s' = s \<and> Now C (world s) + caCertRotation < NotAfter (b_cert (cm_ca s))) \<or>
    (\<exists>crt u v t v'. generateCACert C (certPath c) (cert_state.truncate s) = (Inr crt, u) \<and>
       generateTLSCert C (certPath c) (dnsNames c) crt v = (Inr t, v') \<and>
       cm_ca s' = crt \<and> cm_tls s' = t)"
proof (cases "Now C (world s) + caCertRotation < NotAfter (b_cert (cm_ca s))")
  case True
  with assms show ?thesis by (simp add: rotateCACert_def Let_def)
next
  case False
  with assms obtain crt s1 s2 t s3 where
      1: "lift_state (generateCACert C (certPath c)) s = (Inr crt, s1)"
      and 2: "log_error (lift_state (in_world (updateWebhookConfiguration C (webhookName c) (b_cert crt))))
        (s1\<lparr>cm_ca := crt\<rparr>) = (Inr (), s2)"
      and 3: "lift_state (generateTLSCert C (certPath c) (dnsNames c) crt) s2 = (Inr t, s3)"
      and s': "s' = s3\<lparr>cm_tls := t\<rparr>"
    by (auto simp: rotateCACert_def Let_def and_then_Inr_iff)
  have "cm_ca s3 = cm_ca s2" using 3 by (auto simp: lift_state_Inr_iff)
  moreover have "cm_ca s2 = crt" using log_error_bundles [OF 2] by simp
  ultimately have "cm_ca s' = crt" "cm_tls s' = t" by (simp_all add: s')
  with 1 3 show ?thesis by (auto simp: lift_state_Inr_iff)
qed

lemma tls_margin:
  assumes "x509_laws C signer" "clock_laws C" "rotateTLSCert C c s = (Inr (), s')"
  shows "Now C (world s) + tlsCertRotation < NotAfter (b_cert (cm_tls s'))"
  using rotateTLSCert_cases [OF assms(3)] generateTLSCert_Inr(1) [OF assms(1,2)]
  by (force simp: tlsCertRotation_def tlsCertValidity_def)

lemma ca_margin:
  assumes "x509_laws C signer" "clock_laws C" "rotateCACert C c s = (Inr (), s')"
  shows "Now C (world s) + caCertRotation < NotAfter (b_cert (cm_ca s'))"
  using rotateCACert_cases [OF assms(3)] generateCACert_Inr(1) [OF assms(1,2)]
  by (force simp: caCertRotation_def caCertValidity_def)

subsection \<open>The chain\<close>

text \<open>The CA bundle holds a key pair and its key signed the serving certificate.\<close>

definition chained :: "'w cert_env \<Rightarrow> (certificate \<Rightarrow> string) \<Rightarrow> 'w manager_state \<Rightarrow> bool" where
  "chained C signer s \<longleftrightarrow>
     PubKey (b_cert (cm_ca s)) = Public C (b_key (cm_ca s)) \<and>
     signer (b_cert (cm_tls s)) = PubKey (b_cert (cm_ca s))"

subsection \<open>The webhook configuration\<close>

lemma refresh_once_Inr:
  assumes "webhook_laws C" "refresh_once C f name ca w = (Inr (), w')"
  shows "\<exists>h. GetWebhook C w name = Inr h \<and>
    GetWebhook C w' name = Inr (refreshWebhookCABundles (ParseCertificate C) (Now C w) ca name h)"
proof -
  obtain h where h: "GetWebhook C w name = Inr h"
    and u: "UpdateWebhook C (refreshWebhookCABundles (ParseCertificate C) (Now C w) ca name h) w = (Inr (), w')"
    using assms(2) by (auto simp: refresh_once_def split: sum.splits)
  with assms(1) have "wc_Name h = name" unfolding webhook_laws_def by blast
  then have "wc_Name (refreshWebhookCABundles (ParseCertificate C) (Now C w) ca name h) = name"
    by (simp add: refreshWebhookCABundles_def)
  with assms(1) u h show ?thesis unfolding webhook_laws_def by metis
qed

lemma clean_once_Inr:
  assumes "webhook_laws C" "clean_once C name ca w = (Inr (), w')"
  shows "\<exists>h. GetWebhook C w name = Inr h \<and>
    GetWebhook C w' name = Inr (cleanWebhookCABundles (ParseCertificate C) ca name h)"
proof -
  obtain h where h: "GetWebhook C w name = Inr h"
    and u: "UpdateWebhook C (cleanWebhookCABundles (ParseCertificate C) ca name h) w = (Inr (), w')"
    using assms(2) by (auto simp: clean_once_def split: sum.splits)
  with assms(1) have "wc_Name h = name" unfolding webhook_laws_def by blast
  then have "wc_Name (cleanWebhookCABundles (ParseCertificate C) ca name h) = name"
    by (simp add: cleanWebhookCABundles_def)
  with assms(1) u h show ?thesis unfolding webhook_laws_def by metis
qed

text \<open>The loops over the webhooks end at the first webhook of the controller whose bundle does not parse. The
  webhooks of the controller before it are edited: their certificates are related by \<open>P\<close>. All others
  are as they were read, in their places.\<close>

definition parses :: "der_parser \<Rightarrow> pem \<Rightarrow> bool" where
  "parses parse bs = (case certs_of parse bs of Inl _ \<Rightarrow> False | Inr _ \<Rightarrow> True)"

definition editable :: "der_parser \<Rightarrow> string \<Rightarrow> webhook list \<Rightarrow> nat" where
  "editable parse name ws = length (takeWhile (\<lambda>x. own_webhook name x \<longrightarrow> parses parse (CABundle x)) ws)"

definition webhook_edited ::
  "der_parser \<Rightarrow> (certificate list \<Rightarrow> certificate list \<Rightarrow> bool) \<Rightarrow> webhook \<Rightarrow> webhook \<Rightarrow> bool" where
  "webhook_edited parse P x y \<longleftrightarrow> wh_Name y = wh_Name x \<and>
     (\<exists>cs cs'. certs_of parse (CABundle x) = Inr cs \<and> certs_of parse (CABundle y) = Inr cs' \<and> P cs cs')"

definition webhooks_edited ::
  "der_parser \<Rightarrow> string \<Rightarrow> (certificate list \<Rightarrow> certificate list \<Rightarrow> bool) \<Rightarrow> webhook list \<Rightarrow> webhook list \<Rightarrow> bool" where
  "webhooks_edited parse name P ws ws' \<longleftrightarrow> length ws' = length ws \<and>
     (\<forall>i < length ws.
        if own_webhook name (ws ! i) \<and> i < editable parse name ws then webhook_edited parse P (ws ! i) (ws' ! i)
        else ws' ! i = ws ! i)"

lemma editable_simps [simp]:
  "editable parse name [] = 0"
  "editable parse name (x # ws) =
     (if own_webhook name x \<and> \<not> parses parse (CABundle x) then 0 else Suc (editable parse name ws))"
  by (auto simp: editable_def)

lemma webhooks_edited_same: "editable parse name ws = 0 \<Longrightarrow> webhooks_edited parse name P ws ws"
  by (simp add: webhooks_edited_def)

lemma webhooks_edited_Cons:
  assumes "webhooks_edited parse name P ws ws'" "\<not> own_webhook name x \<or> parses parse (CABundle x)"
    and "if own_webhook name x then webhook_edited parse P x y else y = x"
  shows "webhooks_edited parse name P (x # ws) (y # ws')"
  using assms by (auto simp: webhooks_edited_def less_Suc_eq_0_disj)

lemma edited_before:
  assumes "webhooks_edited parse name P ws ws'" "i < editable parse name ws" "own_webhook name (ws ! i)"
  shows "webhook_edited parse P (ws ! i) (ws' ! i)"
proof -
  have "editable parse name ws \<le> length ws" by (simp add: editable_def length_takeWhile_le)
  with assms show ?thesis by (simp add: webhooks_edited_def)
qed

lemma edit_webhooks_edited:
  assumes fails: "\<And>b e. certs_of parse b = Inl e \<Longrightarrow> \<exists>e'. f b = Inl e'"
    and works: "\<And>b cs. certs_of parse b = Inr cs \<Longrightarrow> \<exists>b' cs'. f b = Inr b' \<and> certs_of parse b' = Inr cs' \<and> P cs cs'"
  shows "webhooks_edited parse name P ws (edit_webhooks f name ws)"
proof (induction ws)
  case (Cons x ws)
  show ?case
  proof (cases "certs_of parse (CABundle x)")
    case (Inl e)
    with fails [OF Inl] Cons show ?thesis
      by (cases "own_webhook name x")
        (auto simp: parses_def intro!: webhooks_edited_same webhooks_edited_Cons [OF Cons.IH])
  next
    case (Inr cs)
    with works [OF Inr] Cons show ?thesis
      by (auto simp: parses_def webhook_edited_def own_webhook_def intro!: webhooks_edited_Cons)
  qed
qed (simp add: webhooks_edited_same)

text \<open>What an update makes of the certificates of a bundle: the current CA comes last, no other
  certificate has expired, and none that is good and has another common name is lost.\<close>

definition refreshed :: "int \<Rightarrow> certificate \<Rightarrow> certificate list \<Rightarrow> certificate list \<Rightarrow> bool" where
  "refreshed now ca cs cs' \<longleftrightarrow>
     (\<exists>kept. cs' = kept @ [ca] \<and> (\<forall>c \<in> set kept. c \<in> set cs \<and> now \<le> NotAfter c) \<and>
        filter (\<lambda>c. CommonName c \<noteq> CommonName ca) kept =
          filter (\<lambda>c. now \<le> NotAfter c \<and> CommonName c \<noteq> CommonName ca) cs)"

text \<open>What a clean-up makes of them: those with the serial number of the CA are gone.\<close>

definition cleaned :: "certificate \<Rightarrow> certificate list \<Rightarrow> certificate list \<Rightarrow> bool" where
  "cleaned ca cs cs' \<longleftrightarrow> cs' = filter (\<lambda>c. SerialNumber c \<noteq> SerialNumber ca) cs"

lemma refresh_edits:
  assumes "parser_laws parse" "reparses parse ca"
  shows "webhooks_edited parse name (refreshed now ca) (Webhooks h) (Webhooks (refreshWebhookCABundles parse now ca name h))"
proof -
  have "\<exists>b' cs'. updateCABundles parse now ca b = Inr b' \<and> certs_of parse b' = Inr cs' \<and> refreshed now ca cs cs'"
    if "certs_of parse b = Inr cs" for b cs
  proof -
    have "refreshed now ca cs (filter (\<lambda>c. \<not> NotAfter c < now) cs @ [ca])"
      unfolding refreshed_def
      by (rule exI [of _ "filter (\<lambda>c. \<not> NotAfter c < now) cs"]) (auto simp: not_less conj_commute)
    with updated_certs [OF assms that, of now] show ?thesis by blast
  qed
  then show ?thesis
    unfolding refreshWebhookCABundles_def
    by (auto intro!: edit_webhooks_edited simp: updateCABundles_eq)
qed

lemma clean_edits:
  assumes "parser_laws parse"
  shows "webhooks_edited parse name (cleaned ca) (Webhooks h) (Webhooks (cleanWebhookCABundles parse ca name h))"
proof -
  have "\<exists>b' cs'. removeCABundle parse ca b = Inr b' \<and> certs_of parse b' = Inr cs' \<and> cleaned ca cs cs'"
    if "certs_of parse b = Inr cs" for b cs
    using removed_certs [OF assms that, of ca] by (auto simp: cleaned_def eq_commute)
  then show ?thesis
    unfolding cleanWebhookCABundles_def
    by (auto intro!: edit_webhooks_edited simp: removeCABundle_eq)
qed

lemma refreshed_found:
  "webhook_edited parse (refreshed now ca) x y \<Longrightarrow> caBundleFound parse (CABundle y) ca"
  by (auto simp: webhook_edited_def refreshed_def caBundleFound_certs)

lemma cleaned_absent: "webhook_edited parse (cleaned ca) x y \<Longrightarrow> \<not> caBundleFound parse (CABundle y) ca"
  by (auto simp: webhook_edited_def cleaned_def caBundleFound_certs)

text \<open>A pass of the sync loop over webhooks that hold the CA does nothing.\<close>

lemma for_each_ret: "(\<And>x. x \<in> set xs \<Longrightarrow> f x = ret ()) \<Longrightarrow> for_each f xs = ret ()"
  by (induction xs) (simp_all add: and_then_def ret_def)

lemma sync_noop:
  assumes "GetWebhook C (world s) (webhookName c) = Inr h"
    and "\<And>w. w \<in> set (Webhooks h) \<Longrightarrow> caBundleFound (ParseCertificate C) (CABundle w) (b_cert (cm_ca s))"
  shows "syncWebhookCaBundle C c s = (Inr (), s)"
  using assms by (simp add: syncWebhookCaBundle_def for_each_ret)

end
