(* ===== verification/Cert_Concurrent.thy ===== *)
theory Cert_Concurrent
  imports Cert_Facts
begin

text \<open>
  \<open>Start\<close> of the certificate manager (\<open>manager.go\<close>) as the program it is: the goroutine that waits for
  the context and the loops, and the three loops, each with a program counter. One step is one call or
  one assignment of a field; the loops share the two bundles without a lock. A rotation that runs
  without interference is a tick of \<open>Cert_Manager\<close>.
\<close>

subsection \<open>State\<close>

text \<open>The counters hold what a loop has in its local variables.\<close>

datatype tls_pc = TlsSelect | TlsKey cert_bundle | TlsCert cert_bundle | TlsDone

datatype ca_pc = CaSelect | CaKey cert_bundle | CaCert cert_bundle | CaUpdate | CaGenerate
  | CaTlsKey cert_bundle | CaTlsCert cert_bundle | CaDone

datatype sync_pc = SyncSelect | SyncHooks "webhook list" | SyncDone

datatype start_pc = AwaitContext | AwaitLoops | CleanUp | StartReturned "unit res"

record 'w cert_program =
  shared :: "'w manager_state"
  tls_at :: tls_pc
  ca_at :: ca_pc
  sync_at :: sync_pc
  start_at :: start_pc
  context_ended :: bool
  crashed :: bool

definition started :: "'w manager_state \<Rightarrow> 'w cert_program" where
  "started s = \<lparr>shared = s, tls_at = TlsSelect, ca_at = CaSelect, sync_at = SyncSelect, start_at = AwaitContext,
     context_ended = False, crashed = False\<rparr>"

subsection \<open>Steps\<close>

definition tls_due :: "'w cert_env \<Rightarrow> 'w manager_state \<Rightarrow> bool" where
  "tls_due C s \<longleftrightarrow> \<not> Now C (world s) + tlsCertRotation < NotAfter (b_cert (cm_tls s))"

definition ca_due :: "'w cert_env \<Rightarrow> 'w manager_state \<Rightarrow> bool" where
  "ca_due C s \<longleftrightarrow> \<not> Now C (world s) + caCertRotation < NotAfter (b_cert (cm_ca s))"

definition make_tls :: "'w cert_env \<Rightarrow> cert_manager \<Rightarrow> ('w manager_state, cert_bundle) go" where
  "make_tls C c = (\<lambda>s. or_nil (lift_state (generateTLSCert C (certPath c) (dnsNames c) (cm_ca s))) s)"

definition make_ca :: "'w cert_env \<Rightarrow> cert_manager \<Rightarrow> ('w manager_state, cert_bundle) go" where
  "make_ca C c = or_nil (lift_state (generateCACert C (certPath c)))"

definition refresh_hooks :: "'w cert_env \<Rightarrow> cert_manager \<Rightarrow> ('w manager_state, unit) go" where
  "refresh_hooks C c = (\<lambda>s. log_error (lift_state (in_world (updateWebhookConfiguration C (webhookName c) (b_cert (cm_ca s))))) s)"

definition read_hooks :: "'w cert_env \<Rightarrow> cert_manager \<Rightarrow> 'w manager_state \<Rightarrow> webhook list" where
  "read_hooks C c s = (case GetWebhook C (world s) (webhookName c) of Inl _ \<Rightarrow> [] | Inr h \<Rightarrow> Webhooks h)"

text \<open>A panic of a goroutine ends the process, and with it every step.\<close>

inductive cert_step :: "'w cert_env \<Rightarrow> cert_manager \<Rightarrow> 'w cert_program \<Rightarrow> 'w cert_program \<Rightarrow> bool" for C c where
  tls_generate: "\<not> crashed p \<Longrightarrow> tls_at p = TlsSelect \<Longrightarrow> tls_due C (shared p) \<Longrightarrow>
    make_tls C c (shared p) = (Inr t, s) \<Longrightarrow> cert_step C c p (p\<lparr>shared := s, tls_at := TlsKey t\<rparr>)"
| tls_panic: "\<not> crashed p \<Longrightarrow> tls_at p = TlsSelect \<Longrightarrow> tls_due C (shared p) \<Longrightarrow>
    make_tls C c (shared p) = (Inl e, s) \<Longrightarrow> cert_step C c p (p\<lparr>shared := s, crashed := True\<rparr>)"
| tls_key: "\<not> crashed p \<Longrightarrow> tls_at p = TlsKey t \<Longrightarrow>
    cert_step C c p (p\<lparr>shared := (shared p)\<lparr>cm_tls := (cm_tls (shared p))\<lparr>b_key := b_key t\<rparr>\<rparr>, tls_at := TlsCert t\<rparr>)"
| tls_cert: "\<not> crashed p \<Longrightarrow> tls_at p = TlsCert t \<Longrightarrow>
    cert_step C c p (p\<lparr>shared := (shared p)\<lparr>cm_tls := (cm_tls (shared p))\<lparr>b_cert := b_cert t\<rparr>\<rparr>, tls_at := TlsSelect\<rparr>)"
| tls_end: "\<not> crashed p \<Longrightarrow> tls_at p = TlsSelect \<Longrightarrow> context_ended p \<Longrightarrow> cert_step C c p (p\<lparr>tls_at := TlsDone\<rparr>)"
| ca_generate: "\<not> crashed p \<Longrightarrow> ca_at p = CaSelect \<Longrightarrow> ca_due C (shared p) \<Longrightarrow>
    make_ca C c (shared p) = (Inr b, s) \<Longrightarrow> cert_step C c p (p\<lparr>shared := s, ca_at := CaKey b\<rparr>)"
| ca_panic: "\<not> crashed p \<Longrightarrow> ca_at p = CaSelect \<Longrightarrow> ca_due C (shared p) \<Longrightarrow>
    make_ca C c (shared p) = (Inl e, s) \<Longrightarrow> cert_step C c p (p\<lparr>shared := s, crashed := True\<rparr>)"
| ca_key: "\<not> crashed p \<Longrightarrow> ca_at p = CaKey b \<Longrightarrow>
    cert_step C c p (p\<lparr>shared := (shared p)\<lparr>cm_ca := (cm_ca (shared p))\<lparr>b_key := b_key b\<rparr>\<rparr>, ca_at := CaCert b\<rparr>)"
| ca_cert: "\<not> crashed p \<Longrightarrow> ca_at p = CaCert b \<Longrightarrow>
    cert_step C c p (p\<lparr>shared := (shared p)\<lparr>cm_ca := (cm_ca (shared p))\<lparr>b_cert := b_cert b\<rparr>\<rparr>, ca_at := CaUpdate\<rparr>)"
| ca_update: "\<not> crashed p \<Longrightarrow> ca_at p = CaUpdate \<Longrightarrow> refresh_hooks C c (shared p) = (Inr (), s) \<Longrightarrow>
    cert_step C c p (p\<lparr>shared := s, ca_at := CaGenerate\<rparr>)"
| ca_tls: "\<not> crashed p \<Longrightarrow> ca_at p = CaGenerate \<Longrightarrow> make_tls C c (shared p) = (Inr t, s) \<Longrightarrow>
    cert_step C c p (p\<lparr>shared := s, ca_at := CaTlsKey t\<rparr>)"
| ca_tls_panic: "\<not> crashed p \<Longrightarrow> ca_at p = CaGenerate \<Longrightarrow> make_tls C c (shared p) = (Inl e, s) \<Longrightarrow>
    cert_step C c p (p\<lparr>shared := s, crashed := True\<rparr>)"
| ca_tls_key: "\<not> crashed p \<Longrightarrow> ca_at p = CaTlsKey t \<Longrightarrow>
    cert_step C c p (p\<lparr>shared := (shared p)\<lparr>cm_tls := (cm_tls (shared p))\<lparr>b_key := b_key t\<rparr>\<rparr>, ca_at := CaTlsCert t\<rparr>)"
| ca_tls_cert: "\<not> crashed p \<Longrightarrow> ca_at p = CaTlsCert t \<Longrightarrow>
    cert_step C c p (p\<lparr>shared := (shared p)\<lparr>cm_tls := (cm_tls (shared p))\<lparr>b_cert := b_cert t\<rparr>\<rparr>, ca_at := CaSelect\<rparr>)"
| ca_end: "\<not> crashed p \<Longrightarrow> ca_at p = CaSelect \<Longrightarrow> context_ended p \<Longrightarrow> cert_step C c p (p\<lparr>ca_at := CaDone\<rparr>)"
| sync_read: "\<not> crashed p \<Longrightarrow> sync_at p = SyncSelect \<Longrightarrow>
    cert_step C c p (p\<lparr>sync_at := SyncHooks (read_hooks C c (shared p))\<rparr>)"
| sync_found: "\<not> crashed p \<Longrightarrow> sync_at p = SyncHooks (w # ws) \<Longrightarrow>
    caBundleFound (ParseCertificate C) (CABundle w) (b_cert (cm_ca (shared p))) \<Longrightarrow>
    cert_step C c p (p\<lparr>sync_at := SyncHooks ws\<rparr>)"
| sync_update: "\<not> crashed p \<Longrightarrow> sync_at p = SyncHooks (w # ws) \<Longrightarrow>
    \<not> caBundleFound (ParseCertificate C) (CABundle w) (b_cert (cm_ca (shared p))) \<Longrightarrow>
    refresh_hooks C c (shared p) = (Inr (), s) \<Longrightarrow> cert_step C c p (p\<lparr>shared := s, sync_at := SyncHooks ws\<rparr>)"
| sync_next: "\<not> crashed p \<Longrightarrow> sync_at p = SyncHooks [] \<Longrightarrow> cert_step C c p (p\<lparr>sync_at := SyncSelect\<rparr>)"
| sync_end: "\<not> crashed p \<Longrightarrow> sync_at p = SyncSelect \<Longrightarrow> context_ended p \<Longrightarrow> cert_step C c p (p\<lparr>sync_at := SyncDone\<rparr>)"
| context_end: "\<not> crashed p \<Longrightarrow> cert_step C c p (p\<lparr>context_ended := True\<rparr>)"
| start_ended: "\<not> crashed p \<Longrightarrow> start_at p = AwaitContext \<Longrightarrow> context_ended p \<Longrightarrow>
    cert_step C c p (p\<lparr>start_at := AwaitLoops\<rparr>)"
| start_waited: "\<not> crashed p \<Longrightarrow> start_at p = AwaitLoops \<Longrightarrow> tls_at p = TlsDone \<Longrightarrow> ca_at p = CaDone \<Longrightarrow>
    sync_at p = SyncDone \<Longrightarrow> cert_step C c p (p\<lparr>start_at := CleanUp\<rparr>)"
| start_clean: "\<not> crashed p \<Longrightarrow> start_at p = CleanUp \<Longrightarrow>
    cleanUpMutatingWebhookConfiguration C (webhookName c) (b_cert (cm_ca (shared p))) (world (shared p)) = (r, w) \<Longrightarrow>
    cert_step C c p (p\<lparr>shared := (shared p)\<lparr>world := w\<rparr>, start_at := StartReturned r\<rparr>)"
| elapse: "Now C w \<ge> Now C (world (shared p)) \<Longrightarrow> cert_step C c p (p\<lparr>shared := (shared p)\<lparr>world := w\<rparr>\<rparr>)"

inductive_cases cert_stepE: "cert_step C c p p'"

subsection \<open>What the calls leave of the bundles\<close>

lemma make_tls_Inr:
  assumes "x509_laws C signer" "clock_laws C" "make_tls C c s = (Inr t, s')"
  shows "cm_ca s' = cm_ca s" "cm_tls s' = cm_tls s" "signer (b_cert t) = Public C (b_key (cm_ca s))"
  using assms(3) generateTLSCert_Inr(4) [OF assms(1,2)] by (auto simp: make_tls_def lift_state_Inr_iff)

lemma make_ca_Inr:
  assumes "x509_laws C signer" "clock_laws C" "make_ca C c s = (Inr b, s')"
  shows "cm_ca s' = cm_ca s" "cm_tls s' = cm_tls s" "PubKey (b_cert b) = Public C (b_key b)"
  using assms(3) generateCACert_Inr(3) [OF assms(1,2)] by (auto simp: make_ca_def lift_state_Inr_iff)

lemma lift_state_bundles: "lift_state m s = (r, s') \<Longrightarrow> cm_ca s' = cm_ca s \<and> cm_tls s' = cm_tls s"
  by (auto simp: lift_state_def split: prod.splits)

lemma make_failed:
  "make_tls C c s = (Inl e, s') \<Longrightarrow> cm_ca s' = cm_ca s \<and> cm_tls s' = cm_tls s"
  "make_ca C c s = (Inl e, s') \<Longrightarrow> cm_ca s' = cm_ca s \<and> cm_tls s' = cm_tls s"
  by (auto simp: make_tls_def make_ca_def or_nil_def dest: lift_state_bundles split: prod.splits sum.splits)

lemma refresh_hooks_bundles:
  "refresh_hooks C c s = (Inr (), s') \<Longrightarrow> cm_ca s' = cm_ca s \<and> cm_tls s' = cm_tls s"
  by (auto simp: refresh_hooks_def dest: log_error_bundles)

subsection \<open>Overlap\<close>

text \<open>A rotation is in flight from its generation to its last assignment. Two rotations overlap when both
  are.\<close>

definition tls_idle :: "'w cert_program \<Rightarrow> bool" where
  "tls_idle p \<longleftrightarrow> tls_at p \<in> {TlsSelect, TlsDone}"

definition ca_idle :: "'w cert_program \<Rightarrow> bool" where
  "ca_idle p \<longleftrightarrow> ca_at p \<in> {CaSelect, CaDone}"

definition apart :: "'w cert_program \<Rightarrow> bool" where
  "apart p \<longleftrightarrow> tls_idle p \<or> ca_idle p"

text \<open>A run in which the rotations never overlap.\<close>

definition apart_step :: "'w cert_env \<Rightarrow> cert_manager \<Rightarrow> 'w cert_program \<Rightarrow> 'w cert_program \<Rightarrow> bool" where
  "apart_step C c p p' \<longleftrightarrow> cert_step C c p p' \<and> apart p'"

lemmas overlap_defs = apart_step_def apart_def tls_idle_def ca_idle_def

subsection \<open>Ticks are runs\<close>

lemma bundle_eq [simp]: "(b :: cert_bundle)\<lparr>b_key := b_key t, b_cert := b_cert t\<rparr> = t"
  by (cases b; cases t) simp

lemma tls_tick_run:
  assumes "rotateTLSCert C c s = (Inr (), s')" and "\<not> crashed p" "tls_at p = TlsSelect" "shared p = s" "ca_idle p"
  shows "(apart_step C c)\<^sup>*\<^sup>* p (p\<lparr>shared := s'\<rparr>)"
proof (cases "tls_due C s")
  case False
  with assms have "s' = s" by (simp add: rotateTLSCert_def Let_def tls_due_def)
  with assms(4) have "p\<lparr>shared := s'\<rparr> = p" by simp
  then show ?thesis by simp
next
  case True
  then obtain t u where t: "make_tls C c s = (Inr t, u)" "s' = u\<lparr>cm_tls := t\<rparr>"
    using assms(1) by (auto simp: rotateTLSCert_def Let_def tls_due_def make_tls_def and_then_Inr_iff)
  let ?p1 = "p\<lparr>shared := u, tls_at := TlsKey t\<rparr>"
  let ?p2 = "?p1\<lparr>shared := u\<lparr>cm_tls := (cm_tls u)\<lparr>b_key := b_key t\<rparr>\<rparr>, tls_at := TlsCert t\<rparr>"
  have "apart_step C c p ?p1" using True t(1) assms by (auto simp: overlap_defs intro!: cert_step.tls_generate)
  moreover have "apart_step C c ?p1 ?p2" using tls_key [of ?p1 t C c] assms(2,5) by (simp add: overlap_defs)
  moreover have "apart_step C c ?p2 (p\<lparr>shared := s'\<rparr>)" using tls_cert [of ?p2 t C c] assms(2,3,5) t(2) by (cases p) (simp add: overlap_defs)
  ultimately show ?thesis by (meson converse_rtranclp_into_rtranclp rtranclp.rtrancl_refl)
qed

lemma ca_tick_run:
  assumes "rotateCACert C c s = (Inr (), s')" and "\<not> crashed p" "ca_at p = CaSelect" "shared p = s" "tls_idle p"
  shows "(apart_step C c)\<^sup>*\<^sup>* p (p\<lparr>shared := s'\<rparr>)"
proof (cases "ca_due C s")
  case False
  with assms have "s' = s" by (simp add: rotateCACert_def Let_def ca_due_def)
  with assms(4) have "p\<lparr>shared := s'\<rparr> = p" by simp
  then show ?thesis by simp
next
  case True
  then obtain b u v t x where b: "make_ca C c s = (Inr b, u)"
      and v: "refresh_hooks C c (u\<lparr>cm_ca := b\<rparr>) = (Inr (), v)"
      and tls: "lift_state (generateTLSCert C (certPath c) (dnsNames c) b) v = (Inr t, x)" "s' = x\<lparr>cm_tls := t\<rparr>"
    using assms(1)
    by (auto simp: rotateCACert_def Let_def ca_due_def make_ca_def refresh_hooks_def and_then_Inr_iff)
  have "cm_ca v = b" using refresh_hooks_bundles [OF v] by simp
  with tls have t: "make_tls C c v = (Inr t, x)" "s' = x\<lparr>cm_tls := t\<rparr>" by (simp_all add: make_tls_def)
  let ?p1 = "p\<lparr>shared := u, ca_at := CaKey b\<rparr>"
  let ?p2 = "p\<lparr>shared := u\<lparr>cm_ca := (cm_ca u)\<lparr>b_key := b_key b\<rparr>\<rparr>, ca_at := CaCert b\<rparr>"
  let ?p3 = "p\<lparr>shared := u\<lparr>cm_ca := b\<rparr>, ca_at := CaUpdate\<rparr>"
  let ?p4 = "p\<lparr>shared := v, ca_at := CaGenerate\<rparr>"
  let ?p5 = "p\<lparr>shared := x, ca_at := CaTlsKey t\<rparr>"
  let ?p6 = "p\<lparr>shared := x\<lparr>cm_tls := (cm_tls x)\<lparr>b_key := b_key t\<rparr>\<rparr>, ca_at := CaTlsCert t\<rparr>"
  have "apart_step C c p ?p1" using True b assms by (auto simp: overlap_defs intro!: cert_step.ca_generate)
  moreover have "apart_step C c ?p1 ?p2" using ca_key [of ?p1 b C c] assms(2,5) by (simp add: overlap_defs)
  moreover have "apart_step C c ?p2 ?p3" using ca_cert [of ?p2 b C c] assms(2,5) by (simp add: overlap_defs)
  moreover have "apart_step C c ?p3 ?p4" using ca_update [of ?p3 C c v] v assms(2,5) by (simp add: overlap_defs)
  moreover have "apart_step C c ?p4 ?p5" using ca_tls [of ?p4 C c t x] t(1) assms(2,5) by (simp add: overlap_defs)
  moreover have "apart_step C c ?p5 ?p6" using ca_tls_key [of ?p5 t C c] assms(2,5) by (simp add: overlap_defs)
  moreover have "apart_step C c ?p6 (p\<lparr>shared := s'\<rparr>)" using ca_tls_cert [of ?p6 t C c] assms(2,3,5) t(2) by (cases p) (simp add: overlap_defs)
  ultimately show ?thesis by (meson converse_rtranclp_into_rtranclp rtranclp.rtrancl_refl)
qed

lemma sync_hooks_run:
  assumes "for_each (\<lambda>w. if \<not> caBundleFound (ParseCertificate C) (CABundle w) (b_cert ca)
      then log_error (lift_state (in_world (updateWebhookConfiguration C (webhookName c) (b_cert ca)))) else ret ()) ws s = (Inr (), s')"
    and "\<not> crashed p" "cm_ca s = ca" "apart p"
  shows "(apart_step C c)\<^sup>*\<^sup>* (p\<lparr>shared := s, sync_at := SyncHooks ws\<rparr>) (p\<lparr>shared := s', sync_at := SyncHooks []\<rparr>)"
  using assms
proof (induction ws arbitrary: s)
  case (Cons w ws)
  let ?p = "p\<lparr>shared := s, sync_at := SyncHooks (w # ws)\<rparr>"
  obtain t where t: "cm_ca t = ca" "apart_step C c ?p (p\<lparr>shared := t, sync_at := SyncHooks ws\<rparr>)"
    "(apart_step C c)\<^sup>*\<^sup>* (p\<lparr>shared := t, sync_at := SyncHooks ws\<rparr>) (p\<lparr>shared := s', sync_at := SyncHooks []\<rparr>)"
  proof (cases "caBundleFound (ParseCertificate C) (CABundle w) (b_cert ca)")
    case True
    with sync_found [of ?p w ws C c] Cons.prems have "apart_step C c ?p (p\<lparr>shared := s, sync_at := SyncHooks ws\<rparr>)"
      by (simp add: overlap_defs)
    with True Cons that [of s] show ?thesis by simp
  next
    case False
    then obtain t where "refresh_hooks C c s = (Inr (), t)" and rest: "for_each (\<lambda>w. if \<not> caBundleFound (ParseCertificate C) (CABundle w) (b_cert ca)
      then log_error (lift_state (in_world (updateWebhookConfiguration C (webhookName c) (b_cert ca)))) else ret ()) ws t = (Inr (), s')"
      using Cons.prems by (auto simp: and_then_Inr_iff refresh_hooks_def)
    moreover from this(1) have "cm_ca t = ca" using refresh_hooks_bundles Cons.prems(3) by blast
    moreover from calculation have "apart_step C c ?p (p\<lparr>shared := t, sync_at := SyncHooks ws\<rparr>)"
      using sync_update [of ?p w ws C c t] Cons.prems False by (simp add: overlap_defs)
    ultimately show ?thesis using Cons.IH [OF rest] Cons.prems that [of t] by simp
  qed
  then show ?case by (meson converse_rtranclp_into_rtranclp)
qed simp

lemma sync_tick_run:
  assumes "syncWebhookCaBundle C c s = (Inr (), s')" and "\<not> crashed p" "sync_at p = SyncSelect" "shared p = s" "apart p"
  shows "(apart_step C c)\<^sup>*\<^sup>* p (p\<lparr>shared := s'\<rparr>)"
proof -
  have "apart_step C c p (p\<lparr>sync_at := SyncHooks (read_hooks C c s)\<rparr>)"
    using sync_read [of p C c] assms by (simp add: overlap_defs)
  moreover have "(apart_step C c)\<^sup>*\<^sup>* (p\<lparr>shared := s, sync_at := SyncHooks (read_hooks C c s)\<rparr>) (p\<lparr>shared := s', sync_at := SyncHooks []\<rparr>)"
    using assms(1) unfolding syncWebhookCaBundle_def Let_def read_hooks_def
    by (rule sync_hooks_run [OF _ assms(2) refl assms(5)])
  moreover have "apart_step C c (p\<lparr>shared := s', sync_at := SyncHooks []\<rparr>) (p\<lparr>shared := s'\<rparr>)"
    using sync_next [of "p\<lparr>shared := s', sync_at := SyncHooks []\<rparr>" C c] assms(2,3,5) by (cases p) (simp add: overlap_defs)
  moreover have "p\<lparr>shared := s, sync_at := SyncHooks (read_hooks C c s)\<rparr> = p\<lparr>sync_at := SyncHooks (read_hooks C c s)\<rparr>"
    using assms(4) by simp
  ultimately show ?thesis by (metis converse_rtranclp_into_rtranclp rtranclp.rtrancl_into_rtrancl)
qed

subsection \<open>The chain\<close>

definition paired :: "'w cert_env \<Rightarrow> cert_bundle \<Rightarrow> bool" where
  "paired C b \<longleftrightarrow> PubKey (b_cert b) = Public C (b_key b)"

text \<open>What holds while a rotation of the CA, or none, is in flight.\<close>

definition chain_inv :: "'w cert_env \<Rightarrow> (certificate \<Rightarrow> string) \<Rightarrow> 'w cert_program \<Rightarrow> bool" where
  "chain_inv C signer p \<longleftrightarrow>
     (let ca = cm_ca (shared p); signed = (\<lambda>t. signer (b_cert t) = PubKey (b_cert ca)) in
      case ca_at p of
        CaKey b \<Rightarrow> paired C b
      | CaCert b \<Rightarrow> paired C b \<and> b_key ca = b_key b
      | CaUpdate \<Rightarrow> paired C ca
      | CaGenerate \<Rightarrow> paired C ca
      | CaTlsKey t \<Rightarrow> paired C ca \<and> signed t
      | CaTlsCert t \<Rightarrow> paired C ca \<and> signed t
      | _ \<Rightarrow> paired C ca \<and> signed (cm_tls (shared p)) \<and>
          (case tls_at p of TlsKey t \<Rightarrow> signed t | TlsCert t \<Rightarrow> signed t | _ \<Rightarrow> True))"

lemma chain_inv_step:
  assumes laws: "x509_laws C signer" "clock_laws C"
    and step: "cert_step C c p p'" and inv: "chain_inv C signer p" "apart p" "apart p'"
  shows "chain_inv C signer p'"
proof -
  note defs = chain_inv_def paired_def apart_def tls_idle_def ca_idle_def Let_def
  from step inv show ?thesis
  proof cases
    case (tls_generate t s)
    with make_tls_Inr [OF laws tls_generate(5)] inv show ?thesis by (auto simp: defs)
  next
    case (ca_generate b s)
    with make_ca_Inr [OF laws ca_generate(5)] inv show ?thesis by (auto simp: defs)
  next
    case (ca_tls t s)
    with make_tls_Inr [OF laws ca_tls(4)] inv show ?thesis by (auto simp: defs)
  next
    case (tls_panic e s)
    with make_failed(1) [OF tls_panic(5)] inv show ?thesis by (auto simp: defs split: ca_pc.splits tls_pc.splits)
  next
    case (ca_panic e s)
    with make_failed(2) [OF ca_panic(5)] inv show ?thesis by (auto simp: defs)
  next
    case (ca_tls_panic e s)
    with make_failed(1) [OF ca_tls_panic(4)] inv show ?thesis by (auto simp: defs)
  next
    case (ca_update s)
    with refresh_hooks_bundles [OF ca_update(4)] inv show ?thesis by (auto simp: defs)
  next
    case (sync_update w ws s)
    with refresh_hooks_bundles [OF sync_update(5)] inv show ?thesis by (auto simp: defs split: ca_pc.splits tls_pc.splits)
  qed (auto simp: defs split: ca_pc.splits tls_pc.splits)
qed

lemma chain_inv_run:
  assumes laws: "x509_laws C signer" "clock_laws C"
    and "(apart_step C c)\<^sup>*\<^sup>* p p'" "chain_inv C signer p" "apart p"
  shows "chain_inv C signer p' \<and> apart p'"
  using assms(3-5) by (induction rule: rtranclp_induct) (auto simp: apart_step_def intro: chain_inv_step [OF laws])

subsection \<open>The end\<close>

text \<open>The clean-up is reached when the loops have ended, and no loop starts again.\<close>

definition end_inv :: "'w cert_program \<Rightarrow> bool" where
  "end_inv p \<longleftrightarrow>
     (start_at p \<noteq> AwaitContext \<longrightarrow> context_ended p) \<and>
     ((start_at p = CleanUp \<or> (\<exists>r. start_at p = StartReturned r)) \<longrightarrow>
        tls_at p = TlsDone \<and> ca_at p = CaDone \<and> sync_at p = SyncDone)"

lemma end_inv_step: "cert_step C c p p' \<Longrightarrow> end_inv p \<Longrightarrow> end_inv p'"
  by (erule cert_stepE) (auto simp: end_inv_def)

lemma end_inv_run: "(cert_step C c)\<^sup>*\<^sup>* p p' \<Longrightarrow> end_inv p \<Longrightarrow> end_inv p'"
  by (induction rule: rtranclp_induct) (auto intro: end_inv_step)

lemma end_inv_started: "end_inv (started s)"
  by (simp add: end_inv_def started_def)

text \<open>After the return nothing but time and the cluster moves.\<close>

lemma returned_step:
  assumes "cert_step C c p p'" "end_inv p" "start_at p = StartReturned r"
  shows "\<exists>w b. p' = p\<lparr>shared := (shared p)\<lparr>world := w\<rparr>, context_ended := b\<rparr>"
  using assms(1)
proof cases
  case (elapse w)
  then show ?thesis by (intro exI [of _ w] exI [of _ "context_ended p"]) simp
next
  case context_end
  then show ?thesis by (intro exI [of _ "world (shared p)"] exI [of _ True]) simp
qed (use assms(2,3) in \<open>auto simp: end_inv_def\<close>)

subsection \<open>The race\<close>

text \<open>The two fields of the CA are assigned one after the other, and nothing keeps the TLS loop from
  generating in between: it then signs with a key that is not the one of the certificate it names as
  parent.\<close>

lemma torn_bundle:
  assumes "\<not> crashed p" "ca_at p = CaKey b" "tls_at p = TlsSelect" "tls_due C (shared p)"
    and "Public C (b_key b) \<noteq> PubKey (b_cert (cm_ca (shared p)))"
  shows "\<exists>p'. cert_step C c p p' \<and> \<not> paired C (cm_ca (shared p')) \<and> tls_at p' = TlsSelect \<and> tls_due C (shared p')"
  using ca_key [OF assms(1,2)] assms(3-5) by (force simp: paired_def tls_due_def)

end
