(* ===== verification/Cert_Properties.thy ===== *)
theory Cert_Properties
  imports Cert_Concurrent
begin

text \<open>
  The properties of the certificate manager, with a small instance of the crypto library that knows
  three certificates and signs with one key, on a disk that keeps what is written.
\<close>

subsection \<open>An instance of the parameters\<close>

record cert_world =
  clock :: int
  hook :: webhook_config
  disk :: "disk_file \<Rightarrow> pem res"

definition sample_ca :: certificate where
  "sample_ca = (ca_template 1 ''oidc-apps-controller-ca-aaaaa'' 1000)\<lparr>Raw := ''ca'', PubKey := ''pub-k''\<rparr>"

definition sample_tls :: certificate where
  "sample_tls = (tls_template 1 ''oidc-apps-controller-webhook-aaaaa'' [''hook''] 1000)\<lparr>Raw := ''tls'', PubKey := ''pub-k''\<rparr>"

text \<open>A serving certificate that is about to expire.\<close>

definition old_tls :: certificate where
  "old_tls = sample_tls\<lparr>Raw := ''old'', NotAfter := 2000\<rparr>"

definition sample_parse :: der_parser where
  "sample_parse der =
     (if der = ''ca'' then Inr sample_ca else if der = ''tls'' then Inr sample_tls
      else if der = ''old'' then Inr old_tls
      else Inl (ErrOther ''x509: malformed certificate''))"

definition public_of :: "private_key \<Rightarrow> string" where
  "public_of k = (case k of RSA s \<Rightarrow> ''pub-'' @ s | OtherKey s \<Rightarrow> ''other-'' @ s)"

definition sample_create :: "certificate \<Rightarrow> certificate \<Rightarrow> string \<Rightarrow> private_key \<Rightarrow> ('w, string) go" where
  "sample_create tmpl parent pub priv =
     (if priv = RSA ''k'' \<and> tmpl\<lparr>Raw := ''ca'', PubKey := pub\<rparr> = sample_ca then ret ''ca''
      else if priv = RSA ''k'' \<and> tmpl\<lparr>Raw := ''tls'', PubKey := pub\<rparr> = sample_tls then ret ''tls''
      else throw (ErrOther ''unsupported template''))"

definition sample_certs :: "cert_world cert_env" where
  "sample_certs =
     \<lparr>GenerateKey = (\<lambda>_. ret ''k''), x509_CreateCertificate = sample_create, Public = public_of,
      rand_Int = (\<lambda>_. ret 0), ParseCertificate = sample_parse,
      MarshalPKCS8PrivateKey = (\<lambda>k. case k of RSA s \<Rightarrow> Inr s | OtherKey _ \<Rightarrow> Inl (ErrOther ''unknown key'')),
      ParsePKCS8PrivateKey = (\<lambda>s. Inr (RSA s)),
      WriteCert = (\<lambda>f p w. (Inr (), w\<lparr>disk := (disk w)(f := Inr p)\<rparr>)), ReadFile = disk, Now = clock,
      NameRandom = (\<lambda>_. Some 0), NewForConfig = ret (),
      GetWebhook = (\<lambda>w name. if wc_Name (hook w) = name then Inr (hook w) else Inl ErrNotFound),
      UpdateWebhook = (\<lambda>h w. if wc_Name (hook w) = wc_Name h then (Inr (), w\<lparr>hook := h\<rparr>) else (Inl ErrNotFound, w)),
      RetryOnConflict = (\<lambda>m. m)\<rparr>"

lemma sample_parser_laws: "parser_laws sample_parse"
  by (auto simp: parser_laws_def reparses_def sample_parse_def sample_ca_def sample_tls_def old_tls_def split: if_splits)

lemma sample_ca_reparses: "reparses sample_parse sample_ca"
  by (simp add: reparses_def sample_parse_def sample_ca_def)

lemma template_fields:
  "t\<lparr>Raw := a, PubKey := b\<rparr> = c \<Longrightarrow>
   SerialNumber c = SerialNumber t \<and> NotAfter c = NotAfter t \<and> IsCA c = IsCA t \<and> DNSNames c = DNSNames t \<and> PubKey c = b"
  by auto

lemma sample_x509_laws: "x509_laws sample_certs (\<lambda>_. ''pub-k'')"
  using sample_parser_laws
  by (auto simp: x509_laws_def sample_certs_def sample_create_def sample_parse_def public_of_def
      dest!: template_fields split: if_splits)

lemma sample_clock_laws: "clock_laws sample_certs"
  by (simp add: clock_laws_def forward_def sample_certs_def)

lemma sample_webhook_laws: "webhook_laws sample_certs"
  by (auto simp: webhook_laws_def sample_certs_def split: if_splits)

lemma sample_retry_laws: "retry_laws sample_certs"
  by (auto simp: retry_laws_def sample_certs_def)

subsection \<open>Bundles\<close>



text \<open>An update does not look whether the CA is already there: a second one adds it again, though the
  two have the same common name.\<close>

lemma ca_bundle_grows:
  assumes "parser_laws parse" "reparses parse ca" "certs_of parse bs = Inr cs" "now \<le> NotAfter ca"
    and "updateCABundles parse now ca bs = Inr bs'" "updateCABundles parse now ca bs' = Inr bs''"
  shows "certs_of parse bs'' = Inr (filter (\<lambda>c. \<not> NotAfter c < now) cs @ [ca, ca])"
proof -
  have "certs_of parse bs' = Inr (filter (\<lambda>c. \<not> NotAfter c < now) cs @ [ca])"
    using updated_certs [OF assms(1-3), of now] assms(5) by auto
  from updated_certs [OF assms(1,2) this, of now] assms(4,6) show ?thesis by auto
qed

subsection \<open>The webhook configuration\<close>

text \<open>C24 (webhook update). A successful update ends with an attempt that reads, edits and writes the webhook
  configuration. In every attempt that ends well, the webhooks of the controller before the first
  whose bundle does not parse hold the current CA as their last certificate and no other that has
  expired, and they keep every certificate with another common name that has not; that one, the ones
  after it, and all webhooks of others are written in their places as they were read.\<close>

theorem webhook_configuration_updated:
  assumes laws: "parser_laws (ParseCertificate C)" "retry_laws C" "webhook_laws C"
    and ca: "reparses (ParseCertificate C) ca"
    and ok: "updateWebhookConfiguration C name ca w = (Inr (), w')"
  shows "(\<exists>v. refresh_once C (\<lambda>e. e) name ca v = (Inr (), w')) \<and>
    (\<forall>v. refresh_once C (\<lambda>e. e) name ca v = (Inr (), w') \<longrightarrow>
      (\<exists>h h'. GetWebhook C v name = Inr h \<and> GetWebhook C w' name = Inr h' \<and>
         webhooks_edited (ParseCertificate C) name (refreshed (Now C v) ca) (Webhooks h) (Webhooks h') \<and>
         (\<forall>i < editable (ParseCertificate C) name (Webhooks h). own_webhook name (Webhooks h ! i) \<longrightarrow>
            caBundleFound (ParseCertificate C) (CABundle (Webhooks h' ! i)) ca)))"
proof (intro conjI allI impI)
  show "\<exists>v. refresh_once C (\<lambda>e. e) name ca v = (Inr (), w')"
    using laws(2) ok unfolding retry_laws_def updateWebhookConfiguration_def by blast
next
  fix v
  assume "refresh_once C (\<lambda>e. e) name ca v = (Inr (), w')"
  then obtain h where h: "GetWebhook C v name = Inr h"
      "GetWebhook C w' name = Inr (refreshWebhookCABundles (ParseCertificate C) (Now C v) ca name h)"
    using refresh_once_Inr [OF laws(3)] by blast
  note edits = refresh_edits [OF laws(1) ca, of name "Now C v" h]
  moreover have "caBundleFound (ParseCertificate C)
      (CABundle (Webhooks (refreshWebhookCABundles (ParseCertificate C) (Now C v) ca name h) ! i)) ca"
    if "i < editable (ParseCertificate C) name (Webhooks h)" "own_webhook name (Webhooks h ! i)" for i
    using edited_before [OF edits that] by (rule refreshed_found)
  ultimately show "\<exists>h h'. GetWebhook C v name = Inr h \<and> GetWebhook C w' name = Inr h' \<and>
      webhooks_edited (ParseCertificate C) name (refreshed (Now C v) ca) (Webhooks h) (Webhooks h') \<and>
      (\<forall>i < editable (ParseCertificate C) name (Webhooks h). own_webhook name (Webhooks h ! i) \<longrightarrow>
         caBundleFound (ParseCertificate C) (CABundle (Webhooks h' ! i)) ca)"
    using h by blast
qed

definition pair_on_disk :: "string \<Rightarrow> certificate \<Rightarrow> (disk_file \<Rightarrow> pem res) \<Rightarrow> disk_file \<Rightarrow> pem res" where
  "pair_on_disk ty c d =
     d((''certs'', ty @ ''.crt'') := Inr [cert_block c],
       (''certs'', ty @ ''.key'') := Inr [\<lparr>pb_Type = ''RSA PRIVATE KEY'', pb_Bytes = ''k''\<rparr>])"

definition sample_world :: cert_world where
  "sample_world =
     \<lparr>clock = 1000,
      hook = \<lparr>wc_Name = ''hook'',
        Webhooks = [\<lparr>wh_Name = ''hook-pods.oidc-apps.io'', CABundle = []\<rparr>, \<lparr>wh_Name = ''foreign'', CABundle = []\<rparr>,
          \<lparr>wh_Name = ''hook-vpas.oidc-apps.io'', CABundle = [\<lparr>pb_Type = ''CERTIFICATE'', pb_Bytes = ''broken''\<rparr>]\<rparr>]\<rparr>,
      disk = pair_on_disk ''ca'' sample_ca (pair_on_disk ''tls'' old_tls (\<lambda>_. Inl ErrNotFound))\<rparr>"

text \<open>The bundle of the first webhook is written; the one of the last does not parse and stays.\<close>

theorem webhook_configuration_updated_witness:
  "\<exists>w' h'. updateWebhookConfiguration sample_certs ''hook'' sample_ca sample_world = (Inr (), w') \<and>
     GetWebhook sample_certs w' ''hook'' = Inr h' \<and>
     caBundleFound sample_parse (CABundle (Webhooks h' ! 0)) sample_ca \<and>
     Webhooks h' ! 1 = Webhooks (hook sample_world) ! 1 \<and> Webhooks h' ! 2 = Webhooks (hook sample_world) ! 2"
proof -
  obtain w' where w': "updateWebhookConfiguration sample_certs ''hook'' sample_ca sample_world = (Inr (), w')"
    by (simp add: updateWebhookConfiguration_def refresh_once_def sample_certs_def sample_world_def
        refreshWebhookCABundles_def)
  have attempt: "refresh_once sample_certs (\<lambda>e. e) ''hook'' sample_ca sample_world = (Inr (), w')"
    using w' by (simp add: updateWebhookConfiguration_def sample_certs_def)
  have get: "GetWebhook sample_certs sample_world ''hook'' = Inr (hook sample_world)"
    by (simp add: sample_certs_def sample_world_def)
  have "parser_laws (ParseCertificate sample_certs)" "reparses (ParseCertificate sample_certs) sample_ca"
    using sample_parser_laws sample_ca_reparses by (simp_all add: sample_certs_def)
  note updated = webhook_configuration_updated [OF this(1) sample_retry_laws sample_webhook_laws this(2) w']
  let ?ws = "Webhooks (hook sample_world)"
  have own: "own_webhook ''hook'' (?ws ! 0)" "\<not> own_webhook ''hook'' (?ws ! 1)" "editable sample_parse ''hook'' ?ws = 2"
      "length ?ws = 3"
    by (simp_all add: sample_world_def own_webhook_def podsWebhookSuffix_def vpasWebhookSuffix_def parses_def
        sample_parse_def is_cert_def)
  from updated attempt get obtain h' where "GetWebhook sample_certs w' ''hook'' = Inr h'"
      "webhooks_edited sample_parse ''hook'' (refreshed (Now sample_certs sample_world) sample_ca) ?ws (Webhooks h')"
      "\<forall>i < editable sample_parse ''hook'' ?ws. own_webhook ''hook'' (?ws ! i) \<longrightarrow>
         caBundleFound sample_parse (CABundle (Webhooks h' ! i)) sample_ca"
    by (auto simp: sample_certs_def)
  with own w' show ?thesis by (auto simp: webhooks_edited_def)
qed

subsection \<open>Rotation\<close>

definition sample_state :: "cert_world manager_state" where
  "sample_state =
     \<lparr>world = sample_world, generatedCAName = None, generatedTLSName = None,
      cm_ca = \<lparr>b_cert = sample_ca, b_key = RSA ''k''\<rparr>, cm_tls = \<lparr>b_cert = old_tls, b_key = RSA ''k''\<rparr>\<rparr>"

definition sample_manager :: cert_manager where
  "sample_manager = \<lparr>certPath = ''certs'', dnsNames = [''hook''], webhookName = ''hook''\<rparr>"

lemma sample_names [simp]:
  "GenerateRandomString (\<lambda>_. Some 0) 5 = ''aaaaa''"
  by code_simp

text \<open>A tick of the sample manager replaces the serving certificate that is about to expire.\<close>

lemma sample_tick:
  obtains s' where "rotateTLSCert sample_certs sample_manager sample_state = (Inr (), s')"
proof -
  have tmpl: "(tls_template 1 ''oidc-apps-controller-webhook-aaaaa'' [''hook''] 1000)\<lparr>Raw := ''tls'', PubKey := ''pub-k''\<rparr> = sample_tls"
    by (simp add: sample_tls_def)
  have ca: "(tls_template 1 n d t)\<lparr>Raw := a, PubKey := b\<rparr> \<noteq> sample_ca" for n d t a b
    by (simp add: sample_ca_def tls_template_def ca_template_def)
  have raw: "Raw sample_tls = ''tls''" by (simp add: sample_tls_def)
  have nca: "\<not> IsCA sample_tls" by (simp add: sample_tls_def tls_template_def)
  have "\<exists>b t. generateTLSCert sample_certs ''certs'' [''hook''] (cm_ca sample_state)
      (cert_state.truncate sample_state) = (Inr b, t)"
    by (simp add: generateTLSCert_def and_then_def in_world_def wrapping_def generateSerial_def generateTLSCommonName_def
        once_name_def Let_def sample_certs_def sample_state_def sample_world_def CreateCertificate_def sample_create_def
        commonTLSNamePrefix_def public_of_def cert_state.truncate_def reading_def writeBundle_def derToPem_def
        sample_parse_def as_rsa_def rsaToPem_def write_pair_def tmpl ca raw nca)
  then obtain b t where gen: "generateTLSCert sample_certs ''certs'' [''hook''] (cm_ca sample_state)
      (cert_state.truncate sample_state) = (Inr b, t)" by blast
  have due: "\<not> Now sample_certs (world sample_state) + tlsCertRotation < NotAfter (b_cert (cm_tls sample_state))"
    by (simp add: sample_certs_def sample_state_def sample_world_def old_tls_def tlsCertRotation_def)
  have "\<exists>s'. rotateTLSCert sample_certs sample_manager sample_state = (Inr (), s')"
    using gen due
    by (simp add: rotateTLSCert_def Let_def and_then_def or_nil_def lift_state_def sample_manager_def)
  with that show ?thesis by blast
qed

text \<open>C25 (rotation margin). A tick of the TLS loop leaves a serving certificate that is valid for more
  than the rotation margin from the tick on, which is six times the interval of the ticks: while
  ticks succeed, the certificate does not expire between them.\<close>

theorem tls_valid_between_ticks:
  assumes "x509_laws C signer" and "clock_laws C" and "rotateTLSCert C c s = (Inr (), s')"
    and "t \<le> Now C (world s) + 6 * expirationTicker"
  shows "t < NotAfter (b_cert (cm_tls s'))"
  using tls_margin [OF assms(1-3)] assms(4) by (simp add: expirationTicker_def tlsCertRotation_def)

theorem tls_valid_between_ticks_witness:
  "\<exists>s'. rotateTLSCert sample_certs sample_manager sample_state = (Inr (), s') \<and> 4600 < NotAfter (b_cert (cm_tls s'))"
proof -
  obtain s' where s': "rotateTLSCert sample_certs sample_manager sample_state = (Inr (), s')" by (rule sample_tick)
  have "4600 \<le> Now sample_certs (world sample_state) + 6 * expirationTicker"
    by (simp add: sample_certs_def sample_state_def sample_world_def expirationTicker_def)
  from tls_valid_between_ticks [OF sample_x509_laws sample_clock_laws s' this] s' show ?thesis by blast
qed

text \<open>As long as a rotation of the TLS loop and one of the CA loop are never in flight at once, a serving
  certificate that is signed by the key of the CA is replaced by such ones only.\<close>

lemma chain_kept:
  assumes "x509_laws C signer" and "clock_laws C" and "(apart_step C c)\<^sup>*\<^sup>* (started s) p" and "chained C signer s"
    and "tls_idle p" "ca_idle p"
  shows "chained C signer (shared p)"
proof -
  have "chain_inv C signer (started s)" "apart (started s)"
    using assms(4) by (simp_all add: chain_inv_def started_def chained_def paired_def overlap_defs Let_def)
  from chain_inv_run [OF assms(1-3) this] assms(5,6) show ?thesis
    by (auto simp: chain_inv_def overlap_defs chained_def paired_def Let_def)
qed

text \<open>C27 (shutdown). \<open>Start\<close> returns only after the three loops have ended, and nothing of the program runs
  after it. When it returns without an error, it ends with an attempt that reads, edits and writes the
  webhook configuration, and every attempt that ends well so removes the current CA, and nothing else, from the
  webhooks of the controller before the first whose bundle does not parse; that one, the ones after it, and
  all webhooks of others are written in their places as they were read.\<close>

theorem shutdown_removes_ca:
  assumes laws: "parser_laws (ParseCertificate C)" "retry_laws C" "webhook_laws C"
    and run: "(cert_step C c)\<^sup>*\<^sup>* (started s) p" and last: "cert_step C c p p'"
    and before: "start_at p = CleanUp" and after: "start_at p' = StartReturned (Inr ())"
    and ca: "ca = b_cert (cm_ca (shared p'))"
  shows "(tls_at p = TlsDone \<and> ca_at p = CaDone \<and> sync_at p = SyncDone) \<and>
    (\<exists>v. clean_once C (webhookName c) ca v = (Inr (), world (shared p'))) \<and>
    (\<forall>v. clean_once C (webhookName c) ca v = (Inr (), world (shared p')) \<longrightarrow>
      (\<exists>h h'. GetWebhook C v (webhookName c) = Inr h \<and> GetWebhook C (world (shared p')) (webhookName c) = Inr h' \<and>
         webhooks_edited (ParseCertificate C) (webhookName c) (cleaned ca) (Webhooks h) (Webhooks h') \<and>
         (\<forall>i < editable (ParseCertificate C) (webhookName c) (Webhooks h). own_webhook (webhookName c) (Webhooks h ! i) \<longrightarrow>
            \<not> caBundleFound (ParseCertificate C) (CABundle (Webhooks h' ! i)) ca))) \<and>
    (\<forall>p''. cert_step C c p' p'' \<longrightarrow>
       (\<exists>w b. p'' = p'\<lparr>shared := (shared p')\<lparr>world := w\<rparr>, context_ended := b\<rparr>))"
proof (intro conjI)
  have inv: "end_inv p" using end_inv_run [OF run end_inv_started] .
  then show "tls_at p = TlsDone" "ca_at p = CaDone" "sync_at p = SyncDone" using before by (auto simp: end_inv_def)
  show "\<forall>p''. cert_step C c p' p'' \<longrightarrow> (\<exists>w b. p'' = p'\<lparr>shared := (shared p')\<lparr>world := w\<rparr>, context_ended := b\<rparr>)"
    using returned_step [OF _ end_inv_step [OF last inv] after] by blast
  from last before after have
    "cleanUpMutatingWebhookConfiguration C (webhookName c) ca (world (shared p)) = (Inr (), world (shared p'))"
    unfolding ca by (cases rule: cert_step.cases) auto
  then show "\<exists>v. clean_once C (webhookName c) ca v = (Inr (), world (shared p'))"
    using laws(2) unfolding retry_laws_def cleanUpMutatingWebhookConfiguration_def by blast
  show "\<forall>v. clean_once C (webhookName c) ca v = (Inr (), world (shared p')) \<longrightarrow>
      (\<exists>h h'. GetWebhook C v (webhookName c) = Inr h \<and> GetWebhook C (world (shared p')) (webhookName c) = Inr h' \<and>
         webhooks_edited (ParseCertificate C) (webhookName c) (cleaned ca) (Webhooks h) (Webhooks h') \<and>
         (\<forall>i < editable (ParseCertificate C) (webhookName c) (Webhooks h). own_webhook (webhookName c) (Webhooks h ! i) \<longrightarrow>
            \<not> caBundleFound (ParseCertificate C) (CABundle (Webhooks h' ! i)) ca))"
    by (blast dest: clean_once_Inr [OF laws(3)] cleaned_absent [OF edited_before [OF clean_edits [OF laws(1)]]]
        intro: clean_edits [OF laws(1)])
qed

text \<open>A manager whose CA is in the webhook configuration and whose context ends.\<close>

definition closing_state :: "cert_world manager_state" where
  "closing_state = sample_state\<lparr>world := sample_world\<lparr>hook := \<lparr>wc_Name = ''hook'',
     Webhooks = [\<lparr>wh_Name = ''hook-pods.oidc-apps.io'', CABundle = [cert_block sample_ca]\<rparr>]\<rparr>\<rparr>\<rparr>"

definition loops_ended :: "cert_world cert_program" where
  "loops_ended = (started closing_state)\<lparr>context_ended := True, tls_at := TlsDone, ca_at := CaDone, sync_at := SyncDone,
     start_at := CleanUp\<rparr>"

lemma closing_run: "(cert_step sample_certs sample_manager)\<^sup>*\<^sup>* (started closing_state) loops_ended"
proof -
  let ?step = "cert_step sample_certs sample_manager" and ?p = "started closing_state"
  let ?p1 = "?p\<lparr>context_ended := True\<rparr>" let ?p2 = "?p1\<lparr>tls_at := TlsDone\<rparr>" let ?p3 = "?p2\<lparr>ca_at := CaDone\<rparr>"
  let ?p4 = "?p3\<lparr>sync_at := SyncDone\<rparr>" let ?p5 = "?p4\<lparr>start_at := AwaitLoops\<rparr>"
  have "?step ?p ?p1" by (rule cert_step.context_end) (simp add: started_def)
  moreover have "?step ?p1 ?p2" by (rule cert_step.tls_end) (simp_all add: started_def)
  moreover have "?step ?p2 ?p3" by (rule cert_step.ca_end) (simp_all add: started_def)
  moreover have "?step ?p3 ?p4" by (rule cert_step.sync_end) (simp_all add: started_def)
  moreover have "?step ?p4 ?p5" by (rule cert_step.start_ended) (simp_all add: started_def)
  moreover have "?step ?p5 loops_ended"
    using cert_step.start_waited [of ?p5 sample_certs sample_manager] by (simp add: started_def loops_ended_def)
  ultimately show ?thesis by (meson converse_rtranclp_into_rtranclp rtranclp.rtrancl_refl)
qed

theorem shutdown_removes_ca_witness:
  "\<exists>p' h'. cert_step sample_certs sample_manager loops_ended p' \<and> start_at p' = StartReturned (Inr ()) \<and>
     GetWebhook sample_certs (world (shared p')) ''hook'' = Inr h' \<and>
     \<not> caBundleFound sample_parse (CABundle (Webhooks h' ! 0)) sample_ca"
proof -
  let ?w = "world (shared loops_ended)" and ?ca = "b_cert (cm_ca (shared loops_ended))"
  obtain w where w: "clean_once sample_certs ''hook'' ?ca ?w = (Inr (), w)"
    by (simp add: clean_once_def sample_certs_def loops_ended_def started_def closing_state_def cleanWebhookCABundles_def)
  then have "cleanUpMutatingWebhookConfiguration sample_certs (webhookName sample_manager) ?ca ?w = (Inr (), w)"
    by (simp add: cleanUpMutatingWebhookConfiguration_def sample_certs_def sample_manager_def)
  from cert_step.start_clean [OF _ _ this] obtain p' where p': "cert_step sample_certs sample_manager loops_ended p'"
      "start_at p' = StartReturned (Inr ())" "shared p' = (shared loops_ended)\<lparr>world := w\<rparr>"
    by (auto simp: loops_ended_def started_def)
  have "parser_laws (ParseCertificate sample_certs)" using sample_parser_laws by (simp add: sample_certs_def)
  note removed = shutdown_removes_ca [OF this sample_retry_laws sample_webhook_laws closing_run p'(1) _ p'(2) refl]
  have start: "start_at loops_ended = CleanUp" by (simp add: loops_ended_def)
  have ca: "b_cert (cm_ca (shared p')) = sample_ca"
    by (simp add: p'(3) loops_ended_def started_def closing_state_def sample_state_def)
  have get: "GetWebhook sample_certs ?w ''hook'' = Inr (hook ?w)"
    by (simp add: sample_certs_def loops_ended_def started_def closing_state_def)
  have raw: "sample_parse (Raw sample_ca) = Inr sample_ca" by (simp add: sample_ca_reparses [unfolded reparses_def])
  have ws: "Webhooks (hook ?w) = [\<lparr>wh_Name = ''hook-pods.oidc-apps.io'', CABundle = [cert_block sample_ca]\<rparr>]"
    by (simp add: loops_ended_def started_def closing_state_def)
  have own: "own_webhook ''hook'' (Webhooks (hook ?w) ! 0)" "editable sample_parse ''hook'' (Webhooks (hook ?w)) = 1"
    by (simp_all add: ws own_webhook_def podsWebhookSuffix_def parses_def is_cert_def cert_block_def raw)
  have parse: "ParseCertificate sample_certs = sample_parse" "webhookName sample_manager = ''hook''"
    by (simp_all add: sample_certs_def sample_manager_def)
  have "clean_once sample_certs ''hook'' sample_ca ?w = (Inr (), world (shared p'))"
    using w ca by (simp add: p'(3))
  with removed [OF start, unfolded parse ca] get obtain h' where
      "GetWebhook sample_certs (world (shared p')) ''hook'' = Inr h'"
      "\<forall>i < editable sample_parse ''hook'' (Webhooks (hook ?w)). own_webhook ''hook'' (Webhooks (hook ?w) ! i) \<longrightarrow>
         \<not> caBundleFound sample_parse (CABundle (Webhooks h' ! i)) sample_ca"
    by (metis sum.inject(2))
  moreover from this(2) own have "\<not> caBundleFound sample_parse (CABundle (Webhooks h' ! 0)) sample_ca" by simp
  ultimately
  show ?thesis using p' by blast
qed

text \<open>A rotation that is due and whose generation fails ends the process: the
  error is logged and the missing bundle is dereferenced.\<close>

lemma failed_rotation_panics:
  assumes "NotAfter (b_cert (cm_tls s)) \<le> Now C (world s) + tlsCertRotation"
    and "generateTLSCert C (certPath c) (dnsNames c) (cm_ca s) (cert_state.truncate s) = (Inl e, t)"
  shows "\<exists>msg s'. rotateTLSCert C c s = (Inl (Panic msg), s')"
  using assms
  by (cases e) (simp_all add: rotateTLSCert_def Let_def and_then_def or_nil_def lift_state_def)

end
