(* ===== verification/Cert_Restart.thy ===== *)
theory Cert_Restart
  imports Cert_Properties
begin

text \<open>
  The certificates on disk: what \<open>writeBundle\<close> writes is what \<open>loadCAFromDisk\<close> and \<open>loadTLSFromDisk\<close> read,
  and a restart of the controller goes on with the bundles of the run before.
\<close>

subsection \<open>Files\<close>

definition files_kept :: "'w cert_env \<Rightarrow> ('w, 'a) go \<Rightarrow> bool" where
  "files_kept C m \<longleftrightarrow> (\<forall>w r w'. m w = (r, w') \<longrightarrow> ReadFile C w' = ReadFile C w)"

text \<open>A file that was written is read as it was written and the others are untouched; a key that was
  marshalled parses again; no other call touches files.\<close>

definition disk_laws :: "'w cert_env \<Rightarrow> bool" where
  "disk_laws C \<longleftrightarrow>
     (\<forall>f p w w'. WriteCert C f p w = (Inr (), w') \<longrightarrow> ReadFile C w' = (ReadFile C w)(f := Inr p)) \<and>
     (\<forall>k m. MarshalPKCS8PrivateKey C k = Inr m \<longrightarrow> ParsePKCS8PrivateKey C m = Inr k) \<and>
     (\<forall>n. files_kept C (GenerateKey C n)) \<and> (\<forall>n. files_kept C (rand_Int C n)) \<and>
     (\<forall>t p pub k. files_kept C (x509_CreateCertificate C t p pub k)) \<and>
     files_kept C (NewForConfig C) \<and> (\<forall>h. files_kept C (UpdateWebhook C h)) \<and>
     (\<forall>m. files_kept C m \<longrightarrow> files_kept C (RetryOnConflict C m))"

lemma files_keptD: "files_kept C m \<Longrightarrow> m w = (r, w') \<Longrightarrow> ReadFile C w' = ReadFile C w"
  by (auto simp: files_kept_def)

lemma setup_keeps_files:
  assumes "disk_laws C" "setupWebhooksCABundles C name ca w = (Inr (), w')"
  shows "ReadFile C w' = ReadFile C w"
proof -
  have "files_kept C (UpdateWebhook C h)" for h using assms(1) by (simp add: disk_laws_def)
  then have "files_kept C (refresh_once C f name ca)" for f
    unfolding files_kept_def refresh_once_def by (auto split: sum.splits)
  then have retry: "files_kept C (RetryOnConflict C (refresh_once C f name ca))" for f
    using assms(1) by (simp add: disk_laws_def)
  have "files_kept C (NewForConfig C)" using assms(1) by (simp add: disk_laws_def)
  with assms(2) show ?thesis
    using files_keptD [OF retry] by (auto simp: setupWebhooksCABundles_def and_then_Inr_iff files_kept_def)
qed

subsection \<open>Write and load\<close>

definition bundle_kind :: "cert_bundle \<Rightarrow> string" where
  "bundle_kind b = (if IsCA (b_cert b) then ''ca'' else ''tls'')"

text \<open>The files of one kind of bundle.\<close>

definition on_disk :: "'w cert_env \<Rightarrow> string \<Rightarrow> 'w \<Rightarrow> string \<Rightarrow> pem res \<times> pem res" where
  "on_disk C path w ty = (ReadFile C w (path, ty @ ''.crt''), ReadFile C w (path, ty @ ''.key''))"

lemma load_pair_cong: "on_disk C path w ty = on_disk C path w' ty \<Longrightarrow> load_pair C ty path w = load_pair C ty path w'"
  by (simp add: on_disk_def load_pair_def)

lemma write_pair_Inr:
  assumes "disk_laws C" "write_pair C path ty crt key w = (Inr (), w')"
  shows "ReadFile C w' = (ReadFile C w)((path, ty @ ''.crt'') := Inr crt, (path, ty @ ''.key'') := Inr key)"
proof -
  obtain v where "WriteCert C (path, ty @ ''.crt'') crt w = (Inr (), v)" "WriteCert C (path, ty @ ''.key'') key v = (Inr (), w')"
    using assms(2) by (auto simp: write_pair_def and_then_Inr_iff)
  then show ?thesis using assms(1) by (simp add: disk_laws_def)
qed

lemma as_rsa_Inr_iff: "as_rsa k = Inr k' \<longleftrightarrow> k' = k \<and> (\<exists>s. k = RSA s)"
  by (cases k) (auto simp: as_rsa_def)

lemma rsaToPem_Inr_iff:
  "rsaToPem C k = Inr p \<longleftrightarrow>
     (\<exists>m. MarshalPKCS8PrivateKey C k = Inr m \<and> p = [\<lparr>pb_Type = ''RSA PRIVATE KEY'', pb_Bytes = m\<rparr>])"
  by (auto simp: rsaToPem_def split: sum.splits)

lemma written_loads:
  assumes disk: "disk_laws C" and "reparses (ParseCertificate C) (b_cert b)"
    and ok: "writeBundle C path b w = (Inr (), w')"
  shows "load_pair C (bundle_kind b) path w' = Inr b"
    and "ty \<in> {''ca'', ''tls''} \<Longrightarrow> ty \<noteq> bundle_kind b \<Longrightarrow> on_disk C path w' ty = on_disk C path w ty"
proof -
  obtain m where key: "as_rsa (b_key b) = Inr (b_key b)" "MarshalPKCS8PrivateKey C (b_key b) = Inr m"
    and pair: "write_pair C path (bundle_kind b) [\<lparr>pb_Type = ''CERTIFICATE'', pb_Bytes = Raw (b_cert b)\<rparr>]
      [\<lparr>pb_Type = ''RSA PRIVATE KEY'', pb_Bytes = m\<rparr>] w = (Inr (), w')"
    using ok assms(2)
    by (auto simp: writeBundle_def and_then_Inr_iff res_bind_Inr_iff derToPem_def rsaToPem_Inr_iff reparses_def bundle_kind_def
        as_rsa_Inr_iff split: if_splits)
  have parse: "ParsePKCS8PrivateKey C m = Inr (b_key b)" using disk key(2) by (simp add: disk_laws_def)
  show "load_pair C (bundle_kind b) path w' = Inr b"
    using assms(2) key(1) parse
    by (simp add: load_pair_def write_pair_Inr [OF disk pair] first_block_def reparses_def)
  show "on_disk C path w' ty = on_disk C path w ty" if "ty \<in> {''ca'', ''tls''}" "ty \<noteq> bundle_kind b"
    using that by (auto simp: on_disk_def write_pair_Inr [OF disk pair] bundle_kind_def split: if_splits)
qed

text \<open>A generation leaves its bundle on disk and the files of the other kind as they were.\<close>

lemma generated_on_disk:
  assumes laws: "x509_laws C signer" "disk_laws C"
    and ok: "generateCACert C path s = (Inr b, s') \<or> generateTLSCert C path names ca s = (Inr b, s')"
  shows "load_pair C (bundle_kind b) path (world s') = Inr b"
    and "ty \<in> {''ca'', ''tls''} \<Longrightarrow> ty \<noteq> bundle_kind b \<Longrightarrow> on_disk C path (world s') ty = on_disk C path (world s) ty"
proof -
  have kept: "files_kept C (GenerateKey C n)" "files_kept C (rand_Int C n')" "files_kept C (x509_CreateCertificate C t p pub k)"
    for n n' t p pub k using laws(2) by (simp_all add: disk_laws_def)
  obtain k w1 serial w2 tmpl parent priv w3 where
      k: "GenerateKey C keyLength (world s) = (Inr k, w1)" and n: "generateSerial C w1 = (Inr serial, w2)"
      and c: "CreateCertificate C tmpl parent (Public C (RSA k)) priv w2 = (Inr (b_cert b), w3)"
      and w: "writeBundle C path b w3 = (Inr (), world s')"
    using ok
    by (auto simp: generateCACert_def generateTLSCert_def and_then_Inr_iff in_world_Inr_iff generateCACommonName_def
        generateTLSCommonName_def Let_def)
  have "ReadFile C w3 = ReadFile C (world s)"
    using files_keptD [OF kept(1) k] n c files_keptD [OF kept(2)] files_keptD [OF kept(3)]
    by (auto simp: generateSerial_def CreateCertificate_def and_then_Inr_iff)
  then have same: "on_disk C path w3 ty = on_disk C path (world s) ty" for ty by (simp add: on_disk_def)
  have "reparses (ParseCertificate C) (b_cert b)" using CreateCertificate_Inr [OF laws(1) c] by simp
  note written = written_loads [OF laws(2) this w]
  show "load_pair C (bundle_kind b) path (world s') = Inr b" by (rule written(1))
  show "on_disk C path (world s') ty = on_disk C path (world s) ty" if "ty \<in> {''ca'', ''tls''}" "ty \<noteq> bundle_kind b"
    using written(2) [OF that] same by simp
qed

lemma load_or_Inr:
  "load_or load gen s = (Inr b, s') \<longleftrightarrow>
     (load (world s) = Inr b \<and> s' = s) \<or> (\<exists>e. load (world s) = Inl e \<and> \<not> is_panic e \<and> gen s = (Inr b, s'))"
  by (auto simp: load_or_def split: sum.splits)

subsection \<open>Restart\<close>

lemma New_on_disk:
  assumes laws: "x509_laws C signer" "clock_laws C" "disk_laws C"
    and ok: "New C path name namespace s = (Inr (m, ca, tls), s1)"
  shows "loadCAFromDisk C path (world s1) = Inr ca" "loadTLSFromDisk C path (world s1) = Inr tls"
    "m = \<lparr>certPath = path, dnsNames = dns_names name namespace, webhookName = name\<rparr>"
proof -
  let ?names = "dns_names name namespace"
  let ?gen = "and_then (generateCACert C path) (\<lambda>ca.
    and_then (in_world (setupWebhooksCABundles C name (b_cert ca))) (\<lambda>_. ret ca))"
  obtain t where t: "load_or (loadCAFromDisk C path) ?gen s = (Inr ca, t)"
      "load_or (loadTLSFromDisk C path) (generateTLSCert C path ?names ca) t = (Inr tls, s1)"
    and m: "m = \<lparr>certPath = path, dnsNames = ?names, webhookName = name\<rparr>"
    using ok by (auto simp: New_def Let_def and_then_Inr_iff)
  show "m = \<lparr>certPath = path, dnsNames = ?names, webhookName = name\<rparr>" by (rule m)
  have ca: "load_pair C ''ca'' path (world t) = Inr ca"
    using t(1) unfolding load_or_Inr
  proof (elim disjE exE conjE)
    fix e
    assume "?gen s = (Inr ca, t)"
    then obtain u where u: "generateCACert C path s = (Inr ca, u)" "setupWebhooksCABundles C name (b_cert ca) (world u) = (Inr (), world t)"
      by (auto simp: and_then_Inr_iff in_world_Inr_iff)
    have "bundle_kind ca = ''ca''" using generateCACert_Inr(2) [OF laws(1,2) u(1)] by (simp add: bundle_kind_def)
    moreover have "load_pair C (bundle_kind ca) path (world u) = Inr ca" using generated_on_disk(1) [OF laws(1,3)] u(1) by blast
    ultimately show ?thesis
      using load_pair_cong [of C path "world u" "''ca''" "world t"] setup_keeps_files [OF laws(3) u(2)] by (simp add: on_disk_def)
  qed (simp add: loadCAFromDisk_def)
  have "load_pair C ''tls'' path (world s1) = Inr tls \<and> load_pair C ''ca'' path (world s1) = Inr ca"
    using t(2) unfolding load_or_Inr
  proof (elim disjE exE conjE)
    fix e
    assume g: "generateTLSCert C path ?names ca t = (Inr tls, s1)"
    have kind: "bundle_kind tls = ''tls''" using generateTLSCert_Inr(2) [OF laws(1,2) g] by (simp add: bundle_kind_def)
    note disk = generated_on_disk [OF laws(1,3) disjI2 [OF g]]
    have "on_disk C path (world s1) ''ca'' = on_disk C path (world t) ''ca''" by (rule disk(2)) (simp_all add: kind)
    from load_pair_cong [OF this] disk(1) kind ca show ?thesis by simp
  qed (use ca in \<open>simp add: loadTLSFromDisk_def\<close>)
  then show "loadCAFromDisk C path (world s1) = Inr ca" "loadTLSFromDisk C path (world s1) = Inr tls"
    by (simp_all add: loadCAFromDisk_def loadTLSFromDisk_def)
qed

text \<open>A bundle is taken from the disk whatever its expiry.\<close>

lemma restart_reuses_files:
  assumes laws: "x509_laws C signer" "clock_laws C" "disk_laws C"
    and ok: "New C path name namespace s = (Inr (m, ca, tls), s1)"
    and later: "ReadFile C w = ReadFile C (world s1)"
  shows "New C path name namespace \<lparr>world = w, generatedCAName = None, generatedTLSName = None\<rparr> =
    (Inr (m, ca, tls), \<lparr>world = w, generatedCAName = None, generatedTLSName = None\<rparr>)"
proof -
  have "on_disk C path w ty = on_disk C path (world s1) ty" for ty by (simp add: on_disk_def later)
  then have "load_pair C ty path w = load_pair C ty path (world s1)" for ty by (rule load_pair_cong)
  then have "loadCAFromDisk C path w = Inr ca" "loadTLSFromDisk C path w = Inr tls"
    using New_on_disk(1,2) [OF laws ok] by (simp_all add: loadCAFromDisk_def loadTLSFromDisk_def)
  with New_on_disk(3) [OF laws ok] show ?thesis
    by (simp add: New_def Let_def and_then_def load_or_def)
qed

text \<open>C28 (restart). After a start of the certificate manager, a later start of a new process that finds
  the same files while both certificates are still valid - whatever else has changed - gets the same two
  bundles and changes nothing: no certificate is generated and the webhook configuration is not
  touched.\<close>

theorem restart_reuses_bundles:
  assumes laws: "x509_laws C signer" "clock_laws C" "disk_laws C"
    and ok: "New C path name namespace s = (Inr (m, ca, tls), s1)"
    and later: "ReadFile C w = ReadFile C (world s1)"
    and valid: "Now C w \<le> NotAfter (b_cert ca)" "Now C w \<le> NotAfter (b_cert tls)"
  shows "New C path name namespace \<lparr>world = w, generatedCAName = None, generatedTLSName = None\<rparr> =
    (Inr (m, ca, tls), \<lparr>world = w, generatedCAName = None, generatedTLSName = None\<rparr>)"
  by (rule restart_reuses_files [OF laws ok later])

text \<open>A first start of the sample manager, on an empty disk.\<close>

definition empty_disk :: "cert_world cert_state" where
  "empty_disk = \<lparr>world = sample_world\<lparr>disk := (\<lambda>_. Inl ErrNotFound)\<rparr>, generatedCAName = None, generatedTLSName = None\<rparr>"

lemma sample_disk_laws: "disk_laws sample_certs"
  by (auto simp: disk_laws_def files_kept_def sample_certs_def sample_create_def split: private_key.splits if_splits)

lemma first_start: "\<exists>s1. New sample_certs ''certs'' ''hook'' '''' empty_disk =
  (Inr (sample_manager, \<lparr>b_cert = sample_ca, b_key = RSA ''k''\<rparr>, \<lparr>b_cert = sample_tls, b_key = RSA ''k''\<rparr>), s1)"
proof -
  have tmpl: "(tls_template 1 ''oidc-apps-controller-webhook-aaaaa'' [''hook''] 1000)\<lparr>Raw := ''tls'', PubKey := ''pub-k''\<rparr> = sample_tls"
    "(ca_template 1 ''oidc-apps-controller-ca-aaaaa'' 1000)\<lparr>Raw := ''ca'', PubKey := ''pub-k''\<rparr> = sample_ca"
    by (simp_all add: sample_tls_def sample_ca_def)
  have ca: "(tls_template 1 n d t)\<lparr>Raw := a, PubKey := b\<rparr> \<noteq> sample_ca" for n d t a b
    by (simp add: sample_ca_def tls_template_def ca_template_def)
  have raw: "Raw sample_tls = ''tls''" "Raw sample_ca = ''ca''" "\<not> IsCA sample_tls" "IsCA sample_ca"
    by (simp_all add: sample_tls_def sample_ca_def tls_template_def ca_template_def)
  note defs = and_then_def in_world_def wrapping_def generateSerial_def generateTLSCommonName_def generateCACommonName_def
    once_name_def Let_def sample_certs_def empty_disk_def sample_world_def CreateCertificate_def sample_create_def
    commonTLSNamePrefix_def commonCANamePrefix_def public_of_def reading_def writeBundle_def derToPem_def sample_parse_def
    as_rsa_def rsaToPem_def write_pair_def tmpl ca raw
  let ?b = "\<lparr>b_cert = sample_ca, b_key = RSA ''k''\<rparr>" and ?t = "\<lparr>b_cert = sample_tls, b_key = RSA ''k''\<rparr>"
  obtain t where t: "generateCACert sample_certs ''certs'' empty_disk = (Inr ?b, t)" "hook (world t) = hook sample_world"
      "clock (world t) = 1000" "generatedTLSName t = None" "disk (world t) (''certs'', ''tls.crt'') = Inl ErrNotFound"
    by (simp add: generateCACert_def defs)
  obtain h where "setupWebhooksCABundles sample_certs ''hook'' sample_ca (world t) = (Inr (), (world t)\<lparr>hook := h\<rparr>)"
    using t(2)
    by (simp add: setupWebhooksCABundles_def refresh_once_def and_then_def wrapping_def sample_certs_def sample_world_def
        refreshWebhookCABundles_def)
  with t obtain u where u: "load_or (loadCAFromDisk sample_certs ''certs'') (and_then (generateCACert sample_certs ''certs'') (\<lambda>ca.
      and_then (in_world (setupWebhooksCABundles sample_certs ''hook'' (b_cert ca))) (\<lambda>_. ret ca))) empty_disk = (Inr ?b, u)"
      "clock (world u) = 1000" "generatedTLSName u = None" "disk (world u) (''certs'', ''tls.crt'') = Inl ErrNotFound"
    by (simp add: load_or_Inr loadCAFromDisk_def load_pair_def and_then_Inr_iff in_world_Inr_iff)
      (simp add: sample_certs_def empty_disk_def)
  have "\<exists>v. generateTLSCert sample_certs ''certs'' [''hook''] ?b u = (Inr ?t, v)"
    using u(2-4) by (simp add: generateTLSCert_def defs)
  then obtain v where "load_or (loadTLSFromDisk sample_certs ''certs'') (generateTLSCert sample_certs ''certs'' [''hook''] ?b) u = (Inr ?t, v)"
    using u(4) by (auto simp: load_or_Inr loadTLSFromDisk_def load_pair_def sample_certs_def)
  with u(1) have "New sample_certs ''certs'' ''hook'' '''' empty_disk = (Inr (sample_manager, ?b, ?t), v)"
    by (simp add: New_def dns_names_def Let_def and_then_def sample_manager_def)
  then show ?thesis by blast
qed

theorem restart_reuses_bundles_witness:
  "\<exists>ca tls s1. New sample_certs ''certs'' ''hook'' '''' empty_disk = (Inr (sample_manager, ca, tls), s1) \<and>
     New sample_certs ''certs'' ''hook'' '''' \<lparr>world = (world s1)\<lparr>clock := 40000\<rparr>, generatedCAName = None, generatedTLSName = None\<rparr> =
       (Inr (sample_manager, ca, tls), \<lparr>world = (world s1)\<lparr>clock := 40000\<rparr>, generatedCAName = None, generatedTLSName = None\<rparr>)"
proof -
  obtain s1 where s1: "New sample_certs ''certs'' ''hook'' '''' empty_disk =
      (Inr (sample_manager, \<lparr>b_cert = sample_ca, b_key = RSA ''k''\<rparr>, \<lparr>b_cert = sample_tls, b_key = RSA ''k''\<rparr>), s1)"
    using first_start by blast
  let ?w = "(world s1)\<lparr>clock := 40000\<rparr>"
  have "ReadFile sample_certs ?w = ReadFile sample_certs (world s1)" by (simp add: sample_certs_def)
  moreover have "Now sample_certs ?w \<le> NotAfter sample_ca" "Now sample_certs ?w \<le> NotAfter sample_tls"
    by (simp_all add: sample_certs_def sample_ca_def ca_template_def caCertValidity_def sample_tls_def tls_template_def
        tlsCertValidity_def)
  ultimately show ?thesis
    using restart_reuses_bundles [OF sample_x509_laws sample_clock_laws sample_disk_laws s1, of ?w] s1 by auto
qed

subsection \<open>The chain from the start\<close>

text \<open>What the disk may hold for the bundles of a start to fit: a CA with its own key, and a serving
  certificate only beside the CA that signed it.\<close>

definition disk_fits :: "'w cert_env \<Rightarrow> (certificate \<Rightarrow> string) \<Rightarrow> string \<Rightarrow> 'w \<Rightarrow> bool" where
  "disk_fits C signer path w \<longleftrightarrow>
     (case (loadCAFromDisk C path w, loadTLSFromDisk C path w) of
        (Inr ca, Inr tls) \<Rightarrow> paired C ca \<and> signer (b_cert tls) = PubKey (b_cert ca)
      | (Inr ca, Inl _) \<Rightarrow> paired C ca
      | (Inl _, Inr tls) \<Rightarrow> False
      | (Inl _, Inl _) \<Rightarrow> True)"

text \<open>The runnable that \<open>New\<close> hands to the manager of the controller.\<close>

definition runnable :: "'w cert_state \<Rightarrow> cert_bundle \<Rightarrow> cert_bundle \<Rightarrow> 'w manager_state" where
  "runnable s ca tls =
     \<lparr>world = world s, generatedCAName = generatedCAName s, generatedTLSName = generatedTLSName s, cm_ca = ca, cm_tls = tls\<rparr>"

lemma New_chained:
  assumes laws: "x509_laws C signer" "clock_laws C" "disk_laws C"
    and ok: "New C path name namespace s = (Inr (m, ca, tls), s1)" and fits: "disk_fits C signer path (world s)"
  shows "chained C signer (runnable s1 ca tls)"
proof -
  let ?names = "dns_names name namespace"
  let ?gen = "and_then (generateCACert C path) (\<lambda>ca.
    and_then (in_world (setupWebhooksCABundles C name (b_cert ca))) (\<lambda>_. ret ca))"
  obtain t where t: "load_or (loadCAFromDisk C path) ?gen s = (Inr ca, t)"
      "load_or (loadTLSFromDisk C path) (generateTLSCert C path ?names ca) t = (Inr tls, s1)"
    using ok by (auto simp: New_def Let_def and_then_Inr_iff)
  have "paired C ca \<and> (\<forall>b. loadTLSFromDisk C path (world t) = Inr b \<longrightarrow> signer (b_cert b) = PubKey (b_cert ca))"
    using t(1) unfolding load_or_Inr
  proof (elim disjE exE conjE)
    assume "loadCAFromDisk C path (world s) = Inr ca" "t = s"
    with fits show ?thesis by (auto simp: disk_fits_def split: sum.splits)
  next
    fix e
    assume e: "loadCAFromDisk C path (world s) = Inl e" and "?gen s = (Inr ca, t)"
    then obtain u where u: "generateCACert C path s = (Inr ca, u)"
        "setupWebhooksCABundles C name (b_cert ca) (world u) = (Inr (), world t)"
      by (auto simp: and_then_Inr_iff in_world_Inr_iff)
    note made = generateCACert_Inr [OF laws(1,2) u(1)]
    have "on_disk C path (world u) ''tls'' = on_disk C path (world s) ''tls''"
      by (rule generated_on_disk(2) [OF laws(1,3) disjI1 [OF u(1)]]) (simp_all add: bundle_kind_def made(2))
    then have "on_disk C path (world t) ''tls'' = on_disk C path (world s) ''tls''"
      using setup_keeps_files [OF laws(3) u(2)] by (simp add: on_disk_def)
    from load_pair_cong [OF this] e fits made(3) show ?thesis
      by (auto simp: disk_fits_def loadTLSFromDisk_def paired_def split: sum.splits)
  qed
  moreover have "signer (b_cert tls) = PubKey (b_cert ca)" if "paired C ca" "loadTLSFromDisk C path (world t) \<noteq> Inr tls"
    using t(2) that generateTLSCert_Inr(4) [OF laws(1,2)] by (auto simp: load_or_Inr paired_def)
  ultimately show ?thesis unfolding chained_def runnable_def paired_def by (cases "loadTLSFromDisk C path (world t) = Inr tls") auto
qed

text \<open>C26 (chain). Let \<open>New\<close> have made the manager, from a disk that holds a serving certificate only beside
  the CA that signed it, and let \<open>Start\<close> run with the steps of its goroutines in any order, time passing and the
  cluster changing. As long as a rotation of the TLS loop and one of the CA loop are never in flight at
  once, the serving certificate is signed by the key of the current CA whenever neither is.\<close>

theorem chain_invariant:
  assumes "x509_laws C signer" "clock_laws C" "disk_laws C"
    and "New C path name namespace s = (Inr (m, ca, tls), s1)" and "disk_fits C signer path (world s)"
    and "(apart_step C m)\<^sup>*\<^sup>* (started (runnable s1 ca tls)) p" and "tls_idle p" "ca_idle p"
  shows "chained C signer (shared p)"
  using chain_kept [OF assms(1,2,6) New_chained [OF assms(1-5)] assms(7,8)] .

text \<open>A start that finds the old serving certificate, and a run that replaces it.\<close>

lemma second_start:
  "New sample_certs ''certs'' ''hook'' '''' \<lparr>world = sample_world, generatedCAName = None, generatedTLSName = None\<rparr> =
     (Inr (sample_manager, cm_ca sample_state, cm_tls sample_state),
      \<lparr>world = sample_world, generatedCAName = None, generatedTLSName = None\<rparr>)"
  "disk_fits sample_certs (\<lambda>_. ''pub-k'') ''certs'' sample_world"
proof -
  have "sample_parse (Raw sample_ca) = Inr sample_ca" "sample_parse (Raw old_tls) = Inr old_tls"
    by (simp_all add: sample_parse_def sample_ca_def old_tls_def)
  then have load: "loadCAFromDisk sample_certs ''certs'' sample_world = Inr (cm_ca sample_state)"
    "loadTLSFromDisk sample_certs ''certs'' sample_world = Inr (cm_tls sample_state)"
    by (simp_all add: loadCAFromDisk_def loadTLSFromDisk_def load_pair_def sample_certs_def sample_world_def pair_on_disk_def
        first_block_def cert_block_def as_rsa_def sample_state_def)
  then show "New sample_certs ''certs'' ''hook'' '''' \<lparr>world = sample_world, generatedCAName = None, generatedTLSName = None\<rparr> =
     (Inr (sample_manager, cm_ca sample_state, cm_tls sample_state),
      \<lparr>world = sample_world, generatedCAName = None, generatedTLSName = None\<rparr>)"
    by (simp add: New_def Let_def and_then_def load_or_def dns_names_def sample_manager_def)
  show "disk_fits sample_certs (\<lambda>_. ''pub-k'') ''certs'' sample_world"
    unfolding disk_fits_def load by (simp add: paired_def sample_state_def sample_ca_def sample_certs_def public_of_def)
qed

theorem chain_invariant_witness:
  "\<exists>p. (apart_step sample_certs sample_manager)\<^sup>*\<^sup>* (started sample_state) p \<and> cm_tls (shared p) \<noteq> cm_tls sample_state \<and>
     chained sample_certs (\<lambda>_. ''pub-k'') (shared p)"
proof -
  obtain s' where s': "rotateTLSCert sample_certs sample_manager sample_state = (Inr (), s')" by (rule sample_tick)
  let ?p = "(started sample_state)\<lparr>shared := s'\<rparr>"
  have start: "runnable \<lparr>world = sample_world, generatedCAName = None, generatedTLSName = None\<rparr>
      (cm_ca sample_state) (cm_tls sample_state) = sample_state"
    by (simp add: runnable_def sample_state_def)
  have run: "(apart_step sample_certs sample_manager)\<^sup>*\<^sup>* (started sample_state) ?p"
    by (rule tls_tick_run [OF s']) (simp_all add: started_def ca_idle_def)
  have "chained sample_certs (\<lambda>_. ''pub-k'') (shared ?p)"
    by (rule chain_invariant [OF sample_x509_laws sample_clock_laws sample_disk_laws second_start(1)])
      (simp_all add: second_start(2) start run, simp_all add: started_def tls_idle_def ca_idle_def)
  moreover have "cm_tls (shared ?p) \<noteq> cm_tls sample_state"
    using tls_margin [OF sample_x509_laws sample_clock_laws s']
    by (auto simp: sample_state_def sample_certs_def sample_world_def old_tls_def tlsCertRotation_def)
  ultimately show ?thesis using run by blast
qed

text \<open>Nothing checks that the two pairs on the disk belong together: after a rotation of the CA whose new
  serving certificate could not be generated, a restart goes on with the new CA and a serving
  certificate of the old one.\<close>

lemma mismatched_disk:
  assumes "loadCAFromDisk C path (world s) = Inr ca" "loadTLSFromDisk C path (world s) = Inr tls"
    and "signer (b_cert tls) \<noteq> PubKey (b_cert ca)"
  shows "\<exists>m. New C path name namespace s = (Inr (m, ca, tls), s) \<and> \<not> chained C signer (runnable s ca tls)"
  using assms by (simp add: New_def Let_def and_then_def load_or_def chained_def runnable_def)

end
