(* ===== verification/Watcher.thy ===== *)
theory Watcher
  imports Go_Strings "HOL-Library.List_Lexorder" "HOL-Library.Char_ord" "HOL-Library.Multiset"
begin

text \<open>
  The sidecar watcher (\<open>cmd/watcher/main.go\<close>, \<open>pkg/watcher\<close>): the command line, the hash of the
  watched directory, the child process, and the main program as a step relation over the state the
  two goroutines share.
\<close>

subsection \<open>Parameters\<close>

record parameters =
  CmdLine :: string
  CmdLineArgs :: "string list"
  WatchedDir :: string
  LogLevel :: string
  LogFormat :: string

definition defaultWatchedDir :: string where "defaultWatchedDir = ''/etc/kube-rbac-proxy''"
definition watchedDirParam :: string where "watchedDirParam = ''--watched-dir=''"
definition defaultCmdLine :: string where "defaultCmdLine = ''/usr/local/bin/kube-rbac-proxy''"
definition cmdLineParam :: string where "cmdLineParam = ''--cmd-line=''"
definition logLevelParam :: string where "logLevelParam = ''--log-level=''"
definition logFormatParam :: string where "logFormatParam = ''--log-format=''"

definition default_parameters :: parameters where
  "default_parameters =
     \<lparr>CmdLine = defaultCmdLine, CmdLineArgs = [], WatchedDir = defaultWatchedDir,
      LogLevel = ''info'', LogFormat = ''json''\<rparr>"

fun take_log_params :: "string list \<Rightarrow> parameters \<Rightarrow> string list \<Rightarrow> parameters \<times> string list" where
  "take_log_params [] p filtered = (p, filtered)"
| "take_log_params (a # as) p filtered =
     (if HasPrefix a logLevelParam then
        take_log_params as (p\<lparr>LogLevel := TrimPrefix a logLevelParam\<rparr>) filtered
      else if HasPrefix a logFormatParam then
        take_log_params as (p\<lparr>LogFormat := TrimPrefix a logFormatParam\<rparr>) filtered
      else take_log_params as p (filtered @ [a]))"

text \<open>\<open>None\<close> is the index \<open>-1\<close>.\<close>

fun indexOf :: "string list \<Rightarrow> string \<Rightarrow> nat option" where
  "indexOf [] str = None"
| "indexOf (arg # args) str =
     (if Contains arg str then Some 0 else map_option Suc (indexOf args str))"

text \<open>\<open>params[i:j]\<close>, which panics when \<open>j < i\<close> or \<open>j\<close> is out of range.\<close>

definition slice :: "'a list \<Rightarrow> nat \<Rightarrow> nat \<Rightarrow> 'a list res" where
  "slice xs i j =
     (if i \<le> j \<and> j \<le> length xs then Inr (take (j - i) (drop i xs))
      else Inl (Panic ''slice bounds out of range''))"

definition watched_dir_of :: "string \<Rightarrow> string" where
  "watched_dir_of s = TrimSuffix (TrimPrefix s watchedDirParam) ''/''"

definition Parse_params :: "string list \<Rightarrow> parameters res" where
  "Parse_params args =
     (case take_log_params args default_parameters [] of (p0, params) \<Rightarrow>
        (let cmdLineIndex = indexOf params cmdLineParam;
             watchedDirIndex = indexOf params watchedDirParam;
             p1 = (if cmdLineIndex = None \<and> watchedDirIndex = None \<and> length params > 1
                   then p0\<lparr>CmdLineArgs := drop 1 params\<rparr> else p0);
             p2 = (case watchedDirIndex of
                     None \<Rightarrow> p1
                   | Some w \<Rightarrow> p1\<lparr>WatchedDir := watched_dir_of (params ! w)\<rparr>)
         in res_bind
              (case (cmdLineIndex, watchedDirIndex) of
                 (None, Some w) \<Rightarrow>
                   res_bind (slice params 1 w) (\<lambda>beforeWatched.
                   res_bind (slice params (w + 1) (length params)) (\<lambda>afterWatched.
                   Inr (p2\<lparr>CmdLineArgs := beforeWatched @ afterWatched\<rparr>)))
               | _ \<Rightarrow> Inr p2)
              (\<lambda>p3.
                 case cmdLineIndex of
                   None \<Rightarrow> Inr p3
                 | Some c \<Rightarrow>
                     (let p4 = p3\<lparr>CmdLine := TrimPrefix (params ! c) cmdLineParam\<rparr> in
                      case watchedDirIndex of
                        Some w \<Rightarrow>
                          if w > c then res_bind (slice params (c + 1) w) (\<lambda>as. Inr (p4\<lparr>CmdLineArgs := as\<rparr>))
                          else res_bind (slice params (c + 1) (length params)) (\<lambda>as. Inr (p4\<lparr>CmdLineArgs := as\<rparr>))
                      | None \<Rightarrow>
                          res_bind (slice params (c + 1) (length params)) (\<lambda>as. Inr (p4\<lparr>CmdLineArgs := as\<rparr>))))))"

subsection \<open>The hash of a directory\<close>

text \<open>A directory entry: a subdirectory, a file that cannot be read, or a file with its content.\<close>

datatype entry = Directory string | Unreadable string | File string string

text \<open>\<open>None\<close> is a directory that cannot be read; the hash function (hexadecimal digest) is an argument.\<close>

fun getFileSha256 :: "(string \<Rightarrow> string) \<Rightarrow> entry \<Rightarrow> string" where
  "getFileSha256 sha (Directory n) = ''''"
| "getFileSha256 sha (Unreadable n) = ''''"
| "getFileSha256 sha (File n content) = sha content"

definition file_hashes :: "(string \<Rightarrow> string) \<Rightarrow> entry list \<Rightarrow> string list" where
  "file_hashes sha dir = filter (\<lambda>h. h \<noteq> []) (map (getFileSha256 sha) dir)"

text \<open>The goroutines store their hashes in any order; the map is keyed by file name, which is unique in
  a directory, and the hashes are sorted before they are joined.\<close>

definition getTotalHash :: "(string \<Rightarrow> string) \<Rightarrow> entry list option \<Rightarrow> string" where
  "getTotalHash sha d =
     (case d of
        None \<Rightarrow> ''''
      | Some dir \<Rightarrow> sha (concat (sort (file_hashes sha dir))))"

subsection \<open>The child process\<close>

text \<open>
  The state of an \<open>exec.Cmd\<close>: not started (no \<open>Process\<close>), running, dead but not waited for, waited
  for. What the system does during a stop is an argument: whether the child exits before the timeout
  and \<open>Wait\<close> reports it, whether \<open>Wait\<close> fails, and whether the child can be killed after the timeout.
\<close>

datatype child = Unstarted | Running | Exited | Reaped

datatype stop_outcome = ExitsInTime | WaitFails string | Killed | KillFails string

definition Start :: "go_error option \<Rightarrow> child \<Rightarrow> child res" where
  "Start outcome p =
     (case p of
        Unstarted \<Rightarrow> (case outcome of None \<Rightarrow> Inr Running | Some e \<Rightarrow> Inl e)
      | _ \<Rightarrow> Inl (ErrOther ''exec: already started''))"

text \<open>Stopping gives an error, if any, and the state of the command afterwards. A signal that cannot be
  sent is logged; a non-zero exit is not an error; a second \<open>Wait\<close> is one.\<close>

definition Stop :: "stop_outcome \<Rightarrow> child \<Rightarrow> go_error option \<times> child" where
  "Stop outcome p =
     (case p of
        Unstarted \<Rightarrow> (None, Unstarted)
      | Running \<Rightarrow>
          (case outcome of
             ExitsInTime \<Rightarrow> (None, Reaped)
           | WaitFails e \<Rightarrow> (Some (ErrOther e), Reaped)
           | Killed \<Rightarrow> (None, Reaped)
           | KillFails e \<Rightarrow> (Some (ErrOther e), Running))
      | Exited \<Rightarrow>
          (case outcome of
             WaitFails e \<Rightarrow> (Some (ErrOther e), Reaped)
           | _ \<Rightarrow> (None, Reaped))
      | Reaped \<Rightarrow> (Some (ErrOther ''exec: Wait was already called''), Reaped))"

subsection \<open>The main program\<close>

text \<open>The phase of \<open>main\<close>, the command and the hash it knows, and whether the signal handler has run.\<close>

datatype phase = Hashing | Starting | Monitoring | Finished

record watcher =
  main_phase :: phase
  proc :: child
  currentHash :: string
  handled :: bool

definition initial_watcher :: watcher where
  "initial_watcher = \<lparr>main_phase = Hashing, proc = Unstarted, currentHash = '''', handled = False\<rparr>"

definition startProcess :: "go_error option \<Rightarrow> watcher \<Rightarrow> watcher" where
  "startProcess outcome s =
     (case Start outcome (proc s) of
        Inl _ \<Rightarrow> s\<lparr>main_phase := Finished\<rparr>
      | Inr p \<Rightarrow> s\<lparr>main_phase := Monitoring, proc := p\<rparr>)"

definition restartProcess :: "stop_outcome \<Rightarrow> go_error option \<Rightarrow> watcher \<Rightarrow> watcher" where
  "restartProcess stop start s =
     (case Stop stop (proc s) of
        (Some _, p) \<Rightarrow> s\<lparr>proc := p\<rparr>
      | (None, _) \<Rightarrow>
          (case Start start Unstarted of
             Inl _ \<Rightarrow> s\<lparr>proc := Unstarted\<rparr>
           | Inr p \<Rightarrow> s\<lparr>proc := p\<rparr>))"

definition handleSignals :: "stop_outcome \<Rightarrow> watcher \<Rightarrow> watcher" where
  "handleSignals stop s = s\<lparr>proc := snd (Stop stop (proc s)), handled := True\<rparr>"

text \<open>One receive of \<open>monitorHashChanges\<close> from the hash channel.\<close>

definition on_hash :: "stop_outcome \<Rightarrow> go_error option \<Rightarrow> string \<Rightarrow> watcher \<Rightarrow> watcher" where
  "on_hash stop start h s =
     (if currentHash s \<noteq> h then restartProcess stop start (s\<lparr>currentHash := h\<rparr>) else s)"

text \<open>The two goroutines exclude each other around the process, so each handler is one step; the child
  may exit by itself at any time.\<close>

inductive watcher_step :: "watcher \<Rightarrow> watcher \<Rightarrow> bool" where
  hashed: "main_phase s = Hashing \<Longrightarrow>
    watcher_step s (s\<lparr>main_phase := Starting, currentHash := h\<rparr>)"
| started: "main_phase s = Starting \<Longrightarrow> watcher_step s (startProcess outcome s)"
| hash: "main_phase s = Monitoring \<Longrightarrow> watcher_step s (on_hash stop start h s)"
| signalled: "main_phase s \<noteq> Finished \<Longrightarrow> \<not> handled s \<Longrightarrow> watcher_step s (handleSignals stop s)"
| exiting: "main_phase s = Monitoring \<Longrightarrow> handled s \<Longrightarrow> watcher_step s (s\<lparr>main_phase := Finished\<rparr>)"
| child_exits: "proc s = Running \<Longrightarrow> watcher_step s (s\<lparr>proc := Exited\<rparr>)"

inductive_cases watcher_stepE: "watcher_step s s'"

subsection \<open>Facts: parameters\<close>

lemma take_log_params_filter:
  "snd (take_log_params as p acc) =
     acc @ filter (\<lambda>a. \<not> HasPrefix a logLevelParam \<and> \<not> HasPrefix a logFormatParam) as"
  by (induction as arbitrary: p acc) simp_all

lemma take_log_params_frame:
  "CmdLine (fst (take_log_params as p acc)) = CmdLine p \<and>
   CmdLineArgs (fst (take_log_params as p acc)) = CmdLineArgs p \<and>
   WatchedDir (fst (take_log_params as p acc)) = WatchedDir p"
  by (induction as arbitrary: p acc) simp_all

lemma indexOf_Some: "indexOf xs str = Some i \<Longrightarrow> i < length xs \<and> Contains (xs ! i) str"
  by (induction xs arbitrary: i) (auto split: if_splits)

lemma indexOf_None_iff: "indexOf xs str = None \<longleftrightarrow> (\<forall>x \<in> set xs. \<not> Contains x str)"
  by (induction xs) auto

subsection \<open>Facts: hashes\<close>

text \<open>The total hash does not depend on the order of the listing, nor on the names of the files.\<close>

lemma getTotalHash_mset:
  assumes "mset (file_hashes sha d1) = mset (file_hashes sha d2)"
  shows "getTotalHash sha (Some d1) = getTotalHash sha (Some d2)"
proof -
  have "sort (file_hashes sha d1) = sort (file_hashes sha d2)"
    using assms by (metis mset_sort properties_for_sort sorted_sort)
  then show ?thesis by (simp add: getTotalHash_def)
qed

lemma concat_same_length:
  assumes "\<And>x. x \<in> set xs \<Longrightarrow> length x = n" "\<And>y. y \<in> set ys \<Longrightarrow> length y = n" "n > 0"
  shows "concat xs = concat ys \<longleftrightarrow> xs = ys"
  using assms
proof (induction xs arbitrary: ys)
  case Nil
  then show ?case by (cases ys) auto
next
  case (Cons x xs)
  show ?case
  proof (cases ys)
    case Nil
    with Cons.prems show ?thesis by auto
  next
    case (Cons y ys')
    with Cons.prems Cons.IH [of ys'] show ?thesis by auto
  qed
qed

text \<open>Conversely a change of the contents is seen, unless the digest of the joined hashes collides.\<close>

lemma getTotalHash_detects:
  assumes len: "\<And>x. length (sha x) = n" "n > 0"
    and no_collision: "inj_on sha {concat (sort (file_hashes sha d1)), concat (sort (file_hashes sha d2))}"
    and eq: "getTotalHash sha (Some d1) = getTotalHash sha (Some d2)"
  shows "mset (file_hashes sha d1) = mset (file_hashes sha d2)"
proof -
  have "getFileSha256 sha e \<noteq> [] \<Longrightarrow> length (getFileSha256 sha e) = n" for e
    using len(1) by (cases e) simp_all
  then have lens: "x \<in> set (file_hashes sha d) \<Longrightarrow> length x = n" for x d
    by (auto simp: file_hashes_def)
  have "concat (sort (file_hashes sha d1)) = concat (sort (file_hashes sha d2))"
    by (rule inj_onD [OF no_collision]) (use eq in \<open>simp_all add: getTotalHash_def\<close>)
  then have "sort (file_hashes sha d1) = sort (file_hashes sha d2)"
    using concat_same_length [of "sort (file_hashes sha d1)" n "sort (file_hashes sha d2)"] lens len(2) by simp
  then have "mset (sort (file_hashes sha d1)) = mset (sort (file_hashes sha d2))"
    by (rule arg_cong)
  then show ?thesis by simp
qed

subsection \<open>Facts: the main program\<close>

text \<open>No child exists before the program has the first hash and starts it.\<close>

definition watcher_inv :: "watcher \<Rightarrow> bool" where
  "watcher_inv s \<longleftrightarrow> (main_phase s \<in> {Hashing, Starting} \<longrightarrow> proc s = Unstarted)"

lemma watcher_inv_initial: "watcher_inv initial_watcher"
  by (simp add: watcher_inv_def initial_watcher_def)

lemma watcher_inv_step: "watcher_step s s' \<Longrightarrow> watcher_inv s \<Longrightarrow> watcher_inv s'"
  by (induction rule: watcher_step.induct)
    (auto simp: watcher_inv_def startProcess_def on_hash_def restartProcess_def handleSignals_def
      Start_def Stop_def split: child.splits stop_outcome.splits option.splits sum.splits prod.splits)

lemma watcher_inv_reachable: "watcher_step\<^sup>*\<^sup>* initial_watcher s \<Longrightarrow> watcher_inv s"
  by (induction rule: rtranclp_induct) (auto intro: watcher_inv_initial watcher_inv_step)

text \<open>A failed \<open>Wait\<close> is final: a command that was waited for cannot be stopped again, so that no later
  change of the hash starts another one.\<close>

lemma reaped_stuck: "proc s = Reaped \<Longrightarrow> proc (on_hash stop start h s) = Reaped"
  by (simp add: on_hash_def restartProcess_def Stop_def)

text \<open>Once the handler has stopped a child that was started, no child runs again.\<close>

definition stopped_for_good :: "watcher \<Rightarrow> bool" where
  "stopped_for_good s \<longleftrightarrow> handled s \<and> main_phase s \<in> {Monitoring, Finished} \<and> proc s = Reaped"

lemma stopped_step: "watcher_step s s' \<Longrightarrow> stopped_for_good s \<Longrightarrow> stopped_for_good s'"
  by (induction rule: watcher_step.induct)
    (auto simp: stopped_for_good_def on_hash_def restartProcess_def Stop_def)

lemma stopped_reachable: "watcher_step\<^sup>*\<^sup>* s s' \<Longrightarrow> stopped_for_good s \<Longrightarrow> stopped_for_good s'"
  by (induction rule: rtranclp_induct) (auto intro: stopped_step)

lemma handleSignals_stops:
  assumes "proc s \<noteq> Unstarted" "main_phase s \<in> {Monitoring, Finished}" "proc s = Running \<longrightarrow> (\<forall>e. stop \<noteq> KillFails e)"
  shows "stopped_for_good (handleSignals stop s)"
  using assms
  by (auto simp: stopped_for_good_def handleSignals_def Stop_def split: child.splits stop_outcome.splits)

end
