(* ===== verification/Watcher_Concurrent.thy ===== *)
theory Watcher_Concurrent
  imports Watcher
begin

text \<open>
  The watcher as the program it is: three goroutines (\<open>main\<close>, \<open>handleSignals\<close> and the ticker of
  \<open>RunTotalHashCalc\<close>) with a program counter each, the mutex \<open>procLock\<close>, the channels \<open>result\<close>
  (capacity two) and \<open>done\<close> (capacity one) and the cancellation of the context. One step is one
  operation on what the goroutines share. The atomic handlers of \<^const>\<open>watcher_step\<close> are the
  specification this program refines.
\<close>

subsection \<open>State\<close>

datatype goroutine = Main | Handler

text \<open>Where \<open>main\<close> is: the call of \<open>RunTotalHashCalc\<close>, the first receive, \<open>startProcess\<close> around its
  lock, the select of \<open>monitorHashChanges\<close>, \<open>restartProcess\<close> around its lock, and the return with
  the (deferred) cancellation.\<close>

datatype main_pc =
    CallCalc | AwaitHash
  | LockStart | DoStart | UnlockStart bool
  | Select
  | LockRestart | DoStop | DoRestart | UnlockRestart
  | Cancelling | Returning | Returned

datatype handler_pc = AwaitSignal | LockStop | SignalStop | UnlockStop | SendDone | HandlerEnd

datatype calc_pc = NotSpawned | Ticking | Sending string | Closed

record program =
  main_at :: main_pc
  handler_at :: handler_pc
  calc_at :: calc_pc
  procLock :: "goroutine option"
  command :: child
  localHash :: string
  result_chan :: "string list"
  done_chan :: "bool list"
  ctx_done :: bool

definition initial_program :: program where
  "initial_program =
     \<lparr>main_at = CallCalc, handler_at = AwaitSignal, calc_at = NotSpawned, procLock = None,
      command = Unstarted, localHash = '''', result_chan = [], done_chan = [], ctx_done = False\<rparr>"

subsection \<open>Channels and locks\<close>

definition result_capacity :: nat where "result_capacity = 2"
definition done_capacity :: nat where "done_capacity = 1"

text \<open>A receive from \<open>result\<close>: the oldest value, the zero value when the channel is closed and
  drained, and nothing (the goroutine waits) when it is empty.\<close>

definition receive_hash :: "program \<Rightarrow> (string \<times> program) option" where
  "receive_hash s =
     (case result_chan s of
        h # hs \<Rightarrow> Some (h, s\<lparr>result_chan := hs\<rparr>)
      | [] \<Rightarrow> (if calc_at s = Closed then Some ('''', s) else None))"

subsection \<open>Steps\<close>

text \<open>What a step shows: a hash computed from the directory, a hash received by \<open>main\<close>, a child started, a
  start or a stop of it by \<open>main\<close> that failed, or nothing.\<close>

datatype label = Computed "entry list option" | Received string | Spawned | Failed | Silent

definition start_label :: "child res \<Rightarrow> label" where
  "start_label r = (case r of Inl _ \<Rightarrow> Failed | Inr _ \<Rightarrow> Spawned)"

definition stop_label :: "go_error option \<Rightarrow> label" where
  "stop_label e = (case e of None \<Rightarrow> Silent | Some _ \<Rightarrow> Failed)"

definition start_command :: "go_error option \<Rightarrow> program \<Rightarrow> program" where
  "start_command outcome s =
     (case Start outcome (command s) of
        Inl _ \<Rightarrow> s\<lparr>main_at := UnlockStart False\<rparr>
      | Inr p \<Rightarrow> s\<lparr>command := p, main_at := UnlockStart True\<rparr>)"

text \<open>The two calls of \<open>restartProcess\<close> under the lock: the stop, whose error ends the function, and
  the start of the new command.\<close>

definition stop_command :: "stop_outcome \<Rightarrow> program \<Rightarrow> program" where
  "stop_command stop s =
     (case Stop stop (command s) of
        (Some _, p) \<Rightarrow> s\<lparr>command := p, main_at := UnlockRestart\<rparr>
      | (None, p) \<Rightarrow> s\<lparr>command := p, main_at := DoRestart\<rparr>)"

definition renew_command :: "go_error option \<Rightarrow> program \<Rightarrow> program" where
  "renew_command start s =
     (case Start start Unstarted of
        Inl _ \<Rightarrow> s\<lparr>command := Unstarted, main_at := UnlockRestart\<rparr>
      | Inr p \<Rightarrow> s\<lparr>command := p, main_at := UnlockRestart\<rparr>)"

text \<open>The branch of the select that received a hash.\<close>

definition take_hash :: "string \<Rightarrow> program \<Rightarrow> program" where
  "take_hash h s = (if localHash s \<noteq> h then s\<lparr>localHash := h, main_at := LockRestart\<rparr> else s)"

text \<open>The goroutines run until \<open>main\<close> has returned; the child is a process of its own.\<close>

inductive program_step :: "(string \<Rightarrow> string) \<Rightarrow> program \<Rightarrow> label \<Rightarrow> program \<Rightarrow> bool" for sha where
  call_calc: "main_at s = CallCalc \<Longrightarrow>
    program_step sha s (Computed d)
      (s\<lparr>main_at := AwaitHash, calc_at := Ticking, result_chan := [getTotalHash sha d]\<rparr>)"
| first_hash: "main_at s = AwaitHash \<Longrightarrow> receive_hash s = Some (h, t) \<Longrightarrow>
    program_step sha s (Received h) (t\<lparr>localHash := h, main_at := LockStart\<rparr>)"
| lock_start: "main_at s = LockStart \<Longrightarrow> procLock s = None \<Longrightarrow>
    program_step sha s Silent (s\<lparr>procLock := Some Main, main_at := DoStart\<rparr>)"
| do_start: "main_at s = DoStart \<Longrightarrow>
    program_step sha s (start_label (Start outcome (command s))) (start_command outcome s)"
| unlock_start: "main_at s = UnlockStart ok \<Longrightarrow>
    program_step sha s Silent (s\<lparr>procLock := None, main_at := (if ok then Select else Cancelling)\<rparr>)"
| select_done: "main_at s = Select \<Longrightarrow> done_chan s = d # ds \<Longrightarrow>
    program_step sha s Silent (s\<lparr>done_chan := ds, main_at := Cancelling\<rparr>)"
| select_hash: "main_at s = Select \<Longrightarrow> receive_hash s = Some (h, t) \<Longrightarrow>
    program_step sha s (Received h) (take_hash h t)"
| lock_restart: "main_at s = LockRestart \<Longrightarrow> procLock s = None \<Longrightarrow>
    program_step sha s Silent (s\<lparr>procLock := Some Main, main_at := DoStop\<rparr>)"
| do_stop: "main_at s = DoStop \<Longrightarrow>
    program_step sha s (stop_label (fst (Stop stop (command s)))) (stop_command stop s)"
| do_restart: "main_at s = DoRestart \<Longrightarrow>
    program_step sha s (start_label (Start start Unstarted)) (renew_command start s)"
| unlock_restart: "main_at s = UnlockRestart \<Longrightarrow>
    program_step sha s Silent (s\<lparr>procLock := None, main_at := Select\<rparr>)"
| cancel: "main_at s = Cancelling \<Longrightarrow>
    program_step sha s Silent (s\<lparr>ctx_done := True, main_at := Returning\<rparr>)"
| return: "main_at s = Returning \<Longrightarrow> program_step sha s Silent (s\<lparr>main_at := Returned\<rparr>)"
| tick: "main_at s \<noteq> Returned \<Longrightarrow> calc_at s = Ticking \<Longrightarrow>
    program_step sha s (Computed d) (s\<lparr>calc_at := Sending (getTotalHash sha d)\<rparr>)"
| send_hash: "main_at s \<noteq> Returned \<Longrightarrow> calc_at s = Sending h \<Longrightarrow> length (result_chan s) < result_capacity \<Longrightarrow>
    program_step sha s Silent (s\<lparr>calc_at := Ticking, result_chan := result_chan s @ [h]\<rparr>)"
| close_result: "main_at s \<noteq> Returned \<Longrightarrow> calc_at s = Ticking \<Longrightarrow> ctx_done s \<Longrightarrow>
    program_step sha s Silent (s\<lparr>calc_at := Closed\<rparr>)"
| signal: "main_at s \<noteq> Returned \<Longrightarrow> handler_at s = AwaitSignal \<Longrightarrow>
    program_step sha s Silent (s\<lparr>handler_at := LockStop\<rparr>)"
| lock_stop: "main_at s \<noteq> Returned \<Longrightarrow> handler_at s = LockStop \<Longrightarrow> procLock s = None \<Longrightarrow>
    program_step sha s Silent (s\<lparr>procLock := Some Handler, handler_at := SignalStop\<rparr>)"
| signal_stop: "main_at s \<noteq> Returned \<Longrightarrow> handler_at s = SignalStop \<Longrightarrow>
    program_step sha s Silent (s\<lparr>command := snd (Stop stop (command s)), handler_at := UnlockStop\<rparr>)"
| unlock_stop: "main_at s \<noteq> Returned \<Longrightarrow> handler_at s = UnlockStop \<Longrightarrow>
    program_step sha s Silent (s\<lparr>procLock := None, handler_at := SendDone\<rparr>)"
| send_done: "main_at s \<noteq> Returned \<Longrightarrow> handler_at s = SendDone \<Longrightarrow> length (done_chan s) < done_capacity \<Longrightarrow>
    program_step sha s Silent (s\<lparr>done_chan := done_chan s @ [True], handler_at := HandlerEnd\<rparr>)"
| command_exits: "command s = Running \<Longrightarrow> program_step sha s Silent (s\<lparr>command := Exited\<rparr>)"

inductive_cases program_stepE: "program_step sha s l s'"

text \<open>A run with the labels it showed.\<close>

inductive program_run :: "(string \<Rightarrow> string) \<Rightarrow> program \<Rightarrow> label list \<Rightarrow> program \<Rightarrow> bool" for sha where
  run_refl: "program_run sha s [] s"
| run_step: "program_run sha s tr s' \<Longrightarrow> program_step sha s' l s'' \<Longrightarrow> program_run sha s (tr @ [l]) s''"

subsection \<open>The invariant\<close>

definition main_holds :: "main_pc \<Rightarrow> bool" where
  "main_holds pc =
     (case pc of DoStart \<Rightarrow> True | UnlockStart _ \<Rightarrow> True | DoStop \<Rightarrow> True | DoRestart \<Rightarrow> True | UnlockRestart \<Rightarrow> True
      | _ \<Rightarrow> False)"

definition handler_holds :: "handler_pc \<Rightarrow> bool" where
  "handler_holds pc = (case pc of SignalStop \<Rightarrow> True | UnlockStop \<Rightarrow> True | _ \<Rightarrow> False)"

text \<open>The lock belongs to the goroutine whose counter is inside its critical section, so that never two
  are; the channels respect their capacities; \<open>result\<close> is closed only after the context is done, which
  is after the last receive; and the command that \<open>restartProcess\<close> replaces is not a live child.\<close>

definition program_inv :: "program \<Rightarrow> bool" where
  "program_inv s \<longleftrightarrow>
     (procLock s = Some Main \<longleftrightarrow> main_holds (main_at s)) \<and>
     (procLock s = Some Handler \<longleftrightarrow> handler_holds (handler_at s)) \<and>
     length (result_chan s) \<le> result_capacity \<and>
     (done_chan s = [] \<or> done_chan s = [True] \<and> handler_at s = HandlerEnd) \<and>
     (calc_at s = NotSpawned \<longleftrightarrow> main_at s = CallCalc) \<and>
     (main_at s = AwaitHash \<longrightarrow> result_chan s \<noteq> []) \<and>
     (ctx_done s \<longleftrightarrow> main_at s \<in> {Returning, Returned}) \<and>
     (calc_at s = Closed \<longrightarrow> ctx_done s) \<and>
     (main_at s = DoRestart \<longrightarrow> command s \<in> {Unstarted, Reaped}) \<and>
     (handler_at s = HandlerEnd \<longrightarrow> done_chan s = [True] \<or> main_at s \<in> {Cancelling, Returning, Returned})"

lemma program_inv_initial: "program_inv initial_program"
  by (simp add: program_inv_def initial_program_def main_holds_def handler_holds_def result_capacity_def)

lemma receive_hash_open:
  assumes "receive_hash s = Some (h, t)" "calc_at s \<noteq> Closed"
  obtains hs where "result_chan s = h # hs" "t = s\<lparr>result_chan := hs\<rparr>"
  using assms by (auto simp: receive_hash_def split: list.splits)

lemma Stop_None_dead: "Stop stop p = (None, q) \<Longrightarrow> q \<in> {Unstarted, Reaped}"
  by (auto simp: Stop_def split: child.splits stop_outcome.splits)

lemma stop_command_cases:
  obtains (failed) e p where "Stop stop (command s) = (Some e, p)"
      "stop_command stop s = s\<lparr>command := p, main_at := UnlockRestart\<rparr>"
  | (stopped) p where "Stop stop (command s) = (None, p)" "p \<in> {Unstarted, Reaped}"
      "stop_command stop s = s\<lparr>command := p, main_at := DoRestart\<rparr>"
  using Stop_None_dead [of stop "command s"]
  by (cases "Stop stop (command s)"; cases "fst (Stop stop (command s))") (auto simp: stop_command_def)

lemma renew_command_cases:
  obtains p where "p \<in> {Unstarted, Running}" "renew_command start s = s\<lparr>command := p, main_at := UnlockRestart\<rparr>"
  by (cases start) (auto simp: renew_command_def Start_def)

lemma start_command_cases:
  obtains (failed) "start_command outcome s = s\<lparr>main_at := UnlockStart False\<rparr>"
  | (started) "start_command outcome s = s\<lparr>command := Running, main_at := UnlockStart True\<rparr>"
      "command s = Unstarted" "outcome = None"
  by (cases "command s"; cases outcome) (auto simp: start_command_def Start_def)

lemmas program_inv_simps =
  program_inv_def main_holds_def handler_holds_def result_capacity_def done_capacity_def

lemma program_inv_step:
  assumes "program_step sha s l s'" "program_inv s"
  shows "program_inv s'"
  using assms
proof (induction rule: program_step.induct)
  case (first_hash s h t)
  then have "calc_at s \<noteq> Closed" by (auto simp: program_inv_def)
  with first_hash obtain hs where "result_chan s = h # hs" "t = s\<lparr>result_chan := hs\<rparr>" by (auto elim: receive_hash_open)
  with first_hash show ?case by (auto simp: program_inv_simps)
next
  case (select_hash s h t)
  then have "calc_at s \<noteq> Closed" by (auto simp: program_inv_def)
  with select_hash obtain hs where "result_chan s = h # hs" "t = s\<lparr>result_chan := hs\<rparr>" by (auto elim: receive_hash_open)
  with select_hash show ?case by (auto simp: program_inv_simps take_hash_def)
next
  case (do_start s outcome)
  then show ?case by (cases rule: start_command_cases [of outcome s]) (auto simp: program_inv_simps)
next
  case (do_stop s stop)
  then show ?case by (cases rule: stop_command_cases [of stop s]) (auto simp: program_inv_simps)
next
  case (do_restart s start)
  then show ?case by (cases rule: renew_command_cases [of start s]) (auto simp: program_inv_simps)
next
  case (unlock_start s ok)
  then show ?case by (cases ok) (auto simp: program_inv_simps)
next
  case (signal_stop s stop)
  then have "main_at s \<noteq> DoRestart" by (auto simp: program_inv_simps)
  with signal_stop show ?case by (simp add: program_inv_simps) (elim conjE, simp)
next
  case (command_exits s)
  then show ?case by (auto simp: program_inv_simps)
qed (simp_all add: program_inv_simps, (elim conjE, simp)+)

lemma program_inv_run: "program_run sha s tr s' \<Longrightarrow> program_inv s \<Longrightarrow> program_inv s'"
  by (induction rule: program_run.induct) (auto intro: program_inv_step)


subsection \<open>Refinement of the atomic program\<close>

text \<open>A forward simulation with stuttering between two step relations: the concrete steps keep an
  invariant, and each is matched by abstract steps.\<close>

locale forward_simulation =
  fixes cstep :: "'c \<Rightarrow> 'c \<Rightarrow> bool" and astep :: "'a \<Rightarrow> 'a \<Rightarrow> bool"
    and inv :: "'c \<Rightarrow> bool" and corresponds :: "'a \<Rightarrow> 'c \<Rightarrow> bool"
  assumes inv_step: "inv c \<Longrightarrow> cstep c c' \<Longrightarrow> inv c'"
    and simulates: "inv c \<Longrightarrow> corresponds a c \<Longrightarrow> cstep c c' \<Longrightarrow> \<exists>a'. astep\<^sup>*\<^sup>* a a' \<and> corresponds a' c'"
begin

lemma inv_steps: "cstep\<^sup>*\<^sup>* c c' \<Longrightarrow> inv c \<Longrightarrow> inv c'"
  by (induction rule: rtranclp_induct) (auto intro: inv_step)

lemma simulates_steps:
  "cstep\<^sup>*\<^sup>* c c' \<Longrightarrow> inv c \<Longrightarrow> corresponds a c \<Longrightarrow> \<exists>a'. astep\<^sup>*\<^sup>* a a' \<and> corresponds a' c'"
proof (induction rule: rtranclp_induct)
  case (step c1 c2)
  then obtain a1 where a1: "astep\<^sup>*\<^sup>* a a1" "corresponds a1 c1" by blast
  from step have "inv c1" by (blast intro: inv_steps)
  with a1 step.hyps(2) obtain a2 where "astep\<^sup>*\<^sup>* a1 a2" "corresponds a2 c2" using simulates by blast
  with a1(1) show ?case by (meson rtranclp_trans)
qed blast

text \<open>A property that the abstract steps keep, and that says something of the concrete states,
  holds along the concrete steps.\<close>

lemma transfer:
  assumes "cstep\<^sup>*\<^sup>* c c'" "inv c" "corresponds a c" "P a"
    and "\<And>x y. P x \<Longrightarrow> astep x y \<Longrightarrow> P y"
  shows "\<exists>a'. P a' \<and> corresponds a' c'"
proof -
  from assms obtain a' where "astep\<^sup>*\<^sup>* a a'" "corresponds a' c'" using simulates_steps by blast
  from this(1) have "P a'"
    by (induction rule: rtranclp_induct) (use assms(4,5) in auto)
  with \<open>corresponds a' c'\<close> show ?thesis by blast
qed

end

text \<open>The phase of the atomic program at a counter of \<open>main\<close>. A failed start is the atomic step only
  when \<open>main\<close> returns, since a signal may still be handled before.\<close>

fun phase_at :: "main_pc \<Rightarrow> phase set" where
  "phase_at CallCalc = {Hashing}"
| "phase_at AwaitHash = {Hashing}"
| "phase_at LockStart = {Starting}"
| "phase_at DoStart = {Starting}"
| "phase_at (UnlockStart ok) = (if ok then {Monitoring} else {Starting})"
| "phase_at Cancelling = {Starting, Finished}"
| "phase_at Returning = {Starting, Finished}"
| "phase_at Returned = {Finished}"
| "phase_at _ = {Monitoring}"

definition has_handled :: "handler_pc \<Rightarrow> bool" where
  "has_handled pc = (case pc of UnlockStop \<Rightarrow> True | SendDone \<Rightarrow> True | HandlerEnd \<Rightarrow> True | _ \<Rightarrow> False)"

text \<open>Between the receive of a new hash and the end of the restart, the atomic program has not moved:
  its hash is still the old one, and in the middle of the restart its command is one whose stop
  succeeded.\<close>

definition restarting :: "main_pc \<Rightarrow> bool" where
  "restarting pc = (case pc of LockRestart \<Rightarrow> True | DoStop \<Rightarrow> True | DoRestart \<Rightarrow> True | _ \<Rightarrow> False)"

definition implements :: "watcher \<Rightarrow> program \<Rightarrow> bool" where
  "implements a s \<longleftrightarrow>
     main_phase a \<in> phase_at (main_at s) \<and>
     (main_phase a = Finished \<longrightarrow> main_at s \<noteq> Returned \<longrightarrow> handler_at s = HandlerEnd) \<and>
     handled a = has_handled (handler_at s) \<and>
     (if restarting (main_at s) then currentHash a \<noteq> localHash s else currentHash a = localHash s) \<and>
     (if main_at s = DoRestart then \<exists>stop. Stop stop (proc a) = (None, command s) else proc a = command s)"

lemma implements_initial: "implements initial_watcher initial_program"
  by (simp add: implements_def initial_watcher_def initial_program_def has_handled_def restarting_def)


lemmas implements_simps = implements_def has_handled_def restarting_def

lemma one_watcher_step: "watcher_step a a' \<Longrightarrow> implements a' s' \<Longrightarrow> \<exists>a'. watcher_step\<^sup>*\<^sup>* a a' \<and> implements a' s'"
  by blast

lemma no_watcher_step: "implements a s' \<Longrightarrow> \<exists>a'. watcher_step\<^sup>*\<^sup>* a a' \<and> implements a' s'"
  by blast

lemma on_hash_stop_failed:
  "Stop stop (proc a) = (Some e, p) \<Longrightarrow> currentHash a \<noteq> h \<Longrightarrow>
   on_hash stop start h a = a\<lparr>currentHash := h, proc := p\<rparr>"
  by (simp add: on_hash_def restartProcess_def)

lemma on_hash_renewed:
  assumes "Stop stop (proc a) = (None, q)" "currentHash a \<noteq> h"
  shows "on_hash stop start h a = a\<lparr>currentHash := h, proc := (if start = None then Running else Unstarted)\<rparr>"
  using assms by (cases start) (simp_all add: on_hash_def restartProcess_def Start_def)

lemma implements_stop_command:
  assumes "main_at s = DoStop" "implements a s"
  shows "\<exists>a'. watcher_step\<^sup>*\<^sup>* a a' \<and> implements a' (stop_command stop s)"
proof (cases rule: stop_command_cases [of stop s])
  case (failed e p)
  from assms have a: "main_phase a = Monitoring" "currentHash a \<noteq> localHash s" "proc a = command s"
    by (simp_all add: implements_simps)
  then have "watcher_step a (on_hash stop None (localHash s) a)" by (auto intro: hash)
  with assms failed a show ?thesis
    by (intro one_watcher_step [of a "on_hash stop None (localHash s) a"])
      (auto simp: implements_simps on_hash_stop_failed)
next
  case (stopped p)
  with assms show ?thesis by (intro no_watcher_step) (auto simp: implements_simps)
qed

lemma implements_renew_command:
  assumes "main_at s = DoRestart" "implements a s"
  shows "\<exists>a'. watcher_step\<^sup>*\<^sup>* a a' \<and> implements a' (renew_command start s)"
proof -
  from assms have a: "main_phase a = Monitoring" "currentHash a \<noteq> localHash s" by (simp_all add: implements_simps)
  from assms obtain stop where stop: "Stop stop (proc a) = (None, command s)" by (auto simp: implements_simps)
  from a(1) have "watcher_step a (on_hash stop start (localHash s) a)" by (rule hash)
  with assms a stop show ?thesis
    by (intro one_watcher_step [of a "on_hash stop start (localHash s) a"])
      (auto simp: implements_simps on_hash_renewed renew_command_def Start_def split: option.splits)
qed

lemma implements_start_command:
  assumes "main_at s = DoStart" "implements a s"
  shows "\<exists>a'. watcher_step\<^sup>*\<^sup>* a a' \<and> implements a' (start_command outcome s)"
proof (cases rule: start_command_cases [of outcome s])
  case failed
  with assms show ?thesis by (intro no_watcher_step) (auto simp: implements_simps)
next
  case started
  from assms have "main_phase a = Starting" by (simp add: implements_def)
  then have "watcher_step a (startProcess None a)" by (rule watcher_step.started)
  with assms started show ?thesis
    by (intro one_watcher_step) (auto simp: implements_simps startProcess_def Start_def)
qed

lemma implements_return:
  assumes "main_at s = Returning" "implements a s"
  shows "\<exists>a'. watcher_step\<^sup>*\<^sup>* a a' \<and> implements a' (s\<lparr>main_at := Returned\<rparr>)"
proof (cases "main_phase a = Finished")
  case True
  with assms show ?thesis by (intro no_watcher_step) (auto simp: implements_simps)
next
  case False
  with assms have "main_phase a = Starting" by (simp add: implements_def)
  then have "watcher_step a (startProcess (Some ErrNotFound) a)" by (rule watcher_step.started)
  with assms show ?thesis
    by (intro one_watcher_step [of a "startProcess (Some ErrNotFound) a"])
      (auto simp: implements_simps startProcess_def Start_def split: child.splits)
qed

lemma implements_step:
  assumes "program_step sha s l s'" "program_inv s" "implements a s"
  shows "\<exists>a'. watcher_step\<^sup>*\<^sup>* a a' \<and> implements a' s'"
  using assms
proof (induction rule: program_step.induct)
  case (first_hash s h t)
  then have "calc_at s \<noteq> Closed" by (auto simp: program_inv_def)
  with first_hash obtain hs where t: "t = s\<lparr>result_chan := hs\<rparr>" by (auto elim: receive_hash_open)
  from first_hash have "main_phase a = Hashing" by (simp add: implements_def)
  then have "watcher_step a (a\<lparr>main_phase := Starting, currentHash := h\<rparr>)" by (rule hashed)
  with first_hash t show ?case by (intro one_watcher_step) (auto simp: implements_simps)
next

  case (select_done s d ds)
  then have "handler_at s = HandlerEnd" by (auto simp: program_inv_def)
  with select_done have "main_phase a = Monitoring" "handled a" by (simp_all add: implements_simps)
  then have "watcher_step a (a\<lparr>main_phase := Finished\<rparr>)" by (rule exiting)
  with select_done \<open>handler_at s = HandlerEnd\<close> show ?case
    by (intro one_watcher_step) (auto simp: implements_simps)
next
  case (select_hash s h t)
  then have "calc_at s \<noteq> Closed" by (auto simp: program_inv_def)
  with select_hash obtain hs where "t = s\<lparr>result_chan := hs\<rparr>" by (auto elim: receive_hash_open)
  with select_hash show ?case by (intro no_watcher_step) (auto simp: implements_simps take_hash_def)
next
  case (signal_stop s stop)
  then have "main_at s \<noteq> DoRestart" by (auto simp: program_inv_simps)
  moreover from signal_stop have "main_phase a \<noteq> Finished" "\<not> handled a" by (auto simp: implements_simps)
  then have "watcher_step a (handleSignals stop a)" by (rule signalled)
  ultimately show ?case using signal_stop
    by (intro one_watcher_step [of a "handleSignals stop a"]) (simp_all add: implements_simps handleSignals_def)
next
  case (command_exits s)
  then have "main_at s \<noteq> DoRestart" by (auto simp: program_inv_def)
  with command_exits have "watcher_step a (a\<lparr>proc := Exited\<rparr>)" by (intro child_exits) (simp add: implements_def)
  with command_exits \<open>main_at s \<noteq> DoRestart\<close> show ?case
    by (intro one_watcher_step) (auto simp: implements_simps)
qed ((rule implements_start_command implements_stop_command implements_renew_command implements_return; assumption)
  | (rule no_watcher_step, simp add: implements_simps split: if_splits))+

text \<open>The unlabelled steps.\<close>

definition some_step :: "(string \<Rightarrow> string) \<Rightarrow> program \<Rightarrow> program \<Rightarrow> bool" where
  "some_step sha s s' \<longleftrightarrow> (\<exists>l. program_step sha s l s')"

interpretation watcher_sim: forward_simulation "some_step sha" watcher_step program_inv implements
  by unfold_locales (auto simp: some_step_def intro: program_inv_step implements_step)

lemma program_run_steps: "program_run sha s tr s' \<Longrightarrow> (some_step sha)\<^sup>*\<^sup>* s s'"
  by (induction rule: program_run.induct) (auto simp: some_step_def intro: rtranclp.rtrancl_into_rtrancl)


subsection \<open>The hashes on their way\<close>

definition computed :: "label list \<Rightarrow> entry list option list" where
  "computed tr = concat (map (\<lambda>l. case l of Computed d \<Rightarrow> [d] | _ \<Rightarrow> []) tr)"

definition received :: "label list \<Rightarrow> string list" where
  "received tr = concat (map (\<lambda>l. case l of Received h \<Rightarrow> [h] | _ \<Rightarrow> []) tr)"

definition in_flight :: "calc_pc \<Rightarrow> string list" where
  "in_flight c = (case c of Sending h \<Rightarrow> [h] | _ \<Rightarrow> [])"

lemma trace_simps [simp]:
  "computed [] = []" "computed (tr @ [Computed d]) = computed tr @ [d]"
  "computed (tr @ [Received h]) = computed tr" "computed (tr @ [Silent]) = computed tr"
  "received [] = []" "received (tr @ [Received h]) = received tr @ [h]"
  "received (tr @ [Computed d]) = received tr" "received (tr @ [Silent]) = received tr"
  "computed (tr @ [Spawned]) = computed tr" "received (tr @ [Spawned]) = received tr"
  "computed (tr @ [Failed]) = computed tr" "received (tr @ [Failed]) = received tr"
  by (simp_all add: computed_def received_def)

lemma label_cases: "start_label r \<in> {Spawned, Failed}" "stop_label e \<in> {Silent, Failed}"
  by (simp_all add: start_label_def stop_label_def split: sum.splits option.splits)

lemma label_hashes [simp]:
  "computed [start_label r] = []" "computed [stop_label e] = []" "received [start_label r] = []" "received [stop_label e] = []"
  using label_cases(1) [of r] label_cases(2) [of e] by (auto simp: computed_def received_def)

lemma in_flight_simps [simp]:
  "in_flight (Sending h) = [h]" "in_flight Ticking = []" "in_flight Closed = []" "in_flight NotSpawned = []"
  by (simp_all add: in_flight_def)

text \<open>What a step does to the hashes between the directory and \<open>main\<close>.\<close>

lemma hashes_step:
  assumes "program_step sha s l s'" "program_inv s" "main_at s = CallCalc \<Longrightarrow> result_chan s = []"
  shows "map (getTotalHash sha) (computed [l]) = [] \<and>
      result_chan s @ in_flight (calc_at s) = received [l] @ result_chan s' @ in_flight (calc_at s') \<or>
    result_chan s' @ in_flight (calc_at s') =
      result_chan s @ in_flight (calc_at s) @ map (getTotalHash sha) (computed [l]) \<and> received [l] = []"
  using assms
proof (induction rule: program_step.induct)
  case (first_hash s h t)
  then have "calc_at s \<noteq> Closed" by (auto simp: program_inv_def)
  with first_hash show ?case by (auto elim!: receive_hash_open simp: computed_def received_def)
next
  case (select_hash s h t)
  then have "calc_at s \<noteq> Closed" by (auto simp: program_inv_def)
  with select_hash show ?case by (auto elim!: receive_hash_open simp: computed_def received_def take_hash_def)
next
  case (do_start s outcome)
  then show ?case by (cases rule: start_command_cases [of outcome s]) auto
next
  case (do_stop s stop)
  then show ?case by (cases rule: stop_command_cases [of stop s]) auto
next
  case (do_restart s start)
  then show ?case by (cases rule: renew_command_cases [of start s]) auto
next
  case (call_calc s d)
  then show ?case by (auto simp: computed_def received_def program_inv_def)
qed (auto simp: computed_def received_def)

lemma trace_append: "computed (tr @ tr') = computed tr @ computed tr'" "received (tr @ tr') = received tr @ received tr'"
  by (simp_all add: computed_def received_def)

lemma empty_before_calc:
  "program_step sha s l s' \<Longrightarrow> main_at s' = CallCalc \<Longrightarrow> program_inv s \<Longrightarrow>
   main_at s = CallCalc \<and> result_chan s' = result_chan s"
  by (erule program_step.cases)
    (auto simp: program_inv_def take_hash_def start_command_def stop_command_def renew_command_def receive_hash_def
      split: if_splits sum.splits option.splits prod.splits list.splits)

lemma chan_before_calc:
  "program_run sha s tr s' \<Longrightarrow> s = initial_program \<Longrightarrow> main_at s' = CallCalc \<Longrightarrow> result_chan s' = []"
proof (induction rule: program_run.induct)
  case (run_step s tr s' l s'')
  then show ?case using empty_before_calc program_inv_initial program_inv_run by metis
qed (simp add: initial_program_def)

lemma hashes_in_order:
  "program_run sha s tr s' \<Longrightarrow> s = initial_program \<Longrightarrow>
   map (getTotalHash sha) (computed tr) = received tr @ result_chan s' @ in_flight (calc_at s')"
proof (induction rule: program_run.induct)
  case (run_refl s)
  then show ?case by (simp add: initial_program_def)
next
  case (run_step s tr s' l s'')
  then have "program_inv s'" "main_at s' = CallCalc \<Longrightarrow> result_chan s' = []"
    using program_inv_initial program_inv_run chan_before_calc by blast+
  with hashes_step [OF run_step.hyps(2)] run_step show ?case by (auto simp: trace_append)
qed

subsection \<open>Starts and changes\<close>

definition spawned :: "label list \<Rightarrow> nat" where
  "spawned tr = length (filter (\<lambda>l. l = Spawned) tr)"

definition failed :: "label list \<Rightarrow> nat" where
  "failed tr = length (filter (\<lambda>l. l = Failed) tr)"

text \<open>Between the receive of a hash that needs a start and the call that decides it.\<close>

definition start_pending :: "main_pc \<Rightarrow> nat" where
  "start_pending pc =
     (case pc of LockStart \<Rightarrow> 1 | DoStart \<Rightarrow> 1 | LockRestart \<Rightarrow> 1 | DoStop \<Rightarrow> 1 | DoRestart \<Rightarrow> 1 | _ \<Rightarrow> 0)"

lemma attempts_append:
  "spawned (tr @ tr') + failed (tr @ tr') = (spawned tr + failed tr) + (spawned tr' + failed tr')"
  by (simp add: spawned_def failed_def)

lemma attempts_simps [simp]:
  "spawned [] + failed [] = 0" "spawned [start_label r] + failed [start_label r] = Suc 0"
  "spawned [Silent] = 0" "failed [Silent] = 0" "spawned [Computed d] = 0" "failed [Computed d] = 0"
  "spawned [Received h] = 0" "failed [Received h] = 0"
  "spawned [stop_label e] + failed [stop_label e] = (if e = None then 0 else 1)"
  by (auto simp: spawned_def failed_def start_label_def stop_label_def split: sum.splits option.splits)

lemma length_remdups_adj_append:
  "length (remdups_adj (xs @ [x])) = length (remdups_adj xs) + (if xs \<noteq> [] \<and> last xs = x then 0 else 1)"
proof (induction xs rule: remdups_adj.induct)
  case (3 y z xs)
  then show ?case by (cases "y = z") auto
qed auto

text \<open>What a step does to the count and to the hash \<open>main\<close> knows.\<close>

lemma attempts_step:
  assumes "program_step sha s l s'" "program_inv s"
  shows "(\<exists>h. l = Received h \<and> localHash s' = h \<and> main_at s' \<notin> {CallCalc, AwaitHash} \<and> start_pending (main_at s) = 0 \<and>
       start_pending (main_at s') = (if main_at s = AwaitHash \<or> localHash s \<noteq> h then 1 else 0) \<and>
       main_at s \<noteq> CallCalc) \<or>
    received [l] = [] \<and> localHash s' = localHash s \<and>
      (main_at s' \<in> {CallCalc, AwaitHash} \<longleftrightarrow> main_at s \<in> {CallCalc, AwaitHash}) \<and>
      spawned [l] + failed [l] + start_pending (main_at s') = start_pending (main_at s)"
  using assms
proof (induction rule: program_step.induct)
  case (first_hash s h t)
  then have "calc_at s \<noteq> Closed" by (auto simp: program_inv_def)
  with first_hash show ?case by (auto elim!: receive_hash_open simp: start_pending_def)
next
  case (select_hash s h t)
  then have "calc_at s \<noteq> Closed" by (auto simp: program_inv_def)
  with select_hash show ?case by (auto elim!: receive_hash_open simp: start_pending_def take_hash_def)
next
  case (do_start s outcome)
  then show ?case by (cases rule: start_command_cases [of outcome s]) (auto simp: start_pending_def)
next
  case (do_stop s stop)
  then show ?case by (cases rule: stop_command_cases [of stop s]) (auto simp: start_pending_def)
next
  case (do_restart s start)
  then show ?case by (cases rule: renew_command_cases [of start s]) (auto simp: start_pending_def)
qed (auto simp: start_pending_def received_def split: if_splits)

lemma attempts_run:
  "program_run sha s tr s' \<Longrightarrow> s = initial_program \<Longrightarrow>
   spawned tr + failed tr + start_pending (main_at s') = length (remdups_adj (received tr)) \<and>
   (received tr = [] \<longleftrightarrow> main_at s' \<in> {CallCalc, AwaitHash}) \<and>
   (received tr \<noteq> [] \<longrightarrow> localHash s' = last (received tr))"
proof (induction rule: program_run.induct)
  case (run_refl s)
  then show ?case by (simp add: initial_program_def start_pending_def)
next
  case (run_step s tr s' l s'')
  then have "program_inv s'" using program_inv_initial program_inv_run by blast
  from attempts_step [OF run_step.hyps(2) this] show ?case
  proof (elim disjE exE conjE)
    fix h
    assume l: "l = Received h" and h: "localHash s'' = h" "main_at s'' \<notin> {CallCalc, AwaitHash}"
      and pending: "start_pending (main_at s') = 0"
        "start_pending (main_at s'') = (if main_at s' = AwaitHash \<or> localHash s' \<noteq> h then 1 else 0)"
      and "main_at s' \<noteq> CallCalc"
    with run_step.IH [OF run_step.prems] have "received tr = [] \<longleftrightarrow> main_at s' = AwaitHash"
      "received tr \<noteq> [] \<longrightarrow> localHash s' = last (received tr)"
      "spawned tr + failed tr = length (remdups_adj (received tr))" by simp_all
    moreover from this have "start_pending (main_at s'') = (if received tr \<noteq> [] \<and> last (received tr) = h then 0 else 1)"
      unfolding pending(2) by (cases "received tr = []") simp_all
    ultimately show ?thesis using h by (simp add: l attempts_append length_remdups_adj_append)
  next
    assume "received [l] = []" "localHash s'' = localHash s'"
      "main_at s'' \<in> {CallCalc, AwaitHash} \<longleftrightarrow> main_at s' \<in> {CallCalc, AwaitHash}"
      "spawned [l] + failed [l] + start_pending (main_at s'') = start_pending (main_at s')"
    with run_step.IH [OF run_step.prems] show ?thesis
      unfolding attempts_append trace_append by simp
  qed
qed

text \<open>No child is started beside another one.\<close>

lemma spawned_alone:
  assumes "program_step sha s Spawned s'" "program_inv s"
  shows "command s \<in> {Unstarted, Reaped} \<and> command s' = Running"
  using assms
proof (cases rule: program_step.cases)
  case (do_start outcome)
  then show ?thesis
    by (cases "command s"; cases outcome) (simp_all add: start_label_def Start_def start_command_def)
next
  case (do_stop stop)
  then show ?thesis by (simp add: stop_label_def split: option.splits)
next
  case (do_restart start)
  with assms(2) show ?thesis
    by (cases start) (auto simp: start_label_def Start_def renew_command_def program_inv_def)
qed

subsection \<open>No deadlock\<close>

fun main_rank :: "main_pc \<Rightarrow> nat" where
  "main_rank CallCalc = 12" | "main_rank AwaitHash = 11" | "main_rank LockStart = 10"
| "main_rank DoStart = 9" | "main_rank (UnlockStart _) = 8" | "main_rank LockRestart = 7"
| "main_rank DoStop = 6" | "main_rank DoRestart = 5" | "main_rank UnlockRestart = 4"
| "main_rank Select = 3" | "main_rank Cancelling = 2" | "main_rank Returning = 1" | "main_rank Returned = 0"

fun handler_rank :: "handler_pc \<Rightarrow> nat" where
  "handler_rank AwaitSignal = 5" | "handler_rank LockStop = 4" | "handler_rank SignalStop = 3"
| "handler_rank UnlockStop = 2" | "handler_rank SendDone = 1" | "handler_rank HandlerEnd = 0"

definition rank :: "program \<Rightarrow> nat" where
  "rank s = main_rank (main_at s) + handler_rank (handler_at s)"

text \<open>The goroutine that holds the lock can move; when nobody holds it the handler can, and after it
  \<open>main\<close>.\<close>

lemma lock_free:
  assumes "program_inv s" "\<not> main_holds (main_at s)" "\<not> handler_holds (handler_at s)"
  shows "procLock s = None"
proof (cases "procLock s")
  case (Some g)
  with assms show ?thesis by (cases g) (simp_all add: program_inv_def)
qed

lemma main_progress:
  assumes "program_inv s" "main_at s \<noteq> Returned"
    and "main_holds (main_at s) \<or> procLock s = None \<and> handler_at s = HandlerEnd"
  shows "\<exists>s'. some_step sha s s' \<and> rank s' < rank s"
proof (cases "main_at s")
  case AwaitHash
  with assms(1) obtain h hs where "receive_hash s = Some (h, s\<lparr>result_chan := hs\<rparr>)"
    by (auto simp: program_inv_def receive_hash_def neq_Nil_conv)
  with AwaitHash first_hash [of s h] show ?thesis by (fastforce simp: some_step_def rank_def)
next
  case DoStart
  then have "some_step sha s (start_command None s)" by (auto simp: some_step_def intro: do_start)
  with DoStart show ?thesis by (cases rule: start_command_cases [of None s]) (auto simp: rank_def)
next
  case DoStop
  then have "some_step sha s (stop_command Killed s)" by (auto simp: some_step_def intro: do_stop)
  with DoStop show ?thesis by (cases rule: stop_command_cases [of Killed s]) (auto simp: rank_def)
next
  case DoRestart
  then have "some_step sha s (renew_command None s)" by (auto simp: some_step_def intro: do_restart)
  with DoRestart show ?thesis by (cases rule: renew_command_cases [of None s]) (auto simp: rank_def)
next
  case Select
  with assms have "done_chan s = [True]" by (auto simp: program_inv_def main_holds_def)
  with Select select_done [of s True "[]"] show ?thesis by (fastforce simp: some_step_def rank_def)
qed (use assms in \<open>fastforce simp: some_step_def rank_def main_holds_def
    dest: call_calc lock_start unlock_start lock_restart unlock_restart cancel return\<close>)+

lemma handler_progress:
  assumes "program_inv s" "main_at s \<noteq> Returned" "handler_at s \<noteq> HandlerEnd" "\<not> main_holds (main_at s)"
  shows "\<exists>s'. some_step sha s s' \<and> rank s' < rank s"
proof (cases "handler_at s")
  case AwaitSignal
  with assms signal [of s] show ?thesis by (fastforce simp: some_step_def rank_def)
next
  case LockStop
  with assms have "procLock s = None" by (simp add: lock_free handler_holds_def)
  with LockStop assms lock_stop [of s] show ?thesis by (fastforce simp: some_step_def rank_def)
next
  case SignalStop
  with assms signal_stop [of s _ Killed] show ?thesis by (fastforce simp: some_step_def rank_def)
next
  case UnlockStop
  with assms unlock_stop [of s] show ?thesis by (fastforce simp: some_step_def rank_def)
next
  case SendDone
  with assms have "done_chan s = []" by (auto simp: program_inv_def)
  with SendDone assms send_done [of s] show ?thesis by (fastforce simp: some_step_def rank_def done_capacity_def)
qed (use assms in simp)

lemma progress:
  assumes "program_inv s" "main_at s \<noteq> Returned"
  shows "\<exists>s'. some_step sha s s' \<and> rank s' < rank s"
proof (cases "main_holds (main_at s) \<or> handler_at s = HandlerEnd")
  case True
  have "main_holds (main_at s) \<or> procLock s = None"
    if "handler_at s = HandlerEnd"
    using lock_free [OF assms(1)] that by (fastforce simp: handler_holds_def)
  with True assms show ?thesis by (blast intro: main_progress)
next
  case False
  with assms show ?thesis by (blast intro: handler_progress)
qed

lemma can_return: "program_inv s \<Longrightarrow> \<exists>s'. (some_step sha)\<^sup>*\<^sup>* s s' \<and> main_at s' = Returned"
proof (induction "rank s" arbitrary: s rule: less_induct)
  case less
  show ?case
  proof (cases "main_at s = Returned")
    case False
    with less.prems obtain t where t: "some_step sha s t" "rank t < rank s" using progress by blast
    moreover have "program_inv t" using t(1) less.prems by (rule watcher_sim.inv_step [rotated])
    ultimately show ?thesis using less.hyps by (meson converse_rtranclp_into_rtranclp)
  qed blast
qed

end
