(* ===== verification/Watcher_Properties.thy ===== *)
theory Watcher_Properties
  imports Watcher_Concurrent
begin

text \<open>
  The properties of the sidecar watcher: what its command line means, which changes of the watched
  directory it sees, what a change does to the child, and what a signal does.
\<close>

subsection \<open>The command line\<close>

text \<open>An argument that is none of the watcher's own.\<close>

definition plain_arg :: "string \<Rightarrow> bool" where
  "plain_arg a \<longleftrightarrow> \<not> HasPrefix a logLevelParam \<and> \<not> HasPrefix a logFormatParam \<and>
     \<not> Contains a cmdLineParam \<and> \<not> Contains a watchedDirParam"

lemma take_log_params_plain:
  "\<forall>a \<in> set as. \<not> HasPrefix a logLevelParam \<and> \<not> HasPrefix a logFormatParam \<Longrightarrow>
   take_log_params as p acc = (p, acc @ as)"
  by (induction as arbitrary: acc) auto

lemma indexOf_append:
  "\<forall>a \<in> set xs. \<not> Contains a str \<Longrightarrow> Contains y str \<Longrightarrow> indexOf (xs @ y # ys) str = Some (length xs)"
  by (induction xs) auto

lemma watchedDirParam_prefixes:
  "\<not> HasPrefix (watchedDirParam @ d) logLevelParam" "\<not> HasPrefix (watchedDirParam @ d) logFormatParam"
  "Contains (watchedDirParam @ d) watchedDirParam"
  by (simp_all add: watchedDirParam_def logLevelParam_def logFormatParam_def)

lemma cmdLineParam_prefixes:
  "\<not> HasPrefix (cmdLineParam @ d) logLevelParam" "\<not> HasPrefix (cmdLineParam @ d) logFormatParam"
  "Contains (cmdLineParam @ d) cmdLineParam"
  by (simp_all add: cmdLineParam_def logLevelParam_def logFormatParam_def)

text \<open>With one \<open>--watched-dir=\<close> and no \<open>--cmd-line=\<close> argument, the
  default command gets every other argument in its order, and the watched directory is the value
  without a trailing slash.\<close>

lemma watched_dir_argument:
  assumes plain: "\<forall>a \<in> set (argv0 # before @ after). plain_arg a"
    and dir: "\<not> Contains (watchedDirParam @ d) cmdLineParam"
  shows "Parse_params (argv0 # before @ (watchedDirParam @ d) # after) =
    Inr (default_parameters\<lparr>CmdLineArgs := before @ after, WatchedDir := TrimSuffix d ''/''\<rparr>)"
proof -
  let ?all = "argv0 # before @ (watchedDirParam @ d) # after"
  have "take_log_params ?all default_parameters [] = (default_parameters, ?all)"
    using plain watchedDirParam_prefixes [of d] by (subst take_log_params_plain) (auto simp: plain_arg_def)
  moreover have "indexOf ?all watchedDirParam = Some (Suc (length before))"
    using plain watchedDirParam_prefixes(3) [of d] indexOf_append [of "argv0 # before" watchedDirParam]
    by (simp add: plain_arg_def)
  moreover have "indexOf ?all cmdLineParam = None"
    using plain dir by (auto simp: indexOf_None_iff plain_arg_def)
  ultimately show ?thesis
    by (simp add: Parse_params_def slice_def watched_dir_of_def)
qed

text \<open>With one \<open>--cmd-line=\<close> and no \<open>--watched-dir=\<close> argument, the child is that
  command with the arguments that follow it; the directory is the default one.\<close>

lemma cmd_line_argument:
  assumes plain: "\<forall>a \<in> set (before @ after). plain_arg a"
    and cmd: "\<not> Contains (cmdLineParam @ c) watchedDirParam"
  shows "Parse_params (before @ (cmdLineParam @ c) # after) =
    Inr (default_parameters\<lparr>CmdLine := c, CmdLineArgs := after\<rparr>)"
proof -
  let ?all = "before @ (cmdLineParam @ c) # after"
  have "take_log_params ?all default_parameters [] = (default_parameters, ?all)"
    using plain cmdLineParam_prefixes [of c] by (subst take_log_params_plain) (auto simp: plain_arg_def)
  moreover have "indexOf ?all cmdLineParam = Some (length before)"
    using plain cmdLineParam_prefixes(3) [of c] by (simp add: plain_arg_def indexOf_append)
  moreover have "indexOf ?all watchedDirParam = None"
    using plain cmd by (auto simp: indexOf_None_iff plain_arg_def)
  ultimately show ?thesis
    by (simp add: Parse_params_def slice_def)
qed

text \<open>With both, in this order, the arguments after the directory are lost.\<close>

lemma arguments_after_watched_dir_lost:
  "Parse_params [''watcher'', ''--cmd-line=/bin/proxy'', ''-v'', ''--watched-dir=/etc'', ''--port=1''] =
   Inr (default_parameters\<lparr>CmdLine := ''/bin/proxy'', CmdLineArgs := [''-v''], WatchedDir := ''/etc''\<rparr>)"
  by (simp add: Parse_params_def slice_def watched_dir_of_def logLevelParam_def logFormatParam_def
      cmdLineParam_def watchedDirParam_def TrimPrefix_def TrimSuffix_def HasSuffix_def numeral_eq_Suc)

text \<open>A program name that contains the parameter makes the slice bounds cross.\<close>

lemma program_name_panics:
  "Parse_params [''/x--watched-dir=y''] = Inl (Panic ''slice bounds out of range'')"
  by (simp add: Parse_params_def slice_def watched_dir_of_def logLevelParam_def logFormatParam_def
      cmdLineParam_def watchedDirParam_def)

subsection \<open>The hash of a directory\<close>

text \<open>C39 (change detection). With a digest of fixed length that does not collide on the two joined
  lists, two readable directories have the same total hash exactly when the digests of their readable
  files are the same with their multiplicities, whatever the order in which they were listed and
  hashed.\<close>

theorem total_hash_detects_change:
  assumes "\<forall>x. length (sha x) = n" "n > 0"
    and "inj_on sha {concat (sort (file_hashes sha d1)), concat (sort (file_hashes sha d2))}"
  shows "getTotalHash sha (Some d1) = getTotalHash sha (Some d2) \<longleftrightarrow>
    mset (file_hashes sha d1) = mset (file_hashes sha d2)"
  using assms getTotalHash_mset [of sha d1 d2] getTotalHash_detects [of sha n d1 d2] by blast

text \<open>A toy digest of length one that tells the inputs of the instance apart.\<close>

definition sample_digest :: "string \<Rightarrow> string" where
  "sample_digest s = (if s = ''a'' then ''1'' else if s = ''b'' then ''2'' else if s = ''12'' then ''4'' else ''3'')"

lemma sort_two: "sort [''1'', ''2''] = [''1'', ''2'']" "sort [''2'', ''1''] = [''1'', ''2'']"
  "sort [''1'', ''3''] = [''1'', ''3'']"
  by code_simp+

theorem total_hash_detects_change_witness:
  "getTotalHash sample_digest (Some [File ''x'' ''a'', Directory ''d'', File ''y'' ''b'']) =
     getTotalHash sample_digest (Some [File ''y'' ''b'', File ''x'' ''a'']) \<and>
   getTotalHash sample_digest (Some [File ''x'' ''a'', File ''y'' ''b'']) \<noteq>
     getTotalHash sample_digest (Some [File ''x'' ''a'', File ''y'' ''c''])"
  using total_hash_detects_change [of sample_digest 1
      "[File ''x'' ''a'', Directory ''d'', File ''y'' ''b'']" "[File ''y'' ''b'', File ''x'' ''a'']"]
    total_hash_detects_change [of sample_digest 1
      "[File ''x'' ''a'', File ''y'' ''b'']" "[File ''x'' ''a'', File ''y'' ''c'']"]
  by (simp add: file_hashes_def sample_digest_def sort_two add_mset_commute)

subsection \<open>The goroutines\<close>

text \<open>The states of one run of the program, up to the stop of a signal that arrives while \<open>main\<close>
  waits in its select.\<close>

definition selecting :: program where
  "selecting =
     \<lparr>main_at = Select, handler_at = AwaitSignal, calc_at = Ticking, procLock = None, command = Running,
      localHash = '''', result_chan = [], done_chan = [], ctx_done = False\<rparr>"

definition signalled_program :: program where
  "signalled_program = selecting\<lparr>procLock := Some Handler, handler_at := SignalStop\<rparr>"

lemma selecting_reached: "program_run sha initial_program [Computed None, Received '''', Silent, Spawned, Silent] selecting"
proof -
  let ?a = "initial_program\<lparr>main_at := AwaitHash, calc_at := Ticking, result_chan := [getTotalHash sha None]\<rparr>"
  let ?b = "?a\<lparr>result_chan := [], localHash := '''', main_at := LockStart\<rparr>"
  let ?c = "?b\<lparr>procLock := Some Main, main_at := DoStart\<rparr>"
  let ?d = "start_command None ?c"
  have "program_step sha initial_program (Computed None) ?a" by (rule call_calc) (simp add: initial_program_def)
  moreover have "program_step sha ?a (Received '''') ?b"
    using first_hash [of ?a "''''" "?a\<lparr>result_chan := []\<rparr>"] by (simp add: receive_hash_def getTotalHash_def)
  moreover have "program_step sha ?b Silent ?c" by (rule lock_start) (simp_all add: initial_program_def)
  moreover have "program_step sha ?c Spawned ?d"
    using do_start [of ?c sha None] by (simp add: start_label_def Start_def initial_program_def)
  moreover have "program_step sha ?d Silent selecting"
    using unlock_start [of ?d True]
    by (simp add: start_command_def Start_def initial_program_def selecting_def)
  ultimately have "program_run sha initial_program ((((([] @ [Computed None]) @ [Received '''']) @ [Silent]) @ [Spawned]) @ [Silent]) selecting"
    by (intro run_step [of sha initial_program _ _ Silent selecting, OF run_step, OF run_step, OF run_step, OF run_step, OF run_refl])
  then show ?thesis by simp
qed

lemma signalled_reached:
  "program_run sha initial_program [Computed None, Received '''', Silent, Spawned, Silent, Silent, Silent] signalled_program"
proof -
  let ?a = "selecting\<lparr>handler_at := LockStop\<rparr>"
  have "program_step sha selecting Silent ?a" by (rule signal) (simp_all add: selecting_def)
  moreover have "program_step sha ?a Silent signalled_program"
    using lock_stop [of ?a] by (simp add: selecting_def signalled_program_def)
  ultimately have "program_run sha initial_program
    (([Computed None, Received '''', Silent, Spawned, Silent] @ [Silent]) @ [Silent]) signalled_program"
    using selecting_reached by (blast intro: run_step)
  then show ?thesis by simp
qed

text \<open>C12 (the goroutines implement the handlers). Every state that the three goroutines can reach, with
  their lock, their channels and any interleaving, implements a state of the atomic program that is
  reachable with whole handlers as its steps; the lock admits one goroutine into its critical section.\<close>

theorem goroutines_refine:
  assumes "program_run sha initial_program tr s"
  shows "(\<exists>a. watcher_step\<^sup>*\<^sup>* initial_watcher a \<and> implements a s) \<and>
    \<not> (main_holds (main_at s) \<and> handler_holds (handler_at s))"
proof
  from assms have "(some_step sha)\<^sup>*\<^sup>* initial_program s" by (rule program_run_steps)
  then show "\<exists>a. watcher_step\<^sup>*\<^sup>* initial_watcher a \<and> implements a s"
    using program_inv_initial implements_initial by (rule watcher_sim.simulates_steps)
  from assms have "program_inv s" using program_inv_initial by (rule program_inv_run)
  then show "\<not> (main_holds (main_at s) \<and> handler_holds (handler_at s))" by (auto simp: program_inv_def)
qed

theorem goroutines_refine_witness:
  "(\<exists>a. watcher_step\<^sup>*\<^sup>* initial_watcher a \<and> implements a signalled_program) \<and>
   handler_holds (handler_at signalled_program)"
  using goroutines_refine [OF signalled_reached [of id]]
  by (simp add: signalled_program_def handler_holds_def)

text \<open>C37 (hashes in order). The hashes that \<open>main\<close> receives are the first of those computed from the
  directory, in their order, none invented and none lost; it is at most three computations behind
  (two in the channel and one being sent), and no receive takes the zero value of the closed channel.\<close>

theorem hashes_received_in_order:
  assumes "program_run sha initial_program tr s"
  shows "received tr = take (length (received tr)) (map (getTotalHash sha) (computed tr)) \<and>
    length (computed tr) \<le> length (received tr) + 3 \<and>
    (calc_at s = Closed \<longrightarrow> main_at s \<in> {Returning, Returned})"
proof -
  from assms have "program_inv s" using program_inv_initial by (rule program_inv_run)
  then have "length (result_chan s) \<le> 2" "calc_at s = Closed \<longrightarrow> main_at s \<in> {Returning, Returned}"
    unfolding program_inv_def result_capacity_def by argo+
  moreover have order: "map (getTotalHash sha) (computed tr) = received tr @ result_chan s @ in_flight (calc_at s)"
    using assms by (rule hashes_in_order) simp
  moreover have "length (in_flight (calc_at s)) \<le> 1" by (simp add: in_flight_def split: calc_pc.splits)
  moreover have "length (computed tr) = length (received tr @ result_chan s @ in_flight (calc_at s))"
    unfolding order [symmetric] by simp
  ultimately show ?thesis by simp
qed

theorem hashes_received_in_order_witness:
  "received [Computed None, Received '''', Silent, Spawned, Silent] =
   map (getTotalHash id) (computed [Computed None, Received '''', Silent, Spawned, Silent])"
  using hashes_received_in_order [OF selecting_reached [of id]] by (simp add: computed_def received_def)

text \<open>C36 (no deadlock). From every state the goroutines can reach they can go on until \<open>main\<close> has
  returned: neither the lock nor a full or an empty channel blocks them for good.\<close>

theorem watcher_can_return:
  assumes "program_run sha initial_program tr s"
  shows "\<exists>s'. (some_step sha)\<^sup>*\<^sup>* s s' \<and> main_at s' = Returned"
  using program_inv_run [OF assms program_inv_initial] by (rule can_return)

theorem watcher_can_return_witness:
  "\<exists>s'. (some_step id)\<^sup>*\<^sup>* signalled_program s' \<and> main_at s' = Returned"
  using watcher_can_return [OF signalled_reached [of id]] .

text \<open>C35 (shutdown). Let the signal handler have the lock, and let the command it stops be one that was started:
  the child runs, has exited, or was already waited for. Unless it runs and cannot be killed, it is stopped
  for good: however the goroutines go on, a restart that was waiting for the lock included, the command stays
  one that was waited for and no child runs. (A command that was not started, before the first start or after
  a restart whose start failed, and a child that cannot be killed are the exceptions; see below.)\<close>

theorem signal_stops_for_good:
  assumes run: "program_run sha initial_program tr s" and at: "main_at s \<noteq> Returned" "handler_at s = SignalStop"
    and child: "command s \<noteq> Unstarted" and stop: "command s = Running \<longrightarrow> (\<forall>e. stop \<noteq> KillFails e)"
    and later: "(some_step sha)\<^sup>*\<^sup>* (s\<lparr>command := snd (Stop stop (command s)), handler_at := UnlockStop\<rparr>) s'"
  shows "command s' = Reaped"
proof -
  let ?t = "s\<lparr>command := snd (Stop stop (command s)), handler_at := UnlockStop\<rparr>"
  obtain a where a: "watcher_step\<^sup>*\<^sup>* initial_watcher a" "implements a s"
    using watcher_sim.simulates_steps [OF program_run_steps [OF run] program_inv_initial implements_initial] by blast
  have inv: "program_inv s" using run program_inv_initial by (rule program_inv_run)
  then have free: "main_at s \<noteq> DoRestart" using at by (auto simp: program_inv_simps)
  with a have proc: "proc a = command s" by (simp add: implements_def)
  moreover have "main_phase a \<in> {Monitoring, Finished}"
    using watcher_inv_reachable [OF a(1)] proc child by (cases "main_phase a") (auto simp: watcher_inv_def)
  ultimately have "stopped_for_good (handleSignals stop a)" using child stop by (simp add: handleSignals_stops)
  moreover have "implements (handleSignals stop a) ?t"
    using a(2) at free by (simp add: implements_simps handleSignals_def)
  moreover have "program_inv ?t" using signal_stop [OF at] inv by (rule program_inv_step)
  ultimately obtain b where "stopped_for_good b" "implements b s'"
    using watcher_sim.transfer [OF later, of "handleSignals stop a" stopped_for_good] stopped_step by blast
  then show ?thesis by (auto simp: implements_def stopped_for_good_def Stop_def split: if_splits)
qed

theorem signal_stops_for_good_witness:
  "command ` {s'. (some_step id)\<^sup>*\<^sup>* (signalled_program\<lparr>command := Reaped, handler_at := UnlockStop\<rparr>) s'} \<subseteq> {Reaped}"
  using signal_stops_for_good [OF signalled_reached [of id], of Killed]
  by (auto simp: signalled_program_def selecting_def Stop_def)

text \<open>C38 (a restart per change). \<open>main\<close> decides once to start the child for the first hash it receives and
  once for every hash that differs from the one received before, and never for one that does not: each
  decision ends with a child that is started or with a stop or a start that failed, and only one can be under
  way. The hash it compares with is the last it received. A child is only started when the command before
  it was waited for, or none was started.\<close>

theorem restart_on_change:
  assumes "program_run sha initial_program tr s"
  shows "spawned tr + failed tr + start_pending (main_at s) = length (remdups_adj (received tr)) \<and>
    (received tr \<noteq> [] \<longrightarrow> localHash s = last (received tr)) \<and>
    (\<forall>s'. program_step sha s Spawned s' \<longrightarrow> command s \<in> {Unstarted, Reaped} \<and> command s' = Running)"
  using attempts_run [OF assms refl] spawned_alone program_inv_run [OF assms program_inv_initial] by blast

text \<open>A run through a restart: the directory changes, and the child exits in time.\<close>

definition change_trace :: "label list" where
  "change_trace = [Computed None, Received '''', Silent, Spawned, Silent, Computed (Some [File ''f'' ''a'']), Silent,
     Received ''a'', Silent, Silent, Spawned, Silent]"

lemma change_reached: "program_run id initial_program change_trace (selecting\<lparr>localHash := ''a''\<rparr>)"
proof -
  let ?d = "Some [File ''f'' ''a'']"
  let ?a = "selecting\<lparr>calc_at := Sending ''a''\<rparr>"
  let ?b = "selecting\<lparr>result_chan := [''a'']\<rparr>"
  let ?c = "selecting\<lparr>localHash := ''a'', main_at := LockRestart\<rparr>"
  let ?e = "?c\<lparr>procLock := Some Main, main_at := DoStop\<rparr>"
  let ?f = "?e\<lparr>command := Reaped, main_at := DoRestart\<rparr>"
  let ?g = "?f\<lparr>command := Running, main_at := UnlockRestart\<rparr>"
  have "getTotalHash id ?d = ''a''" by (simp add: getTotalHash_def file_hashes_def)
  then have 1: "program_step id selecting (Computed ?d) ?a" using tick [of selecting id ?d] by (simp add: selecting_def)
  have 2: "program_step id ?a Silent ?b" using send_hash [of ?a "''a''" id] by (simp add: selecting_def result_capacity_def)
  have 3: "program_step id ?b (Received ''a'') ?c"
    using select_hash [of ?b "''a''" selecting id] by (simp add: selecting_def receive_hash_def take_hash_def)
  have 4: "program_step id ?c Silent ?e" using lock_restart [of ?c id] by (simp add: selecting_def)
  have 5: "program_step id ?e Silent ?f"
    using do_stop [of ?e id ExitsInTime] by (simp add: selecting_def Stop_def stop_command_def stop_label_def)
  have 6: "program_step id ?f Spawned ?g"
    using do_restart [of ?f id None] by (simp add: Start_def renew_command_def start_label_def)
  have 7: "program_step id ?g Silent (selecting\<lparr>localHash := ''a''\<rparr>)"
    using unlock_restart [of ?g id] by (simp add: selecting_def)
  have "program_run id initial_program ((((((([Computed None, Received '''', Silent, Spawned, Silent] @ [Computed ?d])
      @ [Silent]) @ [Received ''a'']) @ [Silent]) @ [Silent]) @ [Spawned]) @ [Silent]) (selecting\<lparr>localHash := ''a''\<rparr>)"
    by (rule run_step [OF run_step [OF run_step [OF run_step [OF run_step [OF run_step [OF run_step
      [OF selecting_reached 1] 2] 3] 4] 5] 6] 7])
  then show ?thesis by (simp add: change_trace_def)
qed

theorem restart_on_change_witness:
  "spawned change_trace = 2 \<and> remdups_adj (received change_trace) = ['''', ''a''] \<and> failed change_trace = 0"
proof -
  have "received change_trace = ['''', ''a'']" "failed change_trace = 0"
    by (simp_all add: change_trace_def received_def failed_def)
  with restart_on_change [OF change_reached] show ?thesis by (simp add: selecting_def start_pending_def)
qed

subsection \<open>Children that are left\<close>

text \<open>A signal before the child is started does not reach it: the program can end and leave a child that
  it has started afterwards.\<close>

lemma early_signal_orphans_child:
  "\<exists>s. watcher_step\<^sup>*\<^sup>* initial_watcher s \<and> main_phase s = Finished \<and> proc s = Running"
proof -
  let ?a = "handleSignals ExitsInTime initial_watcher"
  let ?b = "?a\<lparr>main_phase := Starting, currentHash := ''1''\<rparr>"
  let ?c = "startProcess None ?b"
  let ?d = "?c\<lparr>main_phase := Finished\<rparr>"
  note defs = initial_watcher_def handleSignals_def Stop_def startProcess_def Start_def
  have "watcher_step initial_watcher ?a" by (rule signalled) (simp_all add: defs)
  moreover have "watcher_step ?a ?b" by (rule hashed) (simp add: defs)
  moreover have "watcher_step ?b ?c" by (rule started) simp
  moreover have "watcher_step ?c ?d" by (rule exiting) (simp_all add: defs)
  ultimately have "watcher_step\<^sup>*\<^sup>* initial_watcher ?d"
    by (meson converse_rtranclp_into_rtranclp rtranclp.rtrancl_refl)
  moreover have "main_phase ?d = Finished \<and> proc ?d = Running" by (simp add: defs)
  ultimately show ?thesis by blast
qed

text \<open>Nor does one after a restart whose start failed: a hash that \<open>main\<close> takes before it takes the end
  starts a child again.\<close>

lemma failed_restart_orphans_child:
  assumes "main_phase s = Monitoring" "\<not> handled s" "proc s = Unstarted" "currentHash s \<noteq> h"
  shows "\<exists>s'. watcher_step\<^sup>*\<^sup>* s s' \<and> handled s' \<and> main_phase s' = Finished \<and> proc s' = Running"
proof -
  let ?a = "handleSignals ExitsInTime s"
  let ?b = "on_hash ExitsInTime None h ?a"
  let ?c = "?b\<lparr>main_phase := Finished\<rparr>"
  note defs = handleSignals_def Stop_def on_hash_def restartProcess_def Start_def assms
  have "watcher_step s ?a" by (rule signalled) (simp_all add: assms)
  moreover have "watcher_step ?a ?b" by (rule hash) (simp add: defs)
  moreover have "watcher_step ?b ?c" by (rule exiting) (use assms(4) in \<open>simp_all add: defs\<close>)
  ultimately have "watcher_step\<^sup>*\<^sup>* s ?c" by (meson converse_rtranclp_into_rtranclp rtranclp.rtrancl_refl)
  moreover have "handled ?c \<and> main_phase ?c = Finished \<and> proc ?c = Running" using assms(4) by (simp add: defs)
  ultimately show ?thesis by blast
qed

text \<open>A child that cannot be killed goes on when the program has ended: the handler drops the error.\<close>

lemma unkillable_child_left:
  assumes "main_phase s = Monitoring" "\<not> handled s" "proc s = Running"
  shows "\<exists>s'. watcher_step\<^sup>*\<^sup>* s s' \<and> handled s' \<and> main_phase s' = Finished \<and> proc s' = Running"
proof -
  let ?a = "handleSignals (KillFails ''kill'') s"
  let ?b = "?a\<lparr>main_phase := Finished\<rparr>"
  have "watcher_step s ?a" by (rule signalled) (simp_all add: assms)
  moreover have "watcher_step ?a ?b" by (rule exiting) (simp_all add: handleSignals_def assms)
  ultimately have "watcher_step\<^sup>*\<^sup>* s ?b" by (meson converse_rtranclp_into_rtranclp rtranclp.rtrancl_refl)
  moreover have "handled ?b \<and> main_phase ?b = Finished \<and> proc ?b = Running" by (simp add: handleSignals_def Stop_def assms)
  ultimately show ?thesis by blast
qed

end
