(* ===== verification/Command.thy ===== *)
theory Command
  imports Manager Watcher Sample
begin

text \<open>
  The two programs around their cores: the logger of either command line (\<open>setupLogger\<close> of the
  watcher, the \<open>RunE\<close> of the controller), the readiness check, and the exit code of the controller
  (\<open>cmd/oidc-apps\<close>, \<open>pkg/healthz\<close>).
\<close>

subsection \<open>Log levels\<close>

text \<open>\<open>slog.Level.UnmarshalText\<close>: a name in any case, with an optional offset. Upper-casing is that of
  ASCII letters; the sum is that of 64-bit integers.\<close>

definition upper :: "char \<Rightarrow> char" where
  "upper c =
     (case map_of (zip ''abcdefghijklmnopqrstuvwxyz'' ''ABCDEFGHIJKLMNOPQRSTUVWXYZ'') c of
        Some u \<Rightarrow> u | None \<Rightarrow> c)"

definition LevelDebug :: int where "LevelDebug = - 4"
definition LevelInfo :: int where "LevelInfo = 0"
definition LevelWarn :: int where "LevelWarn = 4"
definition LevelError :: int where "LevelError = 8"

definition level_name :: "string \<Rightarrow> int option" where
  "level_name name =
     (let n = map upper name in
      if n = ''DEBUG'' then Some LevelDebug else if n = ''INFO'' then Some LevelInfo
      else if n = ''WARN'' then Some LevelWarn else if n = ''ERROR'' then Some LevelError else None)"

definition is_sign :: "char \<Rightarrow> bool" where
  "is_sign c \<longleftrightarrow> c = CHR ''+'' \<or> c = CHR ''-''"

definition UnmarshalText :: "string \<Rightarrow> int option" where
  "UnmarshalText s =
     (let name = takeWhile (\<lambda>c. \<not> is_sign c) s; rest = dropWhile (\<lambda>c. \<not> is_sign c) s in
      if rest = [] then level_name name
      else (case Atoi rest of
              None \<Rightarrow> None
            | Some offset \<Rightarrow> map_option (\<lambda>l. signed_take_bit 63 (l + offset)) (level_name name)))"

subsection \<open>Loggers\<close>

text \<open>The handler of the logger: the format and the level; both programs fall back to the level
  \<open>info\<close> and to the format JSON.\<close>

datatype log_handler = TextHandler int | JSONHandler int

definition new_handler :: "string \<Rightarrow> string \<Rightarrow> log_handler" where
  "new_handler levelStr format =
     (let level = (case UnmarshalText levelStr of None \<Rightarrow> LevelInfo | Some l \<Rightarrow> l)
      in if format = ''text'' then TextHandler level else JSONHandler level)"

definition setupLogger :: "parameters \<Rightarrow> log_handler" where
  "setupLogger params = new_handler (LogLevel params) (LogFormat params)"

subsection \<open>Readiness\<close>

text \<open>What \<open>WaitForCacheSync\<close> answers within the five seconds of the check is an argument.\<close>

definition NewCacheSyncHealthz :: "(nat \<Rightarrow> bool) \<Rightarrow> unit res" where
  "NewCacheSyncHealthz synced_within =
     (if \<not> synced_within 5 then Inl (ErrOther ''cache has not synced yet'') else Inr ())"

subsection \<open>The controller's command\<close>

record root_flags =
  opts :: options
  version_flag :: bool
  logLevelStr :: string
  logFormat :: string

text \<open>The flags with their defaults.\<close>

definition newRootCommand :: root_flags where
  "newRootCommand = \<lparr>opts = AddFlags, version_flag = False, logLevelStr = ''info'', logFormat = ''json''\<rparr>"

text \<open>\<open>PrintAndExitIfRequested\<close> exits the program.\<close>

definition RunE ::
  "'e env_scheme \<Rightarrow> (string \<Rightarrow> string res) \<Rightarrow> (string \<Rightarrow> controller_config res)
     \<Rightarrow> (startup_step \<Rightarrow> go_error option) \<Rightarrow> root_flags \<Rightarrow> log_handler \<times> command_end \<times> startup_step list" where
  "RunE E read_file unmarshal outcome flags =
     (let handler = new_handler (logLevelStr flags) (logFormat flags) in
      if version_flag flags then (handler, ExitCode 0, [])
      else (case RunController E read_file unmarshal outcome (opts flags) [] of
              (r, steps) \<Rightarrow> (handler, r, steps)))"

text \<open>An error ends the program with code one, an unrecovered panic with code two. \<open>parsed\<close> is what
  the flag library makes of the arguments: the flags, or an error of \<open>ExecuteContext\<close>.\<close>

definition main_exit ::
  "'e env_scheme \<Rightarrow> (string \<Rightarrow> string res) \<Rightarrow> (string \<Rightarrow> controller_config res)
     \<Rightarrow> (startup_step \<Rightarrow> go_error option) \<Rightarrow> root_flags res \<Rightarrow> nat \<times> startup_step list" where
  "main_exit E read_file unmarshal outcome parsed =
     (case parsed of
        Inl _ \<Rightarrow> (1, [])
      | Inr flags \<Rightarrow>
          (case RunE E read_file unmarshal outcome flags of
             (_, ExitCode n, steps) \<Rightarrow> (n, steps)
           | (_, Ran (Inr _), steps) \<Rightarrow> (0, steps)
           | (_, Ran (Inl e), steps) \<Rightarrow> (if is_panic e then 2 else 1, steps)))"

subsection \<open>Facts\<close>

lemma level_names:
  "UnmarshalText ''debug'' = Some LevelDebug" "UnmarshalText ''info'' = Some LevelInfo"
  "UnmarshalText ''warn'' = Some LevelWarn" "UnmarshalText ''error'' = Some LevelError"
  by (simp_all add: UnmarshalText_def level_name_def upper_def is_sign_def)

text \<open>The documented flag values are not the only ones: offsets are accepted.\<close>

lemma level_offset: "UnmarshalText ''Error+2'' = Some 10" "UnmarshalText ''trace'' = None"
  by (simp_all add: UnmarshalText_def level_name_def upper_def is_sign_def Atoi_def split_sign_def digit_val_def
      in_range_def LevelError_def)

lemma new_handler_fallback: "UnmarshalText l = None \<Longrightarrow> f \<noteq> ''text'' \<Longrightarrow> new_handler l f = JSONHandler LevelInfo"
  by (simp add: new_handler_def)

subsection \<open>The order of the start\<close>

text \<open>A step went well when it cannot fail (the registration of a webhook) or its outcome is no error.\<close>

definition went_well :: "(startup_step \<Rightarrow> go_error option) \<Rightarrow> startup_step \<Rightarrow> bool" where
  "went_well outcome st =
     (case st of PodWebhook _ \<Rightarrow> True | VpaWebhook _ \<Rightarrow> True | _ \<Rightarrow> outcome st = None)"

text \<open>A start-up sequence takes no step after one that failed. When it succeeds all its steps went well;
  when it ends with an error, the last step failed, with a panic exactly when the error is one, or all
  went well and a requirement is not met.\<close>

definition failed_step :: "(startup_step \<Rightarrow> go_error option) \<Rightarrow> startup_step list \<Rightarrow> go_error \<Rightarrow> bool" where
  "failed_step outcome new e \<longleftrightarrow> new \<noteq> [] \<and> \<not> went_well outcome (last new) \<and>
     is_panic (the (outcome (last new))) = is_panic e"

definition orderly :: "(startup_step \<Rightarrow> go_error option) \<Rightarrow> bool \<Rightarrow> startup \<Rightarrow> bool" where
  "orderly outcome required m \<longleftrightarrow>
     (\<forall>t. \<exists>new. snd (m t) = t @ new \<and> (\<forall>st \<in> set (butlast new). went_well outcome st) \<and>
        (case fst (m t) of
           Inr _ \<Rightarrow> \<forall>st \<in> set new. went_well outcome st
         | Inl e \<Rightarrow> failed_step outcome new e \<or>
             (\<forall>st \<in> set new. went_well outcome st) \<and> \<not> is_panic e \<and> \<not> required))"

lemma orderlyE:
  assumes "orderly outcome required m" "m t = (r, t')"
  obtains new where "t' = t @ new" "\<forall>st \<in> set (butlast new). went_well outcome st"
    "case r of Inr _ \<Rightarrow> \<forall>st \<in> set new. went_well outcome st
       | Inl e \<Rightarrow> failed_step outcome new e \<or> (\<forall>st \<in> set new. went_well outcome st) \<and> \<not> is_panic e \<and> \<not> required"
  using assms(1) [unfolded orderly_def, rule_format, of t] assms(2) that by auto

lemma orderly_ret [simp, intro]: "orderly outcome required (ret u)"
  by (simp add: orderly_def ret_def)

lemma orderly_if [intro]:
  "(b \<Longrightarrow> orderly outcome required m) \<Longrightarrow> (\<not> b \<Longrightarrow> orderly outcome required n) \<Longrightarrow>
   orderly outcome required (if b then m else n)"
  by simp

lemma orderly_require: "(required \<Longrightarrow> b) \<Longrightarrow> orderly outcome required (require b msg)"
  by (auto simp: orderly_def require_def ret_def throw_def)

lemma orderly_attempt [simp, intro]:
  "(\<And>x. st \<noteq> PodWebhook x) \<Longrightarrow> (\<And>x. st \<noteq> VpaWebhook x) \<Longrightarrow> orderly outcome required (attempt outcome st)"
  by (cases st) (auto simp: orderly_def attempt_def went_well_def failed_step_def split: option.splits)

lemma orderly_performed:
  "went_well outcome st \<Longrightarrow> orderly outcome required (performed st)"
  by (auto simp: orderly_def performed_def)

lemma orderly_wrapping [intro]:
  assumes "orderly outcome required m"
  shows "orderly outcome required (wrapping msg m)"
  unfolding orderly_def
proof
  fix t
  obtain r t' where r: "m t = (r, t')" by (cases "m t")
  obtain new where new: "t' = t @ new" "\<forall>st \<in> set (butlast new). went_well outcome st"
    "case r of Inr _ \<Rightarrow> \<forall>st \<in> set new. went_well outcome st
       | Inl e \<Rightarrow> failed_step outcome new e \<or> (\<forall>st \<in> set new. went_well outcome st) \<and> \<not> is_panic e \<and> \<not> required"
    by (rule orderlyE [OF assms r])
  show "\<exists>new. snd (wrapping msg m t) = t @ new \<and> (\<forall>st \<in> set (butlast new). went_well outcome st) \<and>
      (case fst (wrapping msg m t) of
         Inr _ \<Rightarrow> \<forall>st \<in> set new. went_well outcome st
       | Inl e \<Rightarrow> failed_step outcome new e \<or> (\<forall>st \<in> set new. went_well outcome st) \<and> \<not> is_panic e \<and> \<not> required)"
    by (rule exI [of _ new])
      (use r new in \<open>auto simp: wrapping_def wrap_err_def failed_step_def split: sum.splits\<close>)
qed

lemma orderly_and_then [intro]:
  assumes m: "orderly outcome required m" and f: "\<And>x. orderly outcome required (f x)"
  shows "orderly outcome required (and_then m f)"
  unfolding orderly_def
proof
  fix t
  let ?ends = "\<lambda>new r. case r of Inr _ \<Rightarrow> \<forall>st \<in> set new. went_well outcome st
       | Inl e \<Rightarrow> failed_step outcome new e \<or> (\<forall>st \<in> set new. went_well outcome st) \<and> \<not> is_panic e \<and> \<not> required"
  obtain r t1 where r: "m t = (r, t1)" by (cases "m t")
  obtain n1 where n1: "t1 = t @ n1" "\<forall>st \<in> set (butlast n1). went_well outcome st" "?ends n1 r"
    by (rule orderlyE [OF m r])
  show "\<exists>new. snd (and_then m f t) = t @ new \<and> (\<forall>st \<in> set (butlast new). went_well outcome st) \<and>
      ?ends new (fst (and_then m f t))"
  proof (cases r)
    case (Inl e)
    with r n1 show ?thesis by (auto simp: and_then_def)
  next
    case (Inr u)
    obtain r2 t2 where r2: "f u t1 = (r2, t2)" by (cases "f u t1")
    obtain n2 where n2: "t2 = t1 @ n2" "\<forall>st \<in> set (butlast n2). went_well outcome st" "?ends n2 r2"
      by (rule orderlyE [OF f r2])
    show ?thesis
      by (rule exI [of _ "n1 @ n2"])
        (use r r2 n1 n2 Inr in \<open>auto simp: and_then_def failed_step_def butlast_append split: if_splits sum.splits
          dest: in_set_butlastD\<close>)
  qed
qed

lemma orderly_in_order:
  "(\<And>m. m \<in> set ms \<Longrightarrow> orderly outcome required m) \<Longrightarrow> orderly outcome required (in_order ms)"
  by (induction ms) auto

lemma orderly_parts:
  "orderly outcome required (initializeManagerIndices outcome)"
  "orderly outcome required (addWebhookCertificateManager E outcome op)"
  "orderly outcome required (addPrivateRegistrySecretControllers outcome op)"
  "orderly outcome required (addManagedGateway E outcome cfg)"
  "orderly outcome required (addWebhooks outcome op cfg)"
  unfolding initializeManagerIndices_def addWebhookCertificateManager_def addPrivateRegistrySecretControllers_def
    addManagedGateway_def addWebhooks_def Let_def
  by (intro orderly_in_order orderly_if orderly_and_then orderly_wrapping orderly_attempt orderly_ret
      orderly_performed; auto simp: went_well_def)+

text \<open>Nothing of the options needs the namespace variable, or it is set.\<close>

definition namespace_ok :: "'e env_scheme \<Rightarrow> options \<Rightarrow> controller_config \<Rightarrow> bool" where
  "namespace_ok E op cfg \<longleftrightarrow> getenv E NAMESPACE \<noteq> [] \<or>
     useCertManager op \<and> registrySecret op = [] \<and> \<not> IsManagedGatewayEnabled (Some cfg)"

lemma orderly_startup:
  "orderly outcome (namespace_ok E op cfg) (in_order (startup_checks E outcome op cfg))"
  "orderly outcome required (in_order (startup_steps E outcome op cfg))"
  by (auto simp: startup_checks_def startup_steps_def namespace_ok_def Let_def simp del: in_order.simps
      intro!: orderly_in_order orderly_wrapping orderly_attempt orderly_require orderly_parts)

lemma in_order_append:
  "in_order (ms @ [m]) s = (Inr (), s') \<Longrightarrow> \<exists>t. m t = (Inr (), s')"
  by (induction ms arbitrary: s) (auto simp: and_then_Inr_iff ret_def)

text \<open>A sequence that ended well ran every step well, so that the checks were passed.\<close>

lemma in_order_Inr:
  "in_order ms s = (Inr (), s') \<Longrightarrow> m \<in> set ms \<Longrightarrow> \<exists>t t'. m t = (Inr (), t')"
proof (induction ms arbitrary: s)
  case (Cons m' ms)
  then obtain t where "m' s = (Inr (), t)" "in_order ms t = (Inr (), s')"
    by (auto simp: and_then_Inr_iff)
  with Cons show ?case by auto
qed simp

lemma require_Inr: "require b msg t = (Inr (), t') \<Longrightarrow> b"
  by (simp add: require_def split: if_splits)

lemma checks_namespace:
  assumes "in_order (startup_checks E outcome op cfg) s = (Inr (), s')"
  shows "namespace_ok E op cfg"
proof (cases "getenv E NAMESPACE = []")
  case True
  have req: "b" if "require b ''NAMESPACE environment variable is not set'' \<in> set (startup_checks E outcome op cfg)" for b
    using in_order_Inr [OF assms that] require_Inr by blast
  have "useCertManager op" by (rule req) (simp add: startup_checks_def True Let_def)
  moreover have "registrySecret op = []" by (rule req) (simp add: startup_checks_def True Let_def)
  moreover have "\<not> IsManagedGatewayEnabled (Some cfg)" by (rule req) (simp add: startup_checks_def True Let_def)
  ultimately show ?thesis by (simp add: namespace_ok_def)
qed (simp add: namespace_ok_def)

lemma checks_steps:
  assumes "in_order (startup_checks E outcome op cfg) [] = (r, t)"
  shows "GetConfig \<notin> set t"
proof -
  have seq: "keeps (\<lambda>t. GetConfig \<notin> set t) (in_order ms)"
    if "\<And>m. m \<in> set ms \<Longrightarrow> keeps (\<lambda>t. GetConfig \<notin> set t) m" for ms
    using that by (induction ms) auto
  have att: "keeps (\<lambda>t. GetConfig \<notin> set t) (attempt outcome st)" if "st \<noteq> GetConfig" for st
    using that by (auto simp: keeps_def attempt_def)
  have req: "keeps (\<lambda>t. GetConfig \<notin> set t) (require b msg)" for b msg
    by (simp add: keeps_def require_def ret_def throw_def)
  have "keeps (\<lambda>t. GetConfig \<notin> set t) (in_order (startup_checks E outcome op cfg))"
    by (auto simp: startup_checks_def Let_def simp del: in_order.simps intro!: seq att req)
  then show ?thesis using assms by (auto simp: keeps_def dest: spec [of _ "[]"])
qed

lemma startup_last:
  assumes "in_order (startup_steps E outcome op cfg) s = (Inr (), s')"
  shows "s' \<noteq> [] \<and> last s' = StartManager"
proof -
  have "\<exists>ms. startup_steps E outcome op cfg = ms @ [attempt outcome StartManager]"
    by (simp add: startup_steps_def Let_def)
  then obtain t where "attempt outcome StartManager t = (Inr (), s')" using assms in_order_append by metis
  then show ?thesis by (auto simp: attempt_def)
qed

text \<open>A run of the configured controller: how it ends, by its last step.\<close>

lemma controller_run_exit:
  assumes run: "main_exit E rf um outcome (Inr flags) = (code, steps)" and "\<not> version_flag flags"
    and cfg: "res_bind (rf (controllerConfigPath (opts flags))) um = Inr cfg"
  shows "(\<forall>st \<in> set (butlast steps). went_well outcome st) \<and>
    (if steps \<noteq> [] \<and> \<not> went_well outcome (last steps)
     then code = (if last steps \<noteq> GetConfig \<and> is_panic (the (outcome (last steps))) then 2 else 1)
     else if \<not> namespace_ok E (opts flags) cfg then code = 1
     else code = 0 \<and> steps \<noteq> [] \<and> last steps = StartManager \<and> (\<forall>st \<in> set steps. went_well outcome st))"
proof -
  let ?checks = "in_order (startup_checks E outcome (opts flags) cfg)"
    and ?steps = "in_order (startup_steps E outcome (opts flags) cfg)"
  obtain handle where handle: "CreateControllerConfigOrDie rf um (controllerConfigPath (opts flags)) [] = Inr handle"
      "handle_config handle = cfg"
    using cfg by (auto simp: CreateControllerConfigOrDie_def res_bind_Inr_iff)
  note defs = main_exit_def RunE_def RunController_def handle assms(2) attempt_def
  obtain r1 t1 where r1: "?checks [] = (r1, t1)" by (cases "?checks []")
  obtain n1 where n1: "t1 = n1" "\<forall>st \<in> set (butlast n1). went_well outcome st"
    "case r1 of Inr _ \<Rightarrow> \<forall>st \<in> set n1. went_well outcome st
       | Inl e \<Rightarrow> failed_step outcome n1 e \<or> (\<forall>st \<in> set n1. went_well outcome st) \<and> \<not> is_panic e \<and>
           \<not> namespace_ok E (opts flags) cfg"
    using orderlyE [OF orderly_startup(1) r1] by auto
  show ?thesis
  proof (cases r1)
    case (Inl e)
    then have "code = (if is_panic e then 2 else 1)" "steps = n1" using run r1 n1(1) by (auto simp: defs)
    moreover have "n1 \<noteq> [] \<Longrightarrow> last n1 \<in> set n1 \<and> last n1 \<noteq> GetConfig"
      using r1 n1(1) checks_steps [of E outcome "opts flags" cfg r1 t1] by (metis last_in_set)
    ultimately show ?thesis
    proof (cases "failed_step outcome n1 e")
      case False
      then have "\<forall>st \<in> set n1. went_well outcome st" "\<not> is_panic e" "\<not> namespace_ok E (opts flags) cfg"
        using n1(3) Inl by auto
      moreover from this(1) have "n1 = [] \<or> went_well outcome (last n1)" by (metis last_in_set)
      ultimately show ?thesis using \<open>code = (if is_panic e then 2 else 1)\<close> \<open>steps = n1\<close> n1(2) by auto
    qed (use n1(2) in \<open>auto simp: failed_step_def\<close>)
  next
    case (Inr u)
    have checked: "?checks [] = (Inr (), t1)" using r1 Inr by simp
    note ok = checks_namespace [OF checked]
    show ?thesis
    proof (cases "outcome GetConfig")
      case (Some e)
      have "main_exit E rf um outcome (Inr flags) = (1, t1 @ [GetConfig])"
        by (simp add: defs checked Some)
      then have "code = 1" "steps = n1 @ [GetConfig]" using run n1(1) by simp_all
      then show ?thesis using n1(3) Inr Some by (simp add: went_well_def)
    next
      case None
      obtain r2 t2 where r2: "?steps (n1 @ [GetConfig]) = (r2, t2)" by (cases "?steps (n1 @ [GetConfig])")
      obtain n2 where n2: "t2 = (n1 @ [GetConfig]) @ n2" "\<forall>st \<in> set (butlast n2). went_well outcome st"
        "case r2 of Inr _ \<Rightarrow> \<forall>st \<in> set n2. went_well outcome st
           | Inl e \<Rightarrow> failed_step outcome n2 e \<or> (\<forall>st \<in> set n2. went_well outcome st) \<and> \<not> is_panic e \<and> \<not> True"
        by (rule orderlyE [OF orderly_startup(2) r2])
      have "main_exit E rf um outcome (Inr flags) =
          (case r2 of Inr _ \<Rightarrow> 0 | Inl e \<Rightarrow> if is_panic e then 2 else 1, t2)"
        using r2 by (simp add: defs checked None n1(1) split: sum.split)
      then have code: "code = (case r2 of Inr _ \<Rightarrow> 0 | Inl e \<Rightarrow> if is_panic e then 2 else 1)" "steps = n1 @ GetConfig # n2"
        using run n2(1) by simp_all
      have before: "\<forall>st \<in> set (n1 @ [GetConfig]). went_well outcome st" using n1(3) Inr None by (simp add: went_well_def)
      show ?thesis
      proof (cases r2)
        case (Inl e)
        then have f: "failed_step outcome n2 e" using n2(3) by simp
        have "last n2 \<noteq> GetConfig" using f None by (auto simp: failed_step_def went_well_def)
        with f before code n2(2) Inl show ?thesis by (auto simp: failed_step_def butlast_append)
      next
        case (Inr u2)
        then have l: "last steps = StartManager" "steps \<noteq> []"
          using startup_last [of E outcome "opts flags" cfg] r2 n2(1) code(2) by auto
        have all: "\<forall>st \<in> set steps. went_well outcome st" using before n2(3) Inr code(2) by auto
        moreover have "went_well outcome (last steps)" using all l(2) by (metis last_in_set)
        ultimately show ?thesis using code(1) Inr ok l by (auto dest: in_set_butlastD)
      qed
    qed
  qed
qed

lemma run_decided:
  assumes run: "main_exit E rf um outcome (Inr flags) = (code, steps)"
  shows "(\<forall>st \<in> set (butlast steps). went_well outcome st) \<and>
    (if version_flag flags then code = 0 \<and> steps = []
     else (case res_bind (rf (controllerConfigPath (opts flags))) um of
        Inl _ \<Rightarrow> code = 2 \<and> steps = []
      | Inr cfg \<Rightarrow>
          if steps \<noteq> [] \<and> \<not> went_well outcome (last steps)
          then code = (if last steps \<noteq> GetConfig \<and> is_panic (the (outcome (last steps))) then 2 else 1)
          else if \<not> namespace_ok E (opts flags) cfg then code = 1
          else code = 0 \<and> steps \<noteq> [] \<and> last steps = StartManager \<and> (\<forall>st \<in> set steps. went_well outcome st)))"
proof (cases "version_flag flags")
  case True
  with run show ?thesis by (simp add: main_exit_def RunE_def)
next
  case False
  show ?thesis
  proof (cases "res_bind (rf (controllerConfigPath (opts flags))) um")
    case (Inl e)
    then have "CreateControllerConfigOrDie rf um (controllerConfigPath (opts flags)) [] = Inl (Panic ''terminating'')"
      by (auto simp: CreateControllerConfigOrDie_def handleError_def Let_def res_bind_def split: sum.splits)
    then have "code = 2 \<and> steps = []"
      using run False by (simp add: main_exit_def RunE_def RunController_def)
    then show ?thesis unfolding if_not_P [OF False] Inl sum.case by simp
  next
    case (Inr cfg)
    show ?thesis unfolding if_not_P [OF False] Inr sum.case by (rule controller_run_exit [OF run False Inr])
  qed
qed

text \<open>C34 (exit code). The controller never starts a step after one that failed, and the exit code is
  decided: zero at once when the version was asked for; two, before any step, when the configuration
  cannot be read; when a step failed, two if that was a panic, and one otherwise, the configuration of
  the API client always counting as the latter; one when something needs the namespace variable and it
  is not set; and zero in the one remaining case, in which every step went well, the last being the
  start of the manager. Arguments that the flag library rejects end it with one.\<close>

theorem controller_exit:
  assumes run: "main_exit E rf um outcome (Inr flags) = (code, steps)"
  shows "main_exit E rf um outcome (Inl e) = (1, []) \<and>
    (\<forall>st \<in> set (butlast steps). went_well outcome st) \<and>
    (if version_flag flags then code = 0 \<and> steps = []
     else (case res_bind (rf (controllerConfigPath (opts flags))) um of
        Inl _ \<Rightarrow> code = 2 \<and> steps = []
      | Inr cfg \<Rightarrow>
          if steps \<noteq> [] \<and> \<not> went_well outcome (last steps)
          then code = (if last steps \<noteq> GetConfig \<and> is_panic (the (outcome (last steps))) then 2 else 1)
          else if \<not> namespace_ok E (opts flags) cfg then code = 1
          else code = 0 \<and> steps \<noteq> [] \<and> last steps = StartManager \<and> (\<forall>st \<in> set steps. went_well outcome st)))"
proof (intro conjI)
  show "main_exit E rf um outcome (Inl e) = (1, [])" by (simp add: main_exit_def)
  show "\<forall>st \<in> set (butlast steps). went_well outcome st"
    using run_decided [OF run] by blast
qed (use run_decided [OF run] in blast)

theorem controller_exit_witness:
  "\<exists>steps. main_exit sample_env (\<lambda>_. Inr ''text'') (\<lambda>_. Inr sample_config) (\<lambda>_. None) (Inr newRootCommand) = (0, steps) \<and>
     last steps = StartManager"
proof -
  obtain code steps where run: "main_exit sample_env (\<lambda>_. Inr ''text'') (\<lambda>_. Inr sample_config) (\<lambda>_. None)
      (Inr newRootCommand) = (code, steps)" by fastforce
  have well: "went_well (\<lambda>_. None) st" for st by (simp add: went_well_def split: startup_step.split)
  have "namespace_ok sample_env (opts newRootCommand) sample_config"
    by (simp add: namespace_ok_def sample_env_def)
  then have "code = 0 \<and> last steps = StartManager"
    using controller_exit [OF run] by (simp add: newRootCommand_def well)
  with run show ?thesis by blast
qed

end
