(* ===== verification/Spec2Isabelle.thy ===== *)
theory Spec2Isabelle
  imports Pod_Validity Config_Properties Registry_Properties Routing Cert_Restart Watcher_Properties Command
begin

text \<open>
  \<^bold>\<open>oidc-apps: a verification development.\<close>

  The program (\<open>src/\<close>) is a Kubernetes controller that puts an authenticating and an authorizing
  proxy in front of chosen workloads. A configuration file names targets by label selectors. A mutating
  webhook injects two sidecars (oauth2-proxy and kube-rbac-proxy) into the pods of a target and mounts
  the secrets they need; reconcilers create those secrets, a service and an HTTPRoute per target, and
  remove them when a workload is no longer a target. A registry secret is copied into the namespaces of
  targets, a Gateway may be managed, and the controller issues its own webhook certificates. A second
  program, the watcher, runs inside the kube-rbac-proxy image and restarts its child when a mounted
  directory changes.

  \<^bold>\<open>Modelling.\<close> Code is a HOL function per Go function, in the order of the source. Structs are records,
  enumerations and unions datatypes, a \<open>map[string]string\<close> is a finite map, Go's \<open>int\<close> an integer with
  its range written out where it is parsed. A function that can fail returns a value of \<open>res\<close>
  (\<open>go_error + 'a\<close>), where a panic is an error value of its own that nothing wraps; a function that
  calls the API has type \<open>go\<close>: it takes the state of the cluster and returns a result and the next
  state, also when it fails. Every loop is structural recursion, so there is no fuel and every function
  is total; the two long-running parts are step relations over program counters, one step per call or
  assignment to what their goroutines share.

  What is not code of the repository is an argument: the record \<open>env\<close> (hash, environment, label
  selectors, quantities), \<open>kube\<close> (the API client, one \<open>store\<close> per kind), \<open>yaml_codec\<close>, \<open>cert_env\<close> (keys,
  certificates, files, clock). What a theorem needs of them are predicates that state documented
  behaviour (\<open>selector_laws\<close>, \<open>owner_laws\<close>, \<open>create_or_update_laws\<close>, \<open>convergence_laws\<close>, \<open>pruning_laws\<close>,
  \<open>listing_laws\<close>, \<open>create_laws\<close>, \<open>upsert_laws\<close>, \<open>dependent_laws\<close>, \<open>reference_laws\<close>, \<open>runtime_laws\<close>,
  \<open>parser_laws\<close>, \<open>x509_laws\<close>, \<open>clock_laws\<close>, \<open>webhook_laws\<close>, \<open>retry_laws\<close>, \<open>disk_laws\<close>). The API server may store
  something else than what was written: it merges the \<open>StringData\<close> of a secret into its \<open>Data\<close>
  (\<open>merge_string_data\<close>), and keeps a deleted object that has finalizers; the laws say what is read
  afterwards. Each law is shown to hold of a concrete instance: \<open>Memory_Cluster\<close> is a client over lists,
  \<open>Cert_Properties\<close> has a small certificate library, and \<open>Sample\<close> a configuration, a workload and its pod for
  the witnesses.

  \<^bold>\<open>Theories.\<close>
  \<^item> \<open>Prelude\<close>, \<open>Go_Strings\<close>, \<open>Go_Encoding\<close>: errors, the result and state types with their loops, string
    maps; \<open>strings\<close>, \<open>strconv\<close>, \<open>bufio\<close>, \<open>encoding/base64\<close> and \<open>slices\<close> as far as they are used.
  \<^item> \<open>Constants\<close>, \<open>Kube_Types\<close>: \<open>pkg/constants\<close>, the API objects with the fields the code reads or
    writes, and \<open>pkg/randutils\<close>.
  \<^item> \<open>Config_Types\<close>, \<open>Config\<close>, \<open>Config_Access\<close>: \<open>pkg/configuration\<close>: the types, target matching
    (\<open>Match\<close>, \<open>FetchTarget\<close>, \<open>Resolve\<close>) and the accessors. The locale \<open>layered_setting\<close> is the contract of
    an accessor (target value, then global value, then default), and every such accessor interprets it.
  \<^item> \<open>Oauth2_Template\<close>: rendering of the two embedded templates.
  \<^item> \<open>Webhook_Modifiers\<close>, \<open>Pod_Webhook\<close>, \<open>VPA_Webhook\<close>: \<open>pkg/webhook\<close>, with \<open>PodMutator.Default\<close> and
    \<open>VPAMutator.Default\<close> whole. \<open>Webhook_Facts\<close> gives the abstract view of a pod's volumes, which the
    edits of the volume list refine, and the locale \<open>stable_patch\<close> of edits that may be repeated;
    \<open>Webhook_Idempotent\<close> has the closed form of the injection.
  \<^item> \<open>Kube_Client\<close>, \<open>Dependencies\<close>, \<open>Owned_Resources\<close>, \<open>Registry_Secret\<close>, \<open>Workloads\<close>, \<open>Gateway\<close>:
    \<open>pkg/controllers\<close>. The locale \<open>mutation\<close> is the contract of a function handed to \<open>CreateOrUpdate\<close>;
    every builder interprets it; \<open>settling_mutation\<close> adds what the server makes of the result, and that a
    reconciled object is settled is proved once inside it. \<open>Availability\<close> relates the secrets written to
    the secrets mounted. \<open>Convergence\<close> lists the steps of the two dependency reconcilers as data and runs
    them twice, in the locale \<open>converging\<close> of steps that come to rest; \<open>Routing\<close> follows a request over what
    they leave.
  \<^item> \<open>Manager\<close>, \<open>Watches\<close>: \<open>pkg/oidc-apps\<close> and \<open>config.go\<close>: loading the configuration, start-up in its order,
    cache, indices and predicates, the functions that map an event to the workload to reconcile, and the
    watches of the four controllers as the requests an event the cache delivers enqueues. \<open>Command\<close>: \<open>cmd/oidc-apps\<close>, the
    loggers of both programs and \<open>pkg/healthz\<close>.
  \<^item> \<open>Cert_Bundles\<close>, \<open>Cert_Manager\<close>, \<open>Cert_Facts\<close>: \<open>pkg/certificates\<close>: PEM bundles, generation, loading,
    rotation and the webhook configuration. \<open>Cert_Concurrent\<close>: \<open>Start\<close> with its three loops as the step
    relation \<open>cert_step\<close>; a rotation without interference is a tick of \<open>Cert_Manager\<close>.
  \<^item> \<open>Watcher\<close>: \<open>pkg/watcher\<close> and \<open>cmd/watcher\<close>: parameters, hash of a directory, child process, and the
    program with atomic handlers (\<open>watcher_step\<close>). \<open>Watcher_Concurrent\<close>: the program with its goroutines,
    lock and channels (\<open>program_step\<close>), which refines it: the locale \<open>forward_simulation\<close> is interpreted on
    the two relations.
  \<^item> \<open>Memory_Cluster\<close>, \<open>Memory_Upsert\<close>, \<open>Sample\<close>: the instances.
  \<^item> \<open>Webhook_Properties\<close>, \<open>Pod_Validity\<close>, \<open>Config_Properties\<close>, \<open>Controller_Properties\<close>, \<open>Registry_Properties\<close>,
    \<open>Watch_Properties\<close>, \<open>Convergence\<close>, \<open>Routing\<close>, \<open>Cert_Properties\<close>, \<open>Cert_Restart\<close>, \<open>Watcher_Properties\<close>, \<open>Command\<close> and
    this theory: the properties, each after the text that states it, with a witness where it has
    hypotheses.

  \<^bold>\<open>What is shown.\<close> Webhook: which containers, volumes, labels and annotations a pod has afterwards and
  that nothing else changes; a second call changes nothing; a well-formed pod stays well-formed
  unless it has two token volumes; pods that are not of a target are left alone; the call succeeds but
  for the panic on a foreign projected source. Configuration: the first matching target decides, a
  complete target does not depend on the global values, a rendered configuration can be read back value
  by value. Controllers: after a reconcile of a deployment or of a stateful set that succeeded the next one
  changes no secret, service or route, and one of a deployment writes only the objects of that deployment;
  the dependent objects the cache delivers enqueue their workload, and a deleted secret comes back; pruning
  deletes what is owned, up to finalizers, and of the rest only the copy of the registry secret; that
  secret is copied with its data and its finalizer guards the copies, the Gateway settles field by field;
  the start is orderly and the exit code says how it ended. Certificates: what an update and the clean-up at
  the end make of every webhook, the ones after a bundle that does not parse included; that the serving
  certificate outlives several ticks and is chained to the CA from a start that found fitting files, while
  rotations do not overlap; that the end of the manager comes after its loops; and that a restart goes on
  with the bundles on disk while they are valid. Watcher: which changes are seen and in which order, that each
  change is one stop and start and that never two children live at once, that the goroutines implement the
  atomic handlers and cannot deadlock, and that a signal stops a started child for good. Across components
  (\<open>Routing\<close> and below): routes lead through services, which select the pods, to the injected port and to no
  other; the secrets mounted are the secrets written, with the same checksum; and the redirect URL of a
  stateful set pod is on the host of its route.

  Lemmas outside the list of properties record where the code does not do what it means to:
  \<open>adjacent_redirect_survives\<close>, \<open>checksum_ignores_reference\<close>, \<open>redirect_host_no_domain\<close>,
  \<open>ca_bundle_grows\<close>, \<open>build_route_label\<close>, \<open>arguments_after_watched_dir_lost\<close>, \<open>program_name_panics\<close>,
  \<open>early_signal_orphans_child\<close>, \<open>failed_restart_orphans_child\<close>, \<open>unkillable_child_left\<close>, \<open>reaped_stuck\<close>,
  \<open>failed_rotation_panics\<close>, \<open>torn_bundle\<close>, \<open>restart_reuses_files\<close>, \<open>mismatched_disk\<close>,
  \<open>same_generation_dropped\<close>, \<open>kinds_share_secrets\<close>.

  \<^bold>\<open>Not modelled.\<close> Log output; the mocks and the end-to-end tests; contexts and their timeouts, but for the
  end of the context of the certificate manager and of the watcher; what the controller-runtime manager
  does between a watch event and a reconcile request beyond its predicates, handlers and map functions
  (queues, back-off, leader election); parsing of command line flags. A generation of a certificate is
  one step of the certificate manager: it reads the shared CA once, when it signs.
\<close>

section \<open>The webhook and the controllers together\<close>

subsection \<open>Secrets\<close>

text \<open>The sample target refers to no secret.\<close>

lemma sample_references:
  assumes "rc_target rc = sample_target" "rc_global rc = Global sample_config"
  shows "GetClientSecretName rc = []" "GetKubeSecretName rc = []" "GetOidcCASecretName rc = []"
  using assms
  by (simp_all add: cfg_defs
      sample_target_def sample_oauth2_def empty_oauth2_def
      sample_config_def empty_target_def empty_global_def global_conf.extend_def non_empty_def)

text \<open>C2 (secrets of a deployment). The webhook and the deployment controller compute the names of the
  secrets separately. After a successful reconcile of a deployment every secret the webhook mounts into
  its pods exists in the namespace, except those the configuration only refers to.\<close>

theorem deployment_secrets_available:
  assumes "upsert_laws K" and "reconcileDeploymentDependencies E Y rnd K cfg ob s = (Inr (), s')"
    and "GetDeletionTimestamp ob = None" and "fmlookup (GetAnnotations ob) AnnotationSuffixKey = None"
    and "rc = Resolve E (ns_reader K s) cfg ob"
    and "(v, n) \<in> set (volume_mounts rc (fst (fetchTargetSuffix E ob)))"
    and "n \<notin> {GetClientSecretName rc, GetKubeSecretName rc, GetOidcCASecretName rc}"
  shows "\<exists>cur. Get (secrets K) s' (GetNamespace ob, n) = Inr cur"
proof -
  have "n \<in> set (generated_secrets E rc ob)" by (rule mounted_generated [OF assms(6,4,7)])
  then have "present K (GetNamespace ob, n) s'"
    using deployment_secrets_present [OF assms(1-3)] by (simp add: assms(5))
  then show ?thesis by (simp add: present_def)
qed

theorem deployment_secrets_available_witness:
  "\<exists>s' cur. sample_reconcile sample_cluster = (Inr (), s') \<and>
     Get (secrets memory_kube) s' (''apps'', ''oauth2-proxy-demo-a'') = Inr cur"
proof -
  obtain s' where s': "sample_reconcile sample_cluster = (Inr (), s')" using sample_reconcile_total by blast
  have names: "SecretNameOauth2Proxy @ ''-'' @ fst (fetchTargetSuffix sample_env sample_deployment) = ''oauth2-proxy-demo-a''"
    "GetNamespace sample_deployment = ''apps''"
    by (simp_all add: sample_suffix SecretNameOauth2Proxy_def) (simp add: sample_defs)
  have live: "GetDeletionTimestamp sample_deployment = None"
    "fmlookup (GetAnnotations sample_deployment) AnnotationSuffixKey = None" by (simp_all add: sample_defs)
  have "\<exists>cur. Get (secrets memory_kube) s' (GetNamespace sample_deployment,
      SecretNameOauth2Proxy @ ''-'' @ fst (fetchTargetSuffix sample_env sample_deployment)) = Inr cur"
    by (rule deployment_secrets_available [OF memory_upsert_laws s' [unfolded sample_reconcile_def] _ _
          sample_Resolve [symmetric], of Oauth2VolumeName])
      (simp_all add: volume_mounts_def live sample_references sample_rc_def)
  with s' show ?thesis unfolding names by blast
qed

text \<open>C13 (secrets of a stateful set). The same holds for stateful sets, whose pods get services and routes
  of their own in between.\<close>

theorem stateful_set_secrets_available:
  assumes "upsert_laws K" and "reconcileStatefulSetDependencies E Y rnd K cfg sts s = (Inr (), s')"
    and "GetDeletionTimestamp sts = None" and "fmlookup (GetAnnotations sts) AnnotationSuffixKey = None"
    and "rc = Resolve E (ns_reader K s) cfg sts"
    and "(v, n) \<in> set (volume_mounts rc (fst (fetchTargetSuffix E (meta_of sts))))"
    and "n \<notin> {GetClientSecretName rc, GetKubeSecretName rc, GetOidcCASecretName rc}"
  shows "\<exists>cur. Get (secrets K) s' (GetNamespace sts, n) = Inr cur"
proof -
  have "fmlookup (GetAnnotations (meta_of sts)) AnnotationSuffixKey = None"
    using assms(4) by (simp add: object_meta.truncate_def)
  then have "n \<in> set (generated_secrets E rc (meta_of sts))"
    using mounted_generated [OF assms(6) _ assms(7)] by simp
  then have "present K (GetNamespace sts, n) s'"
    using stateful_set_secrets_present [OF assms(1-3)] by (simp add: assms(5))
  then show ?thesis by (simp add: present_def)
qed

theorem stateful_set_secrets_available_witness:
  "\<exists>s' cur. reconcileStatefulSetDependencies sample_env sample_yaml (\<lambda>_. Some 0) memory_kube sample_config
       sample_sts sts_cluster = (Inr (), s') \<and>
     Get (secrets memory_kube) s' (''apps'', ''resource-attributes-demo-a'') = Inr cur"
proof -
  obtain s' where s': "reconcileStatefulSetDependencies sample_env sample_yaml (\<lambda>_. Some 0) memory_kube sample_config
      sample_sts sts_cluster = (Inr (), s')" using sts_reconcile_total by blast
  have names: "SecretNameResourceAttributes @ ''-'' @ fst (fetchTargetSuffix sample_env (meta_of sample_sts)) =
      ''resource-attributes-demo-a''" "GetNamespace sample_sts = ''apps''"
    by (simp_all add: fetchTargetSuffix_def GenerateSha256_def sample_env_def Let_def SecretNameResourceAttributes_def
        sample_sts_def obj_defs object_meta.truncate_def)
  have "\<exists>cur. Get (secrets memory_kube) s' (GetNamespace sample_sts,
      SecretNameResourceAttributes @ ''-'' @ fst (fetchTargetSuffix sample_env (meta_of sample_sts))) = Inr cur"
    by (rule stateful_set_secrets_available [OF memory_upsert_laws s' _ _ refl, of KubeRbacProxyVolumeName])
      (simp_all add: volume_mounts_def names sample_sts_rc sample_references, simp_all add: sample_sts_def obj_defs)
  with s' show ?thesis unfolding names by blast
qed

text \<open>C14 (checksum). The webhook annotates a pod with the checksum of the configuration it expects, the
  controller annotates the secret with the checksum of the configuration it wrote. Without a reference
  to a client secret the two agree, so that a pod template changes exactly with its secret.\<close>

theorem checksum_agrees:
  assumes "owner_laws (SetOwnerReference K)" and "create_or_update_laws merge_string_data (secrets K)"
    and "reconcile_oauth2_secret E rnd K rc ty ob t = (Inr (), t')"
    and "Default E K pm s p = Inr q" and "injected E K pm s p = Some (rc, suffix)"
    and "sidecars_unique (Containers (pod_Spec p))" and "GetClientSecretName rc = []"
  shows "\<exists>cur sum. Get (secrets K) t' (key_of (oauth2SecretObject E ob)) = Inr cur \<and>
    fmlookup (GetAnnotations q) AnnotationOauth2SecretChecksumKey = Some sum \<and>
    fmlookup (GetAnnotations cur) AnnotationOauth2SecretChecksumKey = Some sum"
proof -
  have "NewOAuth2Config (mutate_options E rc) = NewOAuth2Config (oauth2_options E rc
      (if GetClientSecret rc = '''' then WithClientSecretFile ''/dev/null'' else WithClientSecret (GetClientSecret rc)))"
    using assms(7) by (simp add: NewOAuth2Config_def mutate_options_def oauth2_options_def option_defs)
  then have cfg: "Parse (NewOAuth2Config (mutate_options E rc)) = checksum_config E rc"
    by (simp add: checksum_config_def)
  have inj: "inject E (pm_ImagePullSecret pm) rc suffix p = Inr q"
    using assms(4,5) by (simp add: Default_injected)
  have "GetAnnotations q = GetAnnotations (addAnnotations E p rc)"
    by (rule inject_Inr [OF inj assms(6)], simp)
  then have "fmlookup (GetAnnotations q) AnnotationOauth2SecretChecksumKey = Some (get2ProxySecretChecksum E rc)"
    using annotated_addAnnotations [of E rc p] by (simp add: annotated_def)
  moreover obtain cur where "Get (secrets K) t' (key_of (oauth2SecretObject E ob)) = Inr cur"
      "fmlookup (GetAnnotations cur) AnnotationOauth2SecretChecksumKey = Some (get2ProxySecretChecksum E rc)"
    using oauth2_secret_stored [OF assms(1-3)]
    by (auto simp: cfg get2ProxySecretChecksum_def oauth2SecretObject_def obj_defs)
  ultimately show ?thesis by blast
qed

theorem checksum_agrees_witness:
  "\<exists>q cur sum. Default sample_env memory_kube sample_mutator sample_cluster sample_pod = Inr q \<and>
     Get (secrets memory_kube) secret_made (key_of (oauth2SecretObject sample_env sample_deployment)) = Inr cur \<and>
     fmlookup (GetAnnotations q) AnnotationOauth2SecretChecksumKey = Some sum \<and>
     fmlookup (GetAnnotations cur) AnnotationOauth2SecretChecksumKey = Some sum"
proof -
  obtain q where q: "Default sample_env memory_kube sample_mutator sample_cluster sample_pod = Inr q"
    by (rule sample_Default)
  have "GetClientSecretName sample_rc = []" by (simp add: sample_references sample_rc_def)
  from checksum_agrees [OF memory_owner_laws memory_store_laws(1) secret_made q sample_injected sample_unique this] q
  show ?thesis by blast
qed

text \<open>With a reference and an inline secret the checksums are of different configurations: the secret
  holds no \<open>client_secret\<close>, the webhook assumes that it does.\<close>

lemma checksum_ignores_reference:
  assumes "GetClientSecretName rc \<noteq> []" "GetClientSecret rc \<noteq> []"
    and "clean_config (NewOAuth2Config (mutate_options E rc))" "clean (GetClientSecret rc)"
  shows "checksum_config E rc \<noteq> Parse (NewOAuth2Config (mutate_options E rc))"
proof
  let ?a = "NewOAuth2Config (oauth2_options E rc (WithClientSecret (GetClientSecret rc)))"
  let ?b = "NewOAuth2Config (mutate_options E rc)"
  assume "checksum_config E rc = Parse ?b"
  then have eq: "Parse ?a = Parse ?b" using assms(2) by (simp add: checksum_config_def)
  have f: "clientSecret ?a = GetClientSecret rc" "clientSecret ?b = []"
    "clientSecretFile ?a = []" "clientSecretFile ?b = Oauth2ClientSecretFile"
    using assms(1) by (simp_all add: NewOAuth2Config_def mutate_options_def oauth2_options_def option_defs
        empty_oauth2_config_def)
  have "clean_config ?a"
    using assms(3,4) f by (simp add: clean_config_def NewOAuth2Config_def mutate_options_def oauth2_options_def
        option_defs empty_oauth2_config_def clean_def split: if_splits)
  from scan_Parse [OF this] scan_Parse [OF assms(3)] eq have "rendered_lines ?a = rendered_lines ?b" by simp
  then have "lookup_setting (rendered_lines ?a) ''client_secret'' = lookup_setting (rendered_lines ?b) ''client_secret''"
    by simp
  then show False using f assms(2) by (simp add: rendered_lines_def setting_def HasPrefix_def)
qed

subsection \<open>The callback of a stateful set pod\<close>

text \<open>The host in the redirect URL of a stateful set pod, when the target does not configure a URL.\<close>

lemma default_redirect_host:
  "non_empty (Oauth2Proxy (rc_target rc)) RedirectURL = None \<Longrightarrow>
   TrimSuffix (TrimPrefix (GetRedirectURL E rc) ''https://'') ''/oauth2/callback'' = GetHost E rc"
  using TrimPrefix_append [of "''https://''"] by (simp add: GetRedirectURL_def)

lemma redirect_host_default:
  assumes "non_empty (Oauth2Proxy (rc_target rc)) RedirectURL = None" "CHR ''.'' \<in> set (GetHost E rc)"
  shows "redirect_host E rc idx = pod_host (GetHost E rc) (last (Split idx CHR ''-''))"
proof -
  obtain b a f where cut: "Cut (GetHost E rc) ''.'' = (b, a, f)" by (cases "Cut (GetHost E rc) ''.''")
  have f
  proof (rule ccontr)
    assume "\<not> f"
    with cut Cut_not_found [of "GetHost E rc" "''.''"] Cut_before_no_char [OF cut] assms(2) show False by simp
  qed
  with cut show ?thesis
    unfolding redirect_host_def pod_host_def Let_def default_redirect_host [OF assms(1)] if_cancel by simp
qed

text \<open>Without a domain the two differ: the URL is on the bare host, the route on a name that ends in a dot.\<close>

lemma redirect_host_no_domain:
  assumes "non_empty (Oauth2Proxy (rc_target rc)) RedirectURL = None" "CHR ''.'' \<notin> set (GetHost E rc)"
  shows "redirect_host E rc idx = GetHost E rc"
    "pod_host (GetHost E rc) (last (Split idx CHR ''-'')) = GetHost E rc @ ''-'' @ last (Split idx CHR ''-'') @ ''.''"
proof -
  have cut: "Cut (GetHost E rc) ''.'' = (GetHost E rc, '''', False)" using assms(2) by (rule Cut_char_none)
  show "redirect_host E rc idx = GetHost E rc"
    unfolding redirect_host_def Let_def default_redirect_host [OF assms(1)] if_cancel by (simp add: cut)
  show "pod_host (GetHost E rc) (last (Split idx CHR ''-'')) = GetHost E rc @ ''-'' @ last (Split idx CHR ''-'') @ ''.''"
    by (simp add: pod_host_def cut)
qed

text \<open>C15 (callback of a stateful set pod). The route of a stateful set pod has a host name of its own, and
  the webhook gives the oauth2-proxy of that pod a redirect URL. When the target does not configure
  one and its host has a domain, the URL is on the host of the route.\<close>

theorem stateful_redirect_host:
  assumes "Default E K pm s p = Inr q" and "injected E K pm s p = Some (rc, suffix)"
    and "sidecars_unique (Containers (pod_Spec p))"
    and "fmlookup (GetLabels p) ''statefulset.kubernetes.io/pod-name'' = Some idx"
    and "non_empty (Oauth2Proxy (rc_target rc)) RedirectURL = None" and "CHR ''.'' \<in> set (GetHost E rc)"
    and "mutateHTTPRouteForStatefulSetPod E q rc' r0 = Inr r"
  shows "\<exists>h. Hostnames (route_Spec r) = [h] \<and>
    (\<exists>c \<in> set (Containers (pod_Spec q)). c_Name c = ContainerNameOauth2Proxy \<and>
      ''--redirect-url=https://'' @ h @ ''/oauth2/callback'' \<in> set (Args c))"
proof -
  obtain spec where c: "redirected E rc (pod_index p) (getOIDCProxyContainer E (Some spec) rc) \<in> set (Containers (pod_Spec q))"
    by (rule injected_oauth2_container [OF assms(1-3)])
  have inj: "inject E (pm_ImagePullSecret pm) rc suffix p = Inr q"
    using assms(1,2) by (simp add: Default_injected)
  have q: "GetAnnotations q = GetAnnotations (addAnnotations E p rc)" "GetLabels q = fmupd LabelKey ''pod'' (GetLabels p)"
    by (rule inject_Inr [OF inj assms(3)], simp)+
  have label: "LabelKey \<noteq> ''statefulset.kubernetes.io/pod-name''" by (simp add: constant_defs)
  have host: "fmlookup (GetAnnotations q) AnnotationHostKey = Some (GetHost E rc)"
    using annotated_addAnnotations [of E rc p] by (simp add: q annotated_def)
  have idx: "fetchStrIndexIfPresent q = last (Split idx CHR ''-'')" "pod_index p = Some idx"
    using assms(4) label by (simp_all add: fetchStrIndexIfPresent_def pod_index_def q)
  have "redirect_host E rc idx = pod_host (GetHost E rc) (last (Split idx CHR ''-''))"
    using redirect_host_default [OF assms(5,6)] by simp
  moreover have "Hostnames (route_Spec r) = [pod_host (GetHost E rc) (last (Split idx CHR ''-''))]"
    using assms(7) by (auto simp: mutateHTTPRouteForStatefulSetPod_build host build_route_fields route_to_def idx)
  ultimately show ?thesis
    using c by (auto simp: idx redirected_def intro!: bexI [OF _ c])
qed

text \<open>The pod of a stateful set carries the label the ordinal is read from.\<close>

definition ordinal_pod :: pod where
  "ordinal_pod = sample_pod\<lparr>GetLabels := smap_of [(''statefulset.kubernetes.io/pod-name'', ''demo-0'')]\<rparr>"

lemma ordinal_injected:
  "injected sample_env memory_kube sample_mutator sample_cluster ordinal_pod = Some (sample_rc, ''demo-a'')"
  using injected_cong [of ordinal_pod sample_pod sample_env memory_kube sample_mutator sample_cluster] sample_injected
  by (simp add: ordinal_pod_def)

lemma ordinal_Default:
  obtains q where "Default sample_env memory_kube sample_mutator sample_cluster ordinal_pod = Inr q"
proof -
  have "\<exists>q. inject sample_env (pm_ImagePullSecret sample_mutator) sample_rc ''demo-a'' ordinal_pod = Inr q"
    by (rule inject_total) (use sample_unique in \<open>simp_all add: ordinal_pod_def secret_sources_def\<close>)
  with that show ?thesis by (auto simp: Default_injected ordinal_injected)
qed

theorem stateful_redirect_host_witness:
  "\<exists>q r h. Default sample_env memory_kube sample_mutator sample_cluster ordinal_pod = Inr q \<and>
     mutateHTTPRouteForStatefulSetPod sample_env q sample_rc (new_http_route ''r'' ''apps'') = Inr r \<and>
     Hostnames (route_Spec r) = [h] \<and>
     (\<exists>c \<in> set (Containers (pod_Spec q)). ''--redirect-url=https://'' @ h @ ''/oauth2/callback'' \<in> set (Args c))"
proof -
  obtain q where q: "Default sample_env memory_kube sample_mutator sample_cluster ordinal_pod = Inr q"
    by (rule ordinal_Default)
  have unique: "sidecars_unique (Containers (pod_Spec ordinal_pod))"
    using sample_unique by (simp add: ordinal_pod_def)
  have "inject sample_env (pm_ImagePullSecret sample_mutator) sample_rc ''demo-a'' ordinal_pod = Inr q"
    using q by (simp add: Default_injected ordinal_injected)
  then have "GetAnnotations q = GetAnnotations (addAnnotations sample_env ordinal_pod sample_rc)"
    by (rule inject_Inr [OF _ unique]) simp
  then have "fmlookup (GetAnnotations q) AnnotationHostKey = Some (GetHost sample_env sample_rc)"
    using annotated_addAnnotations [of sample_env sample_rc ordinal_pod] by (simp add: annotated_def)
  then obtain r where r: "mutateHTTPRouteForStatefulSetPod sample_env q sample_rc (new_http_route ''r'' ''apps'') = Inr r"
    by (simp add: mutateHTTPRouteForStatefulSetPod_def)
  have "non_empty (Oauth2Proxy (rc_target sample_rc)) RedirectURL = None" "CHR ''.'' \<in> set (GetHost sample_env sample_rc)"
    by (simp_all add: non_empty_def GetHost_def sample_rc_def sample_target_def empty_target_def sample_config_def
        empty_global_def global_conf.extend_def empty_http_route_conf_def Let_def)
  moreover have "fmlookup (GetLabels ordinal_pod) ''statefulset.kubernetes.io/pod-name'' = Some ''demo-0''"
    by (simp add: ordinal_pod_def)
  ultimately show ?thesis
    using stateful_redirect_host [OF q ordinal_injected unique _ _ _ r] q r by blast
qed

end
